(* ===== verification/Prelude.thy ===== *)
theory Prelude
  imports "HOL-Library.Word"
begin

section \<open>Python values, byte strings and the error monad\<close>

text \<open>
  What every component of the seed generator uses of Python: unbounded integers (HOL's
  \<open>int\<close>), byte strings (lists of \<open>8 word\<close>), the exceptions the code raises, slicing, and
  \<open>int.to_bytes\<close> / \<open>int.from_bytes\<close> in big-endian order (\<open>BYTE_ORDER = "big"\<close>). Fallible
  code returns \<open>py_error + 'a\<close>; \<open>bindE\<close> is "evaluate, and stop at the first exception".
\<close>

type_synonym byte = "8 word"
type_synonym bytes = "byte list"

datatype py_error =
    OverflowError
  | ValueError
  | IndexError
  | NotImplementedError
  | CalledProcessError
  | UnicodeDecodeError
  | FileNotFoundError

type_synonym 'a result = "py_error + 'a"

named_theorems result_simps \<open>unfolding rules of the error monad\<close>
named_theorems byte_simps \<open>lengths and values of encoded integers\<close>

subsection \<open>Sequencing fallible computations\<close>

definition bindE :: "'a result \<Rightarrow> ('a \<Rightarrow> 'b result) \<Rightarrow> 'b result" where
  "bindE m f = (case m of Inl e \<Rightarrow> Inl e | Inr x \<Rightarrow> f x)"

lemma bindE_Inr [simp]: "bindE (Inr x) f = f x"
  by (simp add: bindE_def)

lemma bindE_Inl [simp]: "bindE (Inl e) f = Inl e"
  by (simp add: bindE_def)

lemma bindE_eq_Inr [result_simps]:
  "bindE m f = Inr y \<longleftrightarrow> (\<exists>x. m = Inr x \<and> f x = Inr y)"
  by (cases m) auto

lemma bindE_eq_Inl [result_simps]:
  "bindE m f = Inl e \<longleftrightarrow> m = Inl e \<or> (\<exists>x. m = Inr x \<and> f x = Inl e)"
  by (cases m) auto

lemma bindE_assoc: "bindE (bindE m f) g = bindE m (\<lambda>x. bindE (f x) g)"
  by (cases m) auto

lemma bindE_cong [fundef_cong]:
  "m = m' \<Longrightarrow> (\<And>x. m' = Inr x \<Longrightarrow> f x = g x) \<Longrightarrow> bindE m f = bindE m' g"
  by (cases m') auto

definition is_ok :: "'a result \<Rightarrow> bool" where
  "is_ok m \<longleftrightarrow> (case m of Inl _ \<Rightarrow> False | Inr _ \<Rightarrow> True)"

lemma is_ok_simps [simp]: "is_ok (Inr x)" "\<not> is_ok (Inl e)"
  by (simp_all add: is_ok_def)

lemma is_ok_ex: "is_ok m \<longleftrightarrow> (\<exists>x. m = Inr x)"
  by (cases m) auto

lemma is_ok_bindE: "is_ok (bindE m f) \<longleftrightarrow> (\<exists>x. m = Inr x \<and> is_ok (f x))"
  by (cases m) auto

text \<open>A sum \<open>a + b + c\<close> of byte strings: the pieces are evaluated from left to right.\<close>

fun catE :: "bytes result list \<Rightarrow> bytes result" where
  "catE [] = Inr []"
| "catE (m # ms) = bindE m (\<lambda>b. bindE (catE ms) (\<lambda>bs. Inr (b @ bs)))"

text \<open>A list comprehension (or a \<open>for\<close> loop that appends) over a fallible body.\<close>

fun mapE :: "('a \<Rightarrow> 'b result) \<Rightarrow> 'a list \<Rightarrow> 'b list result" where
  "mapE f [] = Inr []"
| "mapE f (x # xs) = bindE (f x) (\<lambda>y. bindE (mapE f xs) (\<lambda>ys. Inr (y # ys)))"

lemma mapE_cong [fundef_cong]:
  "xs = ys \<Longrightarrow> (\<And>x. x \<in> set ys \<Longrightarrow> f x = g x) \<Longrightarrow> mapE f xs = mapE g ys"
proof (induction ys arbitrary: xs)
  case (Cons y ys)
  then have "mapE f ys = mapE g ys" by simp
  with Cons.prems show ?case by simp
qed simp

lemma mapE_Inr [simp]: "mapE (\<lambda>x. Inr (f x)) xs = Inr (map f xs)"
  by (induction xs) auto

lemma mapE_all_Inr: "(\<And>x. x \<in> set xs \<Longrightarrow> f x = Inr (g x)) \<Longrightarrow> mapE f xs = Inr (map g xs)"
  by (induction xs) auto

lemma mapE_length: "mapE f xs = Inr ys \<Longrightarrow> length ys = length xs"
  by (induction xs arbitrary: ys) (auto simp: result_simps)

lemma mapE_nth: "mapE f xs = Inr ys \<Longrightarrow> i < length xs \<Longrightarrow> f (xs ! i) = Inr (ys ! i)"
proof (induction xs arbitrary: ys i)
  case (Cons x xs)
  then show ?case by (cases i) (auto simp: result_simps)
qed simp

lemma is_ok_mapE: "is_ok (mapE f xs) \<longleftrightarrow> (\<forall>x\<in>set xs. is_ok (f x))"
proof (induction xs)
  case (Cons x xs)
  then show ?case by (cases "f x"; cases "mapE f xs") auto
qed simp

lemma mapE_append:
  "mapE f (xs @ ys) = bindE (mapE f xs) (\<lambda>as. bindE (mapE f ys) (\<lambda>bs. Inr (as @ bs)))"
  by (induction xs) (auto simp: bindE_assoc bindE_def split: sum.splits)

lemma catE_Inr [result_simps]:
  "catE ms = Inr b \<longleftrightarrow> (\<exists>bs. ms = map Inr bs \<and> b = concat bs)"
proof (induction ms arbitrary: b)
  case (Cons m ms)
  show ?case
  proof (cases m)
    case (Inr a)
    then show ?thesis using Cons.IH by (auto simp: bindE_eq_Inr Cons_eq_map_conv)
  qed auto
qed auto

subsection \<open>Big-endian integers\<close>

fun be_bytes :: "nat \<Rightarrow> int \<Rightarrow> bytes" where
  "be_bytes 0 v = []"
| "be_bytes (Suc n) v = be_bytes n (v div 256) @ [word_of_int v]"

text \<open>\<open>v.to_bytes(n, "big")\<close> raises \<open>OverflowError\<close> for a negative or too large value.\<close>

definition to_bytes :: "nat \<Rightarrow> int \<Rightarrow> bytes result" where
  "to_bytes n v =
     (if v < 0 \<or> 256 ^ n \<le> v then Inl OverflowError else Inr (be_bytes n v))"

text \<open>\<open>int.from_bytes(bs, "big")\<close>, total, \<open>0\<close> on the empty string.\<close>

definition from_bytes :: "bytes \<Rightarrow> int" where
  "from_bytes bs = foldl (\<lambda>acc b. acc * 256 + uint b) 0 bs"

lemma length_be_bytes [simp]: "length (be_bytes n v) = n"
  by (induction n arbitrary: v) auto

lemma be_bytes_eq_Nil [simp]: "be_bytes n v = [] \<longleftrightarrow> n = 0"
  using length_be_bytes by (metis length_0_conv)

lemma from_bytes_Nil [simp]: "from_bytes [] = 0"
  by (simp add: from_bytes_def)

lemma from_bytes_snoc: "from_bytes (bs @ [b]) = from_bytes bs * 256 + uint b"
  by (simp add: from_bytes_def)

lemma from_bytes_be_bytes: "from_bytes (be_bytes n v) = v mod 256 ^ n"
proof (induction n arbitrary: v)
  case (Suc n)
  have "from_bytes (be_bytes (Suc n) v) = (v div 256) mod 256 ^ n * 256 + v mod 256"
    by (simp add: from_bytes_snoc Suc.IH uint_word_of_int)
  also have "\<dots> = v mod (256 * 256 ^ n)"
    by (simp add: mod_mult2_eq' zmod_zmult2_eq mult.commute)
  finally show ?case by simp
qed simp

lemma be_bytes_add: "be_bytes (m + n) v = be_bytes m (v div 256 ^ n) @ be_bytes n v"
  by (induction n arbitrary: v) (simp_all add: zdiv_zmult2_eq)

lemma from_bytes_nonneg [simp]: "0 \<le> from_bytes bs"
  by (induction bs rule: rev_induct) (simp_all add: from_bytes_snoc)

lemma from_bytes_bound: "from_bytes bs < 256 ^ length bs"
proof (induction bs rule: rev_induct)
  case (snoc b bs)
  have "uint b < 256" using uint_lt2p [of b] by simp
  then show ?case using snoc by (simp add: from_bytes_snoc)
qed simp

lemma from_bytes_be_bytes_id [byte_simps]:
  "0 \<le> v \<Longrightarrow> v < 256 ^ n \<Longrightarrow> from_bytes (be_bytes n v) = v"
  by (simp add: from_bytes_be_bytes)

lemma be_bytes_from_bytes: "be_bytes (length bs) (from_bytes bs) = bs"
proof (induction bs rule: rev_induct)
  case (snoc b bs)
  have b: "0 \<le> uint b" "uint b < 256" using uint_lt2p [of b] by simp_all
  have "(from_bytes bs * 256 + uint b) div 256 = from_bytes bs" using b by simp
  moreover have "word_of_int (from_bytes bs * 256 + uint b) = b"
  proof -
    have "word_of_int (from_bytes bs * 256 + uint b) = (word_of_int (uint b) :: 8 word)"
      by (simp only: word_of_int_eq_iff take_bit_eq_mod) simp
    then show ?thesis by simp
  qed
  ultimately show ?case using snoc by (simp add: from_bytes_snoc)
qed simp

lemma be_bytes_mod: "be_bytes n (v mod 256 ^ n) = be_bytes n v"
  by (metis be_bytes_from_bytes from_bytes_be_bytes length_be_bytes)

lemma to_bytes_Inr [result_simps]:
  "to_bytes n v = Inr b \<longleftrightarrow> 0 \<le> v \<and> v < 256 ^ n \<and> b = be_bytes n v"
  by (auto simp: to_bytes_def)

lemma to_bytes_Inl [result_simps]:
  "to_bytes n v = Inl e \<longleftrightarrow> (v < 0 \<or> 256 ^ n \<le> v) \<and> e = OverflowError"
  by (auto simp: to_bytes_def)

lemma to_bytes_ok: "0 \<le> v \<Longrightarrow> v < 256 ^ n \<Longrightarrow> to_bytes n v = Inr (be_bytes n v)"
  by (simp add: to_bytes_def)

lemma from_bytes_to_bytes: "to_bytes n v = Inr b \<Longrightarrow> from_bytes b = v \<and> length b = n"
  by (auto simp: result_simps byte_simps)

subsection \<open>Slicing and indexing\<close>

text \<open>
  \<open>bs[i:j]\<close> for offsets that are not negative (every offset of the code starts at a
  literal and only grows) clips at the end of \<open>bs\<close> and never raises; \<open>bs[i]\<close> raises
  \<open>IndexError\<close> past the end.
\<close>

definition py_slice :: "'a list \<Rightarrow> nat \<Rightarrow> nat \<Rightarrow> 'a list" where
  "py_slice bs i j = take (j - i) (drop i bs)"

definition byte_at :: "bytes \<Rightarrow> nat \<Rightarrow> int result" where
  "byte_at bs i = (if i < length bs then Inr (uint (bs ! i)) else Inl IndexError)"

lemma slice_drop: "py_slice bs (i + a) (i + b) = py_slice (drop i bs) a b"
  by (simp add: py_slice_def add.commute)

lemma slice_0: "py_slice bs 0 j = take j bs"
  by (simp add: py_slice_def)

lemma slice_append_left: "j \<le> length xs \<Longrightarrow> py_slice (xs @ ys) i j = py_slice xs i j"
  by (simp add: py_slice_def)

lemma length_slice: "length (py_slice bs i j) = min (j - i) (length bs - i)"
  by (simp add: py_slice_def)

lemma slice_exact: "n = length x \<Longrightarrow> py_slice (x @ rest) 0 n = x"
  by (simp add: py_slice_def)

text \<open>
  The cursor invariant of every decoder: at offset \<open>i\<close> of \<open>bs\<close> the bytes \<open>rest\<close> are still
  to be read.
\<close>

definition at_cursor :: "bytes \<Rightarrow> nat \<Rightarrow> bytes \<Rightarrow> bool" where
  "at_cursor bs i rest \<longleftrightarrow> (\<exists>pre. bs = pre @ rest \<and> length pre = i)"

lemma at_cursor_start [intro, simp]: "at_cursor bs 0 bs"
  by (simp add: at_cursor_def)

lemma at_cursor_skip: "at_cursor bs i (x @ rest) \<Longrightarrow> n = length x \<Longrightarrow> at_cursor bs (i + n) rest"
  unfolding at_cursor_def by (metis append.assoc length_append)

lemma at_cursor_append: "at_cursor (pre @ rest) (length pre) rest"
  by (auto simp: at_cursor_def)

lemma at_cursor_length: "at_cursor bs i rest \<Longrightarrow> length bs = i + length rest"
  by (auto simp: at_cursor_def)

lemma at_cursor_Cons: "at_cursor bs i (w # rest) \<Longrightarrow> at_cursor bs (i + 1) rest"
  using at_cursor_skip [of bs i "[w]" rest 1] by simp

lemma slice_at_cursor: "at_cursor bs i rest \<Longrightarrow> py_slice bs i (i + n) = take n rest"
  by (auto simp: at_cursor_def py_slice_def)

lemma drop_at_cursor: "at_cursor bs i rest \<Longrightarrow> drop i bs = rest"
  by (auto simp: at_cursor_def)

lemma slice_at_cursor_exact:
  "at_cursor bs i (x @ rest) \<Longrightarrow> n = length x \<Longrightarrow> py_slice bs i (i + n) = x"
  by (simp add: slice_at_cursor)

lemma int_at_cursor:
  "at_cursor bs i (be_bytes n v @ rest) \<Longrightarrow> 0 \<le> v \<Longrightarrow> v < 256 ^ n
    \<Longrightarrow> from_bytes (py_slice bs i (i + n)) = v"
  by (simp add: slice_at_cursor_exact byte_simps)

lemma byte_at_cursor:
  "at_cursor bs i (word_of_int v # rest) \<Longrightarrow> 0 \<le> v \<Longrightarrow> v < 256 \<Longrightarrow> byte_at bs i = Inr v"
  by (auto simp: at_cursor_def byte_at_def uint_word_of_int)

end
