(* ===== verification/Tpm_Constants.thy ===== *)
theory Tpm_Constants
  imports Prelude
begin

section \<open>The TPM constants of the generator\<close>

text \<open>
  The \<open>Enum\<close> classes of \<open>tpm2_types.py\<close>, with \<open>.value\<close> as a function, and the values of the
  protobuf enums \<open>TPM_ST\<close>, \<open>TPM_CC\<close> and \<open>TPM_SE\<close>, which Python sees as plain integers.
\<close>

unbundle bit_operations_syntax

subsection \<open>Enums of \<open>tpm2_types.py\<close>\<close>

datatype TPMI_YES_NO = YES | NO

primrec TPMI_YES_NO_value :: "TPMI_YES_NO \<Rightarrow> int" where
  "TPMI_YES_NO_value YES = 0x00"
| "TPMI_YES_NO_value NO = 0x01"

datatype TPM_RH = RH_OWNER | RH_NULL | RH_LOCKOUT | RH_ENDORSEMENT | RH_PLATFORM

primrec TPM_RH_value :: "TPM_RH \<Rightarrow> int" where
  "TPM_RH_value RH_OWNER = 0x40000001"
| "TPM_RH_value RH_NULL = 0x40000007"
| "TPM_RH_value RH_LOCKOUT = 0x4000000A"
| "TPM_RH_value RH_ENDORSEMENT = 0x4000000B"
| "TPM_RH_value RH_PLATFORM = 0x4000000C"

datatype TPM_RS = RS_PW

primrec TPM_RS_value :: "TPM_RS \<Rightarrow> int" where
  "TPM_RS_value RS_PW = 0x40000009"

datatype TPM_HT = HT_NV_INDEX | HT_TRANSIENT

primrec TPM_HT_value :: "TPM_HT \<Rightarrow> int" where
  "TPM_HT_value HT_NV_INDEX = 0x01"
| "TPM_HT_value HT_TRANSIENT = 0x80"

datatype TPM_ALG =
    ALG_RSA | ALG_HMAC | ALG_SHA1 | ALG_SHA256 | ALG_SHA384 | ALG_AES | ALG_CFB | ALG_NULL
  | ALG_RSASSA | ALG_RSAES | ALG_OAEP | ALG_KEYEDHASH

primrec TPM_ALG_value :: "TPM_ALG \<Rightarrow> int" where
  "TPM_ALG_value ALG_RSA = 0x0001"
| "TPM_ALG_value ALG_HMAC = 0x0005"
| "TPM_ALG_value ALG_SHA1 = 0x0004"
| "TPM_ALG_value ALG_SHA256 = 0x000B"
| "TPM_ALG_value ALG_SHA384 = 0x000C"
| "TPM_ALG_value ALG_AES = 0x0006"
| "TPM_ALG_value ALG_CFB = 0x0043"
| "TPM_ALG_value ALG_NULL = 0x0010"
| "TPM_ALG_value ALG_RSASSA = 0x0014"
| "TPM_ALG_value ALG_RSAES = 0x0015"
| "TPM_ALG_value ALG_OAEP = 0x0017"
| "TPM_ALG_value ALG_KEYEDHASH = 0x0008"

datatype TPMA_OBJECT =
    FIXEDTPM | FIXEDPARENT | SENSITIVEDATAORIGIN | USERWITHAUTH | NODA | DECRYPT | RESTRICTED
  | SIGN_ENCRYPT | X509SIGN

primrec TPMA_OBJECT_value :: "TPMA_OBJECT \<Rightarrow> int" where
  "TPMA_OBJECT_value FIXEDTPM = push_bit 1 1"
| "TPMA_OBJECT_value FIXEDPARENT = push_bit 4 1"
| "TPMA_OBJECT_value SENSITIVEDATAORIGIN = push_bit 5 1"
| "TPMA_OBJECT_value USERWITHAUTH = push_bit 6 1"
| "TPMA_OBJECT_value NODA = push_bit 10 1"
| "TPMA_OBJECT_value DECRYPT = push_bit 17 1"
| "TPMA_OBJECT_value RESTRICTED = push_bit 16 1"
| "TPMA_OBJECT_value SIGN_ENCRYPT = push_bit 18 1"
| "TPMA_OBJECT_value X509SIGN = push_bit 19 1"

datatype TPM_CAP =
    CAP_ALGS | CAP_HANDLES | CAP_COMMANDS | CAP_PP_COMMANDS | CAP_AUDIT_COMMANDS | CAP_PCRS
  | CAP_TPM_PROPERTIES | CAP_PCR_PROPERTIES | CAP_ECC_CURVES | CAP_AUTH_POLICIES | CAP_ACT
  | CAP_PUB_KEYS | CAP_SPDM_SESSION_INFO | CAP_VENDOR_PROPERTY

primrec TPM_CAP_value :: "TPM_CAP \<Rightarrow> int" where
  "TPM_CAP_value CAP_ALGS = 0x00000000"
| "TPM_CAP_value CAP_HANDLES = 0x00000001"
| "TPM_CAP_value CAP_COMMANDS = 0x00000002"
| "TPM_CAP_value CAP_PP_COMMANDS = 0x00000003"
| "TPM_CAP_value CAP_AUDIT_COMMANDS = 0x00000004"
| "TPM_CAP_value CAP_PCRS = 0x00000005"
| "TPM_CAP_value CAP_TPM_PROPERTIES = 0x00000006"
| "TPM_CAP_value CAP_PCR_PROPERTIES = 0x00000007"
| "TPM_CAP_value CAP_ECC_CURVES = 0x00000008"
| "TPM_CAP_value CAP_AUTH_POLICIES = 0x00000009"
| "TPM_CAP_value CAP_ACT = 0x0000000A"
| "TPM_CAP_value CAP_PUB_KEYS = 0x0000000B"
| "TPM_CAP_value CAP_SPDM_SESSION_INFO = 0x0000000C"
| "TPM_CAP_value CAP_VENDOR_PROPERTY = 0x00000100"

datatype TPMA_NV =
    NV_PPWRITE | NV_OWNERWRITE | NV_AUTHWRITE | NV_NT_COUNTER | NV_NT_BITS | NV_NT_EXTEND
  | NV_POLICY_DELETE | NV_WRITEDEFINE | NV_PPREAD | NV_OWNERREAD | NV_AUTHREAD | NV_NO_DA
  | NV_READLOCKED | NV_PLATFORMCREATE | NV_READ_STCLEAR

primrec TPMA_NV_value :: "TPMA_NV \<Rightarrow> int" where
  "TPMA_NV_value NV_PPWRITE = push_bit 0 1"
| "TPMA_NV_value NV_OWNERWRITE = push_bit 1 1"
| "TPMA_NV_value NV_AUTHWRITE = push_bit 2 1"
| "TPMA_NV_value NV_NT_COUNTER = push_bit 4 1"
| "TPMA_NV_value NV_NT_BITS = push_bit 5 1"
| "TPMA_NV_value NV_NT_EXTEND = push_bit 6 1"
| "TPMA_NV_value NV_POLICY_DELETE = push_bit 10 1"
| "TPMA_NV_value NV_WRITEDEFINE = push_bit 13 1"
| "TPMA_NV_value NV_PPREAD = push_bit 16 1"
| "TPMA_NV_value NV_OWNERREAD = push_bit 17 1"
| "TPMA_NV_value NV_AUTHREAD = push_bit 18 1"
| "TPMA_NV_value NV_NO_DA = push_bit 25 1"
| "TPMA_NV_value NV_READLOCKED = push_bit 28 1"
| "TPMA_NV_value NV_PLATFORMCREATE = push_bit 30 1"
| "TPMA_NV_value NV_READ_STCLEAR = push_bit 31 1"

datatype TPM_ECC_CURVE = NIST_P192

primrec TPM_ECC_CURVE_value :: "TPM_ECC_CURVE \<Rightarrow> int" where
  "TPM_ECC_CURVE_value NIST_P192 = 0x0001"

subsection \<open>Arguments that are an enum member or an integer\<close>

datatype alg_arg = AlgInt int | AlgEnum TPM_ALG

primrec alg_to_int :: "alg_arg \<Rightarrow> int" where
  "alg_to_int (AlgEnum a) = TPM_ALG_value a"
| "alg_to_int (AlgInt n) = n"

datatype rh_arg = RhInt int | RhEnum TPM_RH

primrec rh_to_int :: "rh_arg \<Rightarrow> int" where
  "rh_to_int (RhEnum h) = TPM_RH_value h"
| "rh_to_int (RhInt n) = n"

datatype rs_arg = RsInt int | RsEnum TPM_RS

primrec rs_to_int :: "rs_arg \<Rightarrow> int" where
  "rs_to_int (RsEnum h) = TPM_RS_value h"
| "rs_to_int (RsInt n) = n"

datatype object_attrs = AttrsInt int | AttrsOne TPMA_OBJECT | AttrsList "TPMA_OBJECT list"

primrec attrs_to_int :: "object_attrs \<Rightarrow> int" where
  "attrs_to_int (AttrsInt n) = n"
| "attrs_to_int (AttrsOne a) = TPMA_OBJECT_value a"
| "attrs_to_int (AttrsList as) = foldl (\<lambda>val a. val OR TPMA_OBJECT_value a) 0 as"

datatype nv_attrs = NvInt int | NvOne TPMA_NV | NvList "TPMA_NV list"

primrec nv_attrs_to_int :: "nv_attrs \<Rightarrow> int" where
  "nv_attrs_to_int (NvInt n) = n"
| "nv_attrs_to_int (NvOne a) = TPMA_NV_value a"
| "nv_attrs_to_int (NvList as) = foldl (\<lambda>val a. val OR TPMA_NV_value a) 0 as"

subsection \<open>Protobuf enums\<close>

text \<open>
  The generated modules export the enum members as integers; \<open>Name\<close> (used by two commands)
  maps an integer back, so the tables are kept with the names. \<open>TPM_ST\<close>, \<open>TPM_CC\<close> and
  \<open>TPM_SE\<close> are \<open>constants/tpm_st.proto\<close>, \<open>tpm_cc.proto\<close> and \<open>tpm_se.proto\<close>.
\<close>

datatype TPMST = TPM_ST_UNSPECIFIED | TPM_ST_NO_SESSIONS | TPM_ST_SESSIONS | TPM_ST_HASHCHECK

primrec TPM_ST :: "TPMST \<Rightarrow> int" where
  "TPM_ST TPM_ST_UNSPECIFIED = 0"
| "TPM_ST TPM_ST_NO_SESSIONS = 0x8001"
| "TPM_ST TPM_ST_SESSIONS = 0x8002"
| "TPM_ST TPM_ST_HASHCHECK = 0x8024"

datatype TPMCC =
    TPM_CC_UNSPECIFIED | TPM_CC_NV_UNDEFINE_SPACE | TPM_CC_CLEAR | TPM_CC_NV_DEFINE_SPACE
  | TPM_CC_PCR_ALLOCATE | TPM_CC_PCR_SET_AUTH_POLICY | TPM_CC_SET_PRIMARY_POLICY
  | TPM_CC_CREATE_PRIMARY | TPM_CC_NV_SET_BITS | TPM_CC_NV_EXTEND | TPM_CC_NV_WRITE
  | TPM_CC_NV_WRITE_LOCK | TPM_CC_PCR_EVENT | TPM_CC_PCR_RESET | TPM_CC_INCREMENTAL_SELF_TEST
  | TPM_CC_SELF_TEST | TPM_CC_STIR_RANDOM | TPM_CC_NV_READ | TPM_CC_NV_READ_LOCK
  | TPM_CC_CREATE | TPM_CC_LOAD | TPM_CC_RSA_DECRYPT | TPM_CC_SIGN | TPM_CC_UNSEAL
  | TPM_CC_LOAD_EXTERNAL | TPM_CC_MAKE_CREDENTIAL | TPM_CC_RSA_ENCRYPT
  | TPM_CC_START_AUTH_SESSION | TPM_CC_ECC_PARAMETERS | TPM_CC_GET_CAPABILITY
  | TPM_CC_GET_RANDOM | TPM_CC_GET_TEST_RESULT | TPM_CC_HASH | TPM_CC_PCR_READ
  | TPM_CC_READ_CLOCK | TPM_CC_PCR_EXTEND | TPM_CC_TEST_PARMS | TPM_CC_VENDOR_TCG_TEST

primrec TPM_CC :: "TPMCC \<Rightarrow> int" where
  "TPM_CC TPM_CC_UNSPECIFIED = 0"
| "TPM_CC TPM_CC_NV_UNDEFINE_SPACE = 0x00000122"
| "TPM_CC TPM_CC_CLEAR = 0x00000126"
| "TPM_CC TPM_CC_NV_DEFINE_SPACE = 0x0000012A"
| "TPM_CC TPM_CC_PCR_ALLOCATE = 0x0000012B"
| "TPM_CC TPM_CC_PCR_SET_AUTH_POLICY = 0x0000012C"
| "TPM_CC TPM_CC_SET_PRIMARY_POLICY = 0x0000012E"
| "TPM_CC TPM_CC_CREATE_PRIMARY = 0x00000131"
| "TPM_CC TPM_CC_NV_SET_BITS = 0x00000135"
| "TPM_CC TPM_CC_NV_EXTEND = 0x00000136"
| "TPM_CC TPM_CC_NV_WRITE = 0x00000137"
| "TPM_CC TPM_CC_NV_WRITE_LOCK = 0x00000138"
| "TPM_CC TPM_CC_PCR_EVENT = 0x0000013C"
| "TPM_CC TPM_CC_PCR_RESET = 0x0000013D"
| "TPM_CC TPM_CC_INCREMENTAL_SELF_TEST = 0x00000142"
| "TPM_CC TPM_CC_SELF_TEST = 0x00000143"
| "TPM_CC TPM_CC_STIR_RANDOM = 0x00000146"
| "TPM_CC TPM_CC_NV_READ = 0x0000014E"
| "TPM_CC TPM_CC_NV_READ_LOCK = 0x0000014F"
| "TPM_CC TPM_CC_CREATE = 0x00000153"
| "TPM_CC TPM_CC_LOAD = 0x00000157"
| "TPM_CC TPM_CC_RSA_DECRYPT = 0x00000159"
| "TPM_CC TPM_CC_SIGN = 0x0000015D"
| "TPM_CC TPM_CC_UNSEAL = 0x0000015E"
| "TPM_CC TPM_CC_LOAD_EXTERNAL = 0x00000167"
| "TPM_CC TPM_CC_MAKE_CREDENTIAL = 0x00000168"
| "TPM_CC TPM_CC_RSA_ENCRYPT = 0x00000174"
| "TPM_CC TPM_CC_START_AUTH_SESSION = 0x00000176"
| "TPM_CC TPM_CC_ECC_PARAMETERS = 0x00000178"
| "TPM_CC TPM_CC_GET_CAPABILITY = 0x0000017A"
| "TPM_CC TPM_CC_GET_RANDOM = 0x0000017B"
| "TPM_CC TPM_CC_GET_TEST_RESULT = 0x0000017C"
| "TPM_CC TPM_CC_HASH = 0x0000017D"
| "TPM_CC TPM_CC_PCR_READ = 0x0000017E"
| "TPM_CC TPM_CC_READ_CLOCK = 0x00000181"
| "TPM_CC TPM_CC_PCR_EXTEND = 0x00000182"
| "TPM_CC TPM_CC_TEST_PARMS = 0x0000018A"
| "TPM_CC TPM_CC_VENDOR_TCG_TEST = 0x20000000"

datatype TPMSE = TPM_SE_HMAC | TPM_SE_POLICY | TPM_SE_TRIAL

primrec TPM_SE :: "TPMSE \<Rightarrow> int" where
  "TPM_SE TPM_SE_HMAC = 0x00"
| "TPM_SE TPM_SE_POLICY = 0x01"
| "TPM_SE TPM_SE_TRIAL = 0x03"

definition TPMSE_names :: "(string \<times> int) list" where
  "TPMSE_names = [(''TPM_SE_HMAC'', 0x00), (''TPM_SE_POLICY'', 0x01), (''TPM_SE_TRIAL'', 0x03)]"

definition TPMALG_names :: "(string \<times> int) list" where
  "TPMALG_names =
     [(''TPM_ALG_UNSPECIFIED'', 0),
      (''TPM_ALG_RSA'', 0x0001),
      (''TPM_ALG_SHA1'', 0x0004),
      (''TPM_ALG_HMAC'', 0x0005),
      (''TPM_ALG_AES'', 0x0006),
      (''TPM_ALG_KEYEDHASH'', 0x0008),
      (''TPM_ALG_NULL'', 0x0010),
      (''TPM_ALG_RSASSA'', 0x0014),
      (''TPM_ALG_RSAES'', 0x0015),
      (''TPM_ALG_OAEP'', 0x0017),
      (''TPM_ALG_CFB'', 0x0043),
      (''TPM_ALG_SHA256'', 0x000B),
      (''TPM_ALG_SHA384'', 0x000C)]"

subsection \<open>Ranges of the constants\<close>

lemma TPM_ALG_value_range [byte_simps]: "0 \<le> TPM_ALG_value a" "TPM_ALG_value a < 256"
  by (cases a; simp)+

lemma TPM_RH_value_range [byte_simps]: "0 \<le> TPM_RH_value h" "TPM_RH_value h < 2147483648"
  by (cases h; simp)+

lemma TPM_RS_value_range [byte_simps]: "0 \<le> TPM_RS_value h" "TPM_RS_value h < 2147483648"
  by (cases h; simp)+

lemma TPM_CAP_value_range [byte_simps]: "0 \<le> TPM_CAP_value c" "TPM_CAP_value c < 4294967296"
  by (cases c; simp)+

lemma TPM_ST_range [byte_simps]: "0 \<le> TPM_ST t" "TPM_ST t < 65536"
  by (cases t; simp)+

lemma TPM_CC_range [byte_simps]: "0 \<le> TPM_CC c" "TPM_CC c < 2147483648"
  by (cases c; simp)+

lemma TPM_SE_range [byte_simps]: "0 \<le> TPM_SE s" "TPM_SE s < 256"
  by (cases s; simp)+

lemma TPM_ALG_value_inj: "TPM_ALG_value a = TPM_ALG_value b \<longleftrightarrow> a = b"
  by (cases a; cases b; simp)

subsection \<open>Attribute sets\<close>

text \<open>Every attribute is a single bit, so a list of attributes denotes a set of bits.\<close>

lemma TPMA_OBJECT_shift: "\<exists>k < 32. TPMA_OBJECT_value a = push_bit k 1"
  by (cases a; simp only: TPMA_OBJECT_value.simps; rule exI; rule conjI [OF _ refl]; simp)

lemma TPMA_NV_shift: "\<exists>k < 32. TPMA_NV_value a = push_bit k 1"
  by (cases a; simp only: TPMA_NV_value.simps; rule exI; rule conjI [OF _ refl]; simp)

lemma single_bit: "bit (push_bit k (1 :: int)) n \<longleftrightarrow> push_bit k (1 :: int) = 2 ^ n"
  by (auto simp: bit_simps push_bit_eq_mult)

lemma TPMA_OBJECT_single_bit: "bit (TPMA_OBJECT_value a) n \<longleftrightarrow> TPMA_OBJECT_value a = 2 ^ n"
  by (metis TPMA_OBJECT_shift single_bit)

lemma TPMA_NV_single_bit: "bit (TPMA_NV_value a) n \<longleftrightarrow> TPMA_NV_value a = 2 ^ n"
  by (metis TPMA_NV_shift single_bit)

lemma TPMA_OBJECT_value_range: "0 \<le> TPMA_OBJECT_value a" "TPMA_OBJECT_value a < 2 ^ 32"
  by (cases a; simp)+

lemma TPMA_NV_value_range: "0 \<le> TPMA_NV_value a" "TPMA_NV_value a < 2 ^ 32"
  by (cases a; simp)+

text \<open>The accumulating loop \<open>val |= a.value\<close> over any bit-valued enum.\<close>

lemma foldl_or_bit: "bit (foldl (\<lambda>val a. val OR f a) v as) n \<longleftrightarrow> bit v n \<or> (\<exists>a\<in>set as. bit (f a) n)"
  for v :: int
  by (induction as arbitrary: v) (auto simp: bit_or_iff)

lemma foldl_or_range:
  fixes v :: int
  assumes "0 \<le> v" "v < 2 ^ k" "\<And>a. 0 \<le> f a" "\<And>a. f a < 2 ^ k"
  shows "0 \<le> foldl (\<lambda>val a. val OR f a) v as \<and> foldl (\<lambda>val a. val OR f a) v as < 2 ^ k"
  using assms(1,2)
proof (induction as arbitrary: v)
  case (Cons a as)
  have "0 \<le> v OR f a" using Cons.prems assms(3) by simp
  moreover have "v OR f a < 2 ^ k" using Cons.prems assms(3,4) by (intro OR_upper) auto
  ultimately show ?case using Cons.IH by simp
qed simp

lemma attrs_list_range [byte_simps]:
  "0 \<le> attrs_to_int (AttrsList as)" "attrs_to_int (AttrsList as) < 4294967296"
  using foldl_or_range [of 0 32 TPMA_OBJECT_value as] TPMA_OBJECT_value_range by simp_all

lemma nv_attrs_list_range [byte_simps]:
  "0 \<le> nv_attrs_to_int (NvList as)" "nv_attrs_to_int (NvList as) < 4294967296"
  using foldl_or_range [of 0 32 TPMA_NV_value as] TPMA_NV_value_range by simp_all

end
