(* ===== verification/Codec.thy ===== *)
theory Codec
  imports Prelude
begin

section \<open>The contract between an encoder and the decoder that reads it back\<close>

text \<open>
  The generator writes a command's bytes with \<open>to_bytes\<close> methods and reads them back, field by
  field, in its \<open>to_proto\<close> methods; the harness splits the same bytes into commands again. Every
  such pair obeys one contract: where the encoder wrote at the cursor, the decoder returns the
  view of the value and the offset just past it. The two locales below extend it to the two loop
  shapes of the code: a counted loop (\<open>for _ in range(count)\<close>) and a loop that runs to the end
  of the buffer (\<open>while offset < len(buffer)\<close>).
\<close>

text \<open>\<open>b"".join(x.to_bytes() for x in xs)\<close>.\<close>

definition joinE :: "('a \<Rightarrow> bytes result) \<Rightarrow> 'a list \<Rightarrow> bytes result" where
  "joinE f xs = bindE (mapE f xs) (\<lambda>bs. Inr (concat bs))"

lemma joinE_Nil [simp]: "joinE f [] = Inr []"
  by (simp add: joinE_def)

lemma joinE_Cons:
  "joinE f (x # xs) = bindE (f x) (\<lambda>b. bindE (joinE f xs) (\<lambda>bs. Inr (b @ bs)))"
  by (simp add: joinE_def bindE_assoc)

lemma joinE_single [simp]: "joinE f [x] = f x"
  by (cases "f x") (simp_all add: joinE_Cons)

lemma joinE_append:
  "joinE f (xs @ ys) = bindE (joinE f xs) (\<lambda>as. bindE (joinE f ys) (\<lambda>bs. Inr (as @ bs)))"
  by (simp add: joinE_def mapE_append bindE_assoc)

locale field_codec =
  fixes enc :: "'a \<Rightarrow> bytes result"
    and ok :: "'a \<Rightarrow> bool"
    and dec :: "bytes \<Rightarrow> nat \<Rightarrow> ('b \<times> nat) result"
    and view :: "'a \<Rightarrow> 'b"
  assumes dec_enc:
    "enc x = Inr b \<Longrightarrow> ok x \<Longrightarrow> at_cursor bs i (b @ rest) \<Longrightarrow> dec bs i = Inr (view x, i + length b)"
begin

lemma dec_whole: "enc x = Inr b \<Longrightarrow> ok x \<Longrightarrow> dec b 0 = Inr (view x, length b)"
  using dec_enc [of x b b 0 "[]"] by simp

text \<open>Two values with different views have different encodings, even as prefixes.\<close>

lemma enc_view_inj:
  assumes "enc x = Inr b" "enc y = Inr c" "ok x" "ok y" "b @ r = c @ s"
  shows "view x = view y \<and> b = c"
proof -
  have "dec (b @ r) 0 = Inr (view x, length b)"
    using dec_enc [of x b "b @ r" 0 r] assms(1,3) by simp
  moreover have "dec (b @ r) 0 = Inr (view y, length c)"
    using dec_enc [of y c "b @ r" 0 s] assms(2,4,5) by simp
  ultimately have "view x = view y" and "length b = length c" by simp_all
  with assms(5) show ?thesis by simp
qed

end

locale counted_codec = field_codec +
  fixes loop :: "bytes \<Rightarrow> nat \<Rightarrow> nat \<Rightarrow> ('b list \<times> nat) result"
  assumes loop_zero: "loop bs i 0 = Inr ([], i)"
    and loop_step: "loop bs i (Suc n) =
      bindE (dec bs i) (\<lambda>(y, j). bindE (loop bs j n) (\<lambda>(ys, k). Inr (y # ys, k)))"
begin

lemma loop_joined:
  "joinE enc xs = Inr b \<Longrightarrow> (\<And>x. x \<in> set xs \<Longrightarrow> ok x) \<Longrightarrow> at_cursor bs i (b @ rest)
    \<Longrightarrow> loop bs i (length xs) = Inr (map view xs, i + length b)"
proof (induction xs arbitrary: b i)
  case Nil
  then show ?case by (simp add: loop_zero)
next
  case (Cons x xs)
  from Cons.prems(1) obtain b1 b2 where b: "enc x = Inr b1" "joinE enc xs = Inr b2" "b = b1 @ b2"
    by (auto simp: joinE_Cons result_simps)
  have c: "at_cursor bs i (b1 @ (b2 @ rest))" using Cons.prems(3) b by simp
  then have "dec bs i = Inr (view x, i + length b1)"
    using dec_enc b(1) Cons.prems(2) by simp
  moreover have "loop bs (i + length b1) (length xs) = Inr (map view xs, i + length b1 + length b2)"
    using Cons.IH [OF b(2) _ at_cursor_skip [OF c refl]] Cons.prems(2) by simp
  ultimately show ?case using b by (simp add: loop_step)
qed

end

locale drained_codec = field_codec +
  fixes drain :: "bytes \<Rightarrow> nat \<Rightarrow> 'b list result"
  assumes enc_nonempty: "enc x \<noteq> Inr []"
    and drain_end: "length bs \<le> i \<Longrightarrow> drain bs i = Inr []"
    and drain_step: "i < length bs \<Longrightarrow>
      drain bs i = bindE (dec bs i) (\<lambda>(y, j). bindE (drain bs j) (\<lambda>ys. Inr (y # ys)))"
begin

lemma drain_joined:
  "joinE enc xs = Inr b \<Longrightarrow> (\<And>x. x \<in> set xs \<Longrightarrow> ok x) \<Longrightarrow> at_cursor bs i b
    \<Longrightarrow> drain bs i = Inr (map view xs)"
proof (induction xs arbitrary: b i)
  case Nil
  then show ?case by (simp add: drain_end at_cursor_length)
next
  case (Cons x xs)
  from Cons.prems(1) obtain b1 b2 where b: "enc x = Inr b1" "joinE enc xs = Inr b2" "b = b1 @ b2"
    by (auto simp: joinE_Cons result_simps)
  with enc_nonempty [of x] have "b1 \<noteq> []" by auto
  have c: "at_cursor bs i (b1 @ b2)" using Cons.prems(3) b by simp
  then have "i < length bs" using \<open>b1 \<noteq> []\<close> at_cursor_length [OF c] by simp
  moreover have "dec bs i = Inr (view x, i + length b1)"
    using dec_enc b(1) c Cons.prems(2) by simp
  moreover have "drain bs (i + length b1) = Inr (map view xs)"
    using Cons.IH [OF b(2) _ at_cursor_skip [OF c refl]] Cons.prems(2) by simp
  ultimately show ?case by (simp add: drain_step)
qed

end

end
