(* ===== verification/Tpm_Types.thy ===== *)
theory Tpm_Types
  imports Tpm_Constants Codec
begin

section \<open>The TPM structures and their byte serialisation\<close>

text \<open>
  The dataclasses of \<open>tpm2_types.py\<close>: one record per class, in the source's field order, the
  class's default arguments as a \<open>_default\<close> record, and its \<open>to_bytes\<close> method.
\<close>

text \<open>\<open>len(data).to_bytes(2, BYTE_ORDER) + data\<close>, the layout of every \<open>TPM2B\<close> structure.\<close>

definition tpm2b_bytes :: "bytes \<Rightarrow> bytes result" where
  "tpm2b_bytes data = catE [to_bytes 2 (int (length data)), Inr data]"

record TPMS_SYM_DEF_OBJECT =
  sym_algorithm :: alg_arg
  sym_key_bits :: int
  sym_mode :: alg_arg

definition SYM_DEF_default :: TPMS_SYM_DEF_OBJECT where
  "SYM_DEF_default =
     \<lparr>sym_algorithm = AlgEnum ALG_AES, sym_key_bits = 128, sym_mode = AlgEnum ALG_CFB\<rparr>"

definition SYM_DEF_to_bytes :: "TPMS_SYM_DEF_OBJECT \<Rightarrow> bytes result" where
  "SYM_DEF_to_bytes self =
     bindE (to_bytes 2 (alg_to_int (sym_algorithm self))) (\<lambda>alg.
     if alg_to_int (sym_algorithm self) = TPM_ALG_value ALG_NULL then Inr alg
     else bindE (to_bytes 2 (sym_key_bits self)) (\<lambda>key_bits.
          bindE (to_bytes 2 (alg_to_int (sym_mode self))) (\<lambda>mode.
          Inr (alg @ key_bits @ mode))))"

record TPMS_RSA_PARMS =
  rsa_symmetric :: TPMS_SYM_DEF_OBJECT
  rsa_scheme :: alg_arg
  rsa_scheme_hash :: "alg_arg option"
  rsa_key_bits :: int
  rsa_exponent :: int

definition RSA_PARMS_default :: TPMS_RSA_PARMS where
  "RSA_PARMS_default =
     \<lparr>rsa_symmetric = SYM_DEF_default, rsa_scheme = AlgEnum ALG_NULL, rsa_scheme_hash = None,
      rsa_key_bits = 2048, rsa_exponent = 0\<rparr>"

definition RSA_PARMS_to_bytes :: "TPMS_RSA_PARMS \<Rightarrow> bytes result" where
  "RSA_PARMS_to_bytes self =
     bindE (SYM_DEF_to_bytes (rsa_symmetric self)) (\<lambda>sym.
     bindE (to_bytes 2 (alg_to_int (rsa_scheme self))) (\<lambda>scheme.
     bindE (case rsa_scheme_hash self of
              None \<Rightarrow> Inr scheme
            | Some h \<Rightarrow>
                if alg_to_int (rsa_scheme self) \<noteq> TPM_ALG_value ALG_NULL
                then bindE (to_bytes 2 (alg_to_int h)) (\<lambda>hb. Inr (scheme @ hb))
                else Inr scheme) (\<lambda>scheme.
     bindE (to_bytes 2 (rsa_key_bits self)) (\<lambda>key_bits.
     bindE (to_bytes 4 (rsa_exponent self)) (\<lambda>exponent.
     Inr (sym @ scheme @ key_bits @ exponent))))))"

record TPMS_KEYEDHASH_PARMS =
  kh_scheme :: alg_arg
  kh_hash_alg :: "alg_arg option"

definition KEYEDHASH_PARMS_default :: TPMS_KEYEDHASH_PARMS where
  "KEYEDHASH_PARMS_default = \<lparr>kh_scheme = AlgEnum ALG_NULL, kh_hash_alg = None\<rparr>"

definition KEYEDHASH_PARMS_to_bytes :: "TPMS_KEYEDHASH_PARMS \<Rightarrow> bytes result" where
  "KEYEDHASH_PARMS_to_bytes self =
     bindE (to_bytes 2 (alg_to_int (kh_scheme self))) (\<lambda>s.
     case kh_hash_alg self of
       None \<Rightarrow> Inr s
     | Some h \<Rightarrow>
         if alg_to_int (kh_scheme self) = TPM_ALG_value ALG_HMAC
         then bindE (to_bytes 2 (alg_to_int h)) (\<lambda>hb. Inr (s @ hb))
         else Inr s)"

record TPMT_PUBLIC =
  pub_type :: alg_arg
  pub_name_alg :: alg_arg
  pub_object_attributes :: object_attrs
  pub_auth_policy :: bytes
  pub_rsa_parameters :: "TPMS_RSA_PARMS option"
  pub_unique :: bytes
  pub_keyedhash_scheme :: "TPMS_KEYEDHASH_PARMS option"

definition default_object_attributes :: object_attrs where
  "default_object_attributes =
     AttrsList [FIXEDTPM, FIXEDPARENT, SENSITIVEDATAORIGIN, USERWITHAUTH, NODA, RESTRICTED, DECRYPT]"

definition PUBLIC_default :: "alg_arg \<Rightarrow> TPMT_PUBLIC" where
  "PUBLIC_default type =
     \<lparr>pub_type = type, pub_name_alg = AlgEnum ALG_SHA256,
      pub_object_attributes = default_object_attributes, pub_auth_policy = [],
      pub_rsa_parameters = Some RSA_PARMS_default, pub_unique = [], pub_keyedhash_scheme = None\<rparr>"

definition PUBLIC_to_bytes :: "TPMT_PUBLIC \<Rightarrow> bytes result" where
  "PUBLIC_to_bytes self =
     bindE (to_bytes 2 (alg_to_int (pub_type self))) (\<lambda>t_type.
     bindE (to_bytes 2 (alg_to_int (pub_name_alg self))) (\<lambda>name_alg.
     bindE (to_bytes 4 (attrs_to_int (pub_object_attributes self))) (\<lambda>attrs.
     bindE (tpm2b_bytes (pub_auth_policy self)) (\<lambda>auth.
     bindE (if alg_to_int (pub_type self) = TPM_ALG_value ALG_RSA then
              (case pub_rsa_parameters self of
                 None \<Rightarrow> Inl ValueError
               | Some p \<Rightarrow> bindE (RSA_PARMS_to_bytes p) (\<lambda>parameters.
                           bindE (tpm2b_bytes (pub_unique self)) (\<lambda>unique.
                           Inr (parameters @ unique))))
            else if alg_to_int (pub_type self) = TPM_ALG_value ALG_KEYEDHASH then
              (let scheme = (case pub_keyedhash_scheme self of
                               None \<Rightarrow> KEYEDHASH_PARMS_default | Some s \<Rightarrow> s)
               in bindE (KEYEDHASH_PARMS_to_bytes scheme) (\<lambda>parameters.
                  bindE (tpm2b_bytes (pub_unique self)) (\<lambda>unique.
                  Inr (parameters @ unique))))
            else Inl NotImplementedError) (\<lambda>parameters_unique.
     Inr (t_type @ name_alg @ attrs @ auth @ parameters_unique))))))"

text \<open>
  \<open>TPM2B_PUBLIC\<close> and \<open>TPM2B_SENSITIVE_CREATE\<close>, \<open>TPM2B_NV_PUBLIC\<close> prefix the bytes of the area
  they hold with their length; \<open>TPM2B_PRIVATE\<close> and \<open>TPM2B_DATA\<close> hold raw bytes.
\<close>

record TPM2B_PUBLIC =
  public_area :: TPMT_PUBLIC

definition TPM2B_PUBLIC_to_bytes :: "TPM2B_PUBLIC \<Rightarrow> bytes result" where
  "TPM2B_PUBLIC_to_bytes self =
     bindE (PUBLIC_to_bytes (public_area self)) (\<lambda>public_bytes.
     bindE (to_bytes 2 (int (length public_bytes))) (\<lambda>size.
     Inr (size @ public_bytes)))"

record TPM2B_PRIVATE =
  private_buffer :: bytes

definition PRIVATE_to_bytes :: "TPM2B_PRIVATE \<Rightarrow> bytes result" where
  "PRIVATE_to_bytes self =
     bindE (to_bytes 2 (int (length (private_buffer self)))) (\<lambda>size.
     Inr (size @ private_buffer self))"

record TPMS_AUTH_COMMAND =
  auth_session_handle :: int
  auth_nonce :: bytes
  auth_session_attributes :: int
  auth_hmac :: bytes

definition AUTH_COMMAND :: "int \<Rightarrow> TPMS_AUTH_COMMAND" where
  "AUTH_COMMAND session_handle =
     \<lparr>auth_session_handle = session_handle, auth_nonce = [], auth_session_attributes = 0,
      auth_hmac = []\<rparr>"

definition AUTH_COMMAND_to_bytes :: "TPMS_AUTH_COMMAND \<Rightarrow> bytes result" where
  "AUTH_COMMAND_to_bytes self =
     bindE (to_bytes 4 (auth_session_handle self)) (\<lambda>sh.
     bindE (tpm2b_bytes (auth_nonce self)) (\<lambda>nonce.
     bindE (to_bytes 1 (auth_session_attributes self)) (\<lambda>attrs.
     bindE (tpm2b_bytes (auth_hmac self)) (\<lambda>hmac.
     Inr (sh @ nonce @ attrs @ hmac)))))"

record TPM_AUTH_AREA =
  auth_commands :: "TPMS_AUTH_COMMAND list"

definition AUTH_AREA_to_bytes :: "TPM_AUTH_AREA \<Rightarrow> bytes result" where
  "AUTH_AREA_to_bytes self =
     bindE (joinE AUTH_COMMAND_to_bytes (auth_commands self)) (\<lambda>auth_bytes.
     bindE (to_bytes 4 (int (length auth_bytes))) (\<lambda>auth_size.
     Inr (auth_size @ auth_bytes)))"

record TPMS_SENSITIVE_CREATE =
  sens_user_auth :: bytes
  sens_data :: bytes

definition SENSITIVE_CREATE_default :: TPMS_SENSITIVE_CREATE where
  "SENSITIVE_CREATE_default = \<lparr>sens_user_auth = [], sens_data = []\<rparr>"

definition SENSITIVE_CREATE_to_bytes :: "TPMS_SENSITIVE_CREATE \<Rightarrow> bytes result" where
  "SENSITIVE_CREATE_to_bytes self =
     bindE (tpm2b_bytes (sens_user_auth self)) (\<lambda>ua.
     bindE (tpm2b_bytes (sens_data self)) (\<lambda>d.
     Inr (ua @ d)))"

record TPM2B_SENSITIVE_CREATE =
  sensitive :: TPMS_SENSITIVE_CREATE

definition TPM2B_SENSITIVE_CREATE_to_bytes :: "TPM2B_SENSITIVE_CREATE \<Rightarrow> bytes result" where
  "TPM2B_SENSITIVE_CREATE_to_bytes self =
     bindE (SENSITIVE_CREATE_to_bytes (sensitive self)) (\<lambda>inner.
     bindE (to_bytes 2 (int (length inner))) (\<lambda>size.
     Inr (size @ inner)))"

record TPM2B_DATA =
  data_buffer :: bytes

definition DATA_default :: TPM2B_DATA where
  "DATA_default = \<lparr>data_buffer = []\<rparr>"

definition DATA_to_bytes :: "TPM2B_DATA \<Rightarrow> bytes result" where
  "DATA_to_bytes self =
     bindE (to_bytes 2 (int (length (data_buffer self)))) (\<lambda>size.
     Inr (size @ data_buffer self))"

record TPMS_PCR_SELECTION =
  pcr_hash :: alg_arg
  pcr_select :: bytes

definition PCR_SELECTION_to_bytes :: "TPMS_PCR_SELECTION \<Rightarrow> bytes result" where
  "PCR_SELECTION_to_bytes self =
     bindE (to_bytes 2 (alg_to_int (pcr_hash self))) (\<lambda>alg.
     bindE (to_bytes 1 (int (length (pcr_select self)))) (\<lambda>sizeof_select.
     Inr (alg @ sizeof_select @ pcr_select self)))"

record TPML_PCR_SELECTION =
  selections :: "TPMS_PCR_SELECTION list"

definition TPML_PCR_SELECTION_to_bytes :: "TPML_PCR_SELECTION \<Rightarrow> bytes result" where
  "TPML_PCR_SELECTION_to_bytes self =
     bindE (to_bytes 4 (int (length (selections self)))) (\<lambda>count.
     bindE (joinE PCR_SELECTION_to_bytes (selections self)) (\<lambda>body.
     Inr (count @ body)))"

record TPMT_SIG_SCHEME =
  sig_scheme :: alg_arg
  sig_hash_alg :: alg_arg

definition SIG_SCHEME_to_bytes :: "TPMT_SIG_SCHEME \<Rightarrow> bytes result" where
  "SIG_SCHEME_to_bytes self =
     bindE (to_bytes 2 (alg_to_int (sig_scheme self))) (\<lambda>s.
     if alg_to_int (sig_scheme self) = TPM_ALG_value ALG_NULL then Inr s
     else bindE (to_bytes 2 (alg_to_int (sig_hash_alg self))) (\<lambda>h. Inr (s @ h)))"

record TPMT_RSA_DECRYPT =
  rdec_scheme :: alg_arg
  rdec_hash_alg :: "alg_arg option"

definition RSA_DECRYPT_to_bytes :: "TPMT_RSA_DECRYPT \<Rightarrow> bytes result" where
  "RSA_DECRYPT_to_bytes self =
     bindE (to_bytes 2 (alg_to_int (rdec_scheme self))) (\<lambda>s.
     case rdec_hash_alg self of
       None \<Rightarrow> Inr s
     | Some h \<Rightarrow>
         if alg_to_int (rdec_scheme self) = TPM_ALG_value ALG_OAEP
         then bindE (to_bytes 2 (alg_to_int h)) (\<lambda>hb. Inr (s @ hb))
         else Inr s)"

record TPMT_TK_HASHCHECK =
  tk_hierarchy :: rh_arg
  tk_digest :: bytes

definition TK_HASHCHECK_to_bytes :: "TPMT_TK_HASHCHECK \<Rightarrow> bytes result" where
  "TK_HASHCHECK_to_bytes self =
     bindE (to_bytes 2 (TPM_ST TPM_ST_HASHCHECK)) (\<lambda>tag.
     bindE (to_bytes 4 (rh_to_int (tk_hierarchy self))) (\<lambda>h.
     bindE (to_bytes 2 (int (length (tk_digest self)))) (\<lambda>d_size.
     Inr (tag @ h @ d_size @ tk_digest self))))"

record TPM2B_SENSITIVE =
  sensitive_type :: alg_arg
  sensitive_auth_value :: bytes
  sensitive_seed_value :: bytes
  sensitive_private_key :: bytes

definition SENSITIVE_to_bytes :: "TPM2B_SENSITIVE \<Rightarrow> bytes result" where
  "SENSITIVE_to_bytes self =
     bindE (to_bytes 2 (alg_to_int (sensitive_type self))) (\<lambda>stype.
     bindE (tpm2b_bytes (sensitive_auth_value self)) (\<lambda>auth.
     bindE (tpm2b_bytes (sensitive_seed_value self)) (\<lambda>seed.
     bindE (tpm2b_bytes (sensitive_private_key self)) (\<lambda>pk.
     let inner = stype @ auth @ seed @ pk
     in bindE (to_bytes 2 (int (length inner))) (\<lambda>size. Inr (size @ inner))))))"

record TPMT_HA =
  ha_hash_alg :: alg_arg
  ha_digest :: bytes

definition HA_to_bytes :: "TPMT_HA \<Rightarrow> bytes result" where
  "HA_to_bytes self =
     bindE (to_bytes 2 (alg_to_int (ha_hash_alg self))) (\<lambda>alg. Inr (alg @ ha_digest self))"

record TPML_DIGEST_VALUES =
  digests :: "TPMT_HA list"

definition DIGEST_VALUES_to_bytes :: "TPML_DIGEST_VALUES \<Rightarrow> bytes result" where
  "DIGEST_VALUES_to_bytes self =
     bindE (to_bytes 4 (int (length (digests self)))) (\<lambda>count.
     bindE (joinE HA_to_bytes (digests self)) (\<lambda>body. Inr (count @ body)))"

record TPMT_PUBLIC_PARMS =
  parms_alg_type :: alg_arg
  parms_rsa_parameters :: "TPMS_RSA_PARMS option"

definition PUBLIC_PARMS_default :: "alg_arg \<Rightarrow> TPMT_PUBLIC_PARMS" where
  "PUBLIC_PARMS_default alg =
     \<lparr>parms_alg_type = alg, parms_rsa_parameters = Some RSA_PARMS_default\<rparr>"

definition PUBLIC_PARMS_to_bytes :: "TPMT_PUBLIC_PARMS \<Rightarrow> bytes result" where
  "PUBLIC_PARMS_to_bytes self =
     bindE (to_bytes 2 (alg_to_int (parms_alg_type self))) (\<lambda>alg.
     if alg_to_int (parms_alg_type self) = TPM_ALG_value ALG_RSA then
       (case parms_rsa_parameters self of
          None \<Rightarrow> Inl ValueError
        | Some p \<Rightarrow> bindE (RSA_PARMS_to_bytes p) (\<lambda>parameters. Inr (alg @ parameters)))
     else Inl NotImplementedError)"

record TPMS_NV_PUBLIC =
  nv_index :: int
  nv_name_alg :: alg_arg
  nv_attributes :: nv_attrs
  nv_auth_policy :: bytes
  nv_data_size :: int

definition NV_PUBLIC_to_bytes :: "TPMS_NV_PUBLIC \<Rightarrow> bytes result" where
  "NV_PUBLIC_to_bytes self =
     bindE (to_bytes 4 (nv_index self)) (\<lambda>index.
     bindE (to_bytes 2 (alg_to_int (nv_name_alg self))) (\<lambda>name.
     bindE (to_bytes 4 (nv_attrs_to_int (nv_attributes self))) (\<lambda>attrs.
     bindE (tpm2b_bytes (nv_auth_policy self)) (\<lambda>policy.
     bindE (to_bytes 2 (nv_data_size self)) (\<lambda>size.
     Inr (index @ name @ attrs @ policy @ size))))))"

record TPM2B_NV_PUBLIC =
  public_info :: TPMS_NV_PUBLIC

definition TPM2B_NV_PUBLIC_to_bytes :: "TPM2B_NV_PUBLIC \<Rightarrow> bytes result" where
  "TPM2B_NV_PUBLIC_to_bytes self =
     bindE (NV_PUBLIC_to_bytes (public_info self)) (\<lambda>inner.
     bindE (to_bytes 2 (int (length inner))) (\<lambda>size.
     Inr (size @ inner)))"

subsection \<open>Layouts\<close>

text \<open>
  One equivalence per structure: serialisation succeeds exactly when every field fits its
  width, and then the bytes are these. Later proofs read both directions off the collection
  \<open>layout\<close>.
\<close>

named_theorems layout \<open>when a structure serialises, and to which bytes\<close>

lemma tpm2b_layout [layout]:
  "tpm2b_bytes d = Inr b \<longleftrightarrow> length d < 65536 \<and> b = be_bytes 2 (int (length d)) @ d"
  by (auto simp: tpm2b_bytes_def result_simps)

lemma tpm2b_overflow: "tpm2b_bytes d = Inl e \<longleftrightarrow> 65536 \<le> length d \<and> e = OverflowError"
  by (auto simp: tpm2b_bytes_def result_simps)

lemma AUTH_COMMAND_layout [layout]:
  "AUTH_COMMAND_to_bytes a = Inr b \<longleftrightarrow>
     0 \<le> auth_session_handle a \<and> auth_session_handle a < 4294967296 \<and>
     length (auth_nonce a) < 65536 \<and>
     0 \<le> auth_session_attributes a \<and> auth_session_attributes a < 256 \<and>
     length (auth_hmac a) < 65536 \<and>
     b = be_bytes 4 (auth_session_handle a) @
         be_bytes 2 (int (length (auth_nonce a))) @ auth_nonce a @
         be_bytes 1 (auth_session_attributes a) @
         be_bytes 2 (int (length (auth_hmac a))) @ auth_hmac a"
  by (auto simp: AUTH_COMMAND_to_bytes_def result_simps layout)

lemma AUTH_AREA_layout [layout]:
  "AUTH_AREA_to_bytes a = Inr b \<longleftrightarrow>
     (\<exists>bs. joinE AUTH_COMMAND_to_bytes (auth_commands a) = Inr bs \<and> length bs < 4294967296 \<and>
           b = be_bytes 4 (int (length bs)) @ bs)"
  by (auto simp: AUTH_AREA_to_bytes_def result_simps)

text \<open>The area almost every command carries: one session with an empty nonce and hmac.\<close>

definition one_session :: "int \<Rightarrow> bytes" where
  "one_session h = be_bytes 4 9 @ be_bytes 4 h @ be_bytes 2 0 @ be_bytes 1 0 @ be_bytes 2 0"

lemma length_one_session [simp]: "length (one_session h) = 13"
  by (simp add: one_session_def)

lemma one_session_layout [layout]:
  "AUTH_AREA_to_bytes \<lparr>auth_commands = [AUTH_COMMAND h]\<rparr> = Inr b \<longleftrightarrow>
     0 \<le> h \<and> h < 4294967296 \<and> b = one_session h"
  by (auto simp: layout AUTH_COMMAND_def one_session_def)

lemma SENSITIVE_CREATE_layout [layout]:
  "SENSITIVE_CREATE_to_bytes s = Inr b \<longleftrightarrow>
     length (sens_user_auth s) < 65536 \<and> length (sens_data s) < 65536 \<and>
     b = be_bytes 2 (int (length (sens_user_auth s))) @ sens_user_auth s @
         be_bytes 2 (int (length (sens_data s))) @ sens_data s"
  by (auto simp: SENSITIVE_CREATE_to_bytes_def result_simps layout)

lemma TPM2B_SENSITIVE_CREATE_layout [layout]:
  "TPM2B_SENSITIVE_CREATE_to_bytes s = Inr b \<longleftrightarrow>
     (\<exists>i. SENSITIVE_CREATE_to_bytes (sensitive s) = Inr i \<and> length i < 65536 \<and>
          b = be_bytes 2 (int (length i)) @ i)"
  by (auto simp: TPM2B_SENSITIVE_CREATE_to_bytes_def result_simps)

lemma DATA_layout [layout]:
  "DATA_to_bytes d = Inr b \<longleftrightarrow>
     length (data_buffer d) < 65536 \<and>
     b = be_bytes 2 (int (length (data_buffer d))) @ data_buffer d"
  by (auto simp: DATA_to_bytes_def result_simps)

lemma PCR_SELECTION_layout [layout]:
  "PCR_SELECTION_to_bytes s = Inr b \<longleftrightarrow>
     0 \<le> alg_to_int (pcr_hash s) \<and> alg_to_int (pcr_hash s) < 65536 \<and> length (pcr_select s) < 256 \<and>
     b = be_bytes 2 (alg_to_int (pcr_hash s)) @ be_bytes 1 (int (length (pcr_select s))) @
         pcr_select s"
  by (auto simp: PCR_SELECTION_to_bytes_def result_simps)

lemma TPML_PCR_SELECTION_layout [layout]:
  "TPML_PCR_SELECTION_to_bytes s = Inr b \<longleftrightarrow>
     length (selections s) < 4294967296 \<and>
     (\<exists>bs. joinE PCR_SELECTION_to_bytes (selections s) = Inr bs \<and>
           b = be_bytes 4 (int (length (selections s))) @ bs)"
  by (auto simp: TPML_PCR_SELECTION_to_bytes_def result_simps)

lemma SYM_DEF_layout [layout]:
  "SYM_DEF_to_bytes s = Inr b \<longleftrightarrow>
     0 \<le> alg_to_int (sym_algorithm s) \<and> alg_to_int (sym_algorithm s) < 65536 \<and>
     (if alg_to_int (sym_algorithm s) = 16 then b = be_bytes 2 16
      else 0 \<le> sym_key_bits s \<and> sym_key_bits s < 65536 \<and>
           0 \<le> alg_to_int (sym_mode s) \<and> alg_to_int (sym_mode s) < 65536 \<and>
           b = be_bytes 2 (alg_to_int (sym_algorithm s)) @ be_bytes 2 (sym_key_bits s) @
               be_bytes 2 (alg_to_int (sym_mode s)))"
  by (auto simp: SYM_DEF_to_bytes_def result_simps)

text \<open>The optional hash that follows a scheme: written when the scheme asks for one.\<close>

definition scheme_suffix :: "bool \<Rightarrow> alg_arg option \<Rightarrow> bytes" where
  "scheme_suffix wanted h =
     (case h of None \<Rightarrow> [] | Some a \<Rightarrow> if wanted then be_bytes 2 (alg_to_int a) else [])"

definition scheme_suffix_ok :: "bool \<Rightarrow> alg_arg option \<Rightarrow> bool" where
  "scheme_suffix_ok wanted h =
     (case h of None \<Rightarrow> True
      | Some a \<Rightarrow> wanted \<longrightarrow> 0 \<le> alg_to_int a \<and> alg_to_int a < 65536)"

lemma scheme_suffix_None [simp]: "scheme_suffix w None = []" "scheme_suffix_ok w None"
  by (simp_all add: scheme_suffix_def scheme_suffix_ok_def)

lemma RSA_PARMS_layout [layout]:
  "RSA_PARMS_to_bytes p = Inr b \<longleftrightarrow>
     (\<exists>sym. SYM_DEF_to_bytes (rsa_symmetric p) = Inr sym \<and>
       0 \<le> alg_to_int (rsa_scheme p) \<and> alg_to_int (rsa_scheme p) < 65536 \<and>
       scheme_suffix_ok (alg_to_int (rsa_scheme p) \<noteq> 16) (rsa_scheme_hash p) \<and>
       0 \<le> rsa_key_bits p \<and> rsa_key_bits p < 65536 \<and>
       0 \<le> rsa_exponent p \<and> rsa_exponent p < 4294967296 \<and>
       b = sym @ be_bytes 2 (alg_to_int (rsa_scheme p)) @
           scheme_suffix (alg_to_int (rsa_scheme p) \<noteq> 16) (rsa_scheme_hash p) @
           be_bytes 2 (rsa_key_bits p) @ be_bytes 4 (rsa_exponent p))"
  by (auto simp: RSA_PARMS_to_bytes_def result_simps scheme_suffix_def scheme_suffix_ok_def
      split: option.splits if_splits)

lemma KEYEDHASH_PARMS_layout [layout]:
  "KEYEDHASH_PARMS_to_bytes p = Inr b \<longleftrightarrow>
     0 \<le> alg_to_int (kh_scheme p) \<and> alg_to_int (kh_scheme p) < 65536 \<and>
     scheme_suffix_ok (alg_to_int (kh_scheme p) = 5) (kh_hash_alg p) \<and>
     b = be_bytes 2 (alg_to_int (kh_scheme p)) @
         scheme_suffix (alg_to_int (kh_scheme p) = 5) (kh_hash_alg p)"
  by (auto simp: KEYEDHASH_PARMS_to_bytes_def result_simps scheme_suffix_def scheme_suffix_ok_def
      split: option.splits if_splits)

lemma RSA_DECRYPT_layout [layout]:
  "RSA_DECRYPT_to_bytes p = Inr b \<longleftrightarrow>
     0 \<le> alg_to_int (rdec_scheme p) \<and> alg_to_int (rdec_scheme p) < 65536 \<and>
     scheme_suffix_ok (alg_to_int (rdec_scheme p) = 23) (rdec_hash_alg p) \<and>
     b = be_bytes 2 (alg_to_int (rdec_scheme p)) @
         scheme_suffix (alg_to_int (rdec_scheme p) = 23) (rdec_hash_alg p)"
  by (auto simp: RSA_DECRYPT_to_bytes_def result_simps scheme_suffix_def scheme_suffix_ok_def
      split: option.splits if_splits)

lemma PUBLIC_layout [layout]:
  "PUBLIC_to_bytes p = Inr b \<longleftrightarrow>
     0 \<le> alg_to_int (pub_name_alg p) \<and> alg_to_int (pub_name_alg p) < 65536 \<and>
     0 \<le> attrs_to_int (pub_object_attributes p) \<and>
     attrs_to_int (pub_object_attributes p) < 4294967296 \<and>
     length (pub_auth_policy p) < 65536 \<and> length (pub_unique p) < 65536 \<and>
     (\<exists>parms.
       (alg_to_int (pub_type p) = 1 \<and>
          (\<exists>r. pub_rsa_parameters p = Some r \<and> RSA_PARMS_to_bytes r = Inr parms) \<or>
        alg_to_int (pub_type p) = 8 \<and>
          KEYEDHASH_PARMS_to_bytes
            (case pub_keyedhash_scheme p of None \<Rightarrow> KEYEDHASH_PARMS_default | Some s \<Rightarrow> s)
            = Inr parms) \<and>
       b = be_bytes 2 (alg_to_int (pub_type p)) @ be_bytes 2 (alg_to_int (pub_name_alg p)) @
           be_bytes 4 (attrs_to_int (pub_object_attributes p)) @
           be_bytes 2 (int (length (pub_auth_policy p))) @ pub_auth_policy p @
           parms @ be_bytes 2 (int (length (pub_unique p))) @ pub_unique p)"
  by (auto simp: PUBLIC_to_bytes_def result_simps tpm2b_layout split: option.splits)

lemma TPM2B_PUBLIC_layout [layout]:
  "TPM2B_PUBLIC_to_bytes p = Inr b \<longleftrightarrow>
     (\<exists>i. PUBLIC_to_bytes (public_area p) = Inr i \<and> length i < 65536 \<and>
          b = be_bytes 2 (int (length i)) @ i)"
  by (auto simp: TPM2B_PUBLIC_to_bytes_def result_simps)

lemma NV_PUBLIC_layout [layout]:
  "NV_PUBLIC_to_bytes p = Inr b \<longleftrightarrow>
     0 \<le> nv_index p \<and> nv_index p < 4294967296 \<and>
     0 \<le> alg_to_int (nv_name_alg p) \<and> alg_to_int (nv_name_alg p) < 65536 \<and>
     0 \<le> nv_attrs_to_int (nv_attributes p) \<and> nv_attrs_to_int (nv_attributes p) < 4294967296 \<and>
     length (nv_auth_policy p) < 65536 \<and> 0 \<le> nv_data_size p \<and> nv_data_size p < 65536 \<and>
     b = be_bytes 4 (nv_index p) @ be_bytes 2 (alg_to_int (nv_name_alg p)) @
         be_bytes 4 (nv_attrs_to_int (nv_attributes p)) @
         be_bytes 2 (int (length (nv_auth_policy p))) @ nv_auth_policy p @
         be_bytes 2 (nv_data_size p)"
  by (auto simp: NV_PUBLIC_to_bytes_def result_simps layout)

lemma TPM2B_NV_PUBLIC_layout [layout]:
  "TPM2B_NV_PUBLIC_to_bytes p = Inr b \<longleftrightarrow>
     (\<exists>i. NV_PUBLIC_to_bytes (public_info p) = Inr i \<and> length i < 65536 \<and>
          b = be_bytes 2 (int (length i)) @ i)"
  by (auto simp: TPM2B_NV_PUBLIC_to_bytes_def result_simps)

end
