(* ===== verification/Protobuf.thy ===== *)
theory Protobuf
  imports Tpm_Constants
begin

section \<open>Protobuf messages and the protobuf runtime\<close>

text \<open>
  The message classes are generated from the \<open>.proto\<close> files (\<open>tpm_commands/*_pb2.py\<close>,
  \<open>tpm_types/*_pb2.py\<close>, \<open>tpm_commands_pb2.py\<close>): \<open>pb_schema\<close> lists the fields of each class as
  those descriptors declare them. A message is the class with the keyword arguments its
  constructor got.

  The runtime that checks and stores the arguments (\<open>google.protobuf\<close>) is not part of the
  repository. It is a parameter of every definition that builds a message: \<open>pb_new\<close> is the
  constructor call, \<open>pb_name\<close> is \<open>EnumTypeWrapper.Name\<close>, and \<open>pb_text\<close> is
  \<open>text_format.MessageToString\<close>. \<open>pb_laws\<close> states what its documentation promises and the code
  relies on: a constructor accepts arguments of the declared field types, and \<open>Name\<close> finds a
  declared value and raises \<open>ValueError\<close> on any other.
\<close>

datatype pb_class =
    PB_TPMHeader | PB_TPMSession | PB_TPM2BData | PB_TPM2BDigest | PB_TPM2BEvent
  | PB_TPM2BPrivate | PB_TPM2BPublicKeyRSA | PB_TPM2BAuth | PB_TPM2BSensitiveData
  | PB_TPMSSensitiveCreate | PB_TPM2BSensitiveCreate | PB_TPMSRSAParms | PB_TPMSKeyedHashParms
  | PB_TPMUPublicParms | PB_TPMUPublicId | PB_TPMTPublic | PB_TPM2BPublic | PB_TPMSPCRSelection
  | PB_TPMLPCRSelection | PB_TPMTSymDef | PB_TPMTRSADecrypt | PB_TPMNvPublic
  | PB_TPMGetRandom | PB_TPMCreate | PB_TPMCreatePrimary | PB_TPMStartAuthSession
  | PB_TPMRSADecrypt | PB_TPMClear | PB_TPMRSAEncrypt | PB_TPMPCREvent | PB_TPMPCRAllocate
  | PB_TPMNvDefineSpace | PB_TPMSetPrimaryPolicy | PB_TPMLoad | PB_TPMMakeCredential
  | PB_TPMPCRSetAuthPolicy | PB_TPMPCRRead
  | PB_TPMCommand | PB_TPMCommandSequence

datatype pb_enum = E_TPMST | E_TPMCC | E_TPMRH | E_TPMALG | E_TPMSE

datatype pb_type = T_uint32 | T_bytes | T_enum pb_enum | T_msg pb_class | T_rep pb_class

datatype pb_value = PbInt int | PbBytes bytes | PbName string | PbMsg pb_msg | PbList "pb_msg list"
  and pb_msg = Msg pb_class "(string \<times> pb_value) list"

type_synonym pb_kwargs = "(string \<times> pb_value) list"

fun msg_class :: "pb_msg \<Rightarrow> pb_class" where
  "msg_class (Msg c _) = c"

text \<open>\<open>message.field\<close>: the argument, or \<open>None\<close> where the proto default is read.\<close>

fun msg_field :: "pb_msg \<Rightarrow> string \<Rightarrow> pb_value option" where
  "msg_field (Msg _ kws) f = map_of kws f"

definition fields_TPMHeader :: "(string \<times> pb_type) list" where
  "fields_TPMHeader =
     [(''tag'', T_enum E_TPMST), (''command_size'', T_uint32), (''command_code'', T_enum E_TPMCC)]"

definition fields_TPMSession :: "(string \<times> pb_type) list" where
  "fields_TPMSession =
     [(''session_handle'', T_uint32), (''nonce_size'', T_uint32), (''nonce'', T_bytes),
      (''session_attributes'', T_uint32), (''hmac_size'', T_uint32), (''hmac'', T_bytes)]"

definition fields_TPM2BData :: "(string \<times> pb_type) list" where
  "fields_TPM2BData = [(''size'', T_uint32), (''buffer'', T_bytes)]"

definition fields_TPM2BDigest :: "(string \<times> pb_type) list" where
  "fields_TPM2BDigest = [(''size'', T_uint32), (''buffer'', T_bytes)]"

definition fields_TPM2BEvent :: "(string \<times> pb_type) list" where
  "fields_TPM2BEvent = [(''size'', T_uint32), (''buffer'', T_bytes)]"

definition fields_TPM2BPrivate :: "(string \<times> pb_type) list" where
  "fields_TPM2BPrivate = [(''size'', T_uint32), (''buffer'', T_bytes)]"

definition fields_TPM2BPublicKeyRSA :: "(string \<times> pb_type) list" where
  "fields_TPM2BPublicKeyRSA = [(''size'', T_uint32), (''buffer'', T_bytes)]"

definition fields_TPM2BAuth :: "(string \<times> pb_type) list" where
  "fields_TPM2BAuth = [(''size'', T_uint32), (''buffer'', T_bytes)]"

definition fields_TPM2BSensitiveData :: "(string \<times> pb_type) list" where
  "fields_TPM2BSensitiveData = [(''size'', T_uint32), (''buffer'', T_bytes)]"

definition fields_TPMSSensitiveCreate :: "(string \<times> pb_type) list" where
  "fields_TPMSSensitiveCreate =
     [(''user_auth'', T_msg PB_TPM2BAuth), (''data'', T_msg PB_TPM2BSensitiveData)]"

definition fields_TPM2BSensitiveCreate :: "(string \<times> pb_type) list" where
  "fields_TPM2BSensitiveCreate =
     [(''size'', T_uint32), (''sensitive'', T_msg PB_TPMSSensitiveCreate)]"

definition fields_TPMSRSAParms :: "(string \<times> pb_type) list" where
  "fields_TPMSRSAParms =
     [(''symmetric'', T_enum E_TPMALG), (''scheme'', T_enum E_TPMALG),
      (''symmetric_key_bits'', T_uint32), (''key_bits'', T_uint32), (''exponent'', T_uint32)]"

definition fields_TPMSKeyedHashParms :: "(string \<times> pb_type) list" where
  "fields_TPMSKeyedHashParms = [(''scheme'', T_enum E_TPMALG)]"

definition fields_TPMUPublicParms :: "(string \<times> pb_type) list" where
  "fields_TPMUPublicParms =
     [(''rsa'', T_msg PB_TPMSRSAParms), (''keyedhash'', T_msg PB_TPMSKeyedHashParms)]"

definition fields_TPMUPublicId :: "(string \<times> pb_type) list" where
  "fields_TPMUPublicId = [(''rsa'', T_bytes), (''keyedhash'', T_msg PB_TPM2BDigest)]"

definition fields_TPMTPublic :: "(string \<times> pb_type) list" where
  "fields_TPMTPublic =
     [(''type'', T_enum E_TPMALG), (''name_alg'', T_enum E_TPMALG),
      (''object_attributes'', T_uint32), (''auth_policy'', T_msg PB_TPM2BDigest),
      (''parameters'', T_msg PB_TPMUPublicParms), (''unique'', T_msg PB_TPMUPublicId)]"

definition fields_TPM2BPublic :: "(string \<times> pb_type) list" where
  "fields_TPM2BPublic = [(''size'', T_uint32), (''public_area'', T_msg PB_TPMTPublic)]"

definition fields_TPMSPCRSelection :: "(string \<times> pb_type) list" where
  "fields_TPMSPCRSelection =
     [(''hash'', T_enum E_TPMALG), (''sizeof_select'', T_uint32), (''pcr_select'', T_bytes)]"

definition fields_TPMLPCRSelection :: "(string \<times> pb_type) list" where
  "fields_TPMLPCRSelection =
     [(''count'', T_uint32), (''pcr_selections'', T_rep PB_TPMSPCRSelection)]"

definition fields_TPMTSymDef :: "(string \<times> pb_type) list" where
  "fields_TPMTSymDef =
     [(''algorithm'', T_enum E_TPMALG), (''key_bits'', T_uint32), (''mode'', T_enum E_TPMALG)]"

definition fields_TPMTRSADecrypt :: "(string \<times> pb_type) list" where
  "fields_TPMTRSADecrypt = [(''scheme'', T_enum E_TPMALG), (''hash_alg'', T_enum E_TPMALG)]"

definition fields_TPMNvPublic :: "(string \<times> pb_type) list" where
  "fields_TPMNvPublic =
     [(''nv_index'', T_uint32), (''name_alg'', T_enum E_TPMALG), (''attributes'', T_uint32),
      (''auth_policy'', T_bytes), (''data_size'', T_uint32)]"

definition fields_TPMGetRandom :: "(string \<times> pb_type) list" where
  "fields_TPMGetRandom = [(''header'', T_msg PB_TPMHeader), (''bytes_requested'', T_uint32)]"

definition fields_TPMCreate :: "(string \<times> pb_type) list" where
  "fields_TPMCreate =
     [(''header'', T_msg PB_TPMHeader), (''parent_handle'', T_uint32),
      (''sessions'', T_rep PB_TPMSession), (''in_sensitive'', T_msg PB_TPM2BSensitiveCreate),
      (''in_public'', T_msg PB_TPM2BPublic), (''outside_info'', T_msg PB_TPM2BData),
      (''creation_pcr'', T_msg PB_TPMLPCRSelection)]"

definition fields_TPMCreatePrimary :: "(string \<times> pb_type) list" where
  "fields_TPMCreatePrimary =
     [(''header'', T_msg PB_TPMHeader), (''hierarchy'', T_enum E_TPMRH),
      (''sessions'', T_rep PB_TPMSession), (''in_sensitive'', T_msg PB_TPM2BSensitiveCreate),
      (''in_public'', T_msg PB_TPM2BPublic), (''outside_info'', T_msg PB_TPM2BData),
      (''creation_pcr'', T_msg PB_TPMLPCRSelection)]"

definition fields_TPMStartAuthSession :: "(string \<times> pb_type) list" where
  "fields_TPMStartAuthSession =
     [(''header'', T_msg PB_TPMHeader), (''tpm_key'', T_enum E_TPMRH), (''bind'', T_enum E_TPMRH),
      (''nonce'', T_msg PB_TPM2BData), (''encrypted_salt'', T_msg PB_TPM2BData),
      (''session_type'', T_enum E_TPMSE), (''symmetric'', T_msg PB_TPMTSymDef),
      (''auth_hash'', T_enum E_TPMALG)]"

definition fields_TPMRSADecrypt :: "(string \<times> pb_type) list" where
  "fields_TPMRSADecrypt =
     [(''header'', T_msg PB_TPMHeader), (''key_handle'', T_uint32),
      (''sessions'', T_rep PB_TPMSession), (''cipher_text'', T_msg PB_TPM2BPublicKeyRSA),
      (''in_scheme'', T_msg PB_TPMTRSADecrypt), (''label'', T_msg PB_TPM2BData)]"

definition fields_TPMClear :: "(string \<times> pb_type) list" where
  "fields_TPMClear =
     [(''header'', T_msg PB_TPMHeader), (''auth_handle'', T_uint32),
      (''sessions'', T_rep PB_TPMSession)]"

definition fields_TPMRSAEncrypt :: "(string \<times> pb_type) list" where
  "fields_TPMRSAEncrypt =
     [(''header'', T_msg PB_TPMHeader), (''key_handle'', T_uint32),
      (''message'', T_msg PB_TPM2BPublicKeyRSA), (''in_scheme'', T_msg PB_TPMTRSADecrypt),
      (''label'', T_msg PB_TPM2BData)]"

definition fields_TPMPCREvent :: "(string \<times> pb_type) list" where
  "fields_TPMPCREvent =
     [(''header'', T_msg PB_TPMHeader), (''pcr_handle'', T_uint32),
      (''sessions'', T_rep PB_TPMSession), (''eventData'', T_msg PB_TPM2BEvent)]"

definition fields_TPMPCRAllocate :: "(string \<times> pb_type) list" where
  "fields_TPMPCRAllocate =
     [(''header'', T_msg PB_TPMHeader), (''auth_handle'', T_enum E_TPMRH),
      (''sessions'', T_rep PB_TPMSession), (''pcr_allocation'', T_msg PB_TPMLPCRSelection)]"

definition fields_TPMNvDefineSpace :: "(string \<times> pb_type) list" where
  "fields_TPMNvDefineSpace =
     [(''header'', T_msg PB_TPMHeader), (''auth_handle'', T_uint32),
      (''sessions'', T_rep PB_TPMSession), (''auth'', T_msg PB_TPM2BData),
      (''nv_public'', T_msg PB_TPMNvPublic)]"

definition fields_TPMSetPrimaryPolicy :: "(string \<times> pb_type) list" where
  "fields_TPMSetPrimaryPolicy =
     [(''header'', T_msg PB_TPMHeader), (''auth_handle'', T_enum E_TPMRH),
      (''sessions'', T_rep PB_TPMSession), (''auth_policy'', T_msg PB_TPM2BDigest),
      (''hash_alg'', T_enum E_TPMALG)]"

definition fields_TPMLoad :: "(string \<times> pb_type) list" where
  "fields_TPMLoad =
     [(''header'', T_msg PB_TPMHeader), (''parent_handle'', T_uint32),
      (''sessions'', T_rep PB_TPMSession), (''in_private'', T_msg PB_TPM2BPrivate),
      (''in_public'', T_msg PB_TPM2BPublic)]"

definition fields_TPMMakeCredential :: "(string \<times> pb_type) list" where
  "fields_TPMMakeCredential =
     [(''header'', T_msg PB_TPMHeader), (''handle'', T_uint32),
      (''credential'', T_msg PB_TPM2BData), (''object_name'', T_msg PB_TPM2BData)]"

definition fields_TPMPCRSetAuthPolicy :: "(string \<times> pb_type) list" where
  "fields_TPMPCRSetAuthPolicy =
     [(''header'', T_msg PB_TPMHeader), (''auth_handle'', T_uint32),
      (''sessions'', T_rep PB_TPMSession), (''authPolicy'', T_msg PB_TPM2BDigest),
      (''hashAlg'', T_enum E_TPMALG), (''pcrNum'', T_uint32)]"

definition fields_TPMPCRRead :: "(string \<times> pb_type) list" where
  "fields_TPMPCRRead =
     [(''header'', T_msg PB_TPMHeader), (''pcrSelection'', T_msg PB_TPMLPCRSelection)]"

definition fields_TPMCommand :: "(string \<times> pb_type) list" where
  "fields_TPMCommand =
     [(''getrandom'', T_msg PB_TPMGetRandom), (''create'', T_msg PB_TPMCreate),
      (''createprimary'', T_msg PB_TPMCreatePrimary),
      (''startauthsession'', T_msg PB_TPMStartAuthSession),
      (''rsadecrypt'', T_msg PB_TPMRSADecrypt), (''clear'', T_msg PB_TPMClear),
      (''rsaencrypt'', T_msg PB_TPMRSAEncrypt), (''pcrevent'', T_msg PB_TPMPCREvent),
      (''pcrallocate'', T_msg PB_TPMPCRAllocate), (''nvdefinespace'', T_msg PB_TPMNvDefineSpace),
      (''setprimarypolicy'', T_msg PB_TPMSetPrimaryPolicy), (''load'', T_msg PB_TPMLoad),
      (''makecredential'', T_msg PB_TPMMakeCredential),
      (''pcrsetauthpolicy'', T_msg PB_TPMPCRSetAuthPolicy), (''pcrread'', T_msg PB_TPMPCRRead)]"

definition fields_TPMCommandSequence :: "(string \<times> pb_type) list" where
  "fields_TPMCommandSequence = [(''commands'', T_rep PB_TPMCommand)]"

primrec pb_schema :: "pb_class \<Rightarrow> (string \<times> pb_type) list" where
  "pb_schema PB_TPMHeader = fields_TPMHeader"
| "pb_schema PB_TPMSession = fields_TPMSession"
| "pb_schema PB_TPM2BData = fields_TPM2BData"
| "pb_schema PB_TPM2BDigest = fields_TPM2BDigest"
| "pb_schema PB_TPM2BEvent = fields_TPM2BEvent"
| "pb_schema PB_TPM2BPrivate = fields_TPM2BPrivate"
| "pb_schema PB_TPM2BPublicKeyRSA = fields_TPM2BPublicKeyRSA"
| "pb_schema PB_TPM2BAuth = fields_TPM2BAuth"
| "pb_schema PB_TPM2BSensitiveData = fields_TPM2BSensitiveData"
| "pb_schema PB_TPMSSensitiveCreate = fields_TPMSSensitiveCreate"
| "pb_schema PB_TPM2BSensitiveCreate = fields_TPM2BSensitiveCreate"
| "pb_schema PB_TPMSRSAParms = fields_TPMSRSAParms"
| "pb_schema PB_TPMSKeyedHashParms = fields_TPMSKeyedHashParms"
| "pb_schema PB_TPMUPublicParms = fields_TPMUPublicParms"
| "pb_schema PB_TPMUPublicId = fields_TPMUPublicId"
| "pb_schema PB_TPMTPublic = fields_TPMTPublic"
| "pb_schema PB_TPM2BPublic = fields_TPM2BPublic"
| "pb_schema PB_TPMSPCRSelection = fields_TPMSPCRSelection"
| "pb_schema PB_TPMLPCRSelection = fields_TPMLPCRSelection"
| "pb_schema PB_TPMTSymDef = fields_TPMTSymDef"
| "pb_schema PB_TPMTRSADecrypt = fields_TPMTRSADecrypt"
| "pb_schema PB_TPMNvPublic = fields_TPMNvPublic"
| "pb_schema PB_TPMGetRandom = fields_TPMGetRandom"
| "pb_schema PB_TPMCreate = fields_TPMCreate"
| "pb_schema PB_TPMCreatePrimary = fields_TPMCreatePrimary"
| "pb_schema PB_TPMStartAuthSession = fields_TPMStartAuthSession"
| "pb_schema PB_TPMRSADecrypt = fields_TPMRSADecrypt"
| "pb_schema PB_TPMClear = fields_TPMClear"
| "pb_schema PB_TPMRSAEncrypt = fields_TPMRSAEncrypt"
| "pb_schema PB_TPMPCREvent = fields_TPMPCREvent"
| "pb_schema PB_TPMPCRAllocate = fields_TPMPCRAllocate"
| "pb_schema PB_TPMNvDefineSpace = fields_TPMNvDefineSpace"
| "pb_schema PB_TPMSetPrimaryPolicy = fields_TPMSetPrimaryPolicy"
| "pb_schema PB_TPMLoad = fields_TPMLoad"
| "pb_schema PB_TPMMakeCredential = fields_TPMMakeCredential"
| "pb_schema PB_TPMPCRSetAuthPolicy = fields_TPMPCRSetAuthPolicy"
| "pb_schema PB_TPMPCRRead = fields_TPMPCRRead"
| "pb_schema PB_TPMCommand = fields_TPMCommand"
| "pb_schema PB_TPMCommandSequence = fields_TPMCommandSequence"

lemmas pb_fields [simp] =
  fields_TPMHeader_def
  fields_TPMSession_def
  fields_TPM2BData_def
  fields_TPM2BDigest_def
  fields_TPM2BEvent_def
  fields_TPM2BPrivate_def
  fields_TPM2BPublicKeyRSA_def
  fields_TPM2BAuth_def
  fields_TPM2BSensitiveData_def
  fields_TPMSSensitiveCreate_def
  fields_TPM2BSensitiveCreate_def
  fields_TPMSRSAParms_def
  fields_TPMSKeyedHashParms_def
  fields_TPMUPublicParms_def
  fields_TPMUPublicId_def
  fields_TPMTPublic_def
  fields_TPM2BPublic_def
  fields_TPMSPCRSelection_def
  fields_TPMLPCRSelection_def
  fields_TPMTSymDef_def
  fields_TPMTRSADecrypt_def
  fields_TPMNvPublic_def
  fields_TPMGetRandom_def
  fields_TPMCreate_def
  fields_TPMCreatePrimary_def
  fields_TPMStartAuthSession_def
  fields_TPMRSADecrypt_def
  fields_TPMClear_def
  fields_TPMRSAEncrypt_def
  fields_TPMPCREvent_def
  fields_TPMPCRAllocate_def
  fields_TPMNvDefineSpace_def
  fields_TPMSetPrimaryPolicy_def
  fields_TPMLoad_def
  fields_TPMMakeCredential_def
  fields_TPMPCRSetAuthPolicy_def
  fields_TPMPCRRead_def
  fields_TPMCommand_def
  fields_TPMCommandSequence_def

definition enum_names :: "pb_enum \<Rightarrow> (string \<times> int) list" where
  "enum_names e = (case e of E_TPMALG \<Rightarrow> TPMALG_names | E_TPMSE \<Rightarrow> TPMSE_names | _ \<Rightarrow> [])"

text \<open>
  The types a constructor accepts: a \<open>uint32\<close> in its range, an enum field any 32-bit integer
  (proto3 enums are open) or a declared name, bytes, a message of the field's class.
\<close>

fun value_ok :: "pb_type \<Rightarrow> pb_value \<Rightarrow> bool" where
  "value_ok T_uint32 (PbInt v) \<longleftrightarrow> 0 \<le> v \<and> v < 4294967296"
| "value_ok T_bytes (PbBytes _) \<longleftrightarrow> True"
| "value_ok (T_enum e) (PbInt v) \<longleftrightarrow> - 2147483648 \<le> v \<and> v < 2147483648"
| "value_ok (T_enum e) (PbName n) \<longleftrightarrow> n \<in> set (map fst (enum_names e))"
| "value_ok (T_msg c) (PbMsg m) \<longleftrightarrow> msg_class m = c"
| "value_ok (T_rep c) (PbList ms) \<longleftrightarrow> (\<forall>m\<in>set ms. msg_class m = c)"
| "value_ok _ _ \<longleftrightarrow> False"

definition kwargs_ok :: "pb_class \<Rightarrow> pb_kwargs \<Rightarrow> bool" where
  "kwargs_ok c kws \<longleftrightarrow>
     list_all (\<lambda>(f, v). case map_of (pb_schema c) f of None \<Rightarrow> False | Some t \<Rightarrow> value_ok t v) kws"

definition name_of :: "pb_enum \<Rightarrow> int \<Rightarrow> string option" where
  "name_of e v = map_option fst (find (\<lambda>(n, k). k = v) (enum_names e))"

record pb_runtime =
  pb_new :: "pb_class \<Rightarrow> pb_kwargs \<Rightarrow> pb_msg result"
  pb_name :: "pb_enum \<Rightarrow> int \<Rightarrow> string result"
  pb_text :: "pb_msg \<Rightarrow> string"

definition pb_laws :: "pb_runtime \<Rightarrow> bool" where
  "pb_laws rt \<longleftrightarrow>
     (\<forall>c kws. kwargs_ok c kws \<longrightarrow> pb_new rt c kws = Inr (Msg c kws)) \<and>
     (\<forall>e v. e = E_TPMALG \<or> e = E_TPMSE \<longrightarrow>
        pb_name rt e v = (case name_of e v of Some n \<Rightarrow> Inr n | None \<Rightarrow> Inl ValueError))"

text \<open>One runtime that keeps the laws, for evaluating the model on concrete inputs.\<close>

definition plain_runtime :: "(pb_msg \<Rightarrow> string) \<Rightarrow> pb_runtime" where
  "plain_runtime text =
     \<lparr>pb_new = (\<lambda>c kws. if kwargs_ok c kws then Inr (Msg c kws) else Inl ValueError),
      pb_name = (\<lambda>e v. case name_of e v of Some n \<Rightarrow> Inr n | None \<Rightarrow> Inl ValueError),
      pb_text = text\<rparr>"

lemma plain_runtime_laws: "pb_laws (plain_runtime text)"
  by (simp add: pb_laws_def plain_runtime_def)

named_theorems pb_simps \<open>building well-typed messages under the runtime's laws\<close>

lemma pb_new_ok [pb_simps]: "pb_laws rt \<Longrightarrow> kwargs_ok c kws \<Longrightarrow> pb_new rt c kws = Inr (Msg c kws)"
  by (simp add: pb_laws_def)

lemma kwargs_ok_simps [pb_simps]:
  "kwargs_ok c [] \<longleftrightarrow> True"
  "kwargs_ok c ((f, v) # kws) \<longleftrightarrow>
     (case map_of (pb_schema c) f of None \<Rightarrow> False | Some t \<Rightarrow> value_ok t v) \<and> kwargs_ok c kws"
  by (simp_all add: kwargs_ok_def)

lemma pb_name_alg: "pb_laws rt \<Longrightarrow>
    pb_name rt E_TPMALG v = (case name_of E_TPMALG v of Some n \<Rightarrow> Inr n | None \<Rightarrow> Inl ValueError)"
  by (simp add: pb_laws_def)

lemma pb_name_se: "pb_laws rt \<Longrightarrow>
    pb_name rt E_TPMSE v = (case name_of E_TPMSE v of Some n \<Rightarrow> Inr n | None \<Rightarrow> Inl ValueError)"
  by (simp add: pb_laws_def)

text \<open>A name that \<open>Name\<close> returned is accepted by an enum field of the same enum.\<close>

lemma name_of_declared: "name_of e v = Some n \<Longrightarrow> n \<in> set (map fst (enum_names e))"
  by (auto simp: name_of_def find_Some_iff intro: rev_image_eqI [OF nth_mem])

definition alg_name :: "TPM_ALG \<Rightarrow> string" where
  "alg_name a = the (name_of E_TPMALG (TPM_ALG_value a))"

lemma name_of_alg: "name_of E_TPMALG (TPM_ALG_value a) = Some (alg_name a)"
  by (cases a) (simp_all add: alg_name_def name_of_def enum_names_def TPMALG_names_def)

end
