(* ===== verification/Tpm_Command.thy ===== *)
theory Tpm_Command
  imports Tpm_Types Protobuf
begin

section \<open>The command base class\<close>

text \<open>
  \<open>class TPMCommand\<close> of \<open>tpm2_commands.py\<close>: the tag, command code and parameter bytes every
  command holds, its serialisation \<open>__bytes__\<close>, and the static methods that the \<open>to_proto\<close>
  methods share to read parameter bytes back. A subclass that overrides \<open>to_proto\<close> also keeps
  attributes of its own; \<open>cmd_self\<close> says which class the object is and holds them (\<open>Plain\<close> is a
  class that inherits the \<open>to_proto\<close> of the base, which returns \<open>None\<close>).
\<close>

datatype command_class =
    Plain
  | IsClear int int
  | IsSetPrimaryPolicy pb_msg
  | IsCreate
  | IsCreatePrimary
  | IsGetRandom
  | IsStartAuthSession
  | IsRSADecrypt int bytes TPMT_RSA_DECRYPT bytes int
  | IsPCRRead pb_msg
  | IsPCRAllocate TPML_PCR_SELECTION int int
  | IsNVDefineSpace
  | IsLoad pb_msg
  | IsRSAEncrypt int bytes TPMT_RSA_DECRYPT bytes
  | IsMakeCredential int bytes bytes
  | IsPCREvent pb_msg
  | IsPCRSetAuthPolicy pb_msg

record TPMCommand =
  cmd_tag :: int
  cmd_cc :: int
  cmd_params :: bytes
  cmd_self :: command_class

text \<open>\<open>super().__init__(st, cc, params)\<close>.\<close>

definition TPMCommand_init :: "int \<Rightarrow> int \<Rightarrow> bytes \<Rightarrow> command_class \<Rightarrow> TPMCommand" where
  "TPMCommand_init st cc params self =
     \<lparr>cmd_tag = st, cmd_cc = cc, cmd_params = params, cmd_self = self\<rparr>"

definition ST_LEN :: nat where "ST_LEN = 2"

definition CC_LEN :: nat where "CC_LEN = 4"

definition SIZE_LEN :: nat where "SIZE_LEN = 4"

definition command_size :: "TPMCommand \<Rightarrow> int" where
  "command_size self = int (ST_LEN + CC_LEN + SIZE_LEN + length (cmd_params self))"

definition command_bytes :: "TPMCommand \<Rightarrow> bytes result" where
  "command_bytes self =
     catE [to_bytes ST_LEN (cmd_tag self), to_bytes SIZE_LEN (command_size self),
           to_bytes CC_LEN (cmd_cc self), Inr (cmd_params self)]"

definition proto_header :: "pb_runtime \<Rightarrow> TPMCommand \<Rightarrow> pb_msg result" where
  "proto_header rt self =
     pb_new rt PB_TPMHeader
       [(''tag'', PbInt (cmd_tag self)), (''command_size'', PbInt (command_size self)),
        (''command_code'', PbInt (cmd_cc self))]"

definition parse_tpm2b :: "bytes \<Rightarrow> nat \<Rightarrow> bytes \<times> nat" where
  "parse_tpm2b buffer offset =
     (let size = from_bytes (py_slice buffer offset (offset + 2));
          end' = offset + 2 + nat size
      in (py_slice buffer offset end', end'))"

definition proto_tpm2b_data :: "pb_runtime \<Rightarrow> bytes \<Rightarrow> pb_msg result" where
  "proto_tpm2b_data rt data =
     pb_new rt PB_TPM2BData [(''size'', PbInt (int (length data))), (''buffer'', PbBytes data)]"

definition proto_sensitive_create :: "pb_runtime \<Rightarrow> bytes \<Rightarrow> pb_msg result" where
  "proto_sensitive_create rt payload =
     (let inner_size = from_bytes (py_slice payload 0 2);
          inner = py_slice payload 2 (2 + nat inner_size);
          user_auth_size = from_bytes (py_slice inner 0 2);
          user_auth = py_slice inner 2 (2 + nat user_auth_size);
          data_offset = 2 + nat user_auth_size;
          data_size = from_bytes (py_slice inner data_offset (data_offset + 2));
          sensitive_data = py_slice inner (data_offset + 2) (data_offset + 2 + nat data_size)
      in bindE (pb_new rt PB_TPM2BAuth
                  [(''size'', PbInt user_auth_size), (''buffer'', PbBytes user_auth)]) (\<lambda>ua.
         bindE (pb_new rt PB_TPM2BSensitiveData
                  [(''size'', PbInt data_size), (''buffer'', PbBytes sensitive_data)]) (\<lambda>d.
         bindE (pb_new rt PB_TPMSSensitiveCreate
                  [(''user_auth'', PbMsg ua), (''data'', PbMsg d)]) (\<lambda>s.
         pb_new rt PB_TPM2BSensitiveCreate
           [(''size'', PbInt inner_size), (''sensitive'', PbMsg s)]))))"

definition proto_public :: "pb_runtime \<Rightarrow> bytes \<Rightarrow> pb_msg result" where
  "proto_public rt payload =
     (let public = drop 2 payload;
          offset = 0;
          public_type = from_bytes (py_slice public offset (offset + 2)); offset = offset + 2;
          name_alg = from_bytes (py_slice public offset (offset + 2)); offset = offset + 2;
          object_attributes = from_bytes (py_slice public offset (offset + 4)); offset = offset + 4;
          auth_policy_size = from_bytes (py_slice public offset (offset + 2)); offset = offset + 2;
          auth_policy = py_slice public offset (offset + nat auth_policy_size);
          offset = offset + nat auth_policy_size
      in bindE
           (if public_type = TPM_ALG_value ALG_RSA then
              (let symmetric = from_bytes (py_slice public offset (offset + 2));
                   offset = (if symmetric = TPM_ALG_value ALG_NULL then offset + 2 else offset + 6);
                   scheme = from_bytes (py_slice public offset (offset + 2)); offset = offset + 2;
                   key_bits = from_bytes (py_slice public offset (offset + 2)); offset = offset + 2;
                   exponent = from_bytes (py_slice public offset (offset + 4)); offset = offset + 4;
                   (unique_bytes, offset) = parse_tpm2b public offset
               in bindE (pb_new rt PB_TPMSRSAParms
                           [(''symmetric'', PbInt symmetric), (''scheme'', PbInt scheme),
                            (''key_bits'', PbInt key_bits), (''exponent'', PbInt exponent)]) (\<lambda>rsa.
                  bindE (pb_new rt PB_TPMUPublicParms [(''rsa'', PbMsg rsa)]) (\<lambda>parameters.
                  bindE (pb_new rt PB_TPMUPublicId
                           [(''rsa'', PbBytes (drop 2 unique_bytes))]) (\<lambda>unique.
                  Inr (parameters, unique)))))
            else if public_type = TPM_ALG_value ALG_KEYEDHASH then
              (let scheme = from_bytes (py_slice public offset (offset + 2)); offset = offset + 2;
                   (unique_bytes, offset) = parse_tpm2b public offset
               in bindE (pb_new rt PB_TPMSKeyedHashParms [(''scheme'', PbInt scheme)]) (\<lambda>kh.
                  bindE (pb_new rt PB_TPMUPublicParms [(''keyedhash'', PbMsg kh)]) (\<lambda>parameters.
                  bindE (pb_new rt PB_TPM2BDigest
                           [(''size'', PbInt (int (length (drop 2 unique_bytes)))),
                            (''buffer'', PbBytes (drop 2 unique_bytes))]) (\<lambda>digest.
                  bindE (pb_new rt PB_TPMUPublicId [(''keyedhash'', PbMsg digest)]) (\<lambda>unique.
                  Inr (parameters, unique))))))
            else Inl NotImplementedError) (\<lambda>(parameters, unique).
         bindE (pb_new rt PB_TPM2BDigest
                  [(''size'', PbInt auth_policy_size), (''buffer'', PbBytes auth_policy)]) (\<lambda>policy.
         bindE (pb_new rt PB_TPMTPublic
                  [(''type'', PbInt public_type), (''name_alg'', PbInt name_alg),
                   (''object_attributes'', PbInt object_attributes),
                   (''auth_policy'', PbMsg policy), (''parameters'', PbMsg parameters),
                   (''unique'', PbMsg unique)]) (\<lambda>area.
         pb_new rt PB_TPM2BPublic
           [(''size'', PbInt (int (length public))), (''public_area'', PbMsg area)]))))"

text \<open>One iteration of the loop of \<open>_proto_pcr_selection\<close>: the entry and the next offset.\<close>

definition pcr_selection_at :: "pb_runtime \<Rightarrow> bytes \<Rightarrow> nat \<Rightarrow> (pb_msg \<times> nat) result" where
  "pcr_selection_at rt payload offset =
     (let hash_alg = from_bytes (py_slice payload offset (offset + 2)); offset = offset + 2
      in bindE (byte_at payload offset) (\<lambda>sizeof_select.
         let offset = offset + 1;
             pcr_select = py_slice payload offset (offset + nat sizeof_select);
             offset = offset + nat sizeof_select
         in bindE (pb_new rt PB_TPMSPCRSelection
                     [(''hash'', PbInt hash_alg), (''sizeof_select'', PbInt sizeof_select),
                      (''pcr_select'', PbBytes pcr_select)]) (\<lambda>sel.
            Inr (sel, offset))))"

primrec pcr_selections_loop ::
  "pb_runtime \<Rightarrow> bytes \<Rightarrow> nat \<Rightarrow> nat \<Rightarrow> (pb_msg list \<times> nat) result" where
  "pcr_selections_loop rt payload offset 0 = Inr ([], offset)"
| "pcr_selections_loop rt payload offset (Suc n) =
     bindE (pcr_selection_at rt payload offset) (\<lambda>(sel, offset).
     bindE (pcr_selections_loop rt payload offset n) (\<lambda>(sels, offset).
     Inr (sel # sels, offset)))"

definition proto_pcr_selection :: "pb_runtime \<Rightarrow> bytes \<Rightarrow> pb_msg result" where
  "proto_pcr_selection rt payload =
     (let count = from_bytes (py_slice payload 0 4)
      in bindE (pcr_selections_loop rt payload 4 (nat count)) (\<lambda>(selections, offset).
         pb_new rt PB_TPMLPCRSelection
           [(''count'', PbInt count), (''pcr_selections'', PbList selections)]))"

text \<open>One iteration of the loop of \<open>_proto_sessions\<close>.\<close>

definition session_at :: "pb_runtime \<Rightarrow> bytes \<Rightarrow> nat \<Rightarrow> (pb_msg \<times> nat) result" where
  "session_at rt auth_bytes session_offset =
     (let session_handle = from_bytes (py_slice auth_bytes session_offset (session_offset + 4));
          session_offset = session_offset + 4;
          nonce_size = from_bytes (py_slice auth_bytes session_offset (session_offset + 2));
          session_offset = session_offset + 2;
          nonce = py_slice auth_bytes session_offset (session_offset + nat nonce_size);
          session_offset = session_offset + nat nonce_size
      in bindE (byte_at auth_bytes session_offset) (\<lambda>session_attributes.
         let session_offset = session_offset + 1;
             hmac_size = from_bytes (py_slice auth_bytes session_offset (session_offset + 2));
             session_offset = session_offset + 2;
             hmac = py_slice auth_bytes session_offset (session_offset + nat hmac_size);
             session_offset = session_offset + nat hmac_size
         in bindE (pb_new rt PB_TPMSession
                     [(''session_handle'', PbInt session_handle), (''nonce_size'', PbInt nonce_size),
                      (''nonce'', PbBytes nonce), (''session_attributes'', PbInt session_attributes),
                      (''hmac_size'', PbInt hmac_size), (''hmac'', PbBytes hmac)]) (\<lambda>session.
            Inr (session, session_offset))))"

lemma session_at_advances: "session_at rt bs i = Inr (m, j) \<Longrightarrow> i < j"
  by (auto simp: session_at_def Let_def result_simps)

function sessions_loop :: "pb_runtime \<Rightarrow> bytes \<Rightarrow> nat \<Rightarrow> pb_msg list result" where
  "sessions_loop rt auth_bytes session_offset =
     (if session_offset < length auth_bytes then
        bindE (session_at rt auth_bytes session_offset) (\<lambda>(session, session_offset).
        bindE (sessions_loop rt auth_bytes session_offset) (\<lambda>sessions.
        Inr (session # sessions)))
      else Inr [])"
  by pat_completeness auto
termination
  by (relation "measure (\<lambda>(rt, bs, i). length bs - i)") (auto dest: session_at_advances)

declare sessions_loop.simps [simp del]

definition proto_sessions :: "pb_runtime \<Rightarrow> bytes \<Rightarrow> pb_msg list result" where
  "proto_sessions rt auth_bytes = sessions_loop rt auth_bytes 4"

end
