(* ===== verification/Byte_Parser.thy ===== *)
theory Byte_Parser
  imports Tpm_Command
begin

section \<open>The harness's command splitter\<close>

text \<open>
  \<open>parseCommands\<close> of \<open>src/parser/byte_parser.cc\<close>, the consumer of the byte seeds: it cuts a
  buffer into commands by the size field of each header. It returns \<open>false\<close> on a malformed
  buffer, with the commands found so far. Sizes and offsets are \<open>size_t\<close>; a buffer and a 32-bit
  length stay far below its range, so they are natural numbers here.
\<close>

definition frame_at :: "bytes \<Rightarrow> nat \<Rightarrow> (bytes \<times> nat) option" where
  "frame_at data offset =
     (if offset + 2 + 4 + 4 > length data then None
      else let len = nat (from_bytes (py_slice data (offset + 2) (offset + 2 + 4)))
           in if len < 2 + 4 + 4 then None
              else if offset + len > length data then None
              else Some (py_slice data offset (offset + len), offset + len))"

lemma frame_at_advances: "frame_at data offset = Some (c, next) \<Longrightarrow> offset < next"
  by (auto simp: frame_at_def Let_def split: if_splits)

function parse_from :: "bytes \<Rightarrow> nat \<Rightarrow> bytes list \<Rightarrow> bool \<times> bytes list" where
  "parse_from data offset commands =
     (if offset < length data then
        (case frame_at data offset of
           None \<Rightarrow> (False, commands)
         | Some (c, offset) \<Rightarrow> parse_from data offset (commands @ [c]))
      else (True, commands))"
  by pat_completeness auto
termination
  by (relation "measure (\<lambda>(data, offset, commands). length data - offset)")
    (auto dest: frame_at_advances)

declare parse_from.simps [simp del]

definition parseCommands :: "bytes \<Rightarrow> bool \<times> bytes list" where
  "parseCommands data = parse_from data 0 []"

text \<open>The accumulator only collects: the loop as a recursion that returns the rest.\<close>

lemma parse_from_acc: "parse_from data i acc = (fst (parse_from data i []), acc @ snd (parse_from data i []))"
proof (induction "length data - i" arbitrary: i acc rule: less_induct)
  case less
  show ?case
  proof (cases "i < length data \<and> frame_at data i \<noteq> None")
    case True
    then obtain c j where f: "frame_at data i = Some (c, j)" by auto
    then have "length data - j < length data - i" using frame_at_advances [OF f] True by auto
    from less [OF this, of "acc @ [c]"] less [OF this, of "[c]"] show ?thesis
      using True f by (simp add: parse_from.simps [of data i])
  next
    case False
    then show ?thesis by (cases "frame_at data i") (auto simp: parse_from.simps [of data i])
  qed
qed

text \<open>The splitter as a decoder: \<open>false\<close> is an error.\<close>

definition frame_dec :: "bytes \<Rightarrow> nat \<Rightarrow> (bytes \<times> nat) result" where
  "frame_dec data i = (case frame_at data i of None \<Rightarrow> Inl ValueError | Some r \<Rightarrow> Inr r)"

definition frame_drain :: "bytes \<Rightarrow> nat \<Rightarrow> bytes list result" where
  "frame_drain data i =
     (case parse_from data i [] of (ok, cs) \<Rightarrow> if ok then Inr cs else Inl ValueError)"

lemma frame_drain_step:
  assumes "i < length data"
  shows "frame_drain data i =
    bindE (frame_dec data i) (\<lambda>(c, j). bindE (frame_drain data j) (\<lambda>cs. Inr (c # cs)))"
proof (cases "frame_at data i")
  case None
  then show ?thesis using assms
    by (simp add: frame_drain_def frame_dec_def parse_from.simps [of data i])
next
  case (Some r)
  obtain c j where "r = (c, j)" by (cases r)
  with Some assms show ?thesis
    by (simp add: frame_drain_def frame_dec_def parse_from.simps [of data i]
        parse_from_acc [of data j "[c]"] split: prod.split)
qed

subsection \<open>A serialised command is one frame\<close>

definition command_layout :: "TPMCommand \<Rightarrow> bytes" where
  "command_layout c =
     be_bytes 2 (cmd_tag c) @ be_bytes 4 (command_size c) @ be_bytes 4 (cmd_cc c) @ cmd_params c"

lemma command_bytes_layout:
  "command_bytes c = Inr b \<longleftrightarrow>
     0 \<le> cmd_tag c \<and> cmd_tag c < 65536 \<and> length (cmd_params c) < 4294967286 \<and>
     0 \<le> cmd_cc c \<and> cmd_cc c < 4294967296 \<and> b = command_layout c"
  by (auto simp: command_bytes_def command_layout_def command_size_def ST_LEN_def SIZE_LEN_def
      CC_LEN_def result_simps)

lemma command_size_length: "command_size c = int (length (command_layout c))"
  by (simp add: command_layout_def command_size_def ST_LEN_def SIZE_LEN_def CC_LEN_def)

lemma frame_dec_command:
  assumes "command_bytes c = Inr b" "at_cursor bs i (b @ rest)"
  shows "frame_dec bs i = Inr (command_layout c, i + length b)"
proof -
  let ?n = "length (command_layout c)"
  from assms(1) have b: "b = command_layout c" and l: "?n < 4294967296"
    by (auto simp: command_bytes_layout command_layout_def)
  have n: "command_size c = int ?n" by (rule command_size_length)
  have c0: "at_cursor bs i (be_bytes 2 (cmd_tag c) @ be_bytes 4 (command_size c) @
      be_bytes 4 (cmd_cc c) @ cmd_params c @ rest)"
    using assms(2) by (simp add: b command_layout_def)
  have c1: "at_cursor bs (i + 2)
      (be_bytes 4 (command_size c) @ be_bytes 4 (cmd_cc c) @ cmd_params c @ rest)"
    by (rule at_cursor_skip [OF c0]) simp
  have len: "from_bytes (py_slice bs (i + 2) (i + 2 + 4)) = int ?n"
    using int_at_cursor [OF c1] l unfolding n by simp
  have whole: "py_slice bs i (i + ?n) = command_layout c"
    using slice_at_cursor_exact [OF assms(2)] b by simp
  have "10 \<le> ?n" by (simp add: command_layout_def)
  moreover have "i + ?n \<le> length bs" using at_cursor_length [OF assms(2)] b by simp
  ultimately show ?thesis
    by (simp only: frame_dec_def frame_at_def Let_def len whole nat_int) (simp add: b)
qed

interpretation frame: drained_codec
  command_bytes "\<lambda>_. True" frame_dec command_layout frame_drain
proof unfold_locales
  show "command_bytes x \<noteq> Inr []" for x
    by (auto simp: command_bytes_layout command_layout_def dest!: arg_cong [of _ _ length])
  show "length bs \<le> i \<Longrightarrow> frame_drain bs i = Inr []" for bs i
    by (simp add: frame_drain_def parse_from.simps)
qed (simp_all add: frame_dec_command frame_drain_step)

lemma parse_serialized:
  assumes "joinE command_bytes cs = Inr b"
  shows "parseCommands b = (True, map command_layout cs)"
proof -
  have "frame_drain b 0 = Inr (map command_layout cs)"
    using frame.drain_joined [OF assms] by simp
  then show ?thesis
    by (auto simp: frame_drain_def parseCommands_def split: prod.splits if_splits)
qed

end
