(* ===== verification/Cmd_Admin.thy ===== *)
theory Cmd_Admin
  imports Tpm_Command
begin

section \<open>Administration, random, capability and test commands\<close>

text \<open>
  The classes of \<open>tpm2_commands.py\<close> that neither create objects nor touch PCRs or NV indices:
  each \<open>__init__\<close> as a function from the constructor's arguments to the command, and the
  \<open>to_proto\<close> methods of those classes that have one. A method that returns the dictionary
  \<open>{key: message}\<close> returns the pair here.
\<close>

text \<open>The session every one-session command carries, as the message constructors write it.\<close>

definition password_session_msg :: "pb_runtime \<Rightarrow> int \<Rightarrow> pb_msg result" where
  "password_session_msg rt session_handle =
     pb_new rt PB_TPMSession
       [(''session_handle'', PbInt session_handle), (''nonce_size'', PbInt 0),
        (''nonce'', PbBytes []), (''session_attributes'', PbInt 0), (''hmac_size'', PbInt 0),
        (''hmac'', PbBytes [])]"

text \<open>Two commands leave the empty byte fields out.\<close>

definition short_session_msg :: "pb_runtime \<Rightarrow> int \<Rightarrow> pb_msg result" where
  "short_session_msg rt session_handle =
     pb_new rt PB_TPMSession
       [(''session_handle'', PbInt session_handle), (''nonce_size'', PbInt 0),
        (''session_attributes'', PbInt 0), (''hmac_size'', PbInt 0)]"

definition one_session_area :: "int \<Rightarrow> TPM_AUTH_AREA" where
  "one_session_area session_handle = \<lparr>auth_commands = [AUTH_COMMAND session_handle]\<rparr>"

lemma one_session_area_layout [layout]:
  "AUTH_AREA_to_bytes (one_session_area h) = Inr b \<longleftrightarrow>
     0 \<le> h \<and> h < 4294967296 \<and> b = one_session h"
  by (simp add: one_session_area_def one_session_layout)

subsection \<open>\<open>TPMClear\<close>\<close>

definition TPMClear :: "rh_arg \<Rightarrow> rs_arg \<Rightarrow> TPMCommand result" where
  "TPMClear auth_handle session_handle =
     (let auth_handle = rh_to_int auth_handle;
          session_handle_val = rs_to_int session_handle;
          auth_area = one_session_area session_handle_val
      in bindE (catE [to_bytes 4 auth_handle, AUTH_AREA_to_bytes auth_area]) (\<lambda>params.
         Inr (TPMCommand_init (TPM_ST TPM_ST_SESSIONS) (TPM_CC TPM_CC_CLEAR) params
                (IsClear auth_handle session_handle_val))))"

definition TPMClear_to_proto ::
  "pb_runtime \<Rightarrow> TPMCommand \<Rightarrow> int \<Rightarrow> int \<Rightarrow> (string \<times> pb_msg) result" where
  "TPMClear_to_proto rt self auth_handle session_handle_val =
     bindE (short_session_msg rt session_handle_val) (\<lambda>session.
     bindE (proto_header rt self) (\<lambda>header.
     bindE (pb_new rt PB_TPMClear
              [(''header'', PbMsg header), (''auth_handle'', PbInt auth_handle),
               (''sessions'', PbList [session])]) (\<lambda>m.
     Inr (''clear'', m))))"

subsection \<open>\<open>TPMSetPrimaryPolicy\<close>\<close>

text \<open>The message is built by the constructor and kept in \<open>self.proto\<close>.\<close>

definition TPMSetPrimaryPolicy ::
  "pb_runtime \<Rightarrow> rh_arg \<Rightarrow> bytes \<Rightarrow> alg_arg \<Rightarrow> rs_arg \<Rightarrow> TPMCommand result" where
  "TPMSetPrimaryPolicy rt auth_handle auth_policy hash_alg session_handle =
     (let auth_handle = rh_to_int auth_handle;
          hash_alg_val = alg_to_int hash_alg;
          session_handle_val = rs_to_int session_handle;
          auth_area = one_session_area session_handle_val
      in bindE (tpm2b_bytes auth_policy) (\<lambda>policy.
         bindE (catE [to_bytes 4 auth_handle, AUTH_AREA_to_bytes auth_area, Inr policy,
                      to_bytes 2 hash_alg_val]) (\<lambda>params.
         let base = TPMCommand_init (TPM_ST TPM_ST_SESSIONS) (TPM_CC TPM_CC_SET_PRIMARY_POLICY)
                      params Plain
         in bindE (password_session_msg rt session_handle_val) (\<lambda>session.
            bindE (proto_header rt base) (\<lambda>header.
            bindE (pb_new rt PB_TPM2BDigest
                     [(''size'', PbInt (int (length auth_policy))),
                      (''buffer'', PbBytes auth_policy)]) (\<lambda>digest.
            bindE (pb_new rt PB_TPMSetPrimaryPolicy
                     [(''header'', PbMsg header), (''auth_handle'', PbInt auth_handle),
                      (''sessions'', PbList [session]), (''auth_policy'', PbMsg digest),
                      (''hash_alg'', PbInt hash_alg_val)]) (\<lambda>proto.
            Inr (base\<lparr>cmd_self := IsSetPrimaryPolicy proto\<rparr>))))))))"

subsection \<open>Self test, random and test-data commands\<close>

definition TPMIncrementalSelfTest :: "TPM_ALG list \<Rightarrow> TPMCommand result" where
  "TPMIncrementalSelfTest algorithms =
     bindE (to_bytes 4 (int (length algorithms))) (\<lambda>count.
     bindE (joinE (\<lambda>a. to_bytes 2 (TPM_ALG_value a)) algorithms) (\<lambda>algIds.
     Inr (TPMCommand_init (TPM_ST TPM_ST_NO_SESSIONS) (TPM_CC TPM_CC_INCREMENTAL_SELF_TEST)
            (count @ algIds) Plain)))"

definition TPMStirRandom :: "bytes \<Rightarrow> TPMCommand result" where
  "TPMStirRandom data =
     bindE (tpm2b_bytes data) (\<lambda>params.
     Inr (TPMCommand_init (TPM_ST TPM_ST_NO_SESSIONS) (TPM_CC TPM_CC_STIR_RANDOM) params Plain))"

definition TPMVendorTCGTest :: "bytes \<Rightarrow> TPMCommand result" where
  "TPMVendorTCGTest data =
     bindE (tpm2b_bytes data) (\<lambda>params.
     Inr (TPMCommand_init (TPM_ST TPM_ST_NO_SESSIONS) (TPM_CC TPM_CC_VENDOR_TCG_TEST) params
            Plain))"

definition TPMGetRandom :: "int \<Rightarrow> TPMST \<Rightarrow> TPM_AUTH_AREA option \<Rightarrow> TPMCommand result" where
  "TPMGetRandom req_bytes st auth =
     (case auth of
        None \<Rightarrow>
          bindE (to_bytes 2 req_bytes) (\<lambda>params.
          Inr (TPMCommand_init (TPM_ST st) (TPM_CC TPM_CC_GET_RANDOM) params IsGetRandom))
      | Some auth \<Rightarrow>
          bindE (catE [AUTH_AREA_to_bytes auth, to_bytes 2 req_bytes]) (\<lambda>params.
          Inr (TPMCommand_init (TPM_ST st) (TPM_CC TPM_CC_GET_RANDOM) params IsGetRandom)))"

text \<open>\<open>self.params[-2:]\<close> is the whole string when it is shorter than two bytes.\<close>

definition TPMGetRandom_to_proto ::
  "pb_runtime \<Rightarrow> TPMCommand \<Rightarrow> (string \<times> pb_msg) result" where
  "TPMGetRandom_to_proto rt self =
     bindE (proto_header rt self) (\<lambda>header.
     bindE (pb_new rt PB_TPMGetRandom
              [(''header'', PbMsg header),
               (''bytes_requested'',
                PbInt (from_bytes (drop (length (cmd_params self) - 2) (cmd_params self))))]) (\<lambda>m.
     Inr (''getrandom'', m)))"

definition TPMGetCapability :: "TPM_CAP \<Rightarrow> int \<Rightarrow> int \<Rightarrow> TPMCommand result" where
  "TPMGetCapability capability property property_count =
     bindE (catE [to_bytes 4 (TPM_CAP_value capability), to_bytes 4 property,
                  to_bytes 4 property_count]) (\<lambda>params.
     Inr (TPMCommand_init (TPM_ST TPM_ST_NO_SESSIONS) (TPM_CC TPM_CC_GET_CAPABILITY) params Plain))"

definition TPMSelfTest :: "TPMI_YES_NO \<Rightarrow> TPMCommand result" where
  "TPMSelfTest full_test =
     bindE (to_bytes 1 (TPMI_YES_NO_value full_test)) (\<lambda>params.
     Inr (TPMCommand_init (TPM_ST TPM_ST_NO_SESSIONS) (TPM_CC TPM_CC_SELF_TEST) params Plain))"

definition TPMReadClock :: "TPMCommand result" where
  "TPMReadClock =
     Inr (TPMCommand_init (TPM_ST TPM_ST_NO_SESSIONS) (TPM_CC TPM_CC_READ_CLOCK) [] Plain)"

definition TPMHash :: "bytes \<Rightarrow> TPM_ALG \<Rightarrow> TPM_RH \<Rightarrow> TPMCommand result" where
  "TPMHash data hashAlg hierarchy =
     bindE (catE [to_bytes 2 (int (length data)), Inr data, to_bytes 2 (TPM_ALG_value hashAlg),
                  to_bytes 4 (TPM_RH_value hierarchy)]) (\<lambda>params.
     Inr (TPMCommand_init (TPM_ST TPM_ST_NO_SESSIONS) (TPM_CC TPM_CC_HASH) params Plain))"

definition TPMGetTestResult :: "TPMCommand result" where
  "TPMGetTestResult =
     Inr (TPMCommand_init (TPM_ST TPM_ST_NO_SESSIONS) (TPM_CC TPM_CC_GET_TEST_RESULT) [] Plain)"

datatype curve_arg = CurveInt int | CurveEnum TPM_ECC_CURVE

definition TPMECCParameters :: "curve_arg \<Rightarrow> TPMCommand result" where
  "TPMECCParameters curve =
     (let curve_value = (case curve of CurveEnum c \<Rightarrow> TPM_ECC_CURVE_value c | CurveInt n \<Rightarrow> n)
      in bindE (to_bytes 2 curve_value) (\<lambda>params.
         Inr (TPMCommand_init (TPM_ST TPM_ST_NO_SESSIONS) (TPM_CC TPM_CC_ECC_PARAMETERS) params
                Plain)))"

definition TPMTestParms :: "TPMT_PUBLIC_PARMS option \<Rightarrow> TPMCommand result" where
  "TPMTestParms params =
     (let params = (case params of Some p \<Rightarrow> p | None \<Rightarrow> PUBLIC_PARMS_default (AlgEnum ALG_RSA))
      in bindE (PUBLIC_PARMS_to_bytes params) (\<lambda>params.
         Inr (TPMCommand_init (TPM_ST TPM_ST_NO_SESSIONS) (TPM_CC TPM_CC_TEST_PARMS) params Plain)))"

subsection \<open>\<open>TPMStartAuthSession\<close>\<close>

definition default_nonce :: bytes where
  "default_nonce =
     [0xf6, 0x5c, 0xd5, 0x7f, 0x19, 0xff, 0xd9, 0xc8, 0xc9, 0x41, 0x64, 0xac, 0x84, 0xd1, 0xf9, 0xcd]"

definition null_symmetric :: TPMS_SYM_DEF_OBJECT where
  "null_symmetric =
     \<lparr>sym_algorithm = AlgEnum ALG_NULL, sym_key_bits = 0, sym_mode = AlgInt 0\<rparr>"

definition TPMStartAuthSession ::
  "rh_arg \<Rightarrow> rh_arg \<Rightarrow> bytes option \<Rightarrow> bytes option \<Rightarrow> TPMSE \<Rightarrow> TPMS_SYM_DEF_OBJECT \<Rightarrow> TPM_ALG
    \<Rightarrow> TPMCommand result" where
  "TPMStartAuthSession tpm_key bnd nonce salt session_type symmetric auth_hash =
     (let nonce = (case nonce of None \<Rightarrow> default_nonce | Some n \<Rightarrow> n)
      in bindE (case salt of None \<Rightarrow> to_bytes 2 0 | Some s \<Rightarrow> Inr s) (\<lambda>salt.
         bindE (catE [to_bytes 4 (rh_to_int tpm_key), to_bytes 4 (rh_to_int bnd),
                      to_bytes 2 (int (length nonce)), Inr nonce, Inr salt,
                      to_bytes 1 (TPM_SE session_type), SYM_DEF_to_bytes symmetric,
                      to_bytes 2 (TPM_ALG_value auth_hash)]) (\<lambda>params.
         Inr (TPMCommand_init (TPM_ST TPM_ST_NO_SESSIONS) (TPM_CC TPM_CC_START_AUTH_SESSION)
                params IsStartAuthSession))))"

definition TPMStartAuthSession_to_proto ::
  "pb_runtime \<Rightarrow> TPMCommand \<Rightarrow> (string \<times> pb_msg) result" where
  "TPMStartAuthSession_to_proto rt self =
     (let params = cmd_params self;
          tpm_key = from_bytes (py_slice params 0 4);
          bnd = from_bytes (py_slice params 4 8);
          nonce_size = from_bytes (py_slice params 8 10);
          nonce_start = 10;
          nonce_end = nonce_start + nat nonce_size;
          nonce = py_slice params nonce_start nonce_end;
          salt_size = from_bytes (py_slice params nonce_end (nonce_end + 2));
          salt_start = nonce_end + 2;
          salt_end = salt_start + nat salt_size;
          encrypted_salt = py_slice params salt_start salt_end
      in bindE (byte_at params salt_end) (\<lambda>session_type.
         let symmetric_alg = from_bytes (py_slice params (salt_end + 1) (salt_end + 3));
             (symmetric_key_bits, symmetric_mode, auth_hash_offset) =
               (if symmetric_alg \<noteq> TPM_ALG_value ALG_NULL
                then (from_bytes (py_slice params (salt_end + 3) (salt_end + 5)),
                      from_bytes (py_slice params (salt_end + 5) (salt_end + 7)), salt_end + 7)
                else (0, TPM_ALG_value ALG_NULL, salt_end + 3));
             auth_hash = from_bytes (py_slice params auth_hash_offset (auth_hash_offset + 2))
         in bindE (proto_header rt self) (\<lambda>header.
            bindE (proto_tpm2b_data rt nonce) (\<lambda>nonce_msg.
            bindE (proto_tpm2b_data rt encrypted_salt) (\<lambda>salt_msg.
            bindE (pb_name rt E_TPMSE session_type) (\<lambda>session_type_name.
            bindE (pb_name rt E_TPMALG symmetric_alg) (\<lambda>alg_nm.
            bindE (pb_name rt E_TPMALG symmetric_mode) (\<lambda>mode_name.
            bindE (pb_new rt PB_TPMTSymDef
                     [(''algorithm'', PbName alg_nm), (''key_bits'', PbInt symmetric_key_bits),
                      (''mode'', PbName mode_name)]) (\<lambda>symmetric.
            bindE (pb_name rt E_TPMALG auth_hash) (\<lambda>hash_name.
            bindE (pb_new rt PB_TPMStartAuthSession
                     [(''header'', PbMsg header), (''tpm_key'', PbInt tpm_key),
                      (''bind'', PbInt bnd), (''nonce'', PbMsg nonce_msg),
                      (''encrypted_salt'', PbMsg salt_msg),
                      (''session_type'', PbName session_type_name),
                      (''symmetric'', PbMsg symmetric), (''auth_hash'', PbName hash_name)]) (\<lambda>m.
            Inr (''startauthsession'', m))))))))))))"

end
