(* ===== verification/Cmd_Object.thy ===== *)
theory Cmd_Object
  imports Cmd_Admin
begin

section \<open>Object and key commands\<close>

text \<open>
  \<open>TPMCreate\<close>, \<open>TPMCreatePrimary\<close>, \<open>TPMLoad\<close>, \<open>TPMLoadExternal\<close>, \<open>TPMUnseal\<close>, \<open>TPMSign\<close>, the RSA
  commands and \<open>TPMMakeCredential\<close> of \<open>tpm2_commands.py\<close>.
\<close>

subsection \<open>\<open>TPMCreate\<close>\<close>

text \<open>\<open>object_attributes or [...]\<close>: \<open>None\<close>, \<open>0\<close> and the empty list give the default.\<close>

fun attrs_truthy :: "object_attrs \<Rightarrow> bool" where
  "attrs_truthy (AttrsInt n) \<longleftrightarrow> n \<noteq> 0"
| "attrs_truthy (AttrsOne a) \<longleftrightarrow> True"
| "attrs_truthy (AttrsList as) \<longleftrightarrow> as \<noteq> []"

definition attrs_or_default :: "object_attrs option \<Rightarrow> object_attrs" where
  "attrs_or_default oa =
     (case oa of None \<Rightarrow> default_object_attributes
      | Some a \<Rightarrow> if attrs_truthy a then a else default_object_attributes)"

definition create_template ::
  "TPM_ALG \<Rightarrow> TPM_ALG \<Rightarrow> int \<Rightarrow> object_attrs option \<Rightarrow> TPMS_RSA_PARMS option
    \<Rightarrow> TPMS_KEYEDHASH_PARMS option \<Rightarrow> TPM2B_PUBLIC" where
  "create_template hashAlg key_type keyBits object_attributes rsa_parameters keyedhash_scheme =
     \<lparr>public_area = (PUBLIC_default (AlgEnum key_type))
        \<lparr>pub_name_alg := AlgEnum hashAlg,
         pub_object_attributes := attrs_or_default object_attributes,
         pub_rsa_parameters := Some (case rsa_parameters of Some p \<Rightarrow> p
            | None \<Rightarrow> RSA_PARMS_default\<lparr>rsa_key_bits := keyBits\<rparr>),
         pub_keyedhash_scheme := keyedhash_scheme\<rparr>\<rparr>"

definition TPMCreate ::
  "int \<Rightarrow> rs_arg \<Rightarrow> TPM_ALG \<Rightarrow> TPM_ALG \<Rightarrow> int \<Rightarrow> object_attrs option \<Rightarrow> TPMS_RSA_PARMS option
    \<Rightarrow> TPMS_KEYEDHASH_PARMS option \<Rightarrow> bytes \<Rightarrow> TPMCommand result" where
  "TPMCreate parent_handle session_handle hashAlg key_type keyBits object_attributes
     rsa_parameters keyedhash_scheme sensitive_data =
     (let auth_area = one_session_area (rs_to_int session_handle);
          sens = \<lparr>sensitive = SENSITIVE_CREATE_default\<lparr>sens_data := sensitive_data\<rparr>\<rparr>;
          public_template = create_template hashAlg key_type keyBits object_attributes
            rsa_parameters keyedhash_scheme
      in bindE (catE [to_bytes 4 parent_handle, AUTH_AREA_to_bytes auth_area,
                      TPM2B_SENSITIVE_CREATE_to_bytes sens, TPM2B_PUBLIC_to_bytes public_template,
                      DATA_to_bytes DATA_default, TPML_PCR_SELECTION_to_bytes \<lparr>selections = []\<rparr>])
           (\<lambda>params.
         Inr (TPMCommand_init (TPM_ST TPM_ST_SESSIONS) (TPM_CC TPM_CC_CREATE) params IsCreate)))"

definition TPMCreate_to_proto :: "pb_runtime \<Rightarrow> TPMCommand \<Rightarrow> (string \<times> pb_msg) result" where
  "TPMCreate_to_proto rt self =
     (let params = cmd_params self;
          offset = 0;
          parent_handle = from_bytes (py_slice params offset (offset + 4)); offset = offset + 4;
          auth_size = from_bytes (py_slice params offset (offset + 4));
          auth_end = offset + 4 + nat auth_size; offset = auth_end;
          (in_sensitive, offset) = parse_tpm2b params offset;
          (in_public, offset) = parse_tpm2b params offset;
          (outside_info, offset) = parse_tpm2b params offset;
          creation_pcr = drop offset params
      in bindE (proto_header rt self) (\<lambda>header.
         bindE (proto_sensitive_create rt in_sensitive) (\<lambda>sens.
         bindE (proto_public rt in_public) (\<lambda>public.
         bindE (proto_tpm2b_data rt (drop 2 outside_info)) (\<lambda>info.
         bindE (proto_pcr_selection rt creation_pcr) (\<lambda>pcr.
         bindE (pb_new rt PB_TPMCreate
                  [(''header'', PbMsg header), (''parent_handle'', PbInt parent_handle),
                   (''in_sensitive'', PbMsg sens), (''in_public'', PbMsg public),
                   (''outside_info'', PbMsg info), (''creation_pcr'', PbMsg pcr)]) (\<lambda>m.
         Inr (''create'', m))))))))"

subsection \<open>\<open>TPMCreatePrimary\<close>\<close>

definition primary_template :: "TPM_ALG \<Rightarrow> int \<Rightarrow> TPM2B_PUBLIC" where
  "primary_template hashAlg keyBits =
     \<lparr>public_area = (PUBLIC_default (AlgEnum ALG_RSA))
        \<lparr>pub_name_alg := AlgEnum hashAlg,
         pub_rsa_parameters := Some (RSA_PARMS_default\<lparr>rsa_key_bits := keyBits\<rparr>)\<rparr>\<rparr>"

definition TPMCreatePrimary ::
  "rs_arg \<Rightarrow> TPM_ALG \<Rightarrow> int \<Rightarrow> rh_arg \<Rightarrow> TPM2B_PUBLIC option \<Rightarrow> TPMCommand result" where
  "TPMCreatePrimary session_handle hashAlg keyBits primary_handle public_template =
     (let session_handle = rs_to_int session_handle;
          primary_handle = rh_to_int primary_handle;
          auth = one_session_area session_handle;
          public_template = (case public_template of Some t \<Rightarrow> t
            | None \<Rightarrow> primary_template hashAlg keyBits)
      in bindE (catE [to_bytes 4 primary_handle, AUTH_AREA_to_bytes auth,
                      TPM2B_SENSITIVE_CREATE_to_bytes \<lparr>sensitive = SENSITIVE_CREATE_default\<rparr>,
                      TPM2B_PUBLIC_to_bytes public_template,
                      DATA_to_bytes DATA_default, TPML_PCR_SELECTION_to_bytes \<lparr>selections = []\<rparr>])
           (\<lambda>params.
         Inr (TPMCommand_init (TPM_ST TPM_ST_SESSIONS) (TPM_CC TPM_CC_CREATE_PRIMARY) params
                IsCreatePrimary)))"

definition TPMCreatePrimary_to_proto ::
  "pb_runtime \<Rightarrow> TPMCommand \<Rightarrow> (string \<times> pb_msg) result" where
  "TPMCreatePrimary_to_proto rt self =
     (let params = cmd_params self;
          offset = 0;
          hierarchy = from_bytes (py_slice params offset (offset + 4)); offset = offset + 4;
          (auth_bytes, offset) =
            (if cmd_tag self \<noteq> TPM_ST TPM_ST_NO_SESSIONS then
               (let auth_size = from_bytes (py_slice params offset (offset + 4));
                    auth_end = offset + 4 + nat auth_size
                in (Some (py_slice params offset auth_end), auth_end))
             else (None, offset))
      in bindE (case auth_bytes of None \<Rightarrow> Inr [] | Some bs \<Rightarrow> proto_sessions rt bs) (\<lambda>sessions.
         let (in_sensitive, offset) = parse_tpm2b params offset;
             (in_public, offset) = parse_tpm2b params offset;
             (outside_info, offset) = parse_tpm2b params offset;
             creation_pcr = drop offset params
         in bindE (proto_header rt self) (\<lambda>header.
            bindE (proto_sensitive_create rt in_sensitive) (\<lambda>sens.
            bindE (proto_public rt in_public) (\<lambda>public.
            bindE (proto_tpm2b_data rt (drop 2 outside_info)) (\<lambda>info.
            bindE (proto_pcr_selection rt creation_pcr) (\<lambda>pcr.
            bindE (pb_new rt PB_TPMCreatePrimary
                     [(''header'', PbMsg header), (''hierarchy'', PbInt hierarchy),
                      (''sessions'', PbList sessions), (''in_sensitive'', PbMsg sens),
                      (''in_public'', PbMsg public), (''outside_info'', PbMsg info),
                      (''creation_pcr'', PbMsg pcr)]) (\<lambda>m.
            Inr (''createprimary'', m)))))))))"

subsection \<open>Loading, unsealing and signing\<close>

definition TPMLoadExternal :: "TPM_ALG \<Rightarrow> int \<Rightarrow> TPM_RH \<Rightarrow> bool \<Rightarrow> TPMCommand result" where
  "TPMLoadExternal hash_alg key_bits hierarchy include_private =
     (let key_bytes = key_bits div 8
      in bindE (if include_private then
                  (let private_key = 0x80 # replicate (nat (key_bytes div 2 - 1)) 0x01
                   in SENSITIVE_to_bytes
                        \<lparr>sensitive_type = AlgEnum ALG_RSA, sensitive_auth_value = [],
                         sensitive_seed_value = [], sensitive_private_key = private_key\<rparr>)
                else to_bytes 2 0) (\<lambda>in_private.
         let public_key = 0x80 # replicate (nat (key_bytes - 1)) 0x01;
             area = (PUBLIC_default (AlgEnum ALG_RSA))
               \<lparr>pub_name_alg := AlgEnum hash_alg,
                pub_object_attributes := AttrsList [FIXEDTPM, USERWITHAUTH],
                pub_rsa_parameters := Some
                  \<lparr>rsa_symmetric = SYM_DEF_default\<lparr>sym_algorithm := AlgEnum ALG_NULL\<rparr>,
                   rsa_scheme = AlgEnum ALG_NULL, rsa_scheme_hash = None,
                   rsa_key_bits = key_bits, rsa_exponent = 0\<rparr>,
                pub_unique := public_key\<rparr>
         in bindE (TPM2B_PUBLIC_to_bytes \<lparr>public_area = area\<rparr>) (\<lambda>in_public.
            bindE (to_bytes 4 (TPM_RH_value hierarchy)) (\<lambda>hierarchy_bytes.
            Inr (TPMCommand_init (TPM_ST TPM_ST_NO_SESSIONS) (TPM_CC TPM_CC_LOAD_EXTERNAL)
                   (in_private @ in_public @ hierarchy_bytes) Plain)))))"

definition TPMLoad ::
  "pb_runtime \<Rightarrow> int \<Rightarrow> bytes \<Rightarrow> bytes \<Rightarrow> rs_arg \<Rightarrow> TPMCommand result" where
  "TPMLoad rt parent_handle in_private in_public session_handle =
     (let session_handle_val = rs_to_int session_handle;
          auth_area = one_session_area session_handle_val
      in bindE (password_session_msg rt session_handle_val) (\<lambda>session.
         bindE (catE [to_bytes 4 parent_handle, AUTH_AREA_to_bytes auth_area, Inr in_private,
                      Inr in_public]) (\<lambda>params.
         let base = TPMCommand_init (TPM_ST TPM_ST_SESSIONS) (TPM_CC TPM_CC_LOAD) params Plain
         in bindE (proto_header rt base) (\<lambda>header.
            bindE (pb_new rt PB_TPM2BPrivate
                     [(''size'', PbInt (int (length (drop 2 in_private)))),
                      (''buffer'', PbBytes (drop 2 in_private))]) (\<lambda>private.
            bindE (proto_public rt in_public) (\<lambda>public.
            bindE (pb_new rt PB_TPMLoad
                     [(''header'', PbMsg header), (''parent_handle'', PbInt parent_handle),
                      (''sessions'', PbList [session]), (''in_private'', PbMsg private),
                      (''in_public'', PbMsg public)]) (\<lambda>proto.
            Inr (base\<lparr>cmd_self := IsLoad proto\<rparr>))))))))"

definition TPMUnseal :: "int \<Rightarrow> rs_arg \<Rightarrow> TPMCommand result" where
  "TPMUnseal item_handle session_handle =
     (let auth_area = one_session_area (rs_to_int session_handle)
      in bindE (catE [to_bytes 4 item_handle, AUTH_AREA_to_bytes auth_area]) (\<lambda>params.
         Inr (TPMCommand_init (TPM_ST TPM_ST_SESSIONS) (TPM_CC TPM_CC_UNSEAL) params Plain)))"

definition TPMSign ::
  "int \<Rightarrow> bytes \<Rightarrow> TPMT_SIG_SCHEME \<Rightarrow> TPMT_TK_HASHCHECK \<Rightarrow> rs_arg \<Rightarrow> TPMCommand result" where
  "TPMSign key_handle digest in_scheme validation session_handle =
     (let auth_area = one_session_area (rs_to_int session_handle)
      in bindE (tpm2b_bytes digest) (\<lambda>digest_bytes.
         bindE (catE [to_bytes 4 key_handle, AUTH_AREA_to_bytes auth_area, Inr digest_bytes,
                      SIG_SCHEME_to_bytes in_scheme, TK_HASHCHECK_to_bytes validation]) (\<lambda>params.
         Inr (TPMCommand_init (TPM_ST TPM_ST_SESSIONS) (TPM_CC TPM_CC_SIGN) params Plain))))"

subsection \<open>RSA decryption and encryption\<close>

definition TPMRSADecrypt ::
  "int \<Rightarrow> bytes \<Rightarrow> TPMT_RSA_DECRYPT \<Rightarrow> bytes \<Rightarrow> rs_arg \<Rightarrow> TPMCommand result" where
  "TPMRSADecrypt key_handle cipher_text in_scheme label session_handle =
     (let session_handle_val = rs_to_int session_handle;
          auth_area = one_session_area session_handle_val
      in bindE (tpm2b_bytes cipher_text) (\<lambda>cipher_bytes.
         bindE (tpm2b_bytes label) (\<lambda>label_bytes.
         bindE (catE [to_bytes 4 key_handle, AUTH_AREA_to_bytes auth_area, Inr cipher_bytes,
                      RSA_DECRYPT_to_bytes in_scheme, Inr label_bytes]) (\<lambda>params.
         Inr (TPMCommand_init (TPM_ST TPM_ST_SESSIONS) (TPM_CC TPM_CC_RSA_DECRYPT) params
                (IsRSADecrypt key_handle cipher_text in_scheme label session_handle_val))))))"

text \<open>The scheme message: an absent hash algorithm is written as \<open>0\<close>.\<close>

definition rsa_scheme_msg :: "pb_runtime \<Rightarrow> TPMT_RSA_DECRYPT \<Rightarrow> pb_msg result" where
  "rsa_scheme_msg rt in_scheme =
     (let scheme_val = alg_to_int (rdec_scheme in_scheme);
          hash_alg_val = (case rdec_hash_alg in_scheme of None \<Rightarrow> 0 | Some h \<Rightarrow> alg_to_int h)
      in pb_new rt PB_TPMTRSADecrypt
           [(''scheme'', PbInt scheme_val), (''hash_alg'', PbInt hash_alg_val)])"

definition key_buffer_msg :: "pb_runtime \<Rightarrow> bytes \<Rightarrow> pb_msg result" where
  "key_buffer_msg rt b =
     pb_new rt PB_TPM2BPublicKeyRSA [(''size'', PbInt (int (length b))), (''buffer'', PbBytes b)]"

definition TPMRSADecrypt_to_proto ::
  "pb_runtime \<Rightarrow> TPMCommand \<Rightarrow> int \<Rightarrow> bytes \<Rightarrow> TPMT_RSA_DECRYPT \<Rightarrow> bytes \<Rightarrow> int
    \<Rightarrow> (string \<times> pb_msg) result" where
  "TPMRSADecrypt_to_proto rt self key_handle cipher_text in_scheme label session_handle_val =
     bindE (short_session_msg rt session_handle_val) (\<lambda>session.
     bindE (proto_header rt self) (\<lambda>header.
     bindE (key_buffer_msg rt cipher_text) (\<lambda>cipher.
     bindE (rsa_scheme_msg rt in_scheme) (\<lambda>scheme.
     bindE (proto_tpm2b_data rt label) (\<lambda>label_msg.
     bindE (pb_new rt PB_TPMRSADecrypt
              [(''header'', PbMsg header), (''key_handle'', PbInt key_handle),
               (''sessions'', PbList [session]), (''cipher_text'', PbMsg cipher),
               (''in_scheme'', PbMsg scheme), (''label'', PbMsg label_msg)]) (\<lambda>m.
     Inr (''rsadecrypt'', m)))))))"

definition TPMRSAEncrypt ::
  "int \<Rightarrow> bytes \<Rightarrow> TPMT_RSA_DECRYPT \<Rightarrow> bytes \<Rightarrow> TPMCommand result" where
  "TPMRSAEncrypt key_handle message in_scheme label =
     bindE (tpm2b_bytes message) (\<lambda>msg.
     bindE (tpm2b_bytes label) (\<lambda>label_bytes.
     bindE (catE [to_bytes 4 key_handle, Inr msg, RSA_DECRYPT_to_bytes in_scheme,
                  Inr label_bytes]) (\<lambda>params.
     Inr (TPMCommand_init (TPM_ST TPM_ST_NO_SESSIONS) (TPM_CC TPM_CC_RSA_ENCRYPT) params
            (IsRSAEncrypt key_handle message in_scheme label)))))"

definition TPMRSAEncrypt_to_proto ::
  "pb_runtime \<Rightarrow> TPMCommand \<Rightarrow> int \<Rightarrow> bytes \<Rightarrow> TPMT_RSA_DECRYPT \<Rightarrow> bytes
    \<Rightarrow> (string \<times> pb_msg) result" where
  "TPMRSAEncrypt_to_proto rt self key_handle message in_scheme label =
     bindE (proto_header rt self) (\<lambda>header.
     bindE (key_buffer_msg rt message) (\<lambda>msg.
     bindE (rsa_scheme_msg rt in_scheme) (\<lambda>scheme.
     bindE (proto_tpm2b_data rt label) (\<lambda>label_msg.
     bindE (pb_new rt PB_TPMRSAEncrypt
              [(''header'', PbMsg header), (''key_handle'', PbInt key_handle),
               (''message'', PbMsg msg), (''in_scheme'', PbMsg scheme),
               (''label'', PbMsg label_msg)]) (\<lambda>m.
     Inr (''rsaencrypt'', m))))))"

definition TPMMakeCredential :: "int \<Rightarrow> bytes \<Rightarrow> bytes \<Rightarrow> TPMCommand result" where
  "TPMMakeCredential handle credential object_name =
     bindE (catE [to_bytes 4 handle, to_bytes 2 (int (length credential)), Inr credential,
                  to_bytes 2 (int (length object_name)), Inr object_name]) (\<lambda>params.
     Inr (TPMCommand_init (TPM_ST TPM_ST_NO_SESSIONS) (TPM_CC TPM_CC_MAKE_CREDENTIAL) params
            (IsMakeCredential handle credential object_name)))"

definition TPMMakeCredential_to_proto ::
  "pb_runtime \<Rightarrow> TPMCommand \<Rightarrow> int \<Rightarrow> bytes \<Rightarrow> bytes \<Rightarrow> (string \<times> pb_msg) result" where
  "TPMMakeCredential_to_proto rt self handle credential object_name =
     bindE (proto_header rt self) (\<lambda>header.
     bindE (proto_tpm2b_data rt credential) (\<lambda>cred.
     bindE (proto_tpm2b_data rt object_name) (\<lambda>name_msg.
     bindE (pb_new rt PB_TPMMakeCredential
              [(''header'', PbMsg header), (''handle'', PbInt handle),
               (''credential'', PbMsg cred), (''object_name'', PbMsg name_msg)]) (\<lambda>m.
     Inr (''makecredential'', m)))))"

end
