(* ===== verification/Cmd_Pcr.thy ===== *)
theory Cmd_Pcr
  imports Cmd_Admin
begin

section \<open>PCR commands\<close>

text \<open>The six PCR classes of \<open>tpm2_commands.py\<close>, with the \<open>to_proto\<close> of those that have one.\<close>

text \<open>The selection list as \<open>TPMPCRRead\<close> writes it, from the objects and not from their bytes.\<close>

definition pcr_selection_list_msg :: "pb_runtime \<Rightarrow> TPML_PCR_SELECTION \<Rightarrow> pb_msg result" where
  "pcr_selection_list_msg rt pcr_selection =
     bindE (mapE (\<lambda>sel. pb_new rt PB_TPMSPCRSelection
                    [(''hash'', PbInt (alg_to_int (pcr_hash sel))),
                     (''sizeof_select'', PbInt (int (length (pcr_select sel)))),
                     (''pcr_select'', PbBytes (pcr_select sel))]) (selections pcr_selection)) (\<lambda>sels.
     pb_new rt PB_TPMLPCRSelection
       [(''count'', PbInt (int (length (selections pcr_selection)))),
        (''pcr_selections'', PbList sels)])"

definition TPMPCRRead :: "pb_runtime \<Rightarrow> TPML_PCR_SELECTION \<Rightarrow> TPMCommand result" where
  "TPMPCRRead rt pcr_selection =
     bindE (TPML_PCR_SELECTION_to_bytes pcr_selection) (\<lambda>params.
     let base = TPMCommand_init (TPM_ST TPM_ST_NO_SESSIONS) (TPM_CC TPM_CC_PCR_READ) params Plain
     in bindE (proto_header rt base) (\<lambda>header.
        bindE (pcr_selection_list_msg rt pcr_selection) (\<lambda>sel.
        bindE (pb_new rt PB_TPMPCRRead
                 [(''header'', PbMsg header), (''pcrSelection'', PbMsg sel)]) (\<lambda>proto.
        Inr (base\<lparr>cmd_self := IsPCRRead proto\<rparr>)))))"

definition TPMPCRAllocate ::
  "TPML_PCR_SELECTION \<Rightarrow> rh_arg \<Rightarrow> rs_arg \<Rightarrow> TPMCommand result" where
  "TPMPCRAllocate pcr_allocation auth_handle session_handle =
     (let auth_handle = rh_to_int auth_handle;
          session_handle_val = rs_to_int session_handle;
          auth_area = one_session_area session_handle_val
      in bindE (catE [to_bytes 4 auth_handle, AUTH_AREA_to_bytes auth_area,
                      TPML_PCR_SELECTION_to_bytes pcr_allocation]) (\<lambda>params.
         Inr (TPMCommand_init (TPM_ST TPM_ST_SESSIONS) (TPM_CC TPM_CC_PCR_ALLOCATE) params
                (IsPCRAllocate pcr_allocation auth_handle session_handle_val))))"

definition TPMPCRAllocate_to_proto ::
  "pb_runtime \<Rightarrow> TPMCommand \<Rightarrow> TPML_PCR_SELECTION \<Rightarrow> int \<Rightarrow> int \<Rightarrow> (string \<times> pb_msg) result" where
  "TPMPCRAllocate_to_proto rt self pcr_allocation auth_handle session_handle_val =
     bindE (short_session_msg rt session_handle_val) (\<lambda>session.
     bindE (proto_header rt self) (\<lambda>header.
     bindE (TPML_PCR_SELECTION_to_bytes pcr_allocation) (\<lambda>payload.
     bindE (proto_pcr_selection rt payload) (\<lambda>alloc.
     bindE (pb_new rt PB_TPMPCRAllocate
              [(''header'', PbMsg header), (''auth_handle'', PbInt auth_handle),
               (''sessions'', PbList [session]), (''pcr_allocation'', PbMsg alloc)]) (\<lambda>m.
     Inr (''pcrallocate'', m))))))"

definition TPMPCRExtend :: "rh_arg \<Rightarrow> TPML_DIGEST_VALUES \<Rightarrow> rs_arg \<Rightarrow> TPMCommand result" where
  "TPMPCRExtend pcr_handle ds session_handle =
     (let pcr_handle = rh_to_int pcr_handle;
          auth_area = one_session_area (rs_to_int session_handle)
      in bindE (catE [to_bytes 4 pcr_handle, AUTH_AREA_to_bytes auth_area,
                      DIGEST_VALUES_to_bytes ds]) (\<lambda>params.
         Inr (TPMCommand_init (TPM_ST TPM_ST_SESSIONS) (TPM_CC TPM_CC_PCR_EXTEND) params Plain)))"

definition TPMPCRReset :: "int \<Rightarrow> rs_arg \<Rightarrow> TPMCommand result" where
  "TPMPCRReset pcr_handle session_handle =
     (let auth_area = one_session_area (rs_to_int session_handle)
      in bindE (catE [to_bytes 4 pcr_handle, AUTH_AREA_to_bytes auth_area]) (\<lambda>params.
         Inr (TPMCommand_init (TPM_ST TPM_ST_SESSIONS) (TPM_CC TPM_CC_PCR_RESET) params Plain)))"

definition TPMPCREvent :: "pb_runtime \<Rightarrow> int \<Rightarrow> bytes \<Rightarrow> int \<Rightarrow> TPMCommand result" where
  "TPMPCREvent rt pcr_handle event_data session_handle =
     (let auth_area = one_session_area session_handle
      in bindE (password_session_msg rt session_handle) (\<lambda>session.
         let event_size = int (length event_data)
         in bindE (catE [to_bytes 2 event_size, Inr event_data]) (\<lambda>event.
            bindE (catE [to_bytes 4 pcr_handle, AUTH_AREA_to_bytes auth_area, Inr event]) (\<lambda>params.
            let base = TPMCommand_init (TPM_ST TPM_ST_SESSIONS) (TPM_CC TPM_CC_PCR_EVENT) params
                         Plain
            in bindE (proto_header rt base) (\<lambda>header.
               bindE (pb_new rt PB_TPM2BEvent
                        [(''size'', PbInt event_size), (''buffer'', PbBytes event_data)]) (\<lambda>ev.
               bindE (pb_new rt PB_TPMPCREvent
                        [(''header'', PbMsg header), (''pcr_handle'', PbInt pcr_handle),
                         (''sessions'', PbList [session]), (''eventData'', PbMsg ev)]) (\<lambda>proto.
               Inr (base\<lparr>cmd_self := IsPCREvent proto\<rparr>))))))))"

definition TPMPCRSetAuthPolicy ::
  "pb_runtime \<Rightarrow> int \<Rightarrow> bytes \<Rightarrow> alg_arg \<Rightarrow> int \<Rightarrow> int \<Rightarrow> TPMCommand result" where
  "TPMPCRSetAuthPolicy rt auth_handle auth_policy hash_alg pcr_num session_handle =
     (let hash_alg = alg_to_int hash_alg;
          auth_area = one_session_area session_handle
      in bindE (password_session_msg rt session_handle) (\<lambda>session.
         bindE (tpm2b_bytes auth_policy) (\<lambda>digest.
         bindE (catE [to_bytes 4 auth_handle, AUTH_AREA_to_bytes auth_area, Inr digest,
                      to_bytes 2 hash_alg, to_bytes 4 pcr_num]) (\<lambda>params.
         let base = TPMCommand_init (TPM_ST TPM_ST_SESSIONS) (TPM_CC TPM_CC_PCR_SET_AUTH_POLICY)
                      params Plain
         in bindE (proto_header rt base) (\<lambda>header.
            bindE (pb_new rt PB_TPM2BDigest
                     [(''size'', PbInt (int (length auth_policy))),
                      (''buffer'', PbBytes auth_policy)]) (\<lambda>policy.
            bindE (pb_new rt PB_TPMPCRSetAuthPolicy
                     [(''header'', PbMsg header), (''auth_handle'', PbInt auth_handle),
                      (''sessions'', PbList [session]), (''authPolicy'', PbMsg policy),
                      (''hashAlg'', PbInt hash_alg), (''pcrNum'', PbInt pcr_num)]) (\<lambda>proto.
            Inr (base\<lparr>cmd_self := IsPCRSetAuthPolicy proto\<rparr>))))))))"

end
