(* ===== verification/Cmd_Nv.thy ===== *)
theory Cmd_Nv
  imports Cmd_Admin
begin

section \<open>NV storage commands\<close>

text \<open>The NV classes of \<open>tpm2_commands.py\<close>, with the \<open>to_proto\<close> of \<open>TPMNVDefineSpace\<close>.\<close>

definition TPMNVDefineSpace ::
  "int \<Rightarrow> nv_attrs \<Rightarrow> int \<Rightarrow> TPM_RH \<Rightarrow> int \<Rightarrow> TPMCommand result" where
  "TPMNVDefineSpace nv_idx attributes session_handle hierarchy data_size =
     (let auth_area = one_session_area session_handle;
          nv_public = \<lparr>public_info = \<lparr>nv_index = nv_idx, nv_name_alg = AlgEnum ALG_SHA256,
            nv_attributes = attributes, nv_auth_policy = [], nv_data_size = data_size\<rparr>\<rparr>
      in bindE (catE [to_bytes 4 (TPM_RH_value hierarchy), AUTH_AREA_to_bytes auth_area,
                      DATA_to_bytes DATA_default, TPM2B_NV_PUBLIC_to_bytes nv_public]) (\<lambda>params.
         Inr (TPMCommand_init (TPM_ST TPM_ST_SESSIONS) (TPM_CC TPM_CC_NV_DEFINE_SPACE) params
                IsNVDefineSpace)))"

text \<open>The defaults of the constructor's keyword arguments.\<close>

definition nv_index_default :: int where
  "nv_index_default = push_bit 24 (TPM_HT_value HT_NV_INDEX)"

definition nv_attributes_default :: nv_attrs where
  "nv_attributes_default = NvList [NV_AUTHREAD, NV_AUTHWRITE]"

definition TPMNVDefineSpace_to_proto ::
  "pb_runtime \<Rightarrow> TPMCommand \<Rightarrow> (string \<times> pb_msg) result" where
  "TPMNVDefineSpace_to_proto rt self =
     (let params = cmd_params self;
          offset = 0;
          auth_handle = from_bytes (py_slice params offset (offset + 4)); offset = offset + 4;
          (auth_bytes, offset) =
            (if cmd_tag self \<noteq> TPM_ST TPM_ST_NO_SESSIONS then
               (let auth_size = from_bytes (py_slice params offset (offset + 4));
                    auth_end = offset + 4 + nat auth_size
                in (Some (py_slice params offset auth_end), auth_end))
             else (None, offset))
      in bindE (case auth_bytes of None \<Rightarrow> Inr [] | Some bs \<Rightarrow> proto_sessions rt bs) (\<lambda>sessions.
         let (auth_value, offset) = parse_tpm2b params offset;
             (nv_outer, offset) = parse_tpm2b params offset;
             nv_inner = drop 2 nv_outer;
             inner = 0;
             nv_idx = from_bytes (py_slice nv_inner inner (inner + 4)); inner = inner + 4;
             name_alg = from_bytes (py_slice nv_inner inner (inner + 2)); inner = inner + 2;
             attrs = from_bytes (py_slice nv_inner inner (inner + 4)); inner = inner + 4;
             policy_size = from_bytes (py_slice nv_inner inner (inner + 2)); inner = inner + 2;
             auth_policy = py_slice nv_inner inner (inner + nat policy_size);
             inner = inner + nat policy_size;
             data_size = from_bytes (py_slice nv_inner inner (inner + 2))
         in bindE (proto_header rt self) (\<lambda>header.
            bindE (proto_tpm2b_data rt (drop 2 auth_value)) (\<lambda>auth.
            bindE (pb_name rt E_TPMALG name_alg) (\<lambda>alg_nm.
            bindE (pb_new rt PB_TPMNvPublic
                     [(''nv_index'', PbInt nv_idx), (''name_alg'', PbName alg_nm),
                      (''attributes'', PbInt attrs), (''auth_policy'', PbBytes auth_policy),
                      (''data_size'', PbInt data_size)]) (\<lambda>nv_public.
            bindE (pb_new rt PB_TPMNvDefineSpace
                     [(''header'', PbMsg header), (''auth_handle'', PbInt auth_handle),
                      (''sessions'', PbList sessions), (''auth'', PbMsg auth),
                      (''nv_public'', PbMsg nv_public)]) (\<lambda>m.
            Inr (''nvdefinespace'', m))))))))"

definition TPMNVUndefineSpace :: "int \<Rightarrow> TPM_RH \<Rightarrow> int \<Rightarrow> TPMCommand result" where
  "TPMNVUndefineSpace nv_idx hierarchy session_handle =
     (let auth_area = one_session_area session_handle
      in bindE (catE [to_bytes 4 (TPM_RH_value hierarchy), to_bytes 4 nv_idx,
                      AUTH_AREA_to_bytes auth_area]) (\<lambda>params.
         Inr (TPMCommand_init (TPM_ST TPM_ST_SESSIONS) (TPM_CC TPM_CC_NV_UNDEFINE_SPACE) params
                Plain)))"

definition TPMNVWriteLock :: "int \<Rightarrow> rh_arg \<Rightarrow> int \<Rightarrow> TPMCommand result" where
  "TPMNVWriteLock nv_idx auth_handle session_handle =
     (let auth_area = one_session_area session_handle;
          auth_handle = rh_to_int auth_handle
      in bindE (catE [to_bytes 4 auth_handle, to_bytes 4 nv_idx, AUTH_AREA_to_bytes auth_area])
           (\<lambda>params.
         Inr (TPMCommand_init (TPM_ST TPM_ST_SESSIONS) (TPM_CC TPM_CC_NV_WRITE_LOCK) params Plain)))"

definition TPMNVReadLock :: "int \<Rightarrow> rh_arg \<Rightarrow> int \<Rightarrow> TPMCommand result" where
  "TPMNVReadLock nv_idx auth_handle session_handle =
     (let auth_area = one_session_area session_handle;
          auth_handle = rh_to_int auth_handle
      in bindE (catE [to_bytes 4 auth_handle, to_bytes 4 nv_idx, AUTH_AREA_to_bytes auth_area])
           (\<lambda>params.
         Inr (TPMCommand_init (TPM_ST TPM_ST_SESSIONS) (TPM_CC TPM_CC_NV_READ_LOCK) params Plain)))"

datatype ht_arg = HtInt int | HtEnum TPM_HT

fun ht_to_int :: "ht_arg \<Rightarrow> int" where
  "ht_to_int (HtEnum h) = TPM_HT_value h"
| "ht_to_int (HtInt n) = n"

definition TPMNVWrite ::
  "ht_arg \<Rightarrow> bytes \<Rightarrow> int \<Rightarrow> rh_arg option \<Rightarrow> rs_arg \<Rightarrow> TPMCommand result" where
  "TPMNVWrite nv_idx data offset auth_handle session_handle =
     (let session_handle_val = rs_to_int session_handle;
          nv_index_val = ht_to_int nv_idx;
          auth_handle_val = (case auth_handle of None \<Rightarrow> nv_index_val | Some h \<Rightarrow> rh_to_int h);
          auth_area = one_session_area session_handle_val
      in bindE (tpm2b_bytes data) (\<lambda>data_2b.
         bindE (catE [to_bytes 4 auth_handle_val, to_bytes 4 nv_index_val,
                      AUTH_AREA_to_bytes auth_area, Inr data_2b, to_bytes 2 offset]) (\<lambda>params.
         Inr (TPMCommand_init (TPM_ST TPM_ST_SESSIONS) (TPM_CC TPM_CC_NV_WRITE) params Plain))))"

definition TPMNVRead :: "int \<Rightarrow> int \<Rightarrow> int \<Rightarrow> rh_arg \<Rightarrow> int \<Rightarrow> TPMCommand result" where
  "TPMNVRead nv_idx sz offset auth_handle session_handle =
     (let auth_area = one_session_area session_handle;
          auth_handle = rh_to_int auth_handle
      in bindE (catE [to_bytes 4 auth_handle, to_bytes 4 nv_idx, AUTH_AREA_to_bytes auth_area,
                      to_bytes 2 sz, to_bytes 2 offset]) (\<lambda>params.
         Inr (TPMCommand_init (TPM_ST TPM_ST_SESSIONS) (TPM_CC TPM_CC_NV_READ) params Plain)))"

definition TPMNVExtend :: "int \<Rightarrow> bytes \<Rightarrow> rh_arg option \<Rightarrow> rs_arg \<Rightarrow> TPMCommand result" where
  "TPMNVExtend nv_idx data auth_handle session_handle =
     (let session_handle_val = rs_to_int session_handle;
          auth_handle_val = (case auth_handle of None \<Rightarrow> nv_idx | Some h \<Rightarrow> rh_to_int h);
          auth_area = one_session_area session_handle_val
      in bindE (tpm2b_bytes data) (\<lambda>data_2b.
         bindE (catE [to_bytes 4 auth_handle_val, to_bytes 4 nv_idx,
                      AUTH_AREA_to_bytes auth_area, Inr data_2b]) (\<lambda>params.
         Inr (TPMCommand_init (TPM_ST TPM_ST_SESSIONS) (TPM_CC TPM_CC_NV_EXTEND) params Plain))))"

definition TPMNVSetBits :: "int \<Rightarrow> int \<Rightarrow> rh_arg \<Rightarrow> int \<Rightarrow> TPMCommand result" where
  "TPMNVSetBits nv_idx bits auth_handle session_handle =
     (let auth_area = one_session_area session_handle;
          auth_handle = rh_to_int auth_handle
      in bindE (catE [to_bytes 4 auth_handle, to_bytes 4 nv_idx, AUTH_AREA_to_bytes auth_area,
                      to_bytes 8 bits]) (\<lambda>params.
         Inr (TPMCommand_init (TPM_ST TPM_ST_SESSIONS) (TPM_CC TPM_CC_NV_SET_BITS) params Plain)))"

end
