(* ===== verification/To_Proto.thy ===== *)
theory To_Proto
  imports Cmd_Object Cmd_Pcr Cmd_Nv
begin

section \<open>\<open>to_proto\<close> by dynamic dispatch\<close>

text \<open>
  \<open>command.to_proto()\<close> runs the method of the object's class: the base class's \<open>None\<close>, a message
  kept by the constructor, or one of the methods above.
\<close>

definition to_proto :: "pb_runtime \<Rightarrow> TPMCommand \<Rightarrow> (string \<times> pb_msg) option result" where
  "to_proto rt self =
     (case cmd_self self of
        Plain \<Rightarrow> Inr None
      | IsClear auth sh \<Rightarrow> bindE (TPMClear_to_proto rt self auth sh) (Inr \<circ> Some)
      | IsSetPrimaryPolicy proto \<Rightarrow> Inr (Some (''setprimarypolicy'', proto))
      | IsCreate \<Rightarrow> bindE (TPMCreate_to_proto rt self) (Inr \<circ> Some)
      | IsCreatePrimary \<Rightarrow> bindE (TPMCreatePrimary_to_proto rt self) (Inr \<circ> Some)
      | IsGetRandom \<Rightarrow> bindE (TPMGetRandom_to_proto rt self) (Inr \<circ> Some)
      | IsStartAuthSession \<Rightarrow> bindE (TPMStartAuthSession_to_proto rt self) (Inr \<circ> Some)
      | IsRSADecrypt kh ct sc lb sh \<Rightarrow>
          bindE (TPMRSADecrypt_to_proto rt self kh ct sc lb sh) (Inr \<circ> Some)
      | IsPCRRead proto \<Rightarrow> Inr (Some (''pcrread'', proto))
      | IsPCRAllocate al ah sh \<Rightarrow> bindE (TPMPCRAllocate_to_proto rt self al ah sh) (Inr \<circ> Some)
      | IsNVDefineSpace \<Rightarrow> bindE (TPMNVDefineSpace_to_proto rt self) (Inr \<circ> Some)
      | IsLoad proto \<Rightarrow> Inr (Some (''load'', proto))
      | IsRSAEncrypt kh ms sc lb \<Rightarrow>
          bindE (TPMRSAEncrypt_to_proto rt self kh ms sc lb) (Inr \<circ> Some)
      | IsMakeCredential h cr nm \<Rightarrow>
          bindE (TPMMakeCredential_to_proto rt self h cr nm) (Inr \<circ> Some)
      | IsPCREvent proto \<Rightarrow> Inr (Some (''pcrevent'', proto))
      | IsPCRSetAuthPolicy proto \<Rightarrow> Inr (Some (''pcrsetauthpolicy'', proto)))"

end
