(* ===== verification/Seed_Files.thy ===== *)
theory Seed_Files
  imports Tpm_Command Byte_Parser To_Proto "HOL-Library.Sublist" "HOL-Library.List_Lexorder"
    "HOL-Library.Char_ord"
begin

section \<open>Writing the corpus\<close>

text \<open>
  The file-writing half of \<open>main.py\<close>: \<open>_serialize_sequence\<close>, \<open>_serialize_proto_sequence\<close>,
  \<open>_create_variant\<close> with its local \<open>request_section\<close>, \<open>_normalize_variants\<close>, \<open>_run_commands\<close> and
  \<open>_generate_seeds\<close>.

  A directory maps file names to contents. What the operating system adds is a parameter
  (\<open>os_env\<close>): the order in which \<open>os.listdir\<close> returns the names (\<open>os_laws\<close>: exactly the names that
  are there), and the output of the test script on a file, or the error of
  \<open>subprocess.run(..., check=True)\<close>. A step returns its result and the directory it leaves, since
  an exception does not undo the writes before it. What is printed is not modelled, but the
  decoding and the regular expression that the printed diff needs are, because they raise.
\<close>

type_synonym directory = "string \<rightharpoonup> bytes"

record os_env =
  os_listdir :: "directory \<Rightarrow> string list"
  test_script :: "string \<Rightarrow> bytes \<Rightarrow> string result"

definition os_laws :: "os_env \<Rightarrow> bool" where
  "os_laws env \<longleftrightarrow> (\<forall>dir. finite (dom dir) \<longrightarrow> set (os_listdir env dir) = dom dir)"

definition sorted_env :: "(string \<Rightarrow> bytes \<Rightarrow> string result) \<Rightarrow> os_env" where
  "sorted_env script =
     \<lparr>os_listdir = (\<lambda>dir. sorted_list_of_set (dom dir)), test_script = script\<rparr>"

lemma sorted_env_laws: "os_laws (sorted_env script)"
  by (simp add: os_laws_def sorted_env_def)

subsection \<open>Text\<close>

text \<open>
  Text is a list of characters up to \<open>U+00FF\<close>. \<open>str.encode("utf-8")\<close> writes one byte for ASCII and
  two for the rest; \<open>bytes.decode("utf-8")\<close> raises unless the bytes are well-formed UTF-8.
\<close>

definition utf8_char :: "char \<Rightarrow> bytes" where
  "utf8_char c =
     (let n = of_char c :: int
      in if n < 0x80 then [word_of_int n]
         else [word_of_int (0xC0 + n div 64), word_of_int (0x80 + n mod 64)])"

definition utf8_encode :: "string \<Rightarrow> bytes" where
  "utf8_encode s = concat (map utf8_char s)"

definition continuation :: "byte \<Rightarrow> bool" where
  "continuation b \<longleftrightarrow> 0x80 \<le> uint b \<and> uint b < 0xC0"

fun utf8_valid :: "bytes \<Rightarrow> bool" where
  "utf8_valid [] \<longleftrightarrow> True"
| "utf8_valid (a # bs) \<longleftrightarrow>
     (if uint a < 0x80 then utf8_valid bs
      else case bs of [] \<Rightarrow> False
      | b # cs \<Rightarrow>
          if 0xC2 \<le> uint a \<and> uint a < 0xE0 then continuation b \<and> utf8_valid cs
          else case cs of [] \<Rightarrow> False
          | c # ds \<Rightarrow>
              if 0xE0 \<le> uint a \<and> uint a < 0xF0 then
                continuation b \<and> continuation c \<and> (uint a = 0xE0 \<longrightarrow> 0xA0 \<le> uint b) \<and>
                (uint a = 0xED \<longrightarrow> uint b < 0xA0) \<and> utf8_valid ds
              else case ds of [] \<Rightarrow> False
              | d # es \<Rightarrow>
                  0xF0 \<le> uint a \<and> uint a < 0xF5 \<and>
                  continuation b \<and> continuation c \<and> continuation d \<and>
                  (uint a = 0xF0 \<longrightarrow> 0x90 \<le> uint b) \<and> (uint a = 0xF4 \<longrightarrow> uint b < 0x90) \<and>
                  utf8_valid es)"

lemma utf8_valid_encoded: "utf8_valid (utf8_encode s)"
proof (induction s)
  case (Cons c s)
  have n: "(of_char c :: int) < 256" "0 \<le> (of_char c :: int)"
    using nat_of_char_less_256 [of c] of_nat_of_char [of c, where 'a = int] by linarith+
  show ?case
  proof (cases "(of_char c :: int) < 128")
    case True
    then show ?thesis using Cons n by (simp add: utf8_encode_def utf8_char_def uint_word_of_int)
  next
    case False
    define q m where "q = (of_char c :: int) div 64" and "m = (of_char c :: int) mod 64"
    have "2 \<le> q" "q < 4" "0 \<le> m" "m < 64" using n False by (simp_all add: q_def m_def)
    then have u: "uint (word_of_int (0xC0 + q) :: byte) = 0xC0 + q"
      "uint (word_of_int (0x80 + m) :: byte) = 0x80 + m"
      by (simp_all only: uint_word_of_int) simp_all
    have "utf8_char c = [word_of_int (0xC0 + q), word_of_int (0x80 + m)]"
      using False by (simp add: utf8_char_def Let_def q_def m_def)
    then show ?thesis using Cons u \<open>2 \<le> q\<close> \<open>q < 4\<close> \<open>0 \<le> m\<close> \<open>m < 64\<close>
      by (simp add: utf8_encode_def continuation_def del: of_int_add)
  qed
qed (simp add: utf8_encode_def)

text \<open>
  \<open>request_section\<close>: the first match of
  \<open>=+\n\s*REQUEST\s*\n=+\n(.*?)(?==+\n\s*RESPONSE\s*\n=+)\<close>. Every repetition but the lazy one has
  only one way to match, since what follows it cannot start with a character it repeats, so
  \<open>banner\<close> needs no backtracking; the lazy one stops at the first \<open>RESPONSE\<close> banner.
\<close>

definition is_space :: "char \<Rightarrow> bool" where
  "is_space c \<longleftrightarrow>
     (let n = of_char c :: nat in 9 \<le> n \<and> n \<le> 13 \<or> 28 \<le> n \<and> n \<le> 32 \<or> n = 133 \<or> n = 160)"

definition is_eq :: "char \<Rightarrow> bool" where "is_eq c \<longleftrightarrow> c = CHR ''=''"

text \<open>\<open>=+\n\s*word\s*\n=+\<close> at the front: what is left after the first line of \<open>=\<close> that follows.\<close>

definition banner :: "string \<Rightarrow> string \<Rightarrow> string option" where
  "banner word s =
     (let r1 = dropWhile is_eq s
      in if \<not> (s \<noteq> [] \<and> is_eq (hd s)) \<or> take 1 r1 \<noteq> ''\<newline>'' then None
         else let r2 = dropWhile is_space (drop 1 r1)
              in if \<not> prefix word r2 then None
                 else let r3 = drop (length word) r2;
                          gap = takeWhile is_space r3;
                          r4 = drop (length gap) r3
                      in if gap = [] \<or> last gap \<noteq> CHR 0x0A \<or> r4 = [] \<or> \<not> is_eq (hd r4) then None
                         else Some (dropWhile is_eq r4))"

definition request_banner :: "string \<Rightarrow> string option" where
  "request_banner s =
     (case banner ''REQUEST'' s of None \<Rightarrow> None
      | Some r \<Rightarrow> if take 1 r = ''\<newline>'' then Some (drop 1 r) else None)"

fun before_response :: "string \<Rightarrow> string option" where
  "before_response s =
     (if banner ''RESPONSE'' s \<noteq> None then Some []
      else case s of [] \<Rightarrow> None | c # cs \<Rightarrow> map_option (Cons c) (before_response cs))"

declare before_response.simps [simp del]

definition request_at :: "string \<Rightarrow> string option" where
  "request_at s =
     (case request_banner s of None \<Rightarrow> None
      | Some body \<Rightarrow>
          map_option (\<lambda>b. take (length s - length body) s @ b) (before_response body))"

primrec request_search :: "string \<Rightarrow> string option" where
  "request_search [] = None"
| "request_search (c # cs) =
     (case request_at (c # cs) of None \<Rightarrow> request_search cs | Some m \<Rightarrow> Some m)"

definition rstrip :: "string \<Rightarrow> string" where
  "rstrip s = rev (dropWhile is_space (rev s))"

definition request_section :: "string \<Rightarrow> string result" where
  "request_section input =
     (case request_search input of None \<Rightarrow> Inl ValueError | Some m \<Rightarrow> Inr (rstrip m))"

subsection \<open>\<open>_create_variant\<close>\<close>

definition script_on :: "os_env \<Rightarrow> directory \<Rightarrow> string \<Rightarrow> string result" where
  "script_on env dir path =
     (case dir path of None \<Rightarrow> Inl FileNotFoundError | Some b \<Rightarrow> test_script env path b)"

definition decode_utf8 :: "bytes \<Rightarrow> unit result" where
  "decode_utf8 b = (if utf8_valid b then Inr () else Inl UnicodeDecodeError)"

definition create_variant ::
  "os_env \<Rightarrow> string \<Rightarrow> string \<Rightarrow> directory \<Rightarrow> bytes \<Rightarrow> bool \<Rightarrow> bool \<Rightarrow> unit result \<times> directory" where
  "create_variant env name timestamp dir content force proto =
     (let existing_items = filter (prefix (name @ ''-'')) (os_listdir env dir)
      in if length existing_items > 0 then
           (let out = hd existing_items
            in case dir out of
                 None \<Rightarrow> (Inl FileNotFoundError, dir)
               | Some data \<Rightarrow>
                   if data \<noteq> content \<and> force then
                     (let current = name @ ''-'' @ timestamp;
                          dir = dir(current \<mapsto> content);
                          diff =
                            (if \<not> proto then
                               bindE (bindE (script_on env dir out) request_section) (\<lambda>actual.
                               bindE (bindE (script_on env dir current) request_section) (\<lambda>expected.
                               Inr ()))
                             else bindE (decode_utf8 data) (\<lambda>_. decode_utf8 content))
                      in case diff of Inl e \<Rightarrow> (Inl e, dir) | Inr _ \<Rightarrow> (Inr (), dir(out := None)))
                   else (Inr (), dir))
         else (Inr (), dir(name @ ''-'' @ timestamp \<mapsto> content)))"

subsection \<open>Sequences\<close>

definition serialize_sequence :: "TPMCommand list \<Rightarrow> bytes result" where
  "serialize_sequence commands = joinE command_bytes commands"

primrec proto_commands_loop :: "pb_runtime \<Rightarrow> TPMCommand list \<Rightarrow> pb_msg list option result" where
  "proto_commands_loop rt [] = Inr (Some [])"
| "proto_commands_loop rt (command # commands) =
     bindE (to_proto rt command) (\<lambda>proto_payload.
       case proto_payload of
         None \<Rightarrow> Inr None
       | Some (key, m) \<Rightarrow>
           bindE (pb_new rt PB_TPMCommand [(key, PbMsg m)]) (\<lambda>proto_command.
           bindE (proto_commands_loop rt commands) (\<lambda>rest.
           Inr (map_option (Cons proto_command) rest))))"

definition serialize_proto_sequence :: "pb_runtime \<Rightarrow> TPMCommand list \<Rightarrow> bytes option result" where
  "serialize_proto_sequence rt commands =
     bindE (proto_commands_loop rt commands) (\<lambda>proto_commands.
       case proto_commands of
         None \<Rightarrow> Inr None
       | Some ms \<Rightarrow>
           bindE (pb_new rt PB_TPMCommandSequence [(''commands'', PbList ms)]) (\<lambda>sequence.
           Inr (Some (utf8_encode (pb_text rt sequence)))))"

text \<open>\<open>SeedDefinition\<close> and \<open>_normalize_variants\<close>.\<close>

datatype seed_definition =
    SeedFunction "unit \<Rightarrow> TPMCommand list list result"
  | SeedCommand TPMCommand
  | SeedVariants "TPMCommand list list"

primrec normalize_variants :: "seed_definition \<Rightarrow> TPMCommand list list result" where
  "normalize_variants (SeedCommand command) = Inr [[command]]"
| "normalize_variants (SeedFunction f) = f ()"
| "normalize_variants (SeedVariants vs) = Inr vs"

subsection \<open>\<open>_run_commands\<close> and \<open>_generate_seeds\<close>\<close>

record corpus =
  byte_dir :: directory
  proto_dir :: directory

fun decimal :: "nat \<Rightarrow> string" where
  "decimal n = (if n < 10 then [char_of (48 + n)] else decimal (n div 10) @ [char_of (48 + n mod 10)])"

declare decimal.simps [simp del]

definition variant_name :: "string \<Rightarrow> nat \<Rightarrow> string" where
  "variant_name cmd i = cmd @ ''-variant'' @ decimal i"

text \<open>Statement after statement: stop at the first exception, keep what was written.\<close>

definition then_io :: "unit result \<times> 's \<Rightarrow> ('s \<Rightarrow> unit result \<times> 's) \<Rightarrow> unit result \<times> 's" where
  "then_io r f = (case r of (Inl e, s) \<Rightarrow> (Inl e, s) | (Inr _, s) \<Rightarrow> f s)"

definition write_bytes ::
  "os_env \<Rightarrow> string \<Rightarrow> string \<Rightarrow> bool \<Rightarrow> TPMCommand list \<Rightarrow> corpus \<Rightarrow> unit result \<times> corpus" where
  "write_bytes env name timestamp force sequence s =
     (case serialize_sequence sequence of
        Inl e \<Rightarrow> (Inl e, s)
      | Inr content \<Rightarrow>
          (case create_variant env name timestamp (byte_dir s) content force False of
             (r, dir) \<Rightarrow> (r, s\<lparr>byte_dir := dir\<rparr>)))"

definition write_proto ::
  "pb_runtime \<Rightarrow> os_env \<Rightarrow> string \<Rightarrow> string \<Rightarrow> bool \<Rightarrow> TPMCommand list \<Rightarrow> corpus \<Rightarrow> unit result \<times> corpus" where
  "write_proto rt env name timestamp force sequence s =
     (case serialize_proto_sequence rt sequence of
        Inl e \<Rightarrow> (Inl e, s)
      | Inr None \<Rightarrow> (Inr (), s)
      | Inr (Some content) \<Rightarrow>
          (case create_variant env name timestamp (proto_dir s) content force True of
             (r, dir) \<Rightarrow> (r, s\<lparr>proto_dir := dir\<rparr>)))"

primrec run_variants ::
  "pb_runtime \<Rightarrow> os_env \<Rightarrow> string \<Rightarrow> string \<Rightarrow> bool \<Rightarrow> nat \<Rightarrow> TPMCommand list list \<Rightarrow> corpus
    \<Rightarrow> unit result \<times> corpus" where
  "run_variants rt env cmd timestamp force i [] s = (Inr (), s)"
| "run_variants rt env cmd timestamp force i (sequence # rest) s =
     then_io (write_bytes env (variant_name cmd i) timestamp force sequence s) (\<lambda>s.
     then_io (write_proto rt env (variant_name cmd i) timestamp force sequence s) (\<lambda>s.
     run_variants rt env cmd timestamp force (Suc i) rest s))"

definition run_commands ::
  "pb_runtime \<Rightarrow> os_env \<Rightarrow> string \<Rightarrow> seed_definition \<Rightarrow> string \<Rightarrow> bool \<Rightarrow> corpus
    \<Rightarrow> unit result \<times> corpus" where
  "run_commands rt env cmd command timestamp force s =
     (case normalize_variants command of
        Inl e \<Rightarrow> (Inl e, s)
      | Inr variants \<Rightarrow> run_variants rt env cmd timestamp force 0 variants s)"

primrec generate_seeds ::
  "pb_runtime \<Rightarrow> os_env \<Rightarrow> bool \<Rightarrow> (string \<times> seed_definition) list \<Rightarrow> string \<Rightarrow> corpus
    \<Rightarrow> unit result \<times> corpus" where
  "generate_seeds rt env recreate [] timestamp s = (Inr (), s)"
| "generate_seeds rt env recreate (seed # seeds) timestamp s =
     then_io (run_commands rt env (fst seed) (snd seed) timestamp recreate s) (\<lambda>s.
     generate_seeds rt env recreate seeds timestamp s)"

end
