(* ===== verification/Corpus_Props.thy ===== *)
theory Corpus_Props
  imports Seed_Files
begin

section \<open>What a run of the generator does to the corpus\<close>

text \<open>
  A run is a sequence of \<open>_create_variant\<close> calls. The locale \<open>corpus_relation\<close> is the contract of
  such a call that a statement about whole runs needs: a preorder on corpora that every call
  respects. It is interpreted twice: for "files are kept" and for "new byte files are
  serialised variants".
\<close>

text \<open>\<open>content\<close> is what a seed table asks to be written under \<open>name\<close>.\<close>

definition seed_content :: "(string \<times> seed_definition) list \<Rightarrow> string \<Rightarrow> bytes \<Rightarrow> bool" where
  "seed_content seeds name content \<longleftrightarrow>
     (\<exists>cmd def vs i. (cmd, def) \<in> set seeds \<and> normalize_variants def = Inr vs \<and> i < length vs \<and>
        name = variant_name cmd i \<and> serialize_sequence (vs ! i) = Inr content)"

lemma then_io_snd:
  assumes "R s (snd r)" "\<And>t. R t (snd (f t))" "\<And>s t u. R s t \<Longrightarrow> R t u \<Longrightarrow> R s u"
  shows "R s (snd (then_io r f))"
  using assms by (cases r) (auto simp: then_io_def split: sum.split)

locale corpus_relation =
  fixes R :: "corpus \<Rightarrow> corpus \<Rightarrow> bool"
    and env :: os_env and timestamp :: string and force :: bool
    and J :: "string \<Rightarrow> bytes \<Rightarrow> bool"
  assumes refl: "R s s"
    and trans: "R s t \<Longrightarrow> R t u \<Longrightarrow> R s u"
    and byte_step: "J name content \<Longrightarrow>
      R s (s\<lparr>byte_dir := snd (create_variant env name timestamp (byte_dir s) content force False)\<rparr>)"
    and proto_step:
      "R s (s\<lparr>proto_dir := snd (create_variant env name timestamp (proto_dir s) content force True)\<rparr>)"
begin

lemma write_bytes_step:
  assumes "\<And>b. serialize_sequence sequence = Inr b \<Longrightarrow> J name b"
  shows "R s (snd (write_bytes env name timestamp force sequence s))"
proof (cases "serialize_sequence sequence")
  case (Inr b)
  then show ?thesis using byte_step [OF assms, of b s]
    by (simp add: write_bytes_def case_prod_beta)
qed (simp add: write_bytes_def refl)

lemma write_proto_step: "R s (snd (write_proto rt env name timestamp force sequence s))"
proof (cases "serialize_proto_sequence rt sequence")
  case (Inr m)
  then show ?thesis using proto_step [of s name "the m"]
    by (cases m) (simp_all add: write_proto_def refl case_prod_beta)
qed (simp add: write_proto_def refl)

lemma run_variants_step:
  assumes "\<And>k b. k < length vs \<Longrightarrow> serialize_sequence (vs ! k) = Inr b \<Longrightarrow> J (variant_name cmd (i + k)) b"
  shows "R s (snd (run_variants rt env cmd timestamp force i vs s))"
  using assms
proof (induction vs arbitrary: i s)
  case (Cons v vs)
  have rest: "R t (snd (run_variants rt env cmd timestamp force (Suc i) vs t))" for t
    by (rule Cons.IH) (use Cons.prems [of "Suc k" for k] in simp)
  have first: "R t (snd (write_bytes env (variant_name cmd i) timestamp force v t))" for t
    by (rule write_bytes_step) (use Cons.prems [of 0] in simp)
  have mid: "R t (snd (then_io (write_proto rt env (variant_name cmd i) timestamp force v t)
      (run_variants rt env cmd timestamp force (Suc i) vs)))" for t
    by (rule then_io_snd [where R = R, OF write_proto_step rest trans])
  show ?case
    by (simp only: run_variants.simps) (rule then_io_snd [where R = R, OF first mid trans])
qed (simp add: refl)

lemma generate_step:
  assumes "\<And>name b. seed_content seeds name b \<Longrightarrow> J name b"
  shows "R s (snd (generate_seeds rt env force seeds timestamp s))"
  using assms
proof (induction seeds arbitrary: s)
  case (Cons seed seeds)
  have rest: "R t (snd (generate_seeds rt env force seeds timestamp t))" for t
    by (rule Cons.IH) (use Cons.prems in \<open>fastforce simp: seed_content_def\<close>)
  have first: "R t (snd (run_commands rt env (fst seed) (snd seed) timestamp force t))" for t
  proof (cases "normalize_variants (snd seed)")
    case (Inr vs)
    have "J (variant_name (fst seed) (0 + k)) b"
      if "k < length vs" "serialize_sequence (vs ! k) = Inr b" for k b
    proof -
      have "seed_content (seed # seeds) (variant_name (fst seed) k) b"
        using that Inr by (simp add: seed_content_def) (metis prod.collapse)
      then show ?thesis using Cons.prems by simp
    qed
    then show ?thesis using run_variants_step [of vs "fst seed" 0 t] Inr
      by (simp add: run_commands_def)
  qed (simp add: run_commands_def refl)
  show ?case
    by (simp only: generate_seeds.simps) (rule then_io_snd [where R = R, OF first rest trans])
qed (simp add: refl)

end

subsection \<open>Files are kept\<close>

lemma create_variant_keeps:
  assumes "os_laws env" "finite (dom dir)"
  shows "dir \<subseteq>\<^sub>m snd (create_variant env name ts dir content False proto)"
proof (cases "filter (prefix (name @ ''-'')) (os_listdir env dir)")
  case Nil
  have "prefix (name @ ''-'') (name @ ''-'' @ ts)" by (simp add: prefix_def)
  moreover have "\<forall>f\<in>dom dir. \<not> prefix (name @ ''-'') f"
    using Nil assms by (simp add: os_laws_def filter_empty_conv)
  ultimately have "name @ ''-'' @ ts \<notin> dom dir" by blast
  then show ?thesis using Nil by (auto simp: create_variant_def map_le_def)
qed (simp add: create_variant_def split: option.split)

lemma create_variant_finite:
  "finite (dom dir) \<Longrightarrow> finite (dom (snd (create_variant env name ts dir content force proto)))"
  by (simp add: create_variant_def Let_def split: option.split sum.split)

definition corpus_finite :: "corpus \<Rightarrow> bool" where
  "corpus_finite s \<longleftrightarrow> finite (dom (byte_dir s)) \<and> finite (dom (proto_dir s))"

definition corpus_keeps :: "corpus \<Rightarrow> corpus \<Rightarrow> bool" where
  "corpus_keeps s t \<longleftrightarrow>
     (corpus_finite s \<longrightarrow>
        corpus_finite t \<and> byte_dir s \<subseteq>\<^sub>m byte_dir t \<and> proto_dir s \<subseteq>\<^sub>m proto_dir t)"

interpretation keeps: corpus_relation
  "\<lambda>s t. os_laws env \<longrightarrow> corpus_keeps s t" env timestamp False "\<lambda>_ _. True" for env timestamp
  by unfold_locales
    (auto simp: corpus_keeps_def corpus_finite_def create_variant_keeps create_variant_finite
      intro: map_le_trans)

lemma write_bytes_keeps:
  "os_laws env \<Longrightarrow> write_bytes env name ts False sequence s = (r, t) \<Longrightarrow> corpus_keeps s t"
  using keeps.write_bytes_step [where env = env and s = s] by (metis snd_conv)

lemma write_proto_keeps:
  "os_laws env \<Longrightarrow> write_proto rt env name ts False sequence s = (r, t) \<Longrightarrow> corpus_keeps s t"
  using keeps.write_proto_step [where env = env and s = s] by (metis snd_conv)

lemma run_variants_keeps:
  "os_laws env \<Longrightarrow> run_variants rt env cmd ts False i vs s = (r, t) \<Longrightarrow> corpus_keeps s t"
  using keeps.run_variants_step [where env = env and s = s] by (metis snd_conv)

lemma generate_keeps:
  "os_laws env \<Longrightarrow> generate_seeds rt env False seeds ts s = (r, t) \<Longrightarrow> corpus_keeps s t"
  using keeps.generate_step [where env = env and s = s] by (metis snd_conv)

subsection \<open>New byte files are serialised variants\<close>

definition corpus_sound ::
  "string \<Rightarrow> (string \<Rightarrow> bytes \<Rightarrow> bool) \<Rightarrow> corpus \<Rightarrow> corpus \<Rightarrow> bool" where
  "corpus_sound ts J s t \<longleftrightarrow>
     (\<forall>f b. byte_dir t f = Some b \<longrightarrow>
        byte_dir s f = Some b \<or> (\<exists>name. J name b \<and> f = name @ ''-'' @ ts))"

lemma create_variant_sound:
  "snd (create_variant env name ts dir content force proto) f = Some b \<Longrightarrow>
    dir f = Some b \<or> b = content \<and> f = name @ ''-'' @ ts"
  by (auto simp: create_variant_def Let_def split: if_splits option.splits sum.splits)

interpretation sound: corpus_relation
  "corpus_sound timestamp J" env timestamp force J for env timestamp force J
proof unfold_locales
  show "corpus_sound timestamp J s t \<Longrightarrow> corpus_sound timestamp J t u \<Longrightarrow> corpus_sound timestamp J s u"
    for s t u by (simp add: corpus_sound_def) blast
  show "corpus_sound timestamp J s
      (s\<lparr>byte_dir := snd (create_variant env name timestamp (byte_dir s) content force False)\<rparr>)"
    if "J name content" for name content s
    using that create_variant_sound [of env name timestamp "byte_dir s" content force False]
    by (auto simp: corpus_sound_def)
qed (auto simp: corpus_sound_def)

subsection \<open>A finished run is a fixed point\<close>

text \<open>A directory has a variant when some file name starts with the variant's name and a hyphen.\<close>

definition has_variant :: "directory \<Rightarrow> string \<Rightarrow> bool" where
  "has_variant dir name \<longleftrightarrow> (\<exists>f\<in>dom dir. prefix (name @ ''-'') f)"

lemma has_variant_mono: "d \<subseteq>\<^sub>m d' \<Longrightarrow> has_variant d name \<Longrightarrow> has_variant d' name"
  by (metis has_variant_def map_le_implies_dom_le subsetD)

lemma create_variant_has:
  assumes "os_laws env" "finite (dom dir)" "has_variant dir name"
  shows "create_variant env name ts dir content False proto = (Inr (), dir)"
proof -
  from assms have "filter (prefix (name @ ''-'')) (os_listdir env dir) \<noteq> []"
    by (auto simp: has_variant_def os_laws_def filter_empty_conv)
  then obtain f fs where f: "filter (prefix (name @ ''-'')) (os_listdir env dir) = f # fs"
    by (cases "filter (prefix (name @ ''-'')) (os_listdir env dir)") auto
  then have "f \<in> set (filter (prefix (name @ ''-'')) (os_listdir env dir))" by simp
  then have "f \<in> dom dir" using assms(1,2) by (simp add: os_laws_def)
  then show ?thesis using f by (auto simp: create_variant_def)
qed

lemma create_variant_makes:
  assumes "os_laws env" "finite (dom dir)"
  shows "has_variant (snd (create_variant env name ts dir content False proto)) name"
proof (cases "has_variant dir name")
  case True
  then show ?thesis by (simp add: create_variant_has [OF assms])
next
  case False
  then have "filter (prefix (name @ ''-'')) (os_listdir env dir) = []"
    using assms by (simp add: has_variant_def os_laws_def filter_empty_conv)
  then show ?thesis by (auto simp: create_variant_def has_variant_def prefix_def)
qed

text \<open>One variant is settled: both of its files are there, if the sequence has a message at all.\<close>

definition settled :: "pb_runtime \<Rightarrow> corpus \<Rightarrow> string \<Rightarrow> TPMCommand list \<Rightarrow> bool" where
  "settled rt s name sequence \<longleftrightarrow>
     is_ok (serialize_sequence sequence) \<and> has_variant (byte_dir s) name \<and>
     (case serialize_proto_sequence rt sequence of
        Inl _ \<Rightarrow> False | Inr None \<Rightarrow> True | Inr (Some _) \<Rightarrow> has_variant (proto_dir s) name)"

definition run_settled :: "pb_runtime \<Rightarrow> corpus \<Rightarrow> (string \<times> seed_definition) list \<Rightarrow> bool" where
  "run_settled rt s seeds \<longleftrightarrow>
     (\<forall>(cmd, def)\<in>set seeds. \<exists>vs. normalize_variants def = Inr vs \<and>
        (\<forall>k<length vs. settled rt s (variant_name cmd k) (vs ! k)))"

lemma settled_mono:
  assumes "settled rt s name sequence" "corpus_keeps s t" "corpus_finite s"
  shows "settled rt t name sequence"
  using assms has_variant_mono [of "byte_dir s" "byte_dir t"] has_variant_mono [of "proto_dir s" "proto_dir t"]
  by (auto simp: settled_def corpus_keeps_def split: sum.splits option.splits)

lemma settled_writes:
  assumes "os_laws env" "corpus_finite s" "settled rt s name sequence"
  shows "write_bytes env name ts False sequence s = (Inr (), s)"
    and "write_proto rt env name ts False sequence s = (Inr (), s)"
  using assms
  by (auto simp: settled_def is_ok_ex write_bytes_def write_proto_def corpus_finite_def
      create_variant_has split: sum.splits option.splits)

lemma then_io_Inr: "then_io r f = (Inr (), u) \<longleftrightarrow> (\<exists>t. r = (Inr (), t) \<and> f t = (Inr (), u))"
  by (cases r) (auto simp: then_io_def split: sum.splits)

lemma run_variants_fixed:
  "os_laws env \<Longrightarrow> corpus_finite s
    \<Longrightarrow> (\<And>k. k < length vs \<Longrightarrow> settled rt s (variant_name cmd (i + k)) (vs ! k))
    \<Longrightarrow> run_variants rt env cmd ts False i vs s = (Inr (), s)"
proof (induction vs arbitrary: i)
  case (Cons v vs)
  have "run_variants rt env cmd ts False (Suc i) vs s = (Inr (), s)"
    by (rule Cons.IH) (use Cons.prems(1,2) Cons.prems(3) [of "Suc k" for k] in simp_all)
  moreover have "settled rt s (variant_name cmd i) v" using Cons.prems(3) [of 0] by simp
  ultimately show ?case
    using settled_writes [OF Cons.prems(1,2)] by (simp add: then_io_Inr)
qed simp

lemma generate_fixed:
  "os_laws env \<Longrightarrow> corpus_finite s \<Longrightarrow> run_settled rt s seeds
    \<Longrightarrow> generate_seeds rt env False seeds ts s = (Inr (), s)"
proof (induction seeds)
  case (Cons seed seeds)
  obtain cmd def where sd: "seed = (cmd, def)" by (cases seed)
  with Cons.prems(3) obtain vs where vs: "normalize_variants def = Inr vs"
    "\<And>k. k < length vs \<Longrightarrow> settled rt s (variant_name cmd (0 + k)) (vs ! k)"
    by (auto simp: run_settled_def)
  have "run_variants rt env cmd ts False 0 vs s = (Inr (), s)"
    by (rule run_variants_fixed [OF Cons.prems(1,2) vs(2)])
  moreover have "run_settled rt s seeds" using Cons.prems(3) by (simp add: run_settled_def)
  ultimately show ?case using Cons.IH Cons.prems(1,2) vs(1) sd
    by (simp add: then_io_Inr run_commands_def)
qed simp

lemma write_settles:
  assumes "os_laws env" "corpus_finite s"
    and "write_bytes env name ts False sequence s = (Inr (), t)"
    and "write_proto rt env name ts False sequence t = (Inr (), u)"
  shows "settled rt u name sequence"
proof -
  have "corpus_keeps s t" "corpus_keeps t u"
    using write_bytes_keeps write_proto_keeps assms by blast+
  then have ft: "corpus_finite t" and sub: "byte_dir t \<subseteq>\<^sub>m byte_dir u"
    using assms(2) by (simp_all add: corpus_keeps_def)
  have ok: "is_ok (serialize_sequence sequence)" "has_variant (byte_dir t) name"
    using assms(1,2,3) create_variant_makes [OF assms(1)]
    by (auto simp: write_bytes_def corpus_finite_def split: sum.splits prod.splits)
      (metis snd_conv)
  moreover have "case serialize_proto_sequence rt sequence of
      Inl _ \<Rightarrow> False | Inr None \<Rightarrow> True | Inr (Some _) \<Rightarrow> has_variant (proto_dir u) name"
    using assms(1,4) ft create_variant_makes [OF assms(1)]
    by (auto simp: write_proto_def corpus_finite_def split: sum.splits prod.splits option.splits)
      (metis snd_conv)
  ultimately show ?thesis using has_variant_mono [OF sub] by (simp add: settled_def)
qed

lemma run_variants_settles:
  "os_laws env \<Longrightarrow> corpus_finite s \<Longrightarrow> run_variants rt env cmd ts False i vs s = (Inr (), u)
    \<Longrightarrow> k < length vs \<Longrightarrow> settled rt u (variant_name cmd (i + k)) (vs ! k)"
proof (induction vs arbitrary: i s k)
  case (Cons v vs)
  from Cons.prems(3) obtain t t' where
    w: "write_bytes env (variant_name cmd i) ts False v s = (Inr (), t)"
    and p: "write_proto rt env (variant_name cmd i) ts False v t = (Inr (), t')"
    and r: "run_variants rt env cmd ts False (Suc i) vs t' = (Inr (), u)"
    by (auto simp: then_io_Inr)
  have "corpus_keeps s t" "corpus_keeps t t'"
    using write_bytes_keeps write_proto_keeps w p Cons.prems(1) by blast+
  then have f: "corpus_finite t'" using Cons.prems(2) by (simp add: corpus_keeps_def)
  have k: "corpus_keeps t' u"
    using run_variants_keeps r Cons.prems(1) by blast
  show ?case
  proof (cases k)
    case 0
    then show ?thesis
      using settled_mono [OF write_settles [OF Cons.prems(1,2) w p] k f] by simp
  next
    case (Suc j)
    then show ?thesis using Cons.IH [OF Cons.prems(1) f r, of j] Cons.prems(4) by simp
  qed
qed simp

lemma generate_settles:
  "os_laws env \<Longrightarrow> corpus_finite s \<Longrightarrow> generate_seeds rt env False seeds ts s = (Inr (), u)
    \<Longrightarrow> run_settled rt u seeds"
proof (induction seeds arbitrary: s)
  case (Cons seed seeds)
  obtain cmd def where sd: "seed = (cmd, def)" by (cases seed)
  from Cons.prems(3) sd obtain t vs where vs: "normalize_variants def = Inr vs"
    and r: "run_variants rt env cmd ts False 0 vs s = (Inr (), t)"
    and g: "generate_seeds rt env False seeds ts t = (Inr (), u)"
    by (auto simp: then_io_Inr run_commands_def split: sum.splits)
  have "corpus_keeps s t"
    using run_variants_keeps r Cons.prems(1) by blast
  then have f: "corpus_finite t" using Cons.prems(2) by (simp add: corpus_keeps_def)
  have k: "corpus_keeps t u"
    using generate_keeps g Cons.prems(1) by blast
  have "settled rt u (variant_name cmd k') (vs ! k')" if "k' < length vs" for k'
    using settled_mono [OF run_variants_settles [OF Cons.prems(1,2) r that] k f] by simp
  then show ?case using Cons.IH [OF Cons.prems(1) f g] vs sd by (simp add: run_settled_def)
qed (simp add: run_settled_def)

subsection \<open>The REQUEST section of the test output\<close>

lemma dropWhile_eqs [simp]: "dropWhile is_eq (replicate n CHR ''='' @ s) = dropWhile is_eq s"
  by (induction n) (auto simp: is_eq_def)

lemma banner_line:
  assumes "word \<noteq> []" "\<forall>c\<in>set word. \<not> is_space c" "0 < m" "0 < n"
    and sp: "\<forall>c\<in>set pad1. is_space c" "\<forall>c\<in>set pad2. is_space c"
  shows "banner word (replicate m CHR ''='' @ ''\<newline>'' @ pad1 @ word @ pad2 @ ''\<newline>'' @
      replicate n CHR ''='' @ rest) = Some (dropWhile is_eq rest)"
proof -
  have c: "is_space (CHR 0x0A)" "\<not> is_eq (CHR 0x0A)" "\<not> is_space (CHR ''='')" "is_eq (CHR ''='')"
    by (simp_all add: is_space_def is_eq_def)
  obtain m' n' where mn: "m = Suc m'" "n = Suc n'"
    using assms(3,4) by (metis gr0_implies_Suc)
  obtain w ws where w: "word = w # ws" "\<not> is_space w" using assms(1,2) by (cases word) auto
  let ?tl = "replicate n CHR ''='' @ rest"
  have d1: "dropWhile is_eq (replicate m CHR ''='' @ ''\<newline>'' @ x) = ''\<newline>'' @ x" for x
    using c by simp
  have d2: "dropWhile is_space (pad1 @ word @ x) = word @ x" for x
    using sp(1) w by (simp add: dropWhile_append2)
  have g: "takeWhile is_space ((pad2 @ ''\<newline>'') @ ?tl) = pad2 @ ''\<newline>''"
    using sp(2) c mn(2) by (subst takeWhile_append2) auto
  have h: "is_eq (hd (replicate m CHR ''='' @ x))" for x using c mn(1) by simp
  show ?thesis
    using g c mn d2 h by (simp add: banner_def Let_def d1)
qed

lemma banner_other: "s = [] \<or> \<not> is_eq (hd s) \<Longrightarrow> banner word s = None"
  by (auto simp: banner_def Let_def)

lemma before_response_body:
  "CHR ''='' \<notin> set body \<Longrightarrow> banner ''RESPONSE'' s \<noteq> None \<Longrightarrow> before_response (body @ s) = Some body"
proof (induction body)
  case (Cons c cs)
  then show ?case
    by (subst before_response.simps) (auto simp: banner_other is_eq_def)
qed (simp add: before_response.simps)

lemma request_search_skip:
  "CHR ''='' \<notin> set pre \<Longrightarrow> request_search (pre @ s) = request_search s"
  by (induction pre) (auto simp: request_at_def request_banner_def banner_other is_eq_def)

lemma request_at_section:
  assumes "0 < m" "0 < n" "\<forall>c\<in>set pad1. is_space c" "\<forall>c\<in>set pad2. is_space c"
    and "CHR ''='' \<notin> set body" "banner ''RESPONSE'' response \<noteq> None"
    and h: "header = replicate m CHR ''='' @ ''\<newline>'' @ pad1 @ ''REQUEST'' @ pad2 @ ''\<newline>'' @
      replicate n CHR ''='' @ ''\<newline>''"
  shows "request_at (header @ body @ response) = Some (header @ body)"
proof -
  have "\<forall>c\<in>set ''REQUEST''. \<not> is_space c" by (simp add: is_space_def)
  from banner_line [OF _ this assms(1-4), of "''\<newline>'' @ body @ response"]
  have "banner ''REQUEST'' (header @ body @ response) = Some (''\<newline>'' @ body @ response)"
    by (simp add: h is_eq_def)
  then have "request_banner (header @ body @ response) = Some (body @ response)"
    by (simp add: request_banner_def)
  moreover have "before_response (body @ response) = Some body"
    by (rule before_response_body [OF assms(5,6)])
  ultimately show ?thesis by (simp add: request_at_def)
qed

text \<open>
  C39: the section that \<open>request_section\<close> cuts out of the test program's output. When the text
  before the first banner and the section itself hold no \<open>=\<close>, it returns the REQUEST banner with
  the section under it, without trailing white space, whatever follows the RESPONSE banner.
\<close>

theorem request_section_of_output:
  assumes "CHR ''='' \<notin> set start" "CHR ''='' \<notin> set body" "0 < m" "0 < n" "0 < k" "0 < l"
    and "\<forall>c\<in>set (pad1 @ pad2 @ pad3 @ pad4). is_space c"
    and h: "header = replicate m CHR ''='' @ ''\<newline>'' @ pad1 @ ''REQUEST'' @ pad2 @ ''\<newline>'' @
      replicate n CHR ''='' @ ''\<newline>''"
    and r: "response = replicate k CHR ''='' @ ''\<newline>'' @ pad3 @ ''RESPONSE'' @ pad4 @ ''\<newline>'' @
      replicate l CHR ''='' @ rest"
  shows "request_section (start @ header @ body @ response) = Inr (rstrip (header @ body))"
proof -
  have "\<forall>c\<in>set ''RESPONSE''. \<not> is_space c" by (simp add: is_space_def)
  from banner_line [OF _ this assms(5,6), of pad3 pad4 rest]
  have "banner ''RESPONSE'' response \<noteq> None" using assms(7) by (simp add: r)
  then have at: "request_at (header @ body @ response) = Some (header @ body)"
    using assms by (intro request_at_section [where m = m and n = n]) auto
  obtain c cs where hc: "header @ body @ response = c # cs"
    using assms(3) h by (cases "header @ body @ response") auto
  have "request_search (start @ header @ body @ response) = Some (header @ body)"
    using at by (simp add: request_search_skip [OF assms(1)] hc)
  then show ?thesis by (simp add: request_section_def)
qed

lemma request_section_of_output_witness:
  "request_section (''go'' @ (''==\<newline> REQUEST \<newline>=\<newline>'') @ ''tag 1'' @ (''=\<newline>RESPONSE\<newline>=x'')) =
     Inr (rstrip (''==\<newline> REQUEST \<newline>=\<newline>tag 1''))"
  using request_section_of_output [of "''go''" "''tag 1''" 2 1 1 1 "'' ''" "'' ''" "[]" "[]"
      "''==\<newline> REQUEST \<newline>=\<newline>''" "''=\<newline>RESPONSE\<newline>=x''" "''x''"]
  by (simp add: is_space_def eval_nat_numeral)

text \<open>A concrete run for the witnesses: one command, one test output.\<close>

definition clock_command :: TPMCommand where
  "clock_command = TPMCommand_init (TPM_ST TPM_ST_NO_SESSIONS) (TPM_CC TPM_CC_READ_CLOCK) [] Plain"

definition clock_seeds :: "(string \<times> seed_definition) list" where
  "clock_seeds = [(''TPMReadClock'', SeedCommand clock_command)]"

definition clock_bytes :: bytes where
  "clock_bytes = [0x80, 1, 0, 0, 0, 10, 0, 0, 1, 0x81]"

definition sample_output :: string where
  "sample_output = ''=\<newline>REQUEST\<newline>=\<newline>a\<newline>=\<newline>RESPONSE\<newline>=''"

definition sample_env :: os_env where
  "sample_env = sorted_env (\<lambda>_ _. Inr sample_output)"

lemma sample_section: "request_section sample_output = Inr ''=\<newline>REQUEST\<newline>=\<newline>a''"
  by code_simp

lemma sample_env_simps [simp]:
  "os_laws sample_env" "test_script sample_env path b = Inr sample_output"
  by (simp_all add: sample_env_def sorted_env_laws) (simp add: sorted_env_def)

lemma sample_dir: "{f \<in> dom [''a-1'' \<mapsto> b]. prefix (''a'' @ ''-'') f} = {''a-1''}"
  by (auto simp: prefix_def)

lemma clock_run:
  "generate_seeds rt sample_env False clock_seeds ''7'' \<lparr>byte_dir = Map.empty, proto_dir = Map.empty\<rparr> =
     (Inr (), \<lparr>byte_dir = [''TPMReadClock-variant0-7'' \<mapsto> clock_bytes], proto_dir = Map.empty\<rparr>)"
proof -
  have "serialize_sequence [clock_command] = Inr clock_bytes"
    by code_simp
  moreover have "serialize_proto_sequence rt [clock_command] = Inr None"
    by (simp add: serialize_proto_sequence_def clock_command_def TPMCommand_init_def to_proto_def)
  moreover have "os_listdir sample_env Map.empty = []"
    by (simp add: sample_env_def sorted_env_def)
  moreover have "decimal 0 = ''0''" by code_simp
  ultimately show ?thesis
    by (simp add: clock_seeds_def run_commands_def then_io_def write_bytes_def write_proto_def
        create_variant_def variant_name_def)
qed

subsection \<open>Properties of runs\<close>

text \<open>
  C1: end to end, every byte seed the generator writes is replayed as the commands it was built
  from. Whatever the table of seeds and whatever happens during the run (an exception
  included), each file of the byte directory afterwards is a file that was there, unchanged, or
  the serialisation of one variant, named after it; and the harness's \<open>parseCommands\<close> cuts that
  file into exactly the commands of the variant.
\<close>

theorem new_seeds_replay_their_commands:
  assumes "generate_seeds rt env recreate seeds timestamp s = (r, t)"
    and "byte_dir t file = Some b" "byte_dir s file \<noteq> Some b"
  shows "\<exists>cmd def vs i. (cmd, def) \<in> set seeds \<and> normalize_variants def = Inr vs \<and> i < length vs \<and>
    file = variant_name cmd i @ ''-'' @ timestamp \<and>
    parseCommands b = (True, map command_layout (vs ! i))"
proof -
  have "corpus_sound timestamp (seed_content seeds) s t"
    using sound.generate_step [of seeds "seed_content seeds" timestamp s rt env recreate] assms(1)
    by simp
  then obtain name where "seed_content seeds name b" "file = name @ ''-'' @ timestamp"
    using assms(2,3) by (auto simp: corpus_sound_def)
  then show ?thesis
    by (fastforce simp: seed_content_def serialize_sequence_def dest: parse_serialized)
qed

lemma new_seeds_replay_their_commands_witness:
  "\<exists>cmd def vs i. (cmd, def) \<in> set clock_seeds \<and> normalize_variants def = Inr vs \<and> i < length vs \<and>
    ''TPMReadClock-variant0-7'' = variant_name cmd i @ ''-'' @ ''7'' \<and>
    parseCommands clock_bytes = (True, map command_layout (vs ! i))"
  using new_seeds_replay_their_commands [OF clock_run, of "''TPMReadClock-variant0-7''" clock_bytes]
  by simp

text \<open>
  C36: without \<open>-recreate\<close> a run never changes or removes a file, even when it ends in an
  exception: each file of both directories is there afterwards with the same content.
\<close>

theorem plain_run_keeps_every_file:
  assumes "os_laws env" "finite (dom (byte_dir s))" "finite (dom (proto_dir s))"
    and "generate_seeds rt env False seeds timestamp s = (r, t)"
  shows "byte_dir s \<subseteq>\<^sub>m byte_dir t \<and> proto_dir s \<subseteq>\<^sub>m proto_dir t"
  using generate_keeps [OF assms(1,4)] assms(2,3) by (simp add: corpus_keeps_def corpus_finite_def)

lemma plain_run_keeps_every_file_witness:
  "(Map.empty :: directory) \<subseteq>\<^sub>m [''TPMReadClock-variant0-7'' \<mapsto> clock_bytes] \<and>
   (Map.empty :: directory) \<subseteq>\<^sub>m Map.empty"
  using plain_run_keeps_every_file [OF _ _ _ clock_run] by simp

text \<open>
  A corpus that a plain run completed is complete. Running the generator again on it, at
  any time and with the same table, succeeds and changes nothing.
\<close>

theorem plain_run_is_idempotent:
  assumes "os_laws env" "finite (dom (byte_dir s))" "finite (dom (proto_dir s))"
    and "generate_seeds rt env False seeds timestamp s = (Inr (), t)"
  shows "generate_seeds rt env False seeds timestamp' t = (Inr (), t)"
proof -
  have s: "corpus_finite s" using assms(2,3) by (simp add: corpus_finite_def)
  then have "corpus_finite t"
    using generate_keeps [OF assms(1,4)] by (simp add: corpus_keeps_def)
  then show ?thesis
    using generate_fixed [OF assms(1) _ generate_settles [OF assms(1) s assms(4)]] by blast
qed

lemma plain_run_is_idempotent_witness:
  "generate_seeds (plain_runtime (\<lambda>_. [])) sample_env False clock_seeds ''8''
     \<lparr>byte_dir = [''TPMReadClock-variant0-7'' \<mapsto> clock_bytes], proto_dir = Map.empty\<rparr> =
   (Inr (), \<lparr>byte_dir = [''TPMReadClock-variant0-7'' \<mapsto> clock_bytes], proto_dir = Map.empty\<rparr>)"
  using plain_run_is_idempotent [OF _ _ _ clock_run] by simp

text \<open>The one existing file of a variant, as \<open>os.listdir\<close> finds it.\<close>

lemma only_existing:
  assumes "os_laws env" "finite (dom dir)" "{f \<in> dom dir. prefix (name @ ''-'') f} = {out}"
  shows "hd (filter (prefix (name @ ''-'')) (os_listdir env dir)) = out"
    and "filter (prefix (name @ ''-'')) (os_listdir env dir) \<noteq> []"
proof -
  let ?l = "filter (prefix (name @ ''-'')) (os_listdir env dir)"
  have l: "set ?l = {out}" using assms by (auto simp: os_laws_def)
  then show ne: "?l \<noteq> []" by (metis empty_set insert_not_empty)
  then have "hd ?l \<in> set ?l" by (rule hd_in_set)
  with l show "hd ?l = out" by simp
qed

text \<open>
  \<open>-recreate\<close> replaces a changed seed. When the variant's only file has other bytes than
  the new content and an older time stamp, and the test script shows a request section for
  both, the new content is stored under the new time stamp and the old file is removed.
\<close>

theorem recreate_replaces_changed_seed:
  assumes "os_laws env" "finite (dom dir)" "{f \<in> dom dir. prefix (name @ ''-'') f} = {out}"
    and "dir out = Some data" "data \<noteq> content" "out \<noteq> name @ ''-'' @ timestamp"
    and "test_script env out data = Inr old_output" "request_section old_output = Inr old"
    and "test_script env (name @ ''-'' @ timestamp) content = Inr new_output"
    and "request_section new_output = Inr new"
  shows "create_variant env name timestamp dir content True False =
    (Inr (), (dir(name @ ''-'' @ timestamp \<mapsto> content))(out := None))"
  using only_existing [OF assms(1-3)] assms(4-10)
  by (simp add: create_variant_def Let_def script_on_def)

lemma recreate_replaces_changed_seed_witness:
  "create_variant sample_env ''a'' ''2'' [''a-1'' \<mapsto> [1]] [2] True False =
    (Inr (), ([''a-1'' \<mapsto> [1], ''a-2'' \<mapsto> [2]])(''a-1'' := None))"
  using recreate_replaces_changed_seed [of sample_env "[''a-1'' \<mapsto> [1]]" "''a''" "''a-1''" "[1]" "[2]"
      "''2''", OF _ _ _ _ _ _ _ sample_section _ sample_section] sample_dir [of "[1]"]
  by simp

text \<open>
  C37: the same run within the minute in which the old file was written loses the seed. Old and
  new file then have one name: the new content overwrites the old file, and the final
  \<open>os.remove\<close> deletes it.
\<close>

theorem recreate_in_the_same_minute_deletes_seed:
  assumes "os_laws env" "finite (dom dir)" "{f \<in> dom dir. prefix (name @ ''-'') f} = {out}"
    and "dir out = Some data" "data \<noteq> content" "out = name @ ''-'' @ timestamp"
    and "test_script env out content = Inr output" "request_section output = Inr section"
  shows "create_variant env name timestamp dir content True False = (Inr (), dir(out := None)) \<and>
    \<not> has_variant (snd (create_variant env name timestamp dir content True False)) name"
proof -
  have "create_variant env name timestamp dir content True False = (Inr (), dir(out := None))"
    using only_existing [OF assms(1-3)] assms(4-8)
    by (simp add: create_variant_def Let_def script_on_def)
  then show ?thesis using assms(3) by (auto simp: has_variant_def)
qed

lemma recreate_in_the_same_minute_deletes_seed_witness:
  "create_variant sample_env ''a'' ''1'' [''a-1'' \<mapsto> [1]] [] True False =
    (Inr (), [''a-1'' \<mapsto> [1]](''a-1'' := None)) \<and>
   \<not> has_variant (snd (create_variant sample_env ''a'' ''1'' [''a-1'' \<mapsto> [1]] [] True False)) ''a''"
  by (rule recreate_in_the_same_minute_deletes_seed [OF sample_env_simps(1) _ sample_dir _ _ _
        sample_env_simps(2) sample_section]) (auto simp del: not_Cons_self2)

text \<open>
  C38: an error of the test script on the old seed (the process exits with a non-zero status,
  or its output has no request section) aborts the run after the new file was written and
  before the old one is removed, so the variant is left with both files.
\<close>

theorem recreate_error_leaves_both_files:
  assumes "os_laws env" "finite (dom dir)" "{f \<in> dom dir. prefix (name @ ''-'') f} = {out}"
    and "dir out = Some data" "data \<noteq> content" "out \<noteq> name @ ''-'' @ timestamp"
    and "bindE (test_script env out data) request_section = Inl e"
  shows "create_variant env name timestamp dir content True False =
    (Inl e, dir(name @ ''-'' @ timestamp \<mapsto> content)) \<and>
    (dir(name @ ''-'' @ timestamp \<mapsto> content)) out = Some data"
  using only_existing [OF assms(1-3)] assms(4-7)
  by (simp add: create_variant_def Let_def script_on_def)

lemma recreate_error_leaves_both_files_witness:
  "create_variant (sorted_env (\<lambda>_ _. Inl CalledProcessError)) ''a'' ''2'' [''a-1'' \<mapsto> [1]] [2] True
      False = (Inl CalledProcessError, [''a-1'' \<mapsto> [1], ''a-2'' \<mapsto> [2]]) \<and>
   ([''a-1'' \<mapsto> [1], ''a-2'' \<mapsto> [2]]) ''a-1'' = Some [1]"
  using recreate_error_leaves_both_files [of "sorted_env (\<lambda>_ _. Inl CalledProcessError)"
      "[''a-1'' \<mapsto> [1]]" "''a''" "''a-1''" "[1]" "[2]" "''2''" CalledProcessError, OF sorted_env_laws] sample_dir [of "[1]"]
  by (simp add: sorted_env_def)

text \<open>
  Recreating a message seed fails only if the old file is not UTF-8. The new content, the
  encoded text of a message, always decodes.
\<close>

theorem recreate_proto_replaces:
  assumes "os_laws env" "finite (dom dir)" "{f \<in> dom dir. prefix (name @ ''-'') f} = {out}"
    and "dir out = Some data" "out \<noteq> name @ ''-'' @ timestamp"
    and "serialize_proto_sequence rt sequence = Inr (Some content)" "data \<noteq> content"
  shows "create_variant env name timestamp dir content True True =
    (if utf8_valid data then (Inr (), (dir(name @ ''-'' @ timestamp \<mapsto> content))(out := None))
     else (Inl UnicodeDecodeError, dir(name @ ''-'' @ timestamp \<mapsto> content)))"
proof -
  have "utf8_valid content"
    using assms(6)
    by (auto simp: serialize_proto_sequence_def result_simps utf8_valid_encoded split: option.splits)
  then show ?thesis
    using only_existing [OF assms(1-3)] assms(4,5,7)
    by (simp add: create_variant_def Let_def decode_utf8_def)
qed


lemma recreate_proto_replaces_witness:
  "create_variant sample_env ''a'' ''2'' [''a-1'' \<mapsto> [0xFF]] [] True True =
    (Inl UnicodeDecodeError, [''a-1'' \<mapsto> [0xFF], ''a-2'' \<mapsto> []])"
proof -
  have "serialize_proto_sequence (plain_runtime (\<lambda>_. [])) [] = Inr (Some [])"
    by (simp add: serialize_proto_sequence_def plain_runtime_def kwargs_ok_def utf8_encode_def)
  then show ?thesis
    using recreate_proto_replaces [of sample_env "[''a-1'' \<mapsto> [0xFF]]" "''a''" "''a-1''" "[0xFF]"
        "''2''" "plain_runtime (\<lambda>_. [])" "[]" "[]"] sample_dir [of "[0xFF]"]
    by simp
qed

end
