(* ===== verification/Corpus_Spec.thy ===== *)
theory Corpus_Spec
  imports Corpus_Props
begin

section \<open>The corpus as a store of seeds\<close>

text \<open>
  What a run promises, without files: a corpus holds for every variant, a pair of command name
  and index, the set of its seeds, and the table asks for one seed per variant. A plain run
  fills the variants that have none (\<open>fill\<close>), a run with \<open>-recreate\<close> replaces what differs
  (\<open>replace\<close>). \<open>seeds_in\<close> is the abstraction: the contents of the files that \<open>_create_variant\<close>
  takes for files of the variant. A command name with a hyphen could be taken for another
  variant's name; the abstraction leaves such names out, and the table has none.
\<close>

type_synonym variant = "string \<times> nat"

definition plain_name :: "string \<Rightarrow> bool" where
  "plain_name cmd \<longleftrightarrow> CHR ''-'' \<notin> set cmd"

definition file_of :: "variant \<Rightarrow> string \<Rightarrow> bool" where
  "file_of v f \<longleftrightarrow> prefix (variant_name (fst v) (snd v) @ ''-'') f"

definition stamped :: "string \<Rightarrow> variant \<Rightarrow> string" where
  "stamped ts v = variant_name (fst v) (snd v) @ ''-'' @ ts"

definition seeds_in :: "directory \<Rightarrow> variant \<Rightarrow> bytes set" where
  "seeds_in dir v = (if plain_name (fst v) then {b. \<exists>f. dir f = Some b \<and> file_of v f} else {})"

record store =
  byte_seeds :: "variant \<Rightarrow> bytes set"
  message_seeds :: "variant \<Rightarrow> bytes set"

definition store_of :: "corpus \<Rightarrow> store" where
  "store_of s = \<lparr>byte_seeds = seeds_in (byte_dir s), message_seeds = seeds_in (proto_dir s)\<rparr>"

definition fill :: "variant \<Rightarrow> bytes \<Rightarrow> (variant \<Rightarrow> bytes set) \<Rightarrow> variant \<Rightarrow> bytes set" where
  "fill v b A = (if A v = {} then A(v := {b}) else A)"

definition replace :: "variant \<Rightarrow> bytes \<Rightarrow> (variant \<Rightarrow> bytes set) \<Rightarrow> variant \<Rightarrow> bytes set" where
  "replace v b A = A(v := {b})"

text \<open>The variants of a table in the order of the run, and what they ask for.\<close>

definition variants_of :: "string \<times> seed_definition \<Rightarrow> (variant \<times> TPMCommand list) list" where
  "variants_of seed =
     (case normalize_variants (snd seed) of
        Inl _ \<Rightarrow> []
      | Inr vs \<Rightarrow> map (\<lambda>i. ((fst seed, i), vs ! i)) [0..<length vs])"

definition table_variants ::
  "(string \<times> seed_definition) list \<Rightarrow> (variant \<times> TPMCommand list) list" where
  "table_variants seeds = concat (map variants_of seeds)"

definition wanted_bytes :: "TPMCommand list \<Rightarrow> bytes option" where
  "wanted_bytes cs = (case serialize_sequence cs of Inl _ \<Rightarrow> None | Inr b \<Rightarrow> Some b)"

definition wanted_text :: "pb_runtime \<Rightarrow> TPMCommand list \<Rightarrow> bytes option" where
  "wanted_text rt cs = (case serialize_proto_sequence rt cs of Inl _ \<Rightarrow> None | Inr t \<Rightarrow> t)"

definition wanted ::
  "(TPMCommand list \<Rightarrow> bytes option) \<Rightarrow> (string \<times> seed_definition) list \<Rightarrow> variant \<Rightarrow> bytes option" where
  "wanted w seeds v = Option.bind (map_of (table_variants seeds) v) w"

text \<open>The two specifications, as functions of the whole store.\<close>

definition filled :: "(variant \<Rightarrow> bytes option) \<Rightarrow> (variant \<Rightarrow> bytes set) \<Rightarrow> variant \<Rightarrow> bytes set" where
  "filled w A v = (if A v = {} then set_option (w v) else A v)"

definition updated :: "(variant \<Rightarrow> bytes option) \<Rightarrow> (variant \<Rightarrow> bytes set) \<Rightarrow> variant \<Rightarrow> bytes set" where
  "updated w A v = (case w v of None \<Rightarrow> A v | Some b \<Rightarrow> {b})"

definition fill_store ::
  "pb_runtime \<Rightarrow> (string \<times> seed_definition) list \<Rightarrow> store \<Rightarrow> store" where
  "fill_store rt seeds A =
     \<lparr>byte_seeds = filled (wanted wanted_bytes seeds) (byte_seeds A),
      message_seeds = filled (wanted (wanted_text rt) seeds) (message_seeds A)\<rparr>"

definition update_store ::
  "pb_runtime \<Rightarrow> (string \<times> seed_definition) list \<Rightarrow> store \<Rightarrow> store" where
  "update_store rt seeds A =
     \<lparr>byte_seeds = updated (wanted wanted_bytes seeds) (byte_seeds A),
      message_seeds = updated (wanted (wanted_text rt) seeds) (message_seeds A)\<rparr>"

subsection \<open>File names determine the variant\<close>

lemma char_of_digit: "n < 10 \<Longrightarrow> of_char (char_of (48 + n) :: char) = (48 + n :: nat)"
  by (simp add: of_char_mod_256)

lemma decimal_value: "foldl (\<lambda>a c. 10 * a + (of_char c - 48 :: nat)) 0 (decimal n) = n"
proof (induction n rule: decimal.induct)
  case (1 n)
  have "of_char (char_of (48 + n mod 10) :: char) = (48 + n mod 10 :: nat)"
    by (rule char_of_digit) simp
  then show ?case using 1 char_of_digit [of n]
    by (cases "n < 10") (simp_all add: decimal.simps [of n])
qed

lemma decimal_inject [simp]: "decimal m = decimal n \<longleftrightarrow> m = n"
  by (metis decimal_value)

lemma decimal_no_hyphen: "CHR ''-'' \<notin> set (decimal n)"
proof (induction n rule: decimal.induct)
  case (1 n)
  have d: "CHR ''-'' \<noteq> char_of (48 + k)" if "k < 10" for k :: nat
  proof
    assume "CHR ''-'' = char_of (48 + k)"
    then have "of_char (CHR ''-'') = (of_char (char_of (48 + k) :: char) :: nat)" by (rule arg_cong)
    also have "\<dots> = 48 + k" by (rule char_of_digit [OF that])
    finally show False by simp
  qed
  then show ?case using 1 d [of n] d [of "n mod 10"] by (auto simp: decimal.simps [of n])
qed

lemma hyphen_split:
  "a @ c # x = b @ c # y \<Longrightarrow> c \<notin> set a \<Longrightarrow> c \<notin> set b \<Longrightarrow> a = b \<and> x = y"
proof (induction a arbitrary: b)
  case Nil
  then show ?case by (cases b) auto
next
  case (Cons d a)
  then show ?case by (cases b) auto
qed

lemma file_of_variant:
  assumes "plain_name (fst u)" "plain_name (fst v)"
  shows "file_of u (variant_name (fst v) (snd v) @ ''-'' @ ts) \<longleftrightarrow> u = v"
proof
  assume "file_of u (variant_name (fst v) (snd v) @ ''-'' @ ts)"
  then obtain z where
    "fst v @ CHR ''-'' # ''variant'' @ decimal (snd v) @ CHR ''-'' # ts =
     fst u @ CHR ''-'' # ''variant'' @ decimal (snd u) @ CHR ''-'' # z"
    by (auto simp: file_of_def prefix_def variant_name_def)
  from hyphen_split [OF this] assms
  have c: "fst v = fst u" and "decimal (snd v) @ CHR ''-'' # ts = decimal (snd u) @ CHR ''-'' # z"
    by (simp_all add: plain_name_def)
  from hyphen_split [OF this(2)] c show "u = v"
    by (simp add: decimal_no_hyphen prod_eq_iff)
qed (simp add: file_of_def)

lemma stamped_file [simp]: "file_of v (stamped ts v)"
  by (simp add: file_of_def stamped_def)

lemma file_of_unique:
  assumes "plain_name (fst u)" "plain_name (fst v)" "file_of u f" "file_of v f"
  shows "u = v"
proof -
  from assms(4) obtain z where "f = variant_name (fst v) (snd v) @ ''-'' @ z"
    by (auto simp: file_of_def prefix_def)
  then show ?thesis using file_of_variant [OF assms(1,2)] assms(3) by blast
qed

lemma stamped_inject:
  "plain_name (fst u) \<Longrightarrow> plain_name (fst v) \<Longrightarrow> stamped ts u = stamped ts v \<longleftrightarrow> u = v"
  by (metis file_of_unique stamped_file)

lemma seeds_in_other:
  assumes "plain_name (fst v)" "file_of v f" "u \<noteq> v"
  shows "seeds_in (dir(f := x)) u = seeds_in dir u"
proof (cases "plain_name (fst u)")
  case True
  then have "\<not> file_of u f" using file_of_unique [OF _ assms(1) _ assms(2)] assms(3) by blast
  then have "(dir(f := x)) g = Some b \<and> file_of u g \<longleftrightarrow> dir g = Some b \<and> file_of u g" for g b by auto
  then show ?thesis by (simp only: seeds_in_def)
qed (simp add: seeds_in_def)

lemma seeds_in_only:
  assumes "plain_name (fst v)" "file_of v f" "\<forall>g\<in>dom dir. file_of v g \<longrightarrow> g = f"
  shows "seeds_in (dir(f \<mapsto> b)) v = {b}"
  using assms by (simp add: seeds_in_def) (auto simp: dom_def)

lemma seeds_in_empty:
  assumes "plain_name (fst v)"
  shows "seeds_in dir v = {} \<longleftrightarrow> \<not> has_variant dir (variant_name (fst v) (snd v))"
  using assms by (simp add: seeds_in_def has_variant_def file_of_def dom_def set_eq_iff) (metis not_Some_eq)

subsection \<open>Writing one variant, and a whole run\<close>

text \<open>
  \<open>variant_writer\<close> is the contract of \<open>_create_variant\<close> in one mode: on a directory that is good for
  the variants still to be written it succeeds, does the operation \<open>op\<close> on the store, and leaves
  a directory that is good for the rest. The flag tells byte seeds from message seeds.
\<close>

definition writes ::
  "(variant \<Rightarrow> bytes \<Rightarrow> (variant \<Rightarrow> bytes set) \<Rightarrow> variant \<Rightarrow> bytes set) \<Rightarrow> bytes option \<Rightarrow> variant
    \<Rightarrow> (variant \<Rightarrow> bytes set) \<Rightarrow> variant \<Rightarrow> bytes set" where
  "writes op content v A = (case content of None \<Rightarrow> A | Some b \<Rightarrow> op v b A)"

definition write_store ::
  "pb_runtime \<Rightarrow> (variant \<Rightarrow> bytes \<Rightarrow> (variant \<Rightarrow> bytes set) \<Rightarrow> variant \<Rightarrow> bytes set)
    \<Rightarrow> variant \<times> TPMCommand list \<Rightarrow> store \<Rightarrow> store" where
  "write_store rt op item A =
     \<lparr>byte_seeds = writes op (wanted_bytes (snd item)) (fst item) (byte_seeds A),
      message_seeds = writes op (wanted_text rt (snd item)) (fst item) (message_seeds A)\<rparr>"

definition good_sequence :: "pb_runtime \<Rightarrow> TPMCommand list \<Rightarrow> bool" where
  "good_sequence rt cs \<longleftrightarrow> is_ok (serialize_sequence cs) \<and> is_ok (serialize_proto_sequence rt cs)"

lemma text_is_utf8: "serialize_proto_sequence rt cs = Inr (Some t) \<Longrightarrow> utf8_valid t"
  by (auto simp: serialize_proto_sequence_def result_simps utf8_valid_encoded split: option.splits)

lemma table_variant_names:
  "v \<in> fst ` set (table_variants seeds) \<Longrightarrow> fst v \<in> fst ` set seeds"
  by (fastforce simp: table_variants_def variants_of_def split: sum.splits)

locale variant_writer =
  fixes env :: os_env and ts :: string and force :: bool
    and I :: "bool \<Rightarrow> variant set \<Rightarrow> directory \<Rightarrow> bool"
    and op :: "variant \<Rightarrow> bytes \<Rightarrow> (variant \<Rightarrow> bytes set) \<Rightarrow> variant \<Rightarrow> bytes set"
  assumes step: "v \<in> K \<Longrightarrow> plain_name (fst v) \<Longrightarrow> I p K dir \<Longrightarrow> (p \<Longrightarrow> utf8_valid content)
      \<Longrightarrow> \<exists>dir'. create_variant env (variant_name (fst v) (snd v)) ts dir content force p = (Inr (), dir')
        \<and> I p (K - {v}) dir' \<and> seeds_in dir' = op v content (seeds_in dir)"
    and weaken: "I p K dir \<Longrightarrow> K' \<subseteq> K \<Longrightarrow> I p K' dir"
begin

definition good_for :: "variant set \<Rightarrow> corpus \<Rightarrow> bool" where
  "good_for K s \<longleftrightarrow> I False K (byte_dir s) \<and> I True K (proto_dir s)"

lemma write_variant:
  assumes "(cmd, i) \<in> K" "plain_name cmd" "good_for K s" "good_sequence rt cs"
  shows "\<exists>t u. write_bytes env (variant_name cmd i) ts force cs s = (Inr (), t) \<and>
    write_proto rt env (variant_name cmd i) ts force cs t = (Inr (), u) \<and>
    good_for (K - {(cmd, i)}) u \<and> store_of u = write_store rt op ((cmd, i), cs) (store_of s)"
proof -
  obtain b m where b: "serialize_sequence cs = Inr b" and m: "serialize_proto_sequence rt cs = Inr m"
    using assms(4) by (auto simp: good_sequence_def is_ok_ex)
  have IF: "I False K (byte_dir s)" and IT: "I True K (proto_dir s)"
    using assms(3) by (simp_all add: good_for_def)
  from step [OF assms(1) _ IF, of b] assms(2) obtain d where
    d: "create_variant env (variant_name cmd i) ts (byte_dir s) b force False = (Inr (), d)"
    "I False (K - {(cmd, i)}) d" "seeds_in d = op (cmd, i) b (seeds_in (byte_dir s))" by auto
  let ?t = "s\<lparr>byte_dir := d\<rparr>"
  have t: "write_bytes env (variant_name cmd i) ts force cs s = (Inr (), ?t)"
    by (simp add: write_bytes_def b d(1))
  show ?thesis
  proof (cases m)
    case None
    then have "write_proto rt env (variant_name cmd i) ts force cs ?t = (Inr (), ?t)"
      by (simp add: write_proto_def m)
    then show ?thesis using t d b m None weaken [OF IT]
      by (auto simp: good_for_def store_of_def write_store_def writes_def wanted_bytes_def wanted_text_def)
  next
    case (Some c)
    then have "utf8_valid c" using m text_is_utf8 by blast
    with step [OF assms(1) _ IT, of c] assms(2) obtain e where
      e: "create_variant env (variant_name cmd i) ts (proto_dir s) c force True = (Inr (), e)"
      "I True (K - {(cmd, i)}) e" "seeds_in e = op (cmd, i) c (seeds_in (proto_dir s))" by auto
    then have "write_proto rt env (variant_name cmd i) ts force cs ?t = (Inr (), ?t\<lparr>proto_dir := e\<rparr>)"
      by (simp add: write_proto_def m Some)
    then show ?thesis using t d e b m Some
      by (auto simp: good_for_def store_of_def write_store_def writes_def wanted_bytes_def wanted_text_def)
  qed
qed

lemma run_variants_refines:
  assumes "plain_name cmd"
  shows "good_for K s \<Longrightarrow> \<forall>k\<in>{i..<i + length vs}. (cmd, k) \<in> K \<Longrightarrow> \<forall>cs\<in>set vs. good_sequence rt cs \<Longrightarrow>
    \<exists>t. run_variants rt env cmd ts force i vs s = (Inr (), t) \<and>
      good_for (K - {(cmd, k) |k. k \<in> {i..<i + length vs}}) t \<and>
      store_of t = fold (write_store rt op) (map (\<lambda>k. ((cmd, i + k), vs ! k)) [0..<length vs]) (store_of s)"
proof (induction vs arbitrary: i s K)
  case (Cons v vs)
  have "(cmd, i) \<in> K" "good_sequence rt v" using Cons.prems(2,3) by auto
  from write_variant [OF this(1) assms Cons.prems(1) this(2)] obtain t u where
    tu: "write_bytes env (variant_name cmd i) ts force v s = (Inr (), t)"
    "write_proto rt env (variant_name cmd i) ts force v t = (Inr (), u)"
    "good_for (K - {(cmd, i)}) u" "store_of u = write_store rt op ((cmd, i), v) (store_of s)" by blast
  have "\<forall>k\<in>{Suc i..<Suc i + length vs}. (cmd, k) \<in> K - {(cmd, i)}" using Cons.prems(2) by auto
  from Cons.IH [OF tu(3) this] Cons.prems(3) obtain w where
    w: "run_variants rt env cmd ts force (Suc i) vs u = (Inr (), w)"
    "good_for (K - {(cmd, i)} - {(cmd, k) |k. k \<in> {Suc i..<Suc i + length vs}}) w"
    "store_of w = fold (write_store rt op) (map (\<lambda>k. ((cmd, Suc i + k), vs ! k)) [0..<length vs]) (store_of u)"
    by auto
  have "K - {(cmd, i)} - {(cmd, k) |k. k \<in> {Suc i..<Suc i + length vs}} =
    K - {(cmd, k) |k. k \<in> {i..<i + length (v # vs)}}"
    by (auto simp: Suc_le_eq le_less)
  moreover have "map (\<lambda>k. ((cmd, i + k), (v # vs) ! k)) [0..<length (v # vs)] =
    ((cmd, i), v) # map (\<lambda>k. ((cmd, Suc i + k), vs ! k)) [0..<length vs]"
    by (simp add: upt_conv_Cons map_Suc_upt [symmetric] del: upt_Suc)
  ultimately show ?case using w tu by (simp add: then_io_def)
qed simp

lemma generate_refines:
  assumes "\<forall>seed\<in>set seeds. plain_name (fst seed) \<and> is_ok (normalize_variants (snd seed))"
    and "\<forall>item\<in>set (table_variants seeds). good_sequence rt (snd item)"
    and "distinct (map fst seeds)" "fst ` set (table_variants seeds) \<subseteq> K" "good_for K s"
  shows "\<exists>t. generate_seeds rt env force seeds ts s = (Inr (), t) \<and>
    good_for (K - fst ` set (table_variants seeds)) t \<and>
    store_of t = fold (write_store rt op) (table_variants seeds) (store_of s)"
  using assms
proof (induction seeds arbitrary: s K)
  case (Cons seed seeds)
  obtain cmd def where sd: "seed = (cmd, def)" by (cases seed)
  with Cons.prems(1) obtain vs where vs: "normalize_variants def = Inr vs" and cmd: "plain_name cmd"
    by (auto simp: is_ok_ex)
  have items: "variants_of seed = map (\<lambda>k. ((cmd, 0 + k), vs ! k)) [0..<length vs]"
    by (simp add: variants_of_def sd vs)
  then have keys: "fst ` set (variants_of seed) = {(cmd, k) |k. k \<in> {0..<0 + length vs}}"
    by (auto simp: image_image)
  have "fst ` set (variants_of seed) \<subseteq> K"
    using Cons.prems(4) by (auto simp: table_variants_def)
  then have all: "\<forall>k\<in>{0..<0 + length vs}. (cmd, k) \<in> K" unfolding keys by blast
  have "\<forall>cs\<in>set vs. good_sequence rt cs"
  proof
    fix cs
    assume "cs \<in> set vs"
    then have "cs \<in> snd ` set (variants_of seed)"
      unfolding items by (force simp: in_set_conv_nth image_image)
    then show "good_sequence rt cs" using Cons.prems(2) by (auto simp: table_variants_def)
  qed
  from run_variants_refines [OF cmd Cons.prems(5) all this] keys items obtain t where
    t: "run_variants rt env cmd ts force 0 vs s = (Inr (), t)"
    "good_for (K - fst ` set (variants_of seed)) t"
    "store_of t = fold (write_store rt op) (variants_of seed) (store_of s)"
    by metis
  have "fst ` set (table_variants seeds) \<subseteq> K"
    using Cons.prems(4) by (auto simp: table_variants_def)
  moreover have "v \<notin> fst ` set (variants_of seed)" if "v \<in> fst ` set (table_variants seeds)" for v
  proof
    assume "v \<in> fst ` set (variants_of seed)"
    then have "fst v = cmd" unfolding keys by auto
    then show False using table_variant_names [OF that] Cons.prems(3) sd by simp
  qed
  ultimately have "fst ` set (table_variants seeds) \<subseteq> K - fst ` set (variants_of seed)" by blast
  from Cons.IH [OF _ _ _ this t(2)] Cons.prems(1-3) obtain u where
    "generate_seeds rt env force seeds ts t = (Inr (), u)"
    "good_for (K - fst ` set (variants_of seed) - fst ` set (table_variants seeds)) u"
    "store_of u = fold (write_store rt op) (table_variants seeds) (store_of t)"
    by (auto simp: table_variants_def)
  moreover have "table_variants (seed # seeds) = variants_of seed @ table_variants seeds"
    by (simp add: table_variants_def)
  ultimately show ?case using t sd vs
    by (simp add: then_io_def run_commands_def image_Un Diff_eq Int_assoc)
qed (simp add: table_variants_def)

end

end
