(* ===== verification/Seed_Table.thy ===== *)
theory Seed_Table
  imports Seed_Files
begin

section \<open>The seed table\<close>

text \<open>
  The seeds of \<open>main.py\<close>: one definition per seed function and per entry of \<open>TEST_CASES\<close>. A Python
  expression that builds a command may raise, so a sequence is a list of results and
  \<open>sequences\<close> evaluates the nested list from left to right; a command bound to a local variable
  is built once, before the lists. Captured blobs (\<open>bytes.fromhex\<close>) are written as a number in
  base 16 with its length in bytes.
\<close>

definition sequences :: "TPMCommand result list list \<Rightarrow> TPMCommand list list result" where
  "sequences vs = mapE (mapE (\<lambda>c. c)) vs"

definition ascii :: "string \<Rightarrow> bytes" where
  "ascii s = map (\<lambda>c. word_of_int (of_char c)) s"

abbreviation PW :: rs_arg where "PW \<equiv> RsEnum RS_PW"

abbreviation PW_value :: int where "PW_value \<equiv> TPM_RS_value RS_PW"

subsection \<open>Captured blobs\<close>

definition UNSEAL_SEAL_IN_PRIVATE :: bytes where
  "UNSEAL_SEAL_IN_PRIVATE =
     be_bytes 32 0x008a002033594e6f3ea199dd22b14de0b92b3f9e067739d4e62c04aaf9878694 @
     be_bytes 32 0x6286fcbf001062fa60d9f9a3659af10227ba4a96a3e7f7e8eed20d6626f1e7c1 @
     be_bytes 32 0xbf725ff2b8e6be76005faaeb84bfc5b16a3347dfb438fd7103a247e0e8817e68 @
     be_bytes 32 0x13977988a779d810b7cec88f787a2de64cb6508ab17fb27400861621c7608f18 @
     be_bytes 12 0xc05ffa429632114db15da39d"

definition UNSEAL_SEAL_IN_PUBLIC :: bytes where
  "UNSEAL_SEAL_IN_PUBLIC =
     be_bytes 32 0x002e0008000b00000452000000100020100e11fac0e57e528401b817aa65bf84 @
     be_bytes 16 0x6eb7ad6fee0c7c756a89cdccb52f6c09"

definition UNSEAL_HMAC_IN_PRIVATE :: bytes where
  "UNSEAL_HMAC_IN_PRIVATE =
     be_bytes 32 0x009e002071cfbc5a2fc1c71f4e5b2d115daeb9c0d4ccbf123239c86d5a8077fb @
     be_bytes 32 0x8a6a6179001090647df915b1ac8e6a09d72c6d243b959921d23b92b7d34d560d @
     be_bytes 32 0x460e66801565458b440c78df63194196c6cf67effdf6771d897c62c22f23fbea @
     be_bytes 32 0x9593f2676a3e5ba128a58a7da9ba8e112eebc62943e4c1e1789f478cc5d44294 @
     be_bytes 32 0x0ea2039d169661179afb65d06910b48613248100993df6cebff5dbdc24c86110"

definition UNSEAL_HMAC_IN_PUBLIC :: bytes where
  "UNSEAL_HMAC_IN_PUBLIC =
     be_bytes 32 0x00300008000b0005047200000005000b0020794e393f0483ff026189ffa10844 @
     be_bytes 18 0x66b4eb24eb0e9ab8d436538073a76359cbd5"

subsection \<open>Load and Unseal\<close>

text \<open>The two templates that the Load and Unseal sequences create.\<close>

definition sealed_create :: "TPMCommand result" where
  "sealed_create =
     TPMCreate 0x80000000 PW ALG_SHA256 ALG_KEYEDHASH 2048
       (Some (AttrsList [FIXEDTPM, FIXEDPARENT, USERWITHAUTH, NODA])) None
       (Some \<lparr>kh_scheme = AlgEnum ALG_NULL, kh_hash_alg = None\<rparr>) (ascii ''hello secret'')"

definition hmac_create :: "TPMCommand result" where
  "hmac_create =
     TPMCreate 0x80000000 PW ALG_SHA256 ALG_KEYEDHASH 2048
       (Some (AttrsList [FIXEDTPM, FIXEDPARENT, SENSITIVEDATAORIGIN, USERWITHAUTH, NODA,
          SIGN_ENCRYPT, RESTRICTED])) None
       (Some \<lparr>kh_scheme = AlgEnum ALG_HMAC, kh_hash_alg = Some (AlgEnum ALG_SHA256)\<rparr>) []"

definition default_primary :: "TPMCommand result" where
  "default_primary = TPMCreatePrimary PW ALG_SHA256 2048 (RhEnum RH_OWNER) None"

text \<open>\<open>corrupted_private[-1] ^= 0xFF\<close>.\<close>

definition corrupted_private :: bytes where
  "corrupted_private =
     UNSEAL_SEAL_IN_PRIVATE[length UNSEAL_SEAL_IN_PRIVATE - 1 :=
       UNSEAL_SEAL_IN_PRIVATE ! (length UNSEAL_SEAL_IN_PRIVATE - 1) XOR 0xFF]"

definition tpm_load_seeds :: "pb_runtime \<Rightarrow> TPMCommand list list result" where
  "tpm_load_seeds rt =
     bindE default_primary (\<lambda>primary.
     sequences
       [[Inr primary, sealed_create,
         TPMLoad rt 0x80000000 UNSEAL_SEAL_IN_PRIVATE UNSEAL_SEAL_IN_PUBLIC PW],
        [Inr primary, hmac_create,
         TPMLoad rt 0x80000000 UNSEAL_HMAC_IN_PRIVATE UNSEAL_HMAC_IN_PUBLIC PW],
        [Inr primary,
         bindE (PRIVATE_to_bytes \<lparr>private_buffer = []\<rparr>) (\<lambda>empty.
           TPMLoad rt 0x80000000 empty UNSEAL_SEAL_IN_PUBLIC PW)],
        [Inr primary, TPMLoad rt 0x80000000 corrupted_private UNSEAL_SEAL_IN_PUBLIC PW]])"

definition tpm_unseal_seeds :: "pb_runtime \<Rightarrow> TPMCommand list list result" where
  "tpm_unseal_seeds rt =
     bindE default_primary (\<lambda>primary.
     sequences
       [[Inr primary, sealed_create,
         TPMLoad rt 0x80000000 UNSEAL_SEAL_IN_PRIVATE UNSEAL_SEAL_IN_PUBLIC PW,
         TPMUnseal 0x80000001 PW],
        [Inr primary, TPMUnseal 0x80000000 PW],
        [Inr primary, hmac_create,
         TPMLoad rt 0x80000000 UNSEAL_HMAC_IN_PRIVATE UNSEAL_HMAC_IN_PUBLIC PW,
         TPMUnseal 0x80000001 PW]])"

subsection \<open>Self test, random, capability and hash\<close>

definition tpm_incremental_self_test_seeds :: "TPMCommand list list result" where
  "tpm_incremental_self_test_seeds =
     sequences (map (\<lambda>algs. [TPMIncrementalSelfTest algs])
       [[], [ALG_SHA256], [ALG_SHA1, ALG_SHA256]])"

definition tpm_get_rand_seeds :: "TPMCommand list list result" where
  "tpm_get_rand_seeds =
     sequences
       [[TPMGetRandom bytes_requested st None].
          st \<leftarrow> [TPM_ST_NO_SESSIONS, TPM_ST_SESSIONS], bytes_requested \<leftarrow> [16, 32, 64, 0, 48]]"

definition TPM_PUB_KEY_TPM_SPDM_00 :: int where "TPM_PUB_KEY_TPM_SPDM_00 = 0"

definition tpm_get_capability_seeds :: "TPMCommand list list result" where
  "tpm_get_capability_seeds =
     sequences (map (\<lambda>(capability, property_val, property_count).
         [TPMGetCapability capability property_val property_count])
       [(CAP_HANDLES, 0x80000000, 10), (CAP_HANDLES, 0x81000000, 10), (CAP_HANDLES, 0x01000000, 10),
        (CAP_HANDLES, 0x02000000, 10), (CAP_HANDLES, 0x03000000, 10), (CAP_HANDLES, 0x00000000, 10),
        (CAP_HANDLES, 0x40000000, 10), (CAP_ALGS, 0x0001, 10), (CAP_COMMANDS, 0x0000017A, 10),
        (CAP_PCRS, 0x00000000, 16), (CAP_TPM_PROPERTIES, 0x00000100, 64), (CAP_ECC_CURVES, 0x0000, 10),
        (CAP_AUTH_POLICIES, 0x40000001, 10), (CAP_PUB_KEYS, TPM_PUB_KEY_TPM_SPDM_00, 1),
        (CAP_ACT, 0x00000000, 1)])"

definition tpm_hash_seeds :: "TPMCommand list list result" where
  "tpm_hash_seeds =
     sequences (map (\<lambda>(data, alg, hier). [TPMHash data alg hier])
       [(ascii ''test hash data'', ALG_SHA1, RH_OWNER), (ascii ''another test'', ALG_SHA256, RH_PLATFORM),
        (ascii ''random bytes'', ALG_SHA384, RH_NULL)])"

subsection \<open>PCR commands\<close>

definition one_selection :: "TPM_ALG \<Rightarrow> bytes \<Rightarrow> TPML_PCR_SELECTION" where
  "one_selection alg sel = \<lparr>selections = [\<lparr>pcr_hash = AlgEnum alg, pcr_select = sel\<rparr>]\<rparr>"

definition tpm_pcr_read_seeds :: "pb_runtime \<Rightarrow> TPMCommand list list result" where
  "tpm_pcr_read_seeds rt =
     sequences (map (\<lambda>(hash_alg, sel). [TPMPCRRead rt (one_selection hash_alg sel)])
       [(ALG_SHA256, [1, 0, 0]), (ALG_SHA1, [0xFF, 0xFF, 0xFF])])"

definition tpm_pcr_allocate_seeds :: "TPMCommand list list result" where
  "tpm_pcr_allocate_seeds =
     sequences (map (\<lambda>pcr_allocation. [TPMPCRAllocate pcr_allocation (RhEnum RH_PLATFORM) PW])
       [one_selection ALG_SHA256 [1, 0, 2],
        \<lparr>selections = [\<lparr>pcr_hash = AlgEnum ALG_SHA256, pcr_select = [1, 0, 0]\<rparr>,
                       \<lparr>pcr_hash = AlgEnum ALG_SHA256, pcr_select = [1, 0, 2]\<rparr>]\<rparr>,
        one_selection ALG_SHA256 [1, 0, 0]])"

definition tpm_pcr_extend_seeds :: "TPMCommand list list result" where
  "tpm_pcr_extend_seeds =
     (let zero = \<lparr>digests = [\<lparr>ha_hash_alg = AlgEnum ALG_SHA256, ha_digest = replicate 32 0\<rparr>]\<rparr>;
          multi_digests = \<lparr>digests =
            [\<lparr>ha_hash_alg = AlgEnum ALG_SHA1, ha_digest = replicate 20 0x11\<rparr>,
             \<lparr>ha_hash_alg = AlgEnum ALG_SHA256, ha_digest = replicate 32 0x22\<rparr>]\<rparr>
      in sequences
           [[TPMPCRExtend (RhInt 0) zero PW], [TPMPCRExtend (RhInt (TPM_RH_value RH_NULL)) zero PW],
            [TPMPCRExtend (RhInt 0) multi_digests PW]])"

definition tpm_pcr_reset_seeds :: "TPMCommand list list result" where
  "tpm_pcr_reset_seeds = sequences (map (\<lambda>pcr_handle. [TPMPCRReset pcr_handle PW]) [0x00, 0x10])"

text \<open>\<open>TPMStartAuthSession(TPM_RH.NULL, TPM_RH.NULL, session_type=TPM_SE.TPM_SE_HMAC)\<close>.\<close>

definition hmac_session :: "TPMCommand result" where
  "hmac_session =
     TPMStartAuthSession (RhEnum RH_NULL) (RhEnum RH_NULL) None None TPM_SE_HMAC null_symmetric
       ALG_SHA256"

definition TPM_FIRST_HMAC_SESSION_HANDLE :: int where
  "TPM_FIRST_HMAC_SESSION_HANDLE = 0x02000000"

definition tpm_pcr_setauthpolicy_seeds :: "pb_runtime \<Rightarrow> TPMCommand list list result" where
  "tpm_pcr_setauthpolicy_seeds rt =
     (let PLATFORM = TPM_RH_value RH_PLATFORM
      in sequences
       (map (\<lambda>(auth_handle, auth_policy, hash_alg, pcr_num).
           [TPMPCRSetAuthPolicy rt (TPM_RH_value auth_handle) auth_policy (AlgEnum hash_alg) pcr_num
              PW_value])
          [(RH_PLATFORM, [], ALG_SHA256, 0), (RH_PLATFORM, replicate 32 0, ALG_SHA256, 0x0B),
           (RH_PLATFORM, replicate 20 0x11, ALG_SHA1, 0x10),
           (RH_OWNER, replicate 32 0x22, ALG_SHA256, 0)] @
        [[hmac_session,
          TPMPCRSetAuthPolicy rt PLATFORM (replicate 32 0x33) (AlgEnum ALG_SHA256) 1
            TPM_FIRST_HMAC_SESSION_HANDLE],
         [TPMPCRSetAuthPolicy rt PLATFORM (replicate 32 0x44) (AlgEnum ALG_SHA256) 0 PW_value,
          TPMPCRRead rt (one_selection ALG_SHA256 [1, 0, 0])],
         [hmac_session,
          TPMPCRSetAuthPolicy rt PLATFORM (replicate 32 0x66) (AlgEnum ALG_SHA256) 1
            TPM_FIRST_HMAC_SESSION_HANDLE,
          TPMPCRRead rt (one_selection ALG_SHA256 [2, 0, 0])]]))"

subsection \<open>NV commands\<close>

text \<open>\<open>TPMNVDefineSpace\<close> with the keyword arguments the seeds leave at their defaults.\<close>

definition define_index :: "int \<Rightarrow> TPMA_NV list \<Rightarrow> TPMCommand result" where
  "define_index idx attributes = TPMNVDefineSpace idx (NvList attributes) PW_value RH_OWNER 32"

definition tpm_nv_extend_seeds :: "TPMCommand list list result" where
  "tpm_nv_extend_seeds =
     (let idx = nv_index_default; extend_data = ascii ''extend data here''
      in bindE (define_index idx [NV_AUTHWRITE, NV_AUTHREAD, NV_NT_EXTEND, NV_NO_DA]) (\<lambda>define_extend.
         bindE (define_index idx [NV_AUTHWRITE, NV_AUTHREAD, NV_NO_DA]) (\<lambda>define_ordinary.
         bindE (define_index idx [NV_AUTHWRITE, NV_AUTHREAD, NV_NT_EXTEND, NV_WRITEDEFINE, NV_NO_DA])
           (\<lambda>define_lockable.
         sequences
           [[Inr define_extend, TPMNVExtend idx extend_data None PW],
            [Inr define_extend, TPMNVExtend idx extend_data None PW,
             TPMNVExtend idx extend_data None PW],
            [Inr define_ordinary, TPMNVExtend idx extend_data None PW],
            [Inr define_lockable, TPMNVWriteLock idx (RhInt idx) PW_value,
             TPMNVExtend idx extend_data None PW],
            [Inr define_extend, TPMNVExtend idx extend_data (Some (RhEnum RH_OWNER)) PW]]))))"

definition tpm_nv_definespace_seeds :: "TPMCommand list list result" where
  "tpm_nv_definespace_seeds =
     sequences
       [[TPMNVDefineSpace nv_index_default nv_attributes_default PW_value RH_OWNER 32],
        [hmac_session,
         TPMNVDefineSpace nv_index_default (NvList [NV_OWNERWRITE, NV_OWNERREAD, NV_NO_DA])
           TPM_FIRST_HMAC_SESSION_HANDLE RH_OWNER 32]]"

definition tpm_nv_setbits_seeds :: "TPMCommand list list result" where
  "tpm_nv_setbits_seeds =
     (let base_index = nv_index_default;
          nv_bits_attrs = NvInt (TPMA_NV_value NV_OWNERWRITE OR TPMA_NV_value NV_OWNERREAD OR
            TPMA_NV_value NV_NT_BITS)
      in sequences
           [[TPMNVDefineSpace (base_index + 3) nv_bits_attrs PW_value RH_OWNER 8,
             TPMNVSetBits (base_index + 3) 1 (RhEnum RH_OWNER) PW_value],
            [TPMNVDefineSpace (base_index + 4) nv_bits_attrs PW_value RH_OWNER 8,
             TPMNVSetBits (base_index + 4) 1 (RhEnum RH_OWNER) PW_value,
             TPMNVSetBits (base_index + 4) 0xA5 (RhEnum RH_OWNER) PW_value]])"

subsection \<open>RSA and credential commands\<close>

text \<open>An RSA primary with its own attributes and no symmetric algorithm or scheme.\<close>

definition rsa_primary :: "TPMA_OBJECT list \<Rightarrow> alg_arg \<Rightarrow> alg_arg option \<Rightarrow> TPMCommand result" where
  "rsa_primary attributes scheme scheme_hash =
     TPMCreatePrimary PW ALG_SHA256 2048 (RhEnum RH_OWNER)
       (Some \<lparr>public_area = (PUBLIC_default (AlgEnum ALG_RSA))
          \<lparr>pub_name_alg := AlgEnum ALG_SHA256,
           pub_object_attributes := AttrsList attributes,
           pub_rsa_parameters := Some
             \<lparr>rsa_symmetric = SYM_DEF_default\<lparr>sym_algorithm := AlgEnum ALG_NULL\<rparr>,
              rsa_scheme = scheme, rsa_scheme_hash = scheme_hash, rsa_key_bits = 2048,
              rsa_exponent = 0\<rparr>\<rparr>\<rparr>)"

definition tpm_make_credential_seeds :: "TPMCommand list list result" where
  "tpm_make_credential_seeds =
     (let credential = replicate 16 0xab
      in bindE (catE [to_bytes 2 0x000B, Inr (replicate 32 0)]) (\<lambda>sha256_name.
         bindE default_primary (\<lambda>restricted_decrypt_primary.
         bindE (rsa_primary [FIXEDTPM, FIXEDPARENT, SENSITIVEDATAORIGIN, USERWITHAUTH, NODA,
             SIGN_ENCRYPT] (AlgEnum ALG_NULL) None) (\<lambda>signing_primary.
         sequences
           [[Inr restricted_decrypt_primary, TPMMakeCredential 0x80000000 credential sha256_name],
            [Inr signing_primary, TPMMakeCredential 0x80000000 credential sha256_name],
            [Inr restricted_decrypt_primary, TPMMakeCredential 0x80000000 [] sha256_name]]))))"

definition rsa_decrypt_scheme :: "TPM_ALG \<Rightarrow> TPM_ALG option \<Rightarrow> TPMT_RSA_DECRYPT" where
  "rsa_decrypt_scheme scheme hash_alg =
     \<lparr>rdec_scheme = AlgEnum scheme, rdec_hash_alg = map_option AlgEnum hash_alg\<rparr>"

definition tpm_rsa_encrypt_seeds :: "TPMCommand list list result" where
  "tpm_rsa_encrypt_seeds =
     (let message = replicate 64 0x41
      in bindE (rsa_primary [FIXEDTPM, FIXEDPARENT, SENSITIVEDATAORIGIN, USERWITHAUTH, DECRYPT]
           (AlgEnum ALG_NULL) None) (\<lambda>primary.
         sequences
           [[Inr primary, TPMRSAEncrypt 0x80000000 message (rsa_decrypt_scheme ALG_RSAES None) []],
            [Inr primary,
             TPMRSAEncrypt 0x80000000 message (rsa_decrypt_scheme ALG_OAEP (Some ALG_SHA256)) []],
            [Inr primary, TPMRSAEncrypt 0x80000000 message (rsa_decrypt_scheme ALG_NULL None) []],
            [Inr primary,
             TPMRSAEncrypt 0x80000000 [] (rsa_decrypt_scheme ALG_OAEP (Some ALG_SHA256)) []]]))"

definition tpm_rsa_decrypt_seeds :: "TPMCommand list list result" where
  "tpm_rsa_decrypt_seeds =
     (let cipher_text = replicate 256 0
      in bindE (rsa_primary [FIXEDTPM, FIXEDPARENT, SENSITIVEDATAORIGIN, USERWITHAUTH, NODA, DECRYPT]
           (AlgEnum ALG_NULL) None) (\<lambda>primary.
         sequences
           [[Inr primary,
             TPMRSADecrypt 0x80000000 cipher_text (rsa_decrypt_scheme ALG_RSAES None) [] PW],
            [Inr primary,
             TPMRSADecrypt 0x80000000 cipher_text (rsa_decrypt_scheme ALG_OAEP (Some ALG_SHA256)) []
               PW],
            [Inr primary,
             TPMRSADecrypt 0x80000000 cipher_text (rsa_decrypt_scheme ALG_NULL None) [] PW]]))"

subsection \<open>Entries of \<open>TEST_CASES\<close> written in place\<close>

definition create_seeds :: "TPMCommand list list result" where
  "create_seeds =
     sequences (map (\<lambda>(hashAlg, keyBits).
         [default_primary, TPMCreate 0x80000000 PW hashAlg ALG_RSA keyBits None None None []])
       [(ALG_SHA256, 2048), (ALG_SHA256, 1024), (ALG_SHA1, 2048), (ALG_SHA1, 1024),
        (ALG_SHA384, 2048), (ALG_SHA384, 1024)])"

definition create_primary_seeds :: "TPMCommand list list result" where
  "create_primary_seeds =
     sequences
       [[default_primary, TPMGetRandom 16 TPM_ST_NO_SESSIONS None],
        [TPMGetRandom 32 TPM_ST_NO_SESSIONS None, default_primary],
        [default_primary, default_primary]]"

definition start_auth_session_seeds :: "TPMCommand list list result" where
  "start_auth_session_seeds =
     sequences
       [[hmac_session],
        [hmac_session,
         TPMCreatePrimary (RsInt TPM_FIRST_HMAC_SESSION_HANDLE) ALG_SHA256 2048 (RhEnum RH_OWNER)
           None]]"

definition load_external_seeds :: "TPMCommand list list result" where
  "load_external_seeds =
     sequences
       [[TPMLoadExternal ALG_SHA256 2048 RH_NULL False],
        [TPMLoadExternal ALG_SHA256 2048 RH_NULL True]]"

text \<open>The six Sign sequences: the signing key, and what Sign is asked to do with it.\<close>

definition signing_attributes :: "TPMA_OBJECT list" where
  "signing_attributes =
     [FIXEDTPM, FIXEDPARENT, SENSITIVEDATAORIGIN, USERWITHAUTH, NODA, SIGN_ENCRYPT]"

definition sign_with :: "bytes \<Rightarrow> TPM_ALG \<Rightarrow> bytes \<Rightarrow> TPMCommand result" where
  "sign_with digest hash_alg ticket_digest =
     TPMSign 0x80000000 digest \<lparr>sig_scheme = AlgEnum ALG_RSASSA, sig_hash_alg = AlgEnum hash_alg\<rparr>
       \<lparr>tk_hierarchy = RhEnum RH_NULL, tk_digest = ticket_digest\<rparr> PW"

definition sign_seeds :: "TPMCommand list list result" where
  "sign_seeds =
     sequences
       [[rsa_primary signing_attributes (AlgEnum ALG_NULL) None,
         sign_with (replicate 32 0) ALG_SHA256 []],
        [default_primary, sign_with (replicate 32 0) ALG_SHA256 []],
        [rsa_primary signing_attributes (AlgEnum ALG_NULL) None,
         sign_with (replicate 16 0) ALG_SHA256 []],
        [rsa_primary signing_attributes (AlgEnum ALG_NULL) None,
         sign_with (replicate 32 0) ALG_SHA256 (replicate 32 1)],
        [rsa_primary signing_attributes (AlgEnum ALG_RSASSA) (Some (AlgEnum ALG_SHA256)),
         sign_with (replicate 48 0) ALG_SHA384 []],
        [rsa_primary (signing_attributes @ [X509SIGN]) (AlgEnum ALG_NULL) None,
         sign_with (replicate 32 0) ALG_SHA256 []]]"

definition clear_seeds :: "TPMCommand list list result" where
  "clear_seeds =
     sequences [[TPMClear (RhEnum RH_LOCKOUT) PW], [TPMClear (RhEnum RH_PLATFORM) PW]]"

definition set_primary_policy_seeds :: "pb_runtime \<Rightarrow> TPMCommand list list result" where
  "set_primary_policy_seeds rt =
     sequences (map (\<lambda>(auth_handle, auth_policy, hash_alg).
         [TPMSetPrimaryPolicy rt (RhEnum auth_handle) auth_policy (AlgEnum hash_alg) PW])
       [(RH_OWNER, [], ALG_NULL), (RH_OWNER, replicate 32 0, ALG_SHA256),
        (RH_ENDORSEMENT, replicate 32 0x11, ALG_SHA256),
        (RH_PLATFORM, replicate 32 0x22, ALG_SHA256), (RH_LOCKOUT, replicate 20 0x33, ALG_SHA1),
        (RH_OWNER, [], ALG_SHA256)])"

definition nv_write_lock_seeds :: "TPMCommand list list result" where
  "nv_write_lock_seeds =
     (let idx = nv_index_default; lock = TPMNVWriteLock idx (RhEnum RH_OWNER) PW_value
      in sequences
           [[define_index idx [NV_OWNERREAD, NV_OWNERWRITE, NV_WRITEDEFINE], lock],
            [define_index idx [NV_OWNERREAD, NV_OWNERWRITE, NV_WRITEDEFINE], lock, lock],
            [define_index idx [NV_OWNERREAD, NV_OWNERWRITE], lock]])"

definition write_as_owner :: "int \<Rightarrow> TPMCommand result" where
  "write_as_owner idx = TPMNVWrite (HtInt idx) (replicate 32 0xaa) 0 (Some (RhEnum RH_OWNER)) PW"

definition nv_write_seeds :: "TPMCommand list list result" where
  "nv_write_seeds =
     sequences
       [[define_index nv_index_default [NV_OWNERREAD, NV_OWNERWRITE],
         write_as_owner nv_index_default]]"

definition nv_read_lock_seeds :: "TPMCommand list list result" where
  "nv_read_lock_seeds =
     (let idx = nv_index_default; lock = (\<lambda>i. TPMNVReadLock i (RhEnum RH_OWNER) PW_value)
      in sequences
           [[define_index (idx + 3) [NV_OWNERREAD, NV_OWNERWRITE, NV_READ_STCLEAR],
             write_as_owner (idx + 4), lock (idx + 3)],
            [define_index (idx + 4) [NV_OWNERREAD, NV_OWNERWRITE, NV_READ_STCLEAR],
             write_as_owner (idx + 5), lock (idx + 4), lock (idx + 4)],
            [define_index (idx + 5) [NV_OWNERREAD, NV_OWNERWRITE],
             write_as_owner (idx + 5), lock (idx + 5)]])"

definition nv_read_seeds :: "TPMCommand list list result" where
  "nv_read_seeds =
     (let idx = nv_index_default + 1;
          read = (\<lambda>sz. TPMNVRead idx sz 0 (RhEnum RH_OWNER) PW_value)
      in sequences
           [[define_index idx [NV_OWNERREAD, NV_OWNERWRITE], write_as_owner idx, read 2],
            [define_index idx [NV_OWNERREAD, NV_OWNERWRITE, NV_READLOCKED], write_as_owner idx,
             read 2],
            [define_index idx [NV_OWNERREAD, NV_OWNERWRITE], read 0]])"

definition nv_undefine_space_seeds :: "TPMCommand list list result" where
  "nv_undefine_space_seeds =
     (let idx = nv_index_default;
          platform_index = (\<lambda>i attributes. TPMNVDefineSpace i (NvList attributes) PW_value RH_PLATFORM 32);
          undefine = (\<lambda>i. TPMNVUndefineSpace i RH_OWNER PW_value)
      in sequences
           [[define_index idx [NV_OWNERREAD, NV_OWNERWRITE], undefine idx],
            [platform_index (idx + 1) [NV_PPREAD, NV_PPWRITE, NV_POLICY_DELETE, NV_PLATFORMCREATE],
             undefine (idx + 1)],
            [platform_index (idx + 2) [NV_PPREAD, NV_PPWRITE, NV_PLATFORMCREATE],
             undefine (idx + 2)]])"

definition pcr_event_seeds :: "pb_runtime \<Rightarrow> TPMCommand list list result" where
  "pcr_event_seeds rt =
     sequences
       [[TPMPCREvent rt 1 (replicate 0 0) PW_value],
        [TPMPCREvent rt 1 (replicate 1024 0) PW_value],
        [TPMPCREvent rt (TPM_RH_value RH_NULL) (replicate 1024 0) PW_value],
        [TPMPCREvent rt (TPM_RH_value RH_NULL) (replicate 0 0) PW_value]]"

subsection \<open>\<open>TEST_CASES\<close>\<close>

text \<open>A seed function is not called until \<open>_normalize_variants\<close>; commands and lists are built here.\<close>

definition built :: "TPMCommand list list result \<Rightarrow> seed_definition result" where
  "built m = bindE m (\<lambda>vs. Inr (SeedVariants vs))"

definition command_of :: "TPMCommand result \<Rightarrow> seed_definition result" where
  "command_of m = bindE m (\<lambda>c. Inr (SeedCommand c))"

definition calls :: "TPMCommand list list result \<Rightarrow> seed_definition result" where
  "calls f = Inr (SeedFunction (\<lambda>_. f))"

definition test_case_entries :: "pb_runtime \<Rightarrow> (string \<times> seed_definition result) list" where
  "test_case_entries rt =
     [(''TPMGetRandom'', calls tpm_get_rand_seeds),
      (''TPMStirRandom'', command_of (TPMStirRandom [])),
      (''TPMHash'', calls tpm_hash_seeds),
      (''TPMGetTestResult'', command_of TPMGetTestResult),
      (''TPMSelfTest'', built (sequences [[TPMSelfTest YES], [TPMSelfTest NO]])),
      (''TPMReadClock'', command_of TPMReadClock),
      (''TPMVendorTCGTest'', command_of (TPMVendorTCGTest [])),
      (''TPMUnseal'', calls (tpm_unseal_seeds rt)),
      (''TPMLoad'', calls (tpm_load_seeds rt)),
      (''TPMCreate'', built create_seeds),
      (''TPMCreatePrimary'', built create_primary_seeds),
      (''TPMStartAuthSessionHMAC'', built start_auth_session_seeds),
      (''TPMRSADecrypt'', calls tpm_rsa_decrypt_seeds),
      (''TPMRSAEncrypt'', calls tpm_rsa_encrypt_seeds),
      (''TPMMakeCredential'', calls tpm_make_credential_seeds),
      (''TPMIncrementalSelfTest'', calls tpm_incremental_self_test_seeds),
      (''TPMGetCapability'', calls tpm_get_capability_seeds),
      (''TPMECCParameters'', command_of (TPMECCParameters (CurveEnum NIST_P192))),
      (''TPMLoadExternal'', built load_external_seeds),
      (''TPMSign'', built sign_seeds),
      (''TPMPCRAllocate'', calls tpm_pcr_allocate_seeds),
      (''TPMPCRRead'', calls (tpm_pcr_read_seeds rt)),
      (''TPMPCRExtend'', calls tpm_pcr_extend_seeds),
      (''TPMPCRReset'', calls tpm_pcr_reset_seeds),
      (''TPMPCRSetAuthPolicy'', calls (tpm_pcr_setauthpolicy_seeds rt)),
      (''TPMTestParms'', command_of (TPMTestParms None)),
      (''TPMNVDefineSpace'', calls tpm_nv_definespace_seeds),
      (''TPMNVSetBits'', calls tpm_nv_setbits_seeds),
      (''TPMClear'', built clear_seeds),
      (''TPMSetPrimaryPolicy'', built (set_primary_policy_seeds rt)),
      (''TPMNVWriteLock'', built nv_write_lock_seeds),
      (''TPMNVWrite'', built nv_write_seeds),
      (''TPMNVReadLock'', built nv_read_lock_seeds),
      (''TPMNVRead'', built nv_read_seeds),
      (''TPMNVExtend'', calls tpm_nv_extend_seeds),
      (''TPMNVUndefineSpace'', built nv_undefine_space_seeds),
      (''TPMPCREvent'', built (pcr_event_seeds rt))]"

definition TEST_CASES :: "pb_runtime \<Rightarrow> (string \<times> seed_definition) list result" where
  "TEST_CASES rt =
     mapE (\<lambda>(cmd, m). bindE m (\<lambda>def. Inr (cmd, def))) (test_case_entries rt)"

text \<open>\<open>python main.py [-recreate]\<close>: the table is built first, then \<open>_generate_seeds\<close> runs on it.\<close>

definition main :: "pb_runtime \<Rightarrow> os_env \<Rightarrow> bool \<Rightarrow> string \<Rightarrow> corpus \<Rightarrow> unit result \<times> corpus" where
  "main rt env recreate timestamp s =
     (case TEST_CASES rt of
        Inl e \<Rightarrow> (Inl e, s)
      | Inr seeds \<Rightarrow> generate_seeds rt env recreate seeds timestamp s)"

end
