(* ===== verification/Decoding.thy ===== *)
theory Decoding
  imports Tpm_Command
begin

section \<open>Reading a command's parameters back\<close>

text \<open>
  The static methods of \<open>TPMCommand\<close> that decode parameter bytes, against the \<open>to_bytes\<close>
  methods that wrote them: each pair is an instance of the codec contract.
\<close>

subsection \<open>PCR selections: a counted loop\<close>

definition pcr_selection_msg :: "TPMS_PCR_SELECTION \<Rightarrow> pb_msg" where
  "pcr_selection_msg s =
     Msg PB_TPMSPCRSelection
       [(''hash'', PbInt (alg_to_int (pcr_hash s))),
        (''sizeof_select'', PbInt (int (length (pcr_select s)))),
        (''pcr_select'', PbBytes (pcr_select s))]"

lemma pcr_selection_at_bytes:
  assumes "PCR_SELECTION_to_bytes s = Inr b" "pb_laws rt" "at_cursor bs i (b @ rest)"
  shows "pcr_selection_at rt bs i = Inr (pcr_selection_msg s, i + length b)"
proof -
  let ?h = "alg_to_int (pcr_hash s)" and ?sel = "pcr_select s"
  from assms(1) have b: "b = be_bytes 2 ?h @ word_of_int (int (length ?sel)) # ?sel"
    and r: "0 \<le> ?h" "?h < 65536" "length ?sel < 256"
    by (auto simp: layout)
  have c0: "at_cursor bs i (be_bytes 2 ?h @ word_of_int (int (length ?sel)) # ?sel @ rest)"
    using assms(3) b by simp
  have c1: "at_cursor bs (i + 2) (word_of_int (int (length ?sel)) # ?sel @ rest)"
    by (rule at_cursor_skip [OF c0]) simp
  have c2: "at_cursor bs (i + 2 + 1) (?sel @ rest)"
    by (rule at_cursor_Cons [OF c1])
  note reads = int_at_cursor [OF c0] byte_at_cursor [OF c1] slice_at_cursor_exact [OF c2]
  show ?thesis
    using r assms(2) reads
    by (simp add: pcr_selection_at_def Let_def pb_simps pcr_selection_msg_def b)
qed

interpretation pcr: counted_codec
  PCR_SELECTION_to_bytes "\<lambda>_. pb_laws rt" "pcr_selection_at rt" pcr_selection_msg
  "pcr_selections_loop rt" for rt
  by unfold_locales (simp_all add: pcr_selection_at_bytes)

definition pcr_list_msg :: "TPML_PCR_SELECTION \<Rightarrow> pb_msg" where
  "pcr_list_msg s =
     Msg PB_TPMLPCRSelection
       [(''count'', PbInt (int (length (selections s)))),
        (''pcr_selections'', PbList (map pcr_selection_msg (selections s)))]"

lemma proto_pcr_selection_bytes:
  assumes "TPML_PCR_SELECTION_to_bytes s = Inr b" "pb_laws rt"
  shows "proto_pcr_selection rt (b @ rest) = Inr (pcr_list_msg s)"
proof -
  let ?n = "int (length (selections s))"
  from assms(1) obtain bs where j: "joinE PCR_SELECTION_to_bytes (selections s) = Inr bs"
    and n: "length (selections s) < 4294967296" and b: "b = be_bytes 4 ?n @ bs"
    by (auto simp: layout)
  have c: "at_cursor (b @ rest) 4 (bs @ rest)"
    using at_cursor_append [of "be_bytes 4 ?n" "bs @ rest"] b by simp
  have "py_slice (b @ rest) 0 4 = be_bytes 4 ?n"
    by (simp add: py_slice_def b)
  then show ?thesis
    using n assms(2) pcr.loop_joined [OF j assms(2) c]
    by (simp add: proto_pcr_selection_def Let_def byte_simps pb_simps pcr_list_msg_def
        pcr_selection_msg_def)
qed

subsection \<open>Sessions: a loop to the end of the buffer\<close>

definition session_msg :: "TPMS_AUTH_COMMAND \<Rightarrow> pb_msg" where
  "session_msg a =
     Msg PB_TPMSession
       [(''session_handle'', PbInt (auth_session_handle a)),
        (''nonce_size'', PbInt (int (length (auth_nonce a)))),
        (''nonce'', PbBytes (auth_nonce a)),
        (''session_attributes'', PbInt (auth_session_attributes a)),
        (''hmac_size'', PbInt (int (length (auth_hmac a)))),
        (''hmac'', PbBytes (auth_hmac a))]"

lemma session_at_bytes:
  assumes "AUTH_COMMAND_to_bytes a = Inr b" "pb_laws rt" "at_cursor bs i (b @ rest)"
  shows "session_at rt bs i = Inr (session_msg a, i + length b)"
proof -
  let ?h = "auth_session_handle a" and ?n = "auth_nonce a" and ?t = "auth_session_attributes a"
    and ?m = "auth_hmac a"
  let ?r3 = "be_bytes 2 (int (length ?m)) @ ?m @ rest"
  let ?r2 = "word_of_int ?t # ?r3"
  let ?r1 = "be_bytes 2 (int (length ?n)) @ ?n @ ?r2"
  from assms(1) have b: "b @ rest = be_bytes 4 ?h @ ?r1"
    and l: "length b = 9 + length ?n + length ?m"
    and r: "0 \<le> ?h" "?h < 4294967296" "length ?n < 65536" "0 \<le> ?t" "?t < 256"
      "length ?m < 65536"
    by (auto simp: layout)
  have c0: "at_cursor bs i (be_bytes 4 ?h @ ?r1)" using assms(3) b by simp
  have c1: "at_cursor bs (i + 4) ?r1" by (rule at_cursor_skip [OF c0]) simp
  have c2: "at_cursor bs (i + 4 + 2) (?n @ ?r2)" by (rule at_cursor_skip [OF c1]) simp
  have c3: "at_cursor bs (i + 4 + 2 + length ?n) ?r2" by (rule at_cursor_skip [OF c2]) simp
  have c4: "at_cursor bs (i + 4 + 2 + length ?n + 1) ?r3" by (rule at_cursor_Cons [OF c3])
  have c5: "at_cursor bs (i + 4 + 2 + length ?n + 1 + 2) (?m @ rest)"
    by (rule at_cursor_skip [OF c4]) simp
  note reads = int_at_cursor [OF c0] int_at_cursor [OF c1] slice_at_cursor_exact [OF c2]
    byte_at_cursor [OF c3] int_at_cursor [OF c4] slice_at_cursor_exact [OF c5]
  show ?thesis
    using r assms(2) reads l
    by (simp add: session_at_def Let_def pb_simps session_msg_def ac_simps)
qed

interpretation session: drained_codec
  AUTH_COMMAND_to_bytes "\<lambda>_. pb_laws rt" "session_at rt" session_msg "sessions_loop rt" for rt
proof unfold_locales
  show "AUTH_COMMAND_to_bytes x \<noteq> Inr []" for x
    by (auto simp: AUTH_COMMAND_layout simp del: be_bytes.simps dest!: arg_cong [of _ _ length])
  show "length bs \<le> i \<Longrightarrow> sessions_loop rt bs i = Inr []" for bs i
    by (simp add: sessions_loop.simps)
  show "sessions_loop rt bs i =
      bindE (session_at rt bs i) (\<lambda>(y, j). bindE (sessions_loop rt bs j) (\<lambda>ys. Inr (y # ys)))"
    if "i < length bs" for bs i
    using that by (subst sessions_loop.simps) simp
qed (simp add: session_at_bytes)

lemma proto_sessions_bytes:
  assumes "AUTH_AREA_to_bytes a = Inr b" "pb_laws rt"
  shows "proto_sessions rt b = Inr (map session_msg (auth_commands a))"
proof -
  from assms(1) obtain bs where j: "joinE AUTH_COMMAND_to_bytes (auth_commands a) = Inr bs"
    and b: "b = be_bytes 4 (int (length bs)) @ bs"
    by (auto simp: AUTH_AREA_layout)
  have "at_cursor b 4 bs" using at_cursor_append [of "be_bytes 4 (int (length bs))" bs] b by simp
  then show ?thesis
    unfolding proto_sessions_def using session.drain_joined [OF j] assms(2) by blast
qed

subsection \<open>Sized buffers and the sensitive area\<close>

lemma parse_tpm2b_cursor:
  assumes "at_cursor bs i (be_bytes 2 (int (length d)) @ d @ rest)" "length d < 65536"
  shows "parse_tpm2b bs i = (be_bytes 2 (int (length d)) @ d, i + (2 + length d))"
proof -
  have "from_bytes (py_slice bs i (i + 2)) = int (length d)"
    using int_at_cursor [OF assms(1)] assms(2) by simp
  moreover have "py_slice bs i (i + (2 + length d)) = be_bytes 2 (int (length d)) @ d"
    using slice_at_cursor_exact [of bs i "be_bytes 2 (int (length d)) @ d" rest] assms(1) by simp
  ultimately show ?thesis by (simp add: parse_tpm2b_def Let_def ac_simps)
qed

text \<open>What the parser makes of arbitrary bytes: the size it reads, clipped at the end.\<close>

lemma parse_tpm2b_any:
  assumes "at_cursor bs i left"
  shows "drop 2 (fst (parse_tpm2b bs i)) = take (nat (from_bytes (take 2 left))) (drop 2 left)"
proof -
  have s: "py_slice bs i (i + 2) = take 2 left" by (rule slice_at_cursor [OF assms])
  have "py_slice bs i (i + 2 + k) = take (2 + k) left" for k
    using slice_at_cursor [OF assms, of "2 + k"] by (simp only: add.assoc)
  then show ?thesis by (simp only: parse_tpm2b_def Let_def fst_conv s) (simp add: drop_take)
qed

interpretation tpm2b: field_codec
  tpm2b_bytes "\<lambda>_. True" "\<lambda>bs i. Inr (parse_tpm2b bs i)" "\<lambda>d. be_bytes 2 (int (length d)) @ d"
  by unfold_locales (auto simp: layout parse_tpm2b_cursor)

definition sensitive_create_msg :: "TPMS_SENSITIVE_CREATE \<Rightarrow> pb_msg" where
  "sensitive_create_msg s =
     Msg PB_TPM2BSensitiveCreate
       [(''size'', PbInt (4 + int (length (sens_user_auth s)) + int (length (sens_data s)))),
        (''sensitive'', PbMsg (Msg PB_TPMSSensitiveCreate
           [(''user_auth'', PbMsg (Msg PB_TPM2BAuth
               [(''size'', PbInt (int (length (sens_user_auth s)))),
                (''buffer'', PbBytes (sens_user_auth s))])),
            (''data'', PbMsg (Msg PB_TPM2BSensitiveData
               [(''size'', PbInt (int (length (sens_data s)))),
                (''buffer'', PbBytes (sens_data s))]))]))]"

lemma proto_sensitive_create_bytes:
  assumes "TPM2B_SENSITIVE_CREATE_to_bytes s = Inr b" "pb_laws rt"
  shows "proto_sensitive_create rt b = Inr (sensitive_create_msg (sensitive s))"
proof -
  let ?u = "sens_user_auth (sensitive s)" and ?d = "sens_data (sensitive s)"
  let ?inner = "be_bytes 2 (int (length ?u)) @ ?u @ be_bytes 2 (int (length ?d)) @ ?d"
  let ?n = "4 + (length ?u + length ?d)"
  from assms(1) have b: "b = be_bytes 2 (int ?n) @ ?inner" and n: "?n < 65536"
    by (auto simp: layout)
  have n1: "from_bytes (py_slice b 0 2) = int ?n"
    using n by (simp add: b py_slice_def byte_simps)
  have n2: "py_slice b 2 (2 + ?n) = ?inner"
    by (simp add: b py_slice_def)
  have u1: "from_bytes (py_slice ?inner 0 2) = int (length ?u)"
    using n by (simp add: py_slice_def byte_simps)
  have u2: "py_slice ?inner 2 (2 + length ?u) = ?u"
    by (simp add: py_slice_def)
  have d1: "from_bytes (py_slice ?inner (2 + length ?u) (2 + length ?u + 2)) = int (length ?d)"
    using n by (simp add: py_slice_def byte_simps)
  have d2: "py_slice ?inner (2 + length ?u + 2) (2 + length ?u + 2 + length ?d) = ?d"
    by (simp add: py_slice_def)
  show ?thesis
    using n assms(2)
    by (simp only: proto_sensitive_create_def Let_def n1 n2 u1 u2 d1 d2 nat_int)
      (simp add: pb_simps sensitive_create_msg_def)
qed

subsection \<open>The public area\<close>

text \<open>
  \<open>_proto_public\<close> reads exactly two bytes of scheme. It reads a public area back when no hash
  algorithm follows the scheme (\<open>plain_scheme\<close>); what it makes of the others is
  \<open>proto_public_rsa_hash\<close> and \<open>proto_public_hmac\<close> below.
\<close>

definition plain_scheme :: "TPMT_PUBLIC \<Rightarrow> bool" where
  "plain_scheme p \<longleftrightarrow>
     (if alg_to_int (pub_type p) = 1
      then (case pub_rsa_parameters p of None \<Rightarrow> True
            | Some r \<Rightarrow> rsa_scheme_hash r = None \<or> alg_to_int (rsa_scheme r) = 16)
      else (case pub_keyedhash_scheme p of None \<Rightarrow> True
            | Some k \<Rightarrow> kh_hash_alg k = None \<or> alg_to_int (kh_scheme k) \<noteq> 5))"

definition rsa_parms_msg :: "int \<Rightarrow> int \<Rightarrow> int \<Rightarrow> int \<Rightarrow> pb_msg" where
  "rsa_parms_msg symmetric scheme key_bits exponent =
     Msg PB_TPMUPublicParms [(''rsa'', PbMsg (Msg PB_TPMSRSAParms
       [(''symmetric'', PbInt symmetric), (''scheme'', PbInt scheme),
        (''key_bits'', PbInt key_bits), (''exponent'', PbInt exponent)]))]"

definition digest_msg :: "bytes \<Rightarrow> pb_msg" where
  "digest_msg d = Msg PB_TPM2BDigest [(''size'', PbInt (int (length d))), (''buffer'', PbBytes d)]"

definition public_msg :: "int \<Rightarrow> TPMT_PUBLIC \<Rightarrow> pb_msg \<Rightarrow> pb_kwargs \<Rightarrow> pb_msg" where
  "public_msg sz p parameters unique =
     Msg PB_TPM2BPublic
       [(''size'', PbInt sz),
        (''public_area'', PbMsg (Msg PB_TPMTPublic
          [(''type'', PbInt (alg_to_int (pub_type p))),
           (''name_alg'', PbInt (alg_to_int (pub_name_alg p))),
           (''object_attributes'', PbInt (attrs_to_int (pub_object_attributes p))),
           (''auth_policy'', PbMsg (digest_msg (pub_auth_policy p))),
           (''parameters'', PbMsg parameters),
           (''unique'', PbMsg (Msg PB_TPMUPublicId unique))]))]"

definition rsa_public_msg :: "int \<Rightarrow> TPMT_PUBLIC \<Rightarrow> TPMS_RSA_PARMS \<Rightarrow> pb_msg" where
  "rsa_public_msg sz p r =
     public_msg sz p
       (rsa_parms_msg (alg_to_int (sym_algorithm (rsa_symmetric r))) (alg_to_int (rsa_scheme r))
          (rsa_key_bits r) (rsa_exponent r))
       [(''rsa'', PbBytes (pub_unique p))]"

definition keyedhash_public_msg :: "int \<Rightarrow> TPMT_PUBLIC \<Rightarrow> int \<Rightarrow> bytes \<Rightarrow> pb_msg" where
  "keyedhash_public_msg sz p scheme unique =
     public_msg sz p
       (Msg PB_TPMUPublicParms [(''keyedhash'', PbMsg (Msg PB_TPMSKeyedHashParms
          [(''scheme'', PbInt scheme)]))])
       [(''keyedhash'', PbMsg (digest_msg unique))]"

text \<open>The fields before the parameters: the cursor after them, and what each read returns.\<close>

lemma public_prefix:
  assumes "pub = be_bytes 2 t @ be_bytes 2 n @ be_bytes 4 a @ be_bytes 2 (int (length pol)) @ pol @ rest"
    and "0 \<le> t" "t < 65536" "0 \<le> n" "n < 65536" "0 \<le> a" "a < 4294967296" "length pol < 65536"
  shows "from_bytes (py_slice pub 0 (0 + 2)) = t"
    and "from_bytes (py_slice pub (0 + 2) (0 + 2 + 2)) = n"
    and "from_bytes (py_slice pub (0 + 2 + 2) (0 + 2 + 2 + 4)) = a"
    and "from_bytes (py_slice pub (0 + 2 + 2 + 4) (0 + 2 + 2 + 4 + 2)) = int (length pol)"
    and "py_slice pub (0 + 2 + 2 + 4 + 2) (0 + 2 + 2 + 4 + 2 + length pol) = pol"
    and "at_cursor pub (0 + 2 + 2 + 4 + 2 + length pol) rest"
proof -
  show "from_bytes (py_slice pub 0 (0 + 2)) = t"
    using assms by (simp add: py_slice_def byte_simps)
  show "from_bytes (py_slice pub (0 + 2) (0 + 2 + 2)) = n"
    using assms by (simp add: py_slice_def byte_simps)
  show "from_bytes (py_slice pub (0 + 2 + 2) (0 + 2 + 2 + 4)) = a"
    using assms by (simp add: py_slice_def byte_simps)
  show "from_bytes (py_slice pub (0 + 2 + 2 + 4) (0 + 2 + 2 + 4 + 2)) = int (length pol)"
    using assms by (simp add: py_slice_def byte_simps)
  show "py_slice pub (0 + 2 + 2 + 4 + 2) (0 + 2 + 2 + 4 + 2 + length pol) = pol"
    using assms by (simp add: py_slice_def)
  show "at_cursor pub (0 + 2 + 2 + 4 + 2 + length pol) rest"
    using at_cursor_append [of "be_bytes 2 t @ be_bytes 2 n @ be_bytes 4 a @
      be_bytes 2 (int (length pol)) @ pol" rest] by (simp add: assms(1))
qed

text \<open>
  What \<open>_proto_public\<close> returns for any RSA area whose parameters read as a symmetric algorithm,
  a two-byte scheme, key bits, exponent and a sized buffer.
\<close>

lemma proto_public_rsa:
  assumes laws: "pb_laws rt"
    and sz: "length sz = 2"
    and pub: "payload = sz @ be_bytes 2 t @ be_bytes 2 n @ be_bytes 4 a @
      be_bytes 2 (int (length pol)) @ pol @ rest"
    and rest: "rest = be_bytes 2 sa @ symtail @ be_bytes 2 sch @ be_bytes 2 kb @ be_bytes 4 ex @ left"
    and tail: "length symtail = (if sa = 16 then 0 else 4)"
    and t: "t = 1" and r: "0 \<le> n" "n < 65536" "0 \<le> a" "a < 4294967296" "length pol < 65536"
      "0 \<le> sa" "sa < 65536" "0 \<le> sch" "sch < 65536" "0 \<le> kb" "kb < 65536"
      "0 \<le> ex" "ex < 4294967296" "length payload < 4294967296"
  shows "proto_public rt payload = Inr (Msg PB_TPM2BPublic
       [(''size'', PbInt (int (length payload - 2))),
        (''public_area'', PbMsg (Msg PB_TPMTPublic
          [(''type'', PbInt t), (''name_alg'', PbInt n), (''object_attributes'', PbInt a),
           (''auth_policy'', PbMsg (digest_msg pol)),
           (''parameters'', PbMsg (rsa_parms_msg sa sch kb ex)),
           (''unique'', PbMsg (Msg PB_TPMUPublicId
              [(''rsa'', PbBytes (take (nat (from_bytes (take 2 left))) (drop 2 left)))]))]))])"
proof -
  let ?pub = "drop 2 payload" and ?o = "0 + 2 + 2 + 4 + 2 + length pol"
  have p: "?pub = be_bytes 2 t @ be_bytes 2 n @ be_bytes 4 a @ be_bytes 2 (int (length pol)) @ pol @ rest"
    using pub sz by simp
  note pre = public_prefix [OF p]
  let ?o1 = "if sa = 16 then ?o + 2 else ?o + 6"
  have c0: "at_cursor ?pub ?o (be_bytes 2 sa @ symtail @ be_bytes 2 sch @ be_bytes 2 kb @
      be_bytes 4 ex @ left)"
    using pre(6) t r rest by simp
  have c1: "at_cursor ?pub ?o1 (be_bytes 2 sch @ be_bytes 2 kb @ be_bytes 4 ex @ left)"
    using at_cursor_skip [of ?pub ?o "be_bytes 2 sa @ symtail"
        "be_bytes 2 sch @ be_bytes 2 kb @ be_bytes 4 ex @ left" "2 + length symtail"] c0 tail
    by (cases "sa = 16") simp_all
  have c2: "at_cursor ?pub (?o1 + 2) (be_bytes 2 kb @ be_bytes 4 ex @ left)"
    by (rule at_cursor_skip [OF c1]) simp
  have c3: "at_cursor ?pub (?o1 + 2 + 2) (be_bytes 4 ex @ left)"
    by (rule at_cursor_skip [OF c2]) simp
  have c4: "at_cursor ?pub (?o1 + 2 + 2 + 4) left"
    by (rule at_cursor_skip [OF c3]) simp
  note u = parse_tpm2b_any [OF c4]
  note reads = pre(1-5) int_at_cursor [OF c0] int_at_cursor [OF c1] int_at_cursor [OF c2]
    int_at_cursor [OF c3]
  have range: "sa < 256 ^ 2" "sch < 256 ^ 2" "kb < 256 ^ 2" "ex < 256 ^ 4" "0 \<le> t" "t < 65536"
    using r t by simp_all
  show ?thesis
    by (simp only: proto_public_def Let_def reads r range nat_int TPM_ALG_value.simps t if_True
        refl case_prod_beta u fst_conv snd_conv)
      (use r laws in \<open>simp add: pb_simps rsa_parms_msg_def digest_msg_def\<close>)
qed

lemma proto_public_keyedhash:
  assumes laws: "pb_laws rt"
    and sz: "length sz = 2"
    and pub: "payload = sz @ be_bytes 2 t @ be_bytes 2 n @ be_bytes 4 a @
      be_bytes 2 (int (length pol)) @ pol @ be_bytes 2 sch @ left"
    and t: "t = 8" and r: "0 \<le> n" "n < 65536" "0 \<le> a" "a < 4294967296" "length pol < 65536"
      "0 \<le> sch" "sch < 65536" "length payload < 4294967296"
  shows "proto_public rt payload = Inr (Msg PB_TPM2BPublic
       [(''size'', PbInt (int (length payload - 2))),
        (''public_area'', PbMsg (Msg PB_TPMTPublic
          [(''type'', PbInt t), (''name_alg'', PbInt n), (''object_attributes'', PbInt a),
           (''auth_policy'', PbMsg (digest_msg pol)),
           (''parameters'', PbMsg (Msg PB_TPMUPublicParms
              [(''keyedhash'', PbMsg (Msg PB_TPMSKeyedHashParms [(''scheme'', PbInt sch)]))])),
           (''unique'', PbMsg (Msg PB_TPMUPublicId
              [(''keyedhash'', PbMsg (digest_msg
                  (take (nat (from_bytes (take 2 left))) (drop 2 left))))]))]))])"
proof -
  let ?pub = "drop 2 payload" and ?o = "0 + 2 + 2 + 4 + 2 + length pol"
  have p: "?pub = be_bytes 2 t @ be_bytes 2 n @ be_bytes 4 a @ be_bytes 2 (int (length pol)) @ pol @
      be_bytes 2 sch @ left"
    using pub sz by simp
  note pre = public_prefix [OF p]
  have c0: "at_cursor ?pub ?o (be_bytes 2 sch @ left)"
    using pre(6) t r by simp
  have c1: "at_cursor ?pub (?o + 2) left"
    by (rule at_cursor_skip [OF c0]) simp
  note u = parse_tpm2b_any [OF c1]
  have l: "length (take (nat (from_bytes (take 2 left))) (drop 2 left)) < 4294967296"
    using r(8) pub sz by simp
  note reads = pre(1-5) int_at_cursor [OF c0]
  have range: "sch < 256 ^ 2" "0 \<le> t" "t < 65536" and ne: "(8 :: int) = 1 \<longleftrightarrow> False"
    using r t by simp_all
  show ?thesis
    by (simp only: proto_public_def Let_def reads r range nat_int TPM_ALG_value.simps t ne if_False
        if_True refl case_prod_beta u fst_conv snd_conv)
      (use r l laws in \<open>simp add: pb_simps digest_msg_def\<close>)
qed

lemma proto_public_other:
  assumes "from_bytes (py_slice (drop 2 payload) 0 (0 + 2)) = t" "t \<noteq> 1" "t \<noteq> 8"
  shows "proto_public rt payload = Inl NotImplementedError"
  by (simp only: proto_public_def Let_def assms TPM_ALG_value.simps if_False bindE_Inl)

text \<open>The round trips, for the areas whose scheme carries no hash algorithm.\<close>

lemma proto_public_rsa_any:
  assumes laws: "pb_laws rt" and enc: "TPM2B_PUBLIC_to_bytes p = Inr b"
    and t: "alg_to_int (pub_type (public_area p)) = 1"
    and params: "pub_rsa_parameters (public_area p) = Some r"
    and reads: "scheme_suffix (alg_to_int (rsa_scheme r) \<noteq> 16) (rsa_scheme_hash r) @
        be_bytes 2 (rsa_key_bits r) @ be_bytes 4 (rsa_exponent r) @
        be_bytes 2 (int (length (pub_unique (public_area p)))) @ pub_unique (public_area p)
      = be_bytes 2 kb @ be_bytes 4 ex @ left"
    and kb: "0 \<le> kb" "kb < 65536" and ex: "0 \<le> ex" "ex < 4294967296"
  shows "proto_public rt b =
    Inr (public_msg (int (length b - 2)) (public_area p)
      (rsa_parms_msg (alg_to_int (sym_algorithm (rsa_symmetric r))) (alg_to_int (rsa_scheme r)) kb ex)
      [(''rsa'', PbBytes (take (nat (from_bytes (take 2 left))) (drop 2 left)))])"
proof -
  let ?q = "public_area p" and ?s = "rsa_symmetric r"
  let ?u = "be_bytes 2 (int (length (pub_unique ?q))) @ pub_unique ?q"
  from enc t params obtain inner parms sym where
    b: "b = be_bytes 2 (int (length inner)) @ inner" and li: "length inner < 65536"
    and inner: "inner = be_bytes 2 (alg_to_int (pub_type ?q)) @ be_bytes 2 (alg_to_int (pub_name_alg ?q)) @
      be_bytes 4 (attrs_to_int (pub_object_attributes ?q)) @
      be_bytes 2 (int (length (pub_auth_policy ?q))) @ pub_auth_policy ?q @ parms @ ?u"
    and parms: "RSA_PARMS_to_bytes r = Inr parms" and sym: "SYM_DEF_to_bytes ?s = Inr sym"
    and r: "0 \<le> alg_to_int (pub_name_alg ?q)" "alg_to_int (pub_name_alg ?q) < 65536"
      "0 \<le> attrs_to_int (pub_object_attributes ?q)"
      "attrs_to_int (pub_object_attributes ?q) < 4294967296"
      "length (pub_auth_policy ?q) < 65536"
    by (auto simp: TPM2B_PUBLIC_layout PUBLIC_layout RSA_PARMS_layout)
  from parms sym reads have p: "parms @ ?u = sym @ be_bytes 2 (alg_to_int (rsa_scheme r)) @
      be_bytes 2 kb @ be_bytes 4 ex @ left"
    and pr: "0 \<le> alg_to_int (rsa_scheme r)" "alg_to_int (rsa_scheme r) < 65536"
    by (auto simp: RSA_PARMS_layout)
  from sym obtain symtail where st: "sym = be_bytes 2 (alg_to_int (sym_algorithm ?s)) @ symtail"
    and sl: "length symtail = (if alg_to_int (sym_algorithm ?s) = 16 then 0 else 4)"
    and sr: "0 \<le> alg_to_int (sym_algorithm ?s)" "alg_to_int (sym_algorithm ?s) < 65536"
    by (fastforce simp: SYM_DEF_layout split: if_splits)
  have lb: "length b < 4294967296" using b li by simp
  have bb: "b = be_bytes 2 (int (length inner)) @ be_bytes 2 (alg_to_int (pub_type ?q)) @
      be_bytes 2 (alg_to_int (pub_name_alg ?q)) @ be_bytes 4 (attrs_to_int (pub_object_attributes ?q)) @
      be_bytes 2 (int (length (pub_auth_policy ?q))) @ pub_auth_policy ?q @
      be_bytes 2 (alg_to_int (sym_algorithm ?s)) @ symtail @
      be_bytes 2 (alg_to_int (rsa_scheme r)) @ be_bytes 2 kb @ be_bytes 4 ex @ left"
    using b inner p st by (metis append.assoc)
  show ?thesis
    by (simp only: public_msg_def)
      (rule proto_public_rsa [OF laws _ bb refl sl t r sr pr kb ex lb], simp)
qed

lemma proto_public_rsa_bytes:
  assumes "pb_laws rt" and enc: "TPM2B_PUBLIC_to_bytes p = Inr b"
    and t: "alg_to_int (pub_type (public_area p)) = 1"
    and params: "pub_rsa_parameters (public_area p) = Some r"
    and plain: "plain_scheme (public_area p)"
  shows "proto_public rt b = Inr (rsa_public_msg (int (length b - 2)) (public_area p) r)"
proof -
  let ?u = "pub_unique (public_area p)"
  have "scheme_suffix (alg_to_int (rsa_scheme r) \<noteq> 16) (rsa_scheme_hash r) = []"
    using plain t params by (auto simp: plain_scheme_def scheme_suffix_def split: option.split)
  moreover from enc t params have "length ?u < 65536" "0 \<le> rsa_key_bits r" "rsa_key_bits r < 65536"
      "0 \<le> rsa_exponent r" "rsa_exponent r < 4294967296"
    by (auto simp: TPM2B_PUBLIC_layout PUBLIC_layout RSA_PARMS_layout)
  ultimately show ?thesis
    using proto_public_rsa_any [OF assms(1-4), of "rsa_key_bits r" "rsa_exponent r"
        "be_bytes 2 (int (length ?u)) @ ?u"]
    by (simp add: rsa_public_msg_def byte_simps)
qed

text \<open>
  With a hash algorithm after the scheme, \<open>_proto_public\<close> takes the hash for the key size, and
  every later field is read two bytes early.
\<close>

lemma proto_public_rsa_hash:
  assumes "pb_laws rt" and enc: "TPM2B_PUBLIC_to_bytes p = Inr b"
    and t: "alg_to_int (pub_type (public_area p)) = 1"
    and params: "pub_rsa_parameters (public_area p) = Some r"
    and h: "rsa_scheme_hash r = Some h" "alg_to_int (rsa_scheme r) \<noteq> 16"
  shows "proto_public rt b =
    Inr (public_msg (int (length b - 2)) (public_area p)
      (rsa_parms_msg (alg_to_int (sym_algorithm (rsa_symmetric r))) (alg_to_int (rsa_scheme r))
        (alg_to_int h) (rsa_key_bits r * 65536 + rsa_exponent r div 65536))
      [(''rsa'', PbBytes (take (nat (rsa_exponent r mod 65536))
          (be_bytes 2 (int (length (pub_unique (public_area p)))) @ pub_unique (public_area p))))])"
proof -
  let ?u = "pub_unique (public_area p)" and ?k = "rsa_key_bits r" and ?e = "rsa_exponent r"
  from enc t params h have r: "0 \<le> alg_to_int h" "alg_to_int h < 65536" "0 \<le> ?k" "?k < 65536"
      "0 \<le> ?e" "?e < 4294967296"
    by (auto simp: TPM2B_PUBLIC_layout PUBLIC_layout RSA_PARMS_layout scheme_suffix_ok_def)
  have e: "be_bytes 4 ?e = be_bytes 2 (?e div 65536) @ be_bytes 2 ?e"
    using be_bytes_add [of 2 2 ?e] by simp
  have "(?k * 65536 + ?e div 65536) div 65536 = ?k"
    using r by (simp add: div_add1_eq div_pos_pos_trivial flip: zdiv_zmult2_eq)
  moreover have "be_bytes 2 (?k * 65536 + ?e div 65536) = be_bytes 2 (?e div 65536)"
    using be_bytes_mod [of 2 "?k * 65536 + ?e div 65536"] be_bytes_mod [of 2 "?e div 65536"] by simp
  ultimately have k: "be_bytes 4 (?k * 65536 + ?e div 65536) = be_bytes 2 ?k @ be_bytes 2 (?e div 65536)"
    using be_bytes_add [of 2 2 "?k * 65536 + ?e div 65536"] by simp
  have bound: "?k * 65536 + ?e div 65536 < 4294967296" using r by auto
  have m: "be_bytes 2 (?e mod 65536) = be_bytes 2 ?e"
    using be_bytes_mod [of 2 ?e] by simp
  show ?thesis
    using proto_public_rsa_any [OF assms(1-4), of "alg_to_int h" "?k * 65536 + ?e div 65536"
        "be_bytes 2 (?e mod 65536) @ be_bytes 2 (int (length ?u)) @ ?u"] r bound h
    by (simp add: scheme_suffix_def e k m byte_simps from_bytes_be_bytes)
qed

text \<open>The area of a keyed-hash object, with the parameters it serialises.\<close>

definition keyedhash_of :: "TPMT_PUBLIC \<Rightarrow> TPMS_KEYEDHASH_PARMS" where
  "keyedhash_of p =
     (case pub_keyedhash_scheme p of None \<Rightarrow> KEYEDHASH_PARMS_default | Some k \<Rightarrow> k)"

lemma proto_public_keyedhash_any:
  assumes laws: "pb_laws rt" and enc: "TPM2B_PUBLIC_to_bytes p = Inr b"
    and t: "alg_to_int (pub_type (public_area p)) = 8"
    and k: "k = keyedhash_of (public_area p)"
    and left: "left = scheme_suffix (alg_to_int (kh_scheme k) = 5) (kh_hash_alg k) @
      be_bytes 2 (int (length (pub_unique (public_area p)))) @ pub_unique (public_area p)"
  shows "proto_public rt b =
    Inr (keyedhash_public_msg (int (length b - 2)) (public_area p) (alg_to_int (kh_scheme k))
      (take (nat (from_bytes (take 2 left))) (drop 2 left)))"
proof -
  let ?q = "public_area p"
  from enc t k obtain inner parms where
    b: "b = be_bytes 2 (int (length inner)) @ inner" and li: "length inner < 65536"
    and inner: "inner = be_bytes 2 (alg_to_int (pub_type ?q)) @ be_bytes 2 (alg_to_int (pub_name_alg ?q)) @
      be_bytes 4 (attrs_to_int (pub_object_attributes ?q)) @
      be_bytes 2 (int (length (pub_auth_policy ?q))) @ pub_auth_policy ?q @ parms @
      be_bytes 2 (int (length (pub_unique ?q))) @ pub_unique ?q"
    and parms: "KEYEDHASH_PARMS_to_bytes k = Inr parms"
    and r: "0 \<le> alg_to_int (pub_name_alg ?q)" "alg_to_int (pub_name_alg ?q) < 65536"
      "0 \<le> attrs_to_int (pub_object_attributes ?q)"
      "attrs_to_int (pub_object_attributes ?q) < 4294967296"
      "length (pub_auth_policy ?q) < 65536"
    by (auto simp: TPM2B_PUBLIC_layout PUBLIC_layout keyedhash_of_def)
  from parms have p: "parms = be_bytes 2 (alg_to_int (kh_scheme k)) @
      scheme_suffix (alg_to_int (kh_scheme k) = 5) (kh_hash_alg k)"
    and pr: "0 \<le> alg_to_int (kh_scheme k)" "alg_to_int (kh_scheme k) < 65536"
    by (auto simp: KEYEDHASH_PARMS_layout)
  have lb: "length b < 4294967296" using b li by simp
  show ?thesis
    using proto_public_keyedhash [where left = left and sz = "be_bytes 2 (int (length inner))",
        OF laws _ _ t r pr lb]
    by (simp add: b inner p left keyedhash_public_msg_def public_msg_def)
qed

lemma proto_public_keyedhash_bytes:
  assumes "pb_laws rt" "TPM2B_PUBLIC_to_bytes p = Inr b"
    and t: "alg_to_int (pub_type (public_area p)) = 8" and plain: "plain_scheme (public_area p)"
  shows "proto_public rt b =
    Inr (keyedhash_public_msg (int (length b - 2)) (public_area p)
      (alg_to_int (kh_scheme (keyedhash_of (public_area p)))) (pub_unique (public_area p)))"
proof -
  let ?k = "keyedhash_of (public_area p)"
  from plain t have "scheme_suffix (alg_to_int (kh_scheme ?k) = 5) (kh_hash_alg ?k) = []"
    by (auto simp: plain_scheme_def scheme_suffix_def keyedhash_of_def KEYEDHASH_PARMS_default_def
        split: option.splits)
  moreover from assms(2) have "length (pub_unique (public_area p)) < 65536"
    by (auto simp: TPM2B_PUBLIC_layout PUBLIC_layout)
  ultimately show ?thesis
    using proto_public_keyedhash_any [OF assms(1,2) t refl refl] by (simp add: byte_simps)
qed

lemma proto_public_hmac_hash:
  assumes "pb_laws rt" "TPM2B_PUBLIC_to_bytes p = Inr b"
    and t: "alg_to_int (pub_type (public_area p)) = 8"
    and k: "pub_keyedhash_scheme (public_area p) = Some k"
      "alg_to_int (kh_scheme k) = 5" "kh_hash_alg k = Some h"
  shows "proto_public rt b =
    Inr (keyedhash_public_msg (int (length b - 2)) (public_area p) 5
      (take (nat (alg_to_int h))
        (be_bytes 2 (int (length (pub_unique (public_area p)))) @ pub_unique (public_area p))))"
proof -
  have k': "keyedhash_of (public_area p) = k" using k(1) by (simp add: keyedhash_of_def)
  from assms(2) t k have "0 \<le> alg_to_int h" "alg_to_int h < 65536"
    by (auto simp: TPM2B_PUBLIC_layout PUBLIC_layout KEYEDHASH_PARMS_layout scheme_suffix_ok_def)
  then show ?thesis
    using proto_public_keyedhash_any [OF assms(1,2) t refl refl] k k'
    by (simp add: scheme_suffix_def byte_simps)
qed

text \<open>The message of any public area that reads back.\<close>

definition public_view :: "TPMT_PUBLIC \<Rightarrow> int \<Rightarrow> pb_msg" where
  "public_view p sz =
     (if alg_to_int (pub_type p) = 1
      then (case pub_rsa_parameters p of None \<Rightarrow> Msg PB_TPM2BPublic [] | Some r \<Rightarrow> rsa_public_msg sz p r)
      else keyedhash_public_msg sz p (alg_to_int (kh_scheme (keyedhash_of p))) (pub_unique p))"

lemma proto_public_plain:
  assumes "pb_laws rt" "TPM2B_PUBLIC_to_bytes p = Inr b" "plain_scheme (public_area p)"
  shows "proto_public rt b = Inr (public_view (public_area p) (int (length b - 2)))"
proof (cases "alg_to_int (pub_type (public_area p)) = 1")
  case True
  with assms(2) obtain r where "pub_rsa_parameters (public_area p) = Some r"
    by (auto simp: TPM2B_PUBLIC_layout PUBLIC_layout)
  with proto_public_rsa_bytes [OF assms(1,2) True] assms(3) True show ?thesis
    by (simp add: public_view_def)
next
  case False
  with assms(2) have "alg_to_int (pub_type (public_area p)) = 8"
    by (auto simp: TPM2B_PUBLIC_layout PUBLIC_layout)
  with proto_public_keyedhash_bytes [OF assms(1,2)] assms(3) show ?thesis
    by (simp add: public_view_def)
qed

text \<open>Reading back never fails on an area that was serialised, whatever its scheme.\<close>

lemma proto_public_serialised:
  assumes "pb_laws rt" "TPM2B_PUBLIC_to_bytes p = Inr b"
  obtains pubm where "proto_public rt b = Inr pubm" "msg_class pubm = PB_TPM2BPublic"
proof (cases "plain_scheme (public_area p)")
  case True
  have "msg_class (public_view q n) = PB_TPM2BPublic" for q n
    by (simp add: public_view_def rsa_public_msg_def keyedhash_public_msg_def public_msg_def
        split: option.split)
  with proto_public_plain [OF assms True] show thesis by (rule that)
next
  case False
  have c: "msg_class (public_msg sz q parms unique) = PB_TPM2BPublic" for sz q parms unique
    by (simp add: public_msg_def)
  show thesis
  proof (cases "alg_to_int (pub_type (public_area p)) = 1")
    case True
    with False obtain r h where "pub_rsa_parameters (public_area p) = Some r"
      "rsa_scheme_hash r = Some h" "alg_to_int (rsa_scheme r) \<noteq> 16"
      by (auto simp: plain_scheme_def split: option.splits)
    with proto_public_rsa_hash [OF assms True] show thesis using that c by blast
  next
    case False
    with \<open>\<not> plain_scheme (public_area p)\<close> obtain k h where
      "pub_keyedhash_scheme (public_area p) = Some k" "kh_hash_alg k = Some h"
      "alg_to_int (kh_scheme k) = 5"
      by (auto simp: plain_scheme_def split: option.splits)
    moreover have "alg_to_int (pub_type (public_area p)) = 8"
      using assms(2) False by (auto simp: TPM2B_PUBLIC_layout PUBLIC_layout)
    ultimately show thesis
      using proto_public_hmac_hash [OF assms] that c by (metis keyedhash_public_msg_def)
  qed
qed

subsection \<open>The header and sized data\<close>

definition header_msg :: "TPMCommand \<Rightarrow> pb_msg" where
  "header_msg c =
     Msg PB_TPMHeader
       [(''tag'', PbInt (cmd_tag c)), (''command_size'', PbInt (command_size c)),
        (''command_code'', PbInt (cmd_cc c))]"

lemma proto_header_ok [pb_simps]:
  assumes "pb_laws rt" "length params < 4294967286"
  shows "proto_header rt (TPMCommand_init (TPM_ST st) (TPM_CC cc) params self) =
    Inr (header_msg (TPMCommand_init (TPM_ST st) (TPM_CC cc) params self))"
proof -
  have "TPM_ST st < 2147483648" "- 2147483648 \<le> TPM_ST st" "- 2147483648 \<le> TPM_CC cc"
    using TPM_ST_range [of st] TPM_CC_range [of cc] by linarith+
  then show ?thesis
    using assms TPM_CC_range [of cc]
    by (simp add: proto_header_def pb_simps header_msg_def TPMCommand_init_def command_size_def
        ST_LEN_def CC_LEN_def SIZE_LEN_def)
qed

definition data_msg :: "bytes \<Rightarrow> pb_msg" where
  "data_msg d = Msg PB_TPM2BData [(''size'', PbInt (int (length d))), (''buffer'', PbBytes d)]"

lemma proto_tpm2b_data_ok [pb_simps]:
  "pb_laws rt \<Longrightarrow> length d < 4294967296 \<Longrightarrow> proto_tpm2b_data rt d = Inr (data_msg d)"
  by (simp add: proto_tpm2b_data_def data_msg_def pb_simps)

end
