(* ===== verification/Object_Props.thy ===== *)
theory Object_Props
  imports Decoding To_Proto
begin

section \<open>Object commands: the message is the command\<close>

text \<open>
  \<open>TPMCreate\<close> and \<open>TPMCreatePrimary\<close> throw their arguments away: \<open>to_proto\<close> recovers them from
  the parameter bytes. The lemmas follow the cursor through the parameters both share.
\<close>

definition object_params :: "int \<Rightarrow> int \<Rightarrow> bytes \<Rightarrow> bytes \<Rightarrow> bytes" where
  "object_params h s sens public =
     be_bytes 4 h @ one_session s @ (be_bytes 2 (int (length sens)) @ sens) @
     (be_bytes 2 (int (length public)) @ public) @ be_bytes 2 0 @ be_bytes 4 0"

lemma one_session_prefix: "one_session s = be_bytes 4 9 @ drop 4 (one_session s)"
  by (simp add: one_session_def)

lemma object_params_reads:
  assumes p: "params = object_params h s sens public"
    and r: "0 \<le> h" "h < 4294967296" "length sens < 65536" "length public < 65536"
  shows "from_bytes (py_slice params 0 (0 + 4)) = h"
    and "from_bytes (py_slice params (0 + 4) (0 + 4 + 4)) = 9"
    and "py_slice params (0 + 4) (0 + 4 + 4 + nat 9) = one_session s"
    and "parse_tpm2b params (0 + 4 + 4 + nat 9) =
      (be_bytes 2 (int (length sens)) @ sens, 0 + 4 + 4 + nat 9 + (2 + length sens))"
    and "parse_tpm2b params (0 + 4 + 4 + nat 9 + (2 + length sens)) =
      (be_bytes 2 (int (length public)) @ public,
       0 + 4 + 4 + nat 9 + (2 + length sens) + (2 + length public))"
    and "parse_tpm2b params (0 + 4 + 4 + nat 9 + (2 + length sens) + (2 + length public)) =
      (be_bytes 2 0, 0 + 4 + 4 + nat 9 + (2 + length sens) + (2 + length public) + 2)"
    and "drop (0 + 4 + 4 + nat 9 + (2 + length sens) + (2 + length public) + 2) params = be_bytes 4 0"
proof -
  let ?o = "0 + 4 + 4 + nat 9" and ?d = "be_bytes 2 0 @ be_bytes 4 0"
  let ?p = "be_bytes 2 (int (length public)) @ public" and ?s = "be_bytes 2 (int (length sens)) @ sens"
  have c0: "at_cursor params 0 (be_bytes 4 h @ one_session s @ ?s @ ?p @ ?d)"
    by (simp add: p object_params_def)
  have c1: "at_cursor params (0 + 4) (one_session s @ ?s @ ?p @ ?d)"
    by (rule at_cursor_skip [OF c0]) simp
  then have c1': "at_cursor params (0 + 4) (be_bytes 4 9 @ drop 4 (one_session s) @ ?s @ ?p @ ?d)"
    using one_session_prefix by (metis append.assoc)
  have "at_cursor params (0 + 4 + 13) (?s @ ?p @ ?d)"
    by (rule at_cursor_skip [OF c1]) simp
  then have c2: "at_cursor params ?o (be_bytes 2 (int (length sens)) @ sens @ ?p @ ?d)"
    by simp
  have c3: "at_cursor params (?o + (2 + length sens))
      (be_bytes 2 (int (length public)) @ public @ ?d)"
    using at_cursor_skip [of params ?o ?s "?p @ ?d" "2 + length sens"] c2 by simp
  have c4: "at_cursor params (?o + (2 + length sens) + (2 + length public)) ?d"
    using at_cursor_skip [of params "?o + (2 + length sens)" ?p ?d "2 + length public"] c3 by simp
  have c5: "at_cursor params (?o + (2 + length sens) + (2 + length public) + 2) (be_bytes 4 0)"
    by (rule at_cursor_skip [OF c4]) simp
  show "from_bytes (py_slice params 0 (0 + 4)) = h"
    using int_at_cursor [OF c0] r by simp
  show "from_bytes (py_slice params (0 + 4) (0 + 4 + 4)) = 9"
    using int_at_cursor [OF c1'] by simp
  show "py_slice params (0 + 4) (0 + 4 + 4 + nat 9) = one_session s"
    using slice_at_cursor_exact [OF c1, of 13] by simp
  show "parse_tpm2b params ?o = (?s, ?o + (2 + length sens))"
    by (rule parse_tpm2b_cursor [OF c2 r(3)])
  show "parse_tpm2b params (?o + (2 + length sens)) =
      (?p, ?o + (2 + length sens) + (2 + length public))"
    by (rule parse_tpm2b_cursor [OF c3 r(4)])
  show "parse_tpm2b params (?o + (2 + length sens) + (2 + length public)) =
      (be_bytes 2 0, ?o + (2 + length sens) + (2 + length public) + 2)"
    using parse_tpm2b_cursor [of params "?o + (2 + length sens) + (2 + length public)" "[]"] c4
    by simp
  show "drop (?o + (2 + length sens) + (2 + length public) + 2) params = be_bytes 4 0"
    by (rule drop_at_cursor [OF c5])
qed

subsection \<open>What the constructors write\<close>

lemma object_pieces:
  fixes sens :: TPM2B_SENSITIVE_CREATE and pub :: TPM2B_PUBLIC
  assumes "catE [to_bytes 4 h, AUTH_AREA_to_bytes (one_session_area s),
      TPM2B_SENSITIVE_CREATE_to_bytes sens, TPM2B_PUBLIC_to_bytes pub,
      DATA_to_bytes DATA_default, TPML_PCR_SELECTION_to_bytes \<lparr>selections = []\<rparr>] = Inr params"
  obtains i j where "SENSITIVE_CREATE_to_bytes (sensitive sens) = Inr i"
    "PUBLIC_to_bytes (public_area pub) = Inr j" "length i < 65536" "length j < 65536"
    "0 \<le> h" "h < 4294967296" "0 \<le> s" "s < 4294967296"
    "params = object_params h s i j"
proof -
  from assms obtain i j where "SENSITIVE_CREATE_to_bytes (sensitive sens) = Inr i"
    "PUBLIC_to_bytes (public_area pub) = Inr j" "length i < 65536" "length j < 65536"
    "0 \<le> h" "h < 4294967296" "0 \<le> s" "s < 4294967296"
    "params = object_params h s i j"
    by (auto simp: bindE_eq_Inr to_bytes_Inr one_session_area_layout TPM2B_PUBLIC_layout
        TPM2B_SENSITIVE_CREATE_layout DATA_layout TPML_PCR_SELECTION_layout DATA_default_def
        object_params_def)
  then show thesis by (rule that)
qed

lemma object_params_length:
  "length (object_params h s i j) = 27 + length i + length j"
  by (simp add: object_params_def)

text \<open>
  The fields both methods build from the decoded parameters, given the message \<open>pubm\<close> that
  \<open>_proto_public\<close> makes of the public area.
\<close>

definition object_fields :: "TPM2B_SENSITIVE_CREATE \<Rightarrow> pb_msg \<Rightarrow> pb_kwargs" where
  "object_fields sens pubm =
     [(''in_sensitive'', PbMsg (sensitive_create_msg (sensitive sens))),
      (''in_public'', PbMsg pubm),
      (''outside_info'', PbMsg (data_msg [])),
      (''creation_pcr'', PbMsg (pcr_list_msg \<lparr>selections = []\<rparr>))]"

lemma object_field_decoders:
  fixes sens :: TPM2B_SENSITIVE_CREATE
  assumes "pb_laws rt" "SENSITIVE_CREATE_to_bytes (sensitive sens) = Inr i" "length i < 65536"
  shows "proto_sensitive_create rt (be_bytes 2 (int (length i)) @ i) =
      Inr (sensitive_create_msg (sensitive sens))"
    and "proto_tpm2b_data rt (drop 2 (be_bytes 2 0)) = Inr (data_msg [])"
    and "proto_pcr_selection rt (be_bytes 4 0) = Inr (pcr_list_msg \<lparr>selections = []\<rparr>)"
proof -
  show "proto_sensitive_create rt (be_bytes 2 (int (length i)) @ i) =
      Inr (sensitive_create_msg (sensitive sens))"
    by (rule proto_sensitive_create_bytes)
      (use assms in \<open>simp_all add: TPM2B_SENSITIVE_CREATE_layout\<close>)
  show "proto_tpm2b_data rt (drop 2 (be_bytes 2 0)) = Inr (data_msg [])"
    using assms(1) by (simp add: proto_tpm2b_data_ok)
  show "proto_pcr_selection rt (be_bytes 4 0) = Inr (pcr_list_msg \<lparr>selections = []\<rparr>)"
    using proto_pcr_selection_bytes [of "\<lparr>selections = []\<rparr>" "be_bytes 4 0" rt "[]"] assms(1)
    by (simp add: TPML_PCR_SELECTION_layout)
qed

lemma msg_classes [simp]:
  "msg_class (header_msg c) = PB_TPMHeader"
  "msg_class (sensitive_create_msg s) = PB_TPM2BSensitiveCreate"
  "msg_class (public_view p n) = PB_TPM2BPublic"
  "msg_class (data_msg d) = PB_TPM2BData"
  "msg_class (pcr_list_msg l) = PB_TPMLPCRSelection"
  "msg_class (session_msg a) = PB_TPMSession"
  "msg_class (digest_msg d) = PB_TPM2BDigest"
  "msg_class (public_msg sz q parms unique) = PB_TPM2BPublic"
  by (simp_all add: header_msg_def sensitive_create_msg_def public_view_def rsa_public_msg_def
      keyedhash_public_msg_def public_msg_def data_msg_def pcr_list_msg_def session_msg_def
      digest_msg_def split: option.split)

lemma TPMCreate_decodes:
  assumes "TPMCreate h s alg kt kb oa rsa kh d = Inr c" "pb_laws rt"
    and "TPM2B_PUBLIC_to_bytes (create_template alg kt kb oa rsa kh) = Inr pub"
    and "proto_public rt pub = Inr pubm" "msg_class pubm = PB_TPM2BPublic"
  shows "to_proto rt c = Inr (Some (''create'', Msg PB_TPMCreate
    ([(''header'', PbMsg (header_msg c)), (''parent_handle'', PbInt h)] @
      object_fields \<lparr>sensitive = SENSITIVE_CREATE_default\<lparr>sens_data := d\<rparr>\<rparr> pubm)))"
proof -
  let ?sens = "\<lparr>sensitive = SENSITIVE_CREATE_default\<lparr>sens_data := d\<rparr>\<rparr>"
  let ?pub = "create_template alg kt kb oa rsa kh"
  from assms(1) obtain params where
    cat: "catE [to_bytes 4 h, AUTH_AREA_to_bytes (one_session_area (rs_to_int s)),
      TPM2B_SENSITIVE_CREATE_to_bytes ?sens, TPM2B_PUBLIC_to_bytes ?pub,
      DATA_to_bytes DATA_default, TPML_PCR_SELECTION_to_bytes \<lparr>selections = []\<rparr>] = Inr params"
    and c: "c = TPMCommand_init (TPM_ST TPM_ST_SESSIONS) (TPM_CC TPM_CC_CREATE) params IsCreate"
    by (auto simp only: TPMCreate_def Let_def bindE_eq_Inr sum.inject)
  from object_pieces [OF cat] obtain i j where
    i: "SENSITIVE_CREATE_to_bytes (sensitive ?sens) = Inr i" "length i < 65536"
    and j: "PUBLIC_to_bytes (public_area ?pub) = Inr j" "length j < 65536"
    and h: "0 \<le> h" "h < 4294967296" and p: "params = object_params h (rs_to_int s) i j"
    by metis
  note reads = object_params_reads [OF p h i(2) j(2)]
  note decs = object_field_decoders [OF assms(2) i]
  have pb: "proto_public rt (be_bytes 2 (int (length j)) @ j) = Inr pubm"
    using assms(3,4) j by (simp add: TPM2B_PUBLIC_layout)
  have hd: "proto_header rt c = Inr (header_msg c)"
    unfolding c by (rule proto_header_ok [OF assms(2)]) (use i j p in \<open>simp add: object_params_length\<close>)
  have cp: "cmd_params c = params" "cmd_self c = IsCreate" by (simp_all add: c TPMCommand_init_def)
  show ?thesis
    by (simp only: to_proto_def cp command_class.case TPMCreate_to_proto_def Let_def reads
        case_prod_conv decs pb hd bindE_Inr)
      (use h j assms(2,5) in \<open>simp add: pb_simps object_fields_def\<close>)
qed

lemma TPMCreatePrimary_decodes:
  assumes "TPMCreatePrimary s alg kb ph tmpl = Inr c" "pb_laws rt"
    and "rh_to_int ph < 2147483648"
    and pub: "pub = (case tmpl of None \<Rightarrow> primary_template alg kb | Some t \<Rightarrow> t)"
    and dec: "TPM2B_PUBLIC_to_bytes pub = Inr b" "proto_public rt b = Inr pubm"
      "msg_class pubm = PB_TPM2BPublic"
  shows "to_proto rt c = Inr (Some (''createprimary'', Msg PB_TPMCreatePrimary
    ([(''header'', PbMsg (header_msg c)), (''hierarchy'', PbInt (rh_to_int ph)),
      (''sessions'', PbList [session_msg (AUTH_COMMAND (rs_to_int s))])] @
      object_fields \<lparr>sensitive = SENSITIVE_CREATE_default\<rparr> pubm)))"
proof -
  let ?sens = "\<lparr>sensitive = SENSITIVE_CREATE_default\<rparr>" and ?h = "rh_to_int ph"
  from assms(1) obtain params where
    cat: "catE [to_bytes 4 ?h, AUTH_AREA_to_bytes (one_session_area (rs_to_int s)),
      TPM2B_SENSITIVE_CREATE_to_bytes ?sens, TPM2B_PUBLIC_to_bytes pub,
      DATA_to_bytes DATA_default, TPML_PCR_SELECTION_to_bytes \<lparr>selections = []\<rparr>] = Inr params"
    and c: "c = TPMCommand_init (TPM_ST TPM_ST_SESSIONS) (TPM_CC TPM_CC_CREATE_PRIMARY) params
      IsCreatePrimary"
    unfolding pub by (auto simp only: TPMCreatePrimary_def Let_def bindE_eq_Inr sum.inject)
  from object_pieces [OF cat] obtain i j where
    i: "SENSITIVE_CREATE_to_bytes (sensitive ?sens) = Inr i" "length i < 65536"
    and j: "PUBLIC_to_bytes (public_area pub) = Inr j" "length j < 65536"
    and h: "0 \<le> ?h" "?h < 4294967296" and s: "0 \<le> rs_to_int s" "rs_to_int s < 4294967296"
    and p: "params = object_params ?h (rs_to_int s) i j"
    by metis
  note reads = object_params_reads [OF p h i(2) j(2)]
  note decs = object_field_decoders [OF assms(2) i]
  have pb: "proto_public rt (be_bytes 2 (int (length j)) @ j) = Inr pubm"
    using dec j by (simp add: TPM2B_PUBLIC_layout)
  have hd: "proto_header rt c = Inr (header_msg c)"
    unfolding c by (rule proto_header_ok [OF assms(2)]) (use i j p in \<open>simp add: object_params_length\<close>)
  have area: "AUTH_AREA_to_bytes (one_session_area (rs_to_int s)) = Inr (one_session (rs_to_int s))"
    using s by (simp add: one_session_area_layout)
  have sess: "proto_sessions rt (one_session (rs_to_int s)) =
      Inr [session_msg (AUTH_COMMAND (rs_to_int s))]"
    using proto_sessions_bytes [OF area assms(2)] by (simp add: one_session_area_def)
  have cp: "cmd_params c = params" "cmd_self c = IsCreatePrimary" "cmd_tag c = TPM_ST TPM_ST_SESSIONS"
    by (simp_all add: c TPMCommand_init_def)
  have tag: "TPM_ST TPM_ST_SESSIONS \<noteq> TPM_ST TPM_ST_NO_SESSIONS" by simp
  show ?thesis
    by (simp only: to_proto_def cp command_class.case TPMCreatePrimary_to_proto_def Let_def reads tag
        if_True option.case not_False_eq_True sess case_prod_conv decs pb hd bindE_Inr)
      (use h j assms(2,3) dec(3) in \<open>simp add: pb_simps object_fields_def\<close>)
qed

end
