(* ===== verification/Session_Props.thy ===== *)
theory Session_Props
  imports Object_Props
begin

section \<open>Session, random and NV commands: the message is the command\<close>

text \<open>
  \<open>TPMStartAuthSession\<close>, \<open>TPMGetRandom\<close> and \<open>TPMNVDefineSpace\<close> also recover their arguments from
  the parameter bytes. Enum fields are filled with the names that \<open>EnumTypeWrapper.Name\<close> finds.
\<close>

lemma int_between:
  "at_cursor bs i (be_bytes n v @ rest) \<Longrightarrow> 0 \<le> v \<Longrightarrow> v < 256 ^ n \<Longrightarrow> j = i + n
    \<Longrightarrow> from_bytes (py_slice bs i j) = v"
  by (simp add: int_at_cursor)

lemma slice_between:
  "at_cursor bs i (x @ rest) \<Longrightarrow> j = i + length x \<Longrightarrow> py_slice bs i j = x"
  by (simp add: slice_at_cursor_exact)

lemma cursor_after: "at_cursor bs i (x @ rest) \<Longrightarrow> j = i + length x \<Longrightarrow> at_cursor bs j rest"
  by (simp add: at_cursor_skip)

subsection \<open>\<open>TPMGetRandom\<close>\<close>

lemma TPMGetRandom_reads_back:
  assumes "TPMGetRandom n st auth = Inr c" "pb_laws rt" "length (cmd_params c) < 4294967286"
  shows "to_proto rt c = Inr (Some (''getrandom'', Msg PB_TPMGetRandom
    [(''header'', PbMsg (header_msg c)), (''bytes_requested'', PbInt n)]))"
proof -
  have "0 \<le> n \<and> n < 65536 \<and> (\<exists>pre.
      c = TPMCommand_init (TPM_ST st) (TPM_CC TPM_CC_GET_RANDOM) (pre @ be_bytes 2 n) IsGetRandom)"
    using assms(1)
    by (auto simp: TPMGetRandom_def result_simps split: option.splits intro: exI [of _ "[]"])
  then obtain pre where n: "0 \<le> n" "n < 65536"
    and c: "c = TPMCommand_init (TPM_ST st) (TPM_CC TPM_CC_GET_RANDOM) (pre @ be_bytes 2 n) IsGetRandom"
    by blast
  have hd: "proto_header rt c = Inr (header_msg c)"
    unfolding c by (rule proto_header_ok [OF assms(2)])
      (use assms(3) in \<open>simp add: c TPMCommand_init_def\<close>)
  have cp: "cmd_params c = pre @ be_bytes 2 n" "cmd_self c = IsGetRandom"
    by (simp_all add: c TPMCommand_init_def)
  have last: "drop (length (pre @ be_bytes 2 n) - 2) (pre @ be_bytes 2 n) = be_bytes 2 n" by simp
  show ?thesis
    by (simp only: to_proto_def cp command_class.case TPMGetRandom_to_proto_def last hd bindE_Inr)
      (use n assms(2) in \<open>simp add: pb_simps byte_simps\<close>)
qed

subsection \<open>\<open>TPMStartAuthSession\<close>\<close>

definition sym_named :: "TPMS_SYM_DEF_OBJECT \<Rightarrow> bool" where
  "sym_named s \<longleftrightarrow>
     name_of E_TPMALG (alg_to_int (sym_algorithm s)) \<noteq> None \<and>
     (alg_to_int (sym_algorithm s) \<noteq> 16 \<longrightarrow> name_of E_TPMALG (alg_to_int (sym_mode s)) \<noteq> None)"

definition sym_def_msg :: "TPMS_SYM_DEF_OBJECT \<Rightarrow> pb_msg" where
  "sym_def_msg s =
     (if alg_to_int (sym_algorithm s) = 16
      then Msg PB_TPMTSymDef [(''algorithm'', PbName ''TPM_ALG_NULL''), (''key_bits'', PbInt 0),
             (''mode'', PbName ''TPM_ALG_NULL'')]
      else Msg PB_TPMTSymDef
             [(''algorithm'', PbName (the (name_of E_TPMALG (alg_to_int (sym_algorithm s))))),
              (''key_bits'', PbInt (sym_key_bits s)),
              (''mode'', PbName (the (name_of E_TPMALG (alg_to_int (sym_mode s)))))])"

definition se_name :: "TPMSE \<Rightarrow> string" where
  "se_name t = the (name_of E_TPMSE (TPM_SE t))"

lemma name_of_se: "name_of E_TPMSE (TPM_SE t) = Some (se_name t)"
  by (cases t) (simp_all add: se_name_def name_of_def enum_names_def TPMSE_names_def)

lemma name_of_null: "name_of E_TPMALG 16 = Some ''TPM_ALG_NULL''"
  by (simp add: name_of_def enum_names_def TPMALG_names_def)

definition session_params ::
  "int \<Rightarrow> int \<Rightarrow> bytes \<Rightarrow> bytes \<Rightarrow> TPMSE \<Rightarrow> bytes \<Rightarrow> TPM_ALG \<Rightarrow> bytes" where
  "session_params k b n e t sd h =
     be_bytes 4 k @ be_bytes 4 b @ be_bytes 2 (int (length n)) @ n @
     be_bytes 2 (int (length e)) @ e @ word_of_int (TPM_SE t) # sd @ be_bytes 2 (TPM_ALG_value h)"

text \<open>The offsets of \<open>TPMStartAuthSession.to_proto\<close> before the symmetric definition.\<close>

lemma session_params_reads:
  assumes p: "params = session_params k b n e t sd h"
    and r: "0 \<le> k" "k < 4294967296" "0 \<le> b" "b < 4294967296" "length n < 65536" "length e < 65536"
  shows "from_bytes (py_slice params 0 4) = k"
    and "from_bytes (py_slice params 4 8) = b"
    and "from_bytes (py_slice params 8 10) = int (length n)"
    and "py_slice params 10 (10 + length n) = n"
    and "from_bytes (py_slice params (10 + length n) (10 + length n + 2)) = int (length e)"
    and "py_slice params (10 + length n + 2) (10 + length n + 2 + length e) = e"
    and "byte_at params (10 + length n + 2 + length e) = Inr (TPM_SE t)"
    and "at_cursor params (10 + length n + 2 + length e + 1) (sd @ be_bytes 2 (TPM_ALG_value h))"
proof -
  let ?tl = "word_of_int (TPM_SE t) # sd @ be_bytes 2 (TPM_ALG_value h)"
  have c0: "at_cursor params 0 (be_bytes 4 k @ be_bytes 4 b @ be_bytes 2 (int (length n)) @ n @
      be_bytes 2 (int (length e)) @ e @ ?tl)"
    by (simp add: p session_params_def)
  have c1: "at_cursor params 4 (be_bytes 4 b @ be_bytes 2 (int (length n)) @ n @
      be_bytes 2 (int (length e)) @ e @ ?tl)" by (rule cursor_after [OF c0]) simp
  have c2: "at_cursor params 8 (be_bytes 2 (int (length n)) @ n @
      be_bytes 2 (int (length e)) @ e @ ?tl)" by (rule cursor_after [OF c1]) simp
  have c3: "at_cursor params 10 (n @ be_bytes 2 (int (length e)) @ e @ ?tl)"
    by (rule cursor_after [OF c2]) simp
  have c4: "at_cursor params (10 + length n) (be_bytes 2 (int (length e)) @ e @ ?tl)"
    by (rule cursor_after [OF c3]) simp
  have c5: "at_cursor params (10 + length n + 2) (e @ ?tl)"
    by (rule cursor_after [OF c4]) simp
  have c6: "at_cursor params (10 + length n + 2 + length e) ?tl"
    by (rule cursor_after [OF c5]) simp
  show "from_bytes (py_slice params 0 4) = k" by (rule int_between [OF c0]) (use r in simp_all)
  show "from_bytes (py_slice params 4 8) = b" by (rule int_between [OF c1]) (use r in simp_all)
  show "from_bytes (py_slice params 8 10) = int (length n)"
    by (rule int_between [OF c2]) (use r in simp_all)
  show "py_slice params 10 (10 + length n) = n" by (rule slice_between [OF c3]) simp
  show "from_bytes (py_slice params (10 + length n) (10 + length n + 2)) = int (length e)"
    by (rule int_between [OF c4]) (use r in simp_all)
  show "py_slice params (10 + length n + 2) (10 + length n + 2 + length e) = e"
    by (rule slice_between [OF c5]) simp
  show "byte_at params (10 + length n + 2 + length e) = Inr (TPM_SE t)"
    by (rule byte_at_cursor [OF c6]) (simp_all add: byte_simps)
  show "at_cursor params (10 + length n + 2 + length e + 1) (sd @ be_bytes 2 (TPM_ALG_value h))"
    by (rule at_cursor_Cons [OF c6])
qed

text \<open>The symmetric definition and the hash after it, from the offset \<open>i\<close> of the session type.\<close>

lemma session_tail_reads:
  assumes c: "at_cursor params (i + 1) (sd @ be_bytes 2 (TPM_ALG_value h))"
    and sd: "SYM_DEF_to_bytes s = Inr sd"
  shows "from_bytes (py_slice params (i + 1) (i + 3)) = alg_to_int (sym_algorithm s)"
    and "alg_to_int (sym_algorithm s) = 16 \<Longrightarrow>
      from_bytes (py_slice params (i + 3) (i + 3 + 2)) = TPM_ALG_value h"
    and "alg_to_int (sym_algorithm s) \<noteq> 16 \<Longrightarrow>
      from_bytes (py_slice params (i + 3) (i + 5)) = sym_key_bits s \<and>
      from_bytes (py_slice params (i + 5) (i + 7)) = alg_to_int (sym_mode s) \<and>
      from_bytes (py_slice params (i + 7) (i + 7 + 2)) = TPM_ALG_value h"
proof -
  let ?a = "alg_to_int (sym_algorithm s)" and ?h = "be_bytes 2 (TPM_ALG_value h)"
  have h: "0 \<le> TPM_ALG_value h" "TPM_ALG_value h < 256 ^ 2"
    using TPM_ALG_value_range [of h] by simp_all
  from sd obtain st where st: "sd = be_bytes 2 ?a @ st" and a: "0 \<le> ?a" "?a < 65536"
    and tail: "?a = 16 \<Longrightarrow> st = []"
      "?a \<noteq> 16 \<Longrightarrow> st = be_bytes 2 (sym_key_bits s) @ be_bytes 2 (alg_to_int (sym_mode s))"
    and r: "?a \<noteq> 16 \<Longrightarrow> 0 \<le> sym_key_bits s \<and> sym_key_bits s < 65536 \<and>
      0 \<le> alg_to_int (sym_mode s) \<and> alg_to_int (sym_mode s) < 65536"
    by (auto simp: SYM_DEF_layout split: if_splits)
  have c0: "at_cursor params (i + 1) (be_bytes 2 ?a @ st @ ?h)" using c st by simp
  show "from_bytes (py_slice params (i + 1) (i + 3)) = ?a"
    by (rule int_between [OF c0]) (use a in simp_all)
  have c1: "at_cursor params (i + 3) (st @ ?h)" by (rule cursor_after [OF c0]) simp
  show "from_bytes (py_slice params (i + 3) (i + 3 + 2)) = TPM_ALG_value h" if "?a = 16"
    using int_between [of params "i + 3" 2 "TPM_ALG_value h" "[]" "i + 3 + 2"] c1 tail(1) that h
    by simp
  assume n: "?a \<noteq> 16"
  have c2: "at_cursor params (i + 3) (be_bytes 2 (sym_key_bits s) @
      be_bytes 2 (alg_to_int (sym_mode s)) @ ?h)" using c1 tail(2) n by simp
  have c3: "at_cursor params (i + 5) (be_bytes 2 (alg_to_int (sym_mode s)) @ ?h)"
    by (rule cursor_after [OF c2]) simp
  have c4: "at_cursor params (i + 7) (?h @ [])" using cursor_after [OF c3, of "i + 7"] by simp
  show "from_bytes (py_slice params (i + 3) (i + 5)) = sym_key_bits s \<and>
      from_bytes (py_slice params (i + 5) (i + 7)) = alg_to_int (sym_mode s) \<and>
      from_bytes (py_slice params (i + 7) (i + 7 + 2)) = TPM_ALG_value h"
    using int_between [OF c2, of "i + 5"] int_between [OF c3, of "i + 7"]
      int_between [OF c4 h, of "i + 7 + 2"] r n by simp
qed

lemma TPMStartAuthSession_params:
  assumes "TPMStartAuthSession k b n salt t s h = Inr c"
    and "salt = None \<and> e = [] \<or> salt = Some (be_bytes 2 (int (length e)) @ e)"
  obtains sd where "SYM_DEF_to_bytes s = Inr sd" "0 \<le> rh_to_int k" "rh_to_int k < 4294967296"
    "0 \<le> rh_to_int b" "rh_to_int b < 4294967296"
    "length (case n of None \<Rightarrow> default_nonce | Some n \<Rightarrow> n) < 65536"
    "c = TPMCommand_init (TPM_ST TPM_ST_NO_SESSIONS) (TPM_CC TPM_CC_START_AUTH_SESSION)
      (session_params (rh_to_int k) (rh_to_int b)
        (case n of None \<Rightarrow> default_nonce | Some n \<Rightarrow> n) e t sd h) IsStartAuthSession"
proof -
  have "(case salt of None \<Rightarrow> to_bytes 2 0 | Some s \<Rightarrow> Inr s) = Inr (be_bytes 2 (int (length e)) @ e)"
    using assms(2) by (auto simp: to_bytes_ok)
  with assms(1) obtain sd where "SYM_DEF_to_bytes s = Inr sd" "0 \<le> rh_to_int k"
    "rh_to_int k < 4294967296" "0 \<le> rh_to_int b" "rh_to_int b < 4294967296"
    "length (case n of None \<Rightarrow> default_nonce | Some n \<Rightarrow> n) < 65536"
    "c = TPMCommand_init (TPM_ST TPM_ST_NO_SESSIONS) (TPM_CC TPM_CC_START_AUTH_SESSION)
      (session_params (rh_to_int k) (rh_to_int b)
        (case n of None \<Rightarrow> default_nonce | Some n \<Rightarrow> n) e t sd h) IsStartAuthSession"
    by (auto simp: TPMStartAuthSession_def Let_def result_simps session_params_def)
  then show thesis by (rule that)
qed

lemma sym_def_length: "SYM_DEF_to_bytes s = Inr b \<Longrightarrow> length b \<le> 6"
  by (auto simp: SYM_DEF_layout split: if_splits)

lemma TPMStartAuthSession_reads_back:
  assumes "TPMStartAuthSession k b n salt t s h = Inr c" "pb_laws rt"
    and salt: "salt = None \<and> e = [] \<or> salt = Some (be_bytes 2 (int (length e)) @ e)"
    and e: "length e < 65536" and named: "sym_named s"
    and small: "rh_to_int k < 2147483648" "rh_to_int b < 2147483648"
  shows "to_proto rt c = Inr (Some (''startauthsession'', Msg PB_TPMStartAuthSession
    [(''header'', PbMsg (header_msg c)), (''tpm_key'', PbInt (rh_to_int k)),
     (''bind'', PbInt (rh_to_int b)),
     (''nonce'', PbMsg (data_msg (case n of None \<Rightarrow> default_nonce | Some n \<Rightarrow> n))),
     (''encrypted_salt'', PbMsg (data_msg e)), (''session_type'', PbName (se_name t)),
     (''symmetric'', PbMsg (sym_def_msg s)), (''auth_hash'', PbName (alg_name h))]))"
proof -
  let ?n = "case n of None \<Rightarrow> default_nonce | Some n \<Rightarrow> n"
  from TPMStartAuthSession_params [OF assms(1) salt] obtain sd where
    sd: "SYM_DEF_to_bytes s = Inr sd"
    and r: "0 \<le> rh_to_int k" "rh_to_int k < 4294967296" "0 \<le> rh_to_int b" "rh_to_int b < 4294967296"
      "length ?n < 65536"
    and c: "c = TPMCommand_init (TPM_ST TPM_ST_NO_SESSIONS) (TPM_CC TPM_CC_START_AUTH_SESSION)
      (session_params (rh_to_int k) (rh_to_int b) ?n e t sd h) IsStartAuthSession"
    by metis
  define ps where "ps = session_params (rh_to_int k) (rh_to_int b) ?n e t sd h"
  have len: "length ps < 4294967286"
    using sym_def_length [OF sd] r(5) e by (simp add: ps_def session_params_def)
  have hd: "proto_header rt c = Inr (header_msg c)"
    unfolding c by (rule proto_header_ok [OF assms(2)]) (use len in \<open>simp add: ps_def\<close>)
  have cp: "cmd_params c = ps" "cmd_self c = IsStartAuthSession"
    by (simp_all add: c ps_def TPMCommand_init_def)
  note reads = session_params_reads [OF ps_def r e]
  note tail = session_tail_reads [OF reads(8) sd]
  have d: "proto_tpm2b_data rt ?n = Inr (data_msg ?n)" "proto_tpm2b_data rt e = Inr (data_msg e)"
    using r(5) e by (simp_all add: proto_tpm2b_data_ok [OF assms(2)])
  note names = pb_name_alg [OF assms(2)] pb_name_se [OF assms(2)] name_of_se name_of_alg
  have declared: "se_name t \<in> set (map fst (enum_names E_TPMSE))"
    "alg_name h \<in> set (map fst (enum_names E_TPMALG))"
    using name_of_declared [OF name_of_se] name_of_declared [OF name_of_alg] by blast+
  show ?thesis
  proof (cases "alg_to_int (sym_algorithm s) = 16")
    case True
    have ne: "alg_to_int (sym_algorithm s) \<noteq> 16 \<longleftrightarrow> False" using True by simp
    have null: "name_of E_TPMALG (alg_to_int (sym_algorithm s)) = Some ''TPM_ALG_NULL''"
      by (simp add: True name_of_null)
    have dn: "''TPM_ALG_NULL'' \<in> set (map fst (enum_names E_TPMALG))"
      using name_of_declared [OF name_of_null] .
    show ?thesis
      by (simp only: to_proto_def cp command_class.case TPMStartAuthSession_to_proto_def Let_def
          reads tail(1) tail(2) [OF True] TPM_ALG_value.simps ne if_False case_prod_conv nat_int
          bindE_Inr hd d names null name_of_null option.case)
        (use r small declared dn True assms(2) in
          \<open>simp add: pb_simps sym_def_msg_def header_msg_def data_msg_def\<close>)
  next
    case False
    from named False obtain an mn where nm:
      "name_of E_TPMALG (alg_to_int (sym_algorithm s)) = Some an"
      "name_of E_TPMALG (alg_to_int (sym_mode s)) = Some mn"
      by (auto simp: sym_named_def)
    note dn = name_of_declared [OF nm(1)] name_of_declared [OF nm(2)]
    have kb: "0 \<le> sym_key_bits s" "sym_key_bits s < 65536"
      using sd False by (auto simp: SYM_DEF_layout)
    have t3: "from_bytes (py_slice ps (10 + length ?n + 2 + length e + 3)
        (10 + length ?n + 2 + length e + 5)) = sym_key_bits s"
      "from_bytes (py_slice ps (10 + length ?n + 2 + length e + 5)
        (10 + length ?n + 2 + length e + 7)) = alg_to_int (sym_mode s)"
      "from_bytes (py_slice ps (10 + length ?n + 2 + length e + 7)
        (10 + length ?n + 2 + length e + 7 + 2)) = TPM_ALG_value h"
      using tail(3) [OF False] by blast+
    show ?thesis
      by (simp only: to_proto_def cp command_class.case TPMStartAuthSession_to_proto_def Let_def
          reads tail(1) t3 TPM_ALG_value.simps False not_False_eq_True if_True case_prod_conv nat_int
          bindE_Inr hd d names nm option.case)
        (use r small declared dn kb False assms(2) nm in
          \<open>simp add: pb_simps sym_def_msg_def header_msg_def data_msg_def\<close>)
  qed
qed

end
