(* ===== verification/Nv_Pcr_Props.thy ===== *)
theory Nv_Pcr_Props
  imports Session_Props
begin

section \<open>NV and PCR commands: the message is the command\<close>

text \<open>
  \<open>TPMNVDefineSpace\<close> decodes its parameter bytes, \<open>TPMPCRAllocate\<close> serialises its selection again
  and decodes that, \<open>TPMPCRRead\<close> and \<open>TPMLoad\<close> build their message in the constructor. All four
  describe the command that the bytes hold.
\<close>

subsection \<open>\<open>TPMNVDefineSpace\<close>\<close>

lemma nv_inner_reads:
  assumes "inner = be_bytes 4 ix @ be_bytes 2 al @ be_bytes 4 at @ be_bytes 2 0 @ be_bytes 2 sz"
    and "0 \<le> ix" "ix < 4294967296" "0 \<le> al" "al < 65536" "0 \<le> at" "at < 4294967296"
      "0 \<le> sz" "sz < 65536"
  shows "from_bytes (py_slice inner 0 (0 + 4)) = ix"
    and "from_bytes (py_slice inner (0 + 4) (0 + 4 + 2)) = al"
    and "from_bytes (py_slice inner (0 + 4 + 2) (0 + 4 + 2 + 4)) = at"
    and "from_bytes (py_slice inner (0 + 4 + 2 + 4) (0 + 4 + 2 + 4 + 2)) = 0"
    and "py_slice inner (0 + 4 + 2 + 4 + 2) (0 + 4 + 2 + 4 + 2 + nat 0) = []"
    and "from_bytes (py_slice inner (0 + 4 + 2 + 4 + 2 + nat 0) (0 + 4 + 2 + 4 + 2 + nat 0 + 2)) = sz"
  using assms by (simp_all add: py_slice_def byte_simps)

definition nv_public_msg :: "int \<Rightarrow> nv_attrs \<Rightarrow> int \<Rightarrow> pb_msg" where
  "nv_public_msg ix attrs sz =
     Msg PB_TPMNvPublic
       [(''nv_index'', PbInt ix), (''name_alg'', PbName ''TPM_ALG_SHA256''),
        (''attributes'', PbInt (nv_attrs_to_int attrs)), (''auth_policy'', PbBytes []),
        (''data_size'', PbInt sz)]"

lemma TPMNVDefineSpace_reads_back:
  assumes "TPMNVDefineSpace ix attrs s h sz = Inr c" "pb_laws rt"
  shows "to_proto rt c = Inr (Some (''nvdefinespace'', Msg PB_TPMNvDefineSpace
    [(''header'', PbMsg (header_msg c)), (''auth_handle'', PbInt (TPM_RH_value h)),
     (''sessions'', PbList [session_msg (AUTH_COMMAND s)]), (''auth'', PbMsg (data_msg [])),
     (''nv_public'', PbMsg (nv_public_msg ix attrs sz))]))"
proof -
  let ?at = "nv_attrs_to_int attrs"
  define inner where
    "inner = be_bytes 4 ix @ be_bytes 2 11 @ be_bytes 4 ?at @ be_bytes 2 0 @ be_bytes 2 sz"
  define ps where
    "ps = be_bytes 4 (TPM_RH_value h) @ one_session s @ be_bytes 2 0 @ be_bytes 2 14 @ inner"
  from assms(1) have s: "0 \<le> s" "s < 4294967296"
    and r: "0 \<le> ix" "ix < 4294967296" "0 \<le> ?at" "?at < 4294967296" "0 \<le> sz" "sz < 65536"
    and c: "c = TPMCommand_init (TPM_ST TPM_ST_SESSIONS) (TPM_CC TPM_CC_NV_DEFINE_SPACE) ps
      IsNVDefineSpace"
    by (auto simp: TPMNVDefineSpace_def Let_def bindE_eq_Inr to_bytes_Inr DATA_default_def
        one_session_area_layout DATA_layout TPM2B_NV_PUBLIC_layout NV_PUBLIC_layout inner_def ps_def)
  have h: "0 \<le> TPM_RH_value h" "TPM_RH_value h < 256 ^ 4"
    using TPM_RH_value_range [of h] by simp_all
  have ni: "length inner = 14" by (simp add: inner_def)
  have c0: "at_cursor ps 0 (be_bytes 4 (TPM_RH_value h) @ one_session s @ be_bytes 2 0 @
      be_bytes 2 14 @ inner)" by (simp add: ps_def)
  have c1: "at_cursor ps (0 + 4) (one_session s @ be_bytes 2 0 @ be_bytes 2 14 @ inner)"
    by (rule at_cursor_skip [OF c0]) simp
  have c1': "at_cursor ps (0 + 4) (be_bytes 4 9 @ drop 4 (one_session s) @ be_bytes 2 0 @
      be_bytes 2 14 @ inner)"
    using c1 one_session_prefix by (metis append.assoc)
  have c2: "at_cursor ps (0 + 4 + 4 + nat 9) (be_bytes 2 0 @ be_bytes 2 14 @ inner)"
    by (rule cursor_after [OF c1]) simp
  have c3: "at_cursor ps (0 + 4 + 4 + nat 9 + 2) (be_bytes 2 14 @ inner)"
    by (rule at_cursor_skip [OF c2]) simp
  have sz9: "from_bytes (py_slice ps (0 + 4) (0 + 4 + 4)) = 9"
    using int_at_cursor [OF c1'] by simp
  have area: "py_slice ps (0 + 4) (0 + 4 + 4 + nat 9) = one_session s"
    by (rule slice_between [OF c1]) simp
  have p1: "parse_tpm2b ps (0 + 4 + 4 + nat 9) = (be_bytes 2 0, 0 + 4 + 4 + nat 9 + 2)"
    using parse_tpm2b_cursor [of ps "0 + 4 + 4 + nat 9" "[]"] c2 by simp
  have p2: "parse_tpm2b ps (0 + 4 + 4 + nat 9 + 2) =
      (be_bytes 2 14 @ inner, 0 + 4 + 4 + nat 9 + 2 + (2 + 14))"
    using parse_tpm2b_cursor [of ps "0 + 4 + 4 + nat 9 + 2" inner "[]"] c3 ni by simp
  have sess: "proto_sessions rt (one_session s) = Inr [session_msg (AUTH_COMMAND s)]"
    using proto_sessions_bytes [of "one_session_area s" "one_session s"] assms(2) s
    by (simp add: one_session_area_layout) (simp add: one_session_area_def)
  have hd: "proto_header rt c = Inr (header_msg c)"
    unfolding c by (rule proto_header_ok [OF assms(2)]) (simp add: ps_def ni)
  have cp: "cmd_params c = ps" "cmd_self c = IsNVDefineSpace" "cmd_tag c = TPM_ST TPM_ST_SESSIONS"
    by (simp_all add: c TPMCommand_init_def)
  have tag: "TPM_ST TPM_ST_SESSIONS \<noteq> TPM_ST TPM_ST_NO_SESSIONS" by simp
  have i: "drop 2 (be_bytes 2 14 @ inner) = inner" and e: "drop 2 (be_bytes 2 0) = []" by simp_all
  have nm: "name_of E_TPMALG 11 = Some ''TPM_ALG_SHA256''"
    by (simp add: name_of_def enum_names_def TPMALG_names_def)
  note reads = nv_inner_reads [OF inner_def r(1,2) _ _ r(3,4) r(5,6)]
  have d: "proto_tpm2b_data rt [] = Inr (data_msg [])"
    by (simp add: proto_tpm2b_data_ok [OF assms(2)])
  show ?thesis
    by (simp only: to_proto_def cp command_class.case TPMNVDefineSpace_to_proto_def Let_def
        int_at_cursor [OF c0 h] sz9 area p1 p2 tag if_True option.case not_False_eq_True sess
        case_prod_conv bindE_Inr i e reads hd d pb_name_alg [OF assms(2)] nm)
      (use r h name_of_declared [OF nm] assms(2) in
        \<open>simp add: reads pb_simps nv_public_msg_def pb_name_alg nm\<close>)
qed

subsection \<open>PCR selections\<close>

lemma pcr_selection_list_msg_ok:
  assumes "TPML_PCR_SELECTION_to_bytes l = Inr b" "pb_laws rt"
  shows "pcr_selection_list_msg rt l = Inr (pcr_list_msg l)"
proof -
  from assms(1) obtain bs where n: "length (selections l) < 4294967296"
    and j: "mapE PCR_SELECTION_to_bytes (selections l) = Inr bs"
    by (auto simp: TPML_PCR_SELECTION_layout joinE_def result_simps)
  have "pb_new rt PB_TPMSPCRSelection
      [(''hash'', PbInt (alg_to_int (pcr_hash x))), (''sizeof_select'', PbInt (int (length (pcr_select x)))),
       (''pcr_select'', PbBytes (pcr_select x))] = Inr (pcr_selection_msg x)"
    if "x \<in> set (selections l)" for x
  proof -
    have "is_ok (PCR_SELECTION_to_bytes x)"
      using is_ok_mapE [of PCR_SELECTION_to_bytes "selections l"] j that by auto
    then obtain c where "PCR_SELECTION_to_bytes x = Inr c" by (auto simp: is_ok_ex)
    then have "0 \<le> alg_to_int (pcr_hash x)" "alg_to_int (pcr_hash x) < 65536"
      "length (pcr_select x) < 256"
      by (auto simp: PCR_SELECTION_layout)
    then show ?thesis using assms(2) by (simp add: pb_simps pcr_selection_msg_def)
  qed
  then have m: "mapE (\<lambda>sel. pb_new rt PB_TPMSPCRSelection
      [(''hash'', PbInt (alg_to_int (pcr_hash sel))),
       (''sizeof_select'', PbInt (int (length (pcr_select sel)))),
       (''pcr_select'', PbBytes (pcr_select sel))]) (selections l) =
      Inr (map pcr_selection_msg (selections l))"
    by (rule mapE_all_Inr)
  show ?thesis
    by (simp only: pcr_selection_list_msg_def m bindE_Inr)
      (use n assms(2) in \<open>simp add: pb_simps pcr_list_msg_def pcr_selection_msg_def\<close>)
qed

lemma TPMPCRRead_message:
  assumes "TPML_PCR_SELECTION_to_bytes l = Inr b" "pb_laws rt" "length b < 4294967286"
  shows "\<exists>c. TPMPCRRead rt l = Inr c \<and> cmd_params c = b \<and>
    to_proto rt c = Inr (Some (''pcrread'', Msg PB_TPMPCRRead
      [(''header'', PbMsg (header_msg c)), (''pcrSelection'', PbMsg (pcr_list_msg l))]))"
proof -
  let ?c = "TPMCommand_init (TPM_ST TPM_ST_NO_SESSIONS) (TPM_CC TPM_CC_PCR_READ) b Plain"
  have hd: "proto_header rt ?c = Inr (header_msg ?c)"
    by (rule proto_header_ok [OF assms(2,3)])
  show ?thesis
    by (simp only: TPMPCRRead_def assms(1) bindE_Inr Let_def hd pcr_selection_list_msg_ok [OF assms(1,2)])
      (use assms(2) in \<open>simp add: pb_simps to_proto_def TPMCommand_init_def header_msg_def
        command_size_def\<close>)
qed

lemma TPMPCRAllocate_reads_back:
  assumes "TPMPCRAllocate l h s = Inr c" "pb_laws rt" "rh_to_int h < 2147483648"
    and "length (cmd_params c) < 4294967286"
  shows "to_proto rt c = Inr (Some (''pcrallocate'', Msg PB_TPMPCRAllocate
    [(''header'', PbMsg (header_msg c)), (''auth_handle'', PbInt (rh_to_int h)),
     (''sessions'', PbList [Msg PB_TPMSession
        [(''session_handle'', PbInt (rs_to_int s)), (''nonce_size'', PbInt 0),
         (''session_attributes'', PbInt 0), (''hmac_size'', PbInt 0)]]),
     (''pcr_allocation'', PbMsg (pcr_list_msg l))]))"
proof -
  from assms(1) obtain b where b: "TPML_PCR_SELECTION_to_bytes l = Inr b"
    and r: "0 \<le> rh_to_int h" "0 \<le> rs_to_int s" "rs_to_int s < 4294967296"
    and c: "c = TPMCommand_init (TPM_ST TPM_ST_SESSIONS) (TPM_CC TPM_CC_PCR_ALLOCATE)
      (be_bytes 4 (rh_to_int h) @ one_session (rs_to_int s) @ b)
      (IsPCRAllocate l (rh_to_int h) (rs_to_int s))"
    by (auto simp: TPMPCRAllocate_def Let_def bindE_eq_Inr to_bytes_Inr one_session_area_layout)
  have hd: "proto_header rt c = Inr (header_msg c)"
    unfolding c by (rule proto_header_ok [OF assms(2)])
      (use assms(4) in \<open>simp add: c TPMCommand_init_def\<close>)
  have p: "proto_pcr_selection rt b = Inr (pcr_list_msg l)"
    using proto_pcr_selection_bytes [OF b assms(2), of "[]"] by simp
  have cp: "cmd_self c = IsPCRAllocate l (rh_to_int h) (rs_to_int s)"
    by (simp add: c TPMCommand_init_def)
  show ?thesis
    by (simp only: to_proto_def cp command_class.case TPMPCRAllocate_to_proto_def hd b p bindE_Inr)
      (use r assms(2,3) in \<open>simp add: pb_simps short_session_msg_def\<close>)
qed

subsection \<open>\<open>TPMLoad\<close>\<close>

text \<open>
  The message \<open>TPMLoad\<close> keeps: the private part, and what \<open>_proto_public\<close> makes of the public area.
\<close>

lemma TPMLoad_decodes:
  assumes "pb_laws rt" "0 \<le> h" "h < 4294967296" "0 \<le> rs_to_int s" "rs_to_int s < 4294967296"
    and l: "length prb < 65538" "length pubb < 65538"
    and pub: "proto_public rt pubb = Inr pubm" "msg_class pubm = PB_TPM2BPublic"
    and ps: "ps = be_bytes 4 h @ one_session (rs_to_int s) @ prb @ pubb"
  shows "TPMLoad rt h prb pubb s =
      Inr (TPMCommand_init (TPM_ST TPM_ST_SESSIONS) (TPM_CC TPM_CC_LOAD) ps (IsLoad (Msg PB_TPMLoad
      [(''header'', PbMsg (header_msg
          (TPMCommand_init (TPM_ST TPM_ST_SESSIONS) (TPM_CC TPM_CC_LOAD) ps Plain))),
       (''parent_handle'', PbInt h),
       (''sessions'', PbList [session_msg (AUTH_COMMAND (rs_to_int s))]),
       (''in_private'', PbMsg (Msg PB_TPM2BPrivate
          [(''size'', PbInt (int (length (drop 2 prb)))), (''buffer'', PbBytes (drop 2 prb))])),
       (''in_public'', PbMsg pubm)])))"
proof -
  let ?init = "TPMCommand_init (TPM_ST TPM_ST_SESSIONS) (TPM_CC TPM_CC_LOAD) ps"
  have hd: "proto_header rt (?init Plain) = Inr (header_msg (?init Plain))"
    by (intro proto_header_ok [OF assms(1)]) (use l ps in simp)
  have "AUTH_AREA_to_bytes (one_session_area (rs_to_int s)) = Inr (one_session (rs_to_int s))"
    using assms(4,5) by (simp add: one_session_area_layout)
  then have cat: "catE [to_bytes 4 h, AUTH_AREA_to_bytes (one_session_area (rs_to_int s)), Inr prb,
      Inr pubb] = Inr ps"
    using assms(2,3) ps by (simp add: to_bytes_ok)
  have sess: "password_session_msg rt (rs_to_int s) = Inr (session_msg (AUTH_COMMAND (rs_to_int s)))"
    using assms(1,4,5) by (simp add: password_session_msg_def session_msg_def AUTH_COMMAND_def pb_simps)
  have "int (length (drop 2 prb)) < 4294967296" using l by simp
  then show ?thesis
    by (simp only: TPMLoad_def Let_def sess cat bindE_Inr hd pub(1))
      (use l assms(1-3) pub(2) in \<open>simp add: pb_simps TPMCommand_init_def\<close>)
qed

end
