(* ===== verification/Seed_Props.thy ===== *)
theory Seed_Props
  imports Seed_Table Nv_Pcr_Props Corpus_Props
begin

section \<open>Every seed can be built, serialised and described\<close>

text \<open>
  \<open>makes rt cc m\<close>: building the command succeeds, it has command code \<open>cc\<close>, it serialises, and its
  \<open>to_proto\<close> gives nothing or a field of the \<open>TPMCommand\<close> message. One rule per class, with the
  ranges of the arguments as conditions; the seed table is then a matter of rewriting.
\<close>

definition message_ok :: "(string \<times> pb_msg) option result \<Rightarrow> bool" where
  "message_ok p \<longleftrightarrow>
     (case p of
        Inl _ \<Rightarrow> False
      | Inr None \<Rightarrow> True
      | Inr (Some (key, m)) \<Rightarrow> map_of (pb_schema PB_TPMCommand) key = Some (T_msg (msg_class m)))"

definition seed_ok :: "pb_runtime \<Rightarrow> TPMCommand \<Rightarrow> bool" where
  "seed_ok rt c \<longleftrightarrow> is_ok (command_bytes c) \<and> message_ok (to_proto rt c)"

definition makes :: "pb_runtime \<Rightarrow> TPMCC \<Rightarrow> TPMCommand result \<Rightarrow> bool" where
  "makes rt cc m \<longleftrightarrow> (\<exists>c. m = Inr c \<and> cmd_cc c = TPM_CC cc \<and> seed_ok rt c)"

named_theorems encode_ok \<open>encoders on arguments in range\<close>
named_theorems makes_rules \<open>one rule per command class\<close>

lemma tpm2b_ok [encode_ok]:
  "length d < 65536 \<Longrightarrow> tpm2b_bytes d = Inr (be_bytes 2 (int (length d)) @ d)"
  by (simp add: tpm2b_layout)

lemma one_session_ok [encode_ok]:
  "0 \<le> h \<Longrightarrow> h < 4294967296 \<Longrightarrow> AUTH_AREA_to_bytes (one_session_area h) = Inr (one_session h)"
  by (simp add: one_session_area_layout)

lemma TPM_RH_bound [encode_ok]: "TPM_RH_value h < 4294967296"
  using TPM_RH_value_range(2) [of h] by simp

lemma TPM_ALG_bound [encode_ok]: "TPM_ALG_value a < 65536"
  using TPM_ALG_value_range(2) [of a] by simp

lemma enum_field_bounds [encode_ok]:
  "- 2147483648 \<le> TPM_ALG_value a" "TPM_ALG_value a < 2147483648"
  "- 2147483648 \<le> TPM_RH_value h" "TPM_RH_value h < 2147483648"
  using TPM_ALG_value_range [of a] TPM_RH_value_range [of h] by linarith+

declare to_bytes_ok [encode_ok] TPM_RH_value_range(1) [encode_ok] TPM_ALG_value_range(1) [encode_ok]
  TPM_CAP_value_range [encode_ok]

lemma command_init_ok:
  "length params < 4294967286 \<Longrightarrow>
    is_ok (command_bytes (TPMCommand_init (TPM_ST st) (TPM_CC cc) params self))"
  using TPM_ST_range [of st] TPM_CC_range [of cc]
  by (auto simp: is_ok_ex command_bytes_layout TPMCommand_init_def)

declare TPM_CC.simps [simp del] TPM_ST.simps [simp del]

lemma message_ok_simps [simp]:
  "message_ok (Inr None)"
  "message_ok (Inr (Some (key, m))) \<longleftrightarrow>
     map_of (pb_schema PB_TPMCommand) key = Some (T_msg (msg_class m))"
  by (simp_all add: message_ok_def)

lemma makes_message:
  "length params < 4294967286 \<Longrightarrow>
    makes rt cc (Inr (TPMCommand_init (TPM_ST st) (TPM_CC cc) params self)) \<longleftrightarrow>
    message_ok (to_proto rt (TPMCommand_init (TPM_ST st) (TPM_CC cc) params self))"
  by (simp add: makes_def seed_ok_def command_init_ok) (simp add: TPMCommand_init_def)

lemma cmd_self_init [simp]:
  "cmd_self (TPMCommand_init st cc params self) = self"
  "cmd_params (TPMCommand_init st cc params self) = params"
  by (simp_all add: TPMCommand_init_def)

lemma makes_plain:
  "length params < 4294967286 \<Longrightarrow>
    makes rt cc (Inr (TPMCommand_init (TPM_ST st) (TPM_CC cc) params Plain))"
  by (simp add: makes_message to_proto_def)

subsection \<open>Commands without a message\<close>

lemma makes_IncrementalSelfTest [makes_rules]:
  assumes "length algs < 1000"
  shows "makes rt TPM_CC_INCREMENTAL_SELF_TEST (TPMIncrementalSelfTest algs)"
proof -
  let ?ids = "concat (map (\<lambda>a. be_bytes 2 (TPM_ALG_value a)) algs)"
  have "joinE (\<lambda>a. to_bytes 2 (TPM_ALG_value a)) algs = Inr ?ids"
    by (simp add: joinE_def encode_ok)
  moreover have "length ?ids = 2 * length algs"
    by (simp add: length_concat o_def sum_list_triv)
  ultimately show ?thesis
    using assms by (simp add: TPMIncrementalSelfTest_def encode_ok makes_plain)
qed

lemma makes_StirRandom [makes_rules]:
  "length d < 65536 \<Longrightarrow> makes rt TPM_CC_STIR_RANDOM (TPMStirRandom d)"
  by (simp add: TPMStirRandom_def encode_ok makes_plain)

lemma makes_VendorTCGTest [makes_rules]:
  "length d < 65536 \<Longrightarrow> makes rt TPM_CC_VENDOR_TCG_TEST (TPMVendorTCGTest d)"
  by (simp add: TPMVendorTCGTest_def encode_ok makes_plain)

lemma makes_GetCapability [makes_rules]:
  "0 \<le> p \<Longrightarrow> p < 4294967296 \<Longrightarrow> 0 \<le> n \<Longrightarrow> n < 4294967296
    \<Longrightarrow> makes rt TPM_CC_GET_CAPABILITY (TPMGetCapability cap p n)"
  by (simp add: TPMGetCapability_def encode_ok makes_plain)

lemma makes_SelfTest [makes_rules]: "makes rt TPM_CC_SELF_TEST (TPMSelfTest t)"
  by (cases t) (simp_all add: TPMSelfTest_def encode_ok makes_plain)

lemma makes_ReadClock [makes_rules]: "makes rt TPM_CC_READ_CLOCK TPMReadClock"
  by (simp add: TPMReadClock_def makes_plain)

lemma makes_GetTestResult [makes_rules]: "makes rt TPM_CC_GET_TEST_RESULT TPMGetTestResult"
  by (simp add: TPMGetTestResult_def makes_plain)

lemma makes_Hash [makes_rules]: "length d < 65536 \<Longrightarrow> makes rt TPM_CC_HASH (TPMHash d alg h)"
  by (simp add: TPMHash_def encode_ok makes_plain)

lemma makes_ECCParameters [makes_rules]:
  "makes rt TPM_CC_ECC_PARAMETERS (TPMECCParameters (CurveEnum c))"
  by (cases c) (simp add: TPMECCParameters_def encode_ok makes_plain)

lemma makes_TestParms [makes_rules]: "makes rt TPM_CC_TEST_PARMS (TPMTestParms None)"
  by (simp add: TPMTestParms_def PUBLIC_PARMS_default_def PUBLIC_PARMS_to_bytes_def
      RSA_PARMS_to_bytes_def RSA_PARMS_default_def SYM_DEF_to_bytes_def SYM_DEF_default_def
      encode_ok makes_plain)

lemma makes_Unseal [makes_rules]:
  "0 \<le> h \<Longrightarrow> h < 4294967296 \<Longrightarrow> makes rt TPM_CC_UNSEAL (TPMUnseal h PW)"
  by (simp add: TPMUnseal_def encode_ok makes_plain)

lemma makes_Sign [makes_rules]:
  "0 \<le> h \<Longrightarrow> h < 4294967296 \<Longrightarrow> length d < 65536 \<Longrightarrow> length t < 65536 \<Longrightarrow>
    makes rt TPM_CC_SIGN (TPMSign h d \<lparr>sig_scheme = AlgEnum a, sig_hash_alg = AlgEnum b\<rparr>
      \<lparr>tk_hierarchy = RhEnum r, tk_digest = t\<rparr> PW)"
  by (simp add: TPMSign_def SIG_SCHEME_to_bytes_def TK_HASHCHECK_to_bytes_def encode_ok makes_plain
      TPM_ST.simps(4))

lemma makes_PCRExtend [makes_rules]:
  assumes "0 \<le> h" "h < 4294967296" "length ds < 1000"
    "\<And>d. d \<in> set ds \<Longrightarrow> (\<exists>a. ha_hash_alg d = AlgEnum a) \<and> length (ha_digest d) < 1000"
  shows "makes rt TPM_CC_PCR_EXTEND (TPMPCRExtend (RhInt h) \<lparr>digests = ds\<rparr> PW)"
proof -
  let ?e = "\<lambda>d. be_bytes 2 (alg_to_int (ha_hash_alg d)) @ ha_digest d"
  have "mapE HA_to_bytes ds = Inr (map ?e ds)"
    by (rule mapE_all_Inr) (use assms(4) in \<open>force simp: HA_to_bytes_def encode_ok\<close>)
  then have "DIGEST_VALUES_to_bytes \<lparr>digests = ds\<rparr> =
      Inr (be_bytes 4 (int (length ds)) @ concat (map ?e ds))"
    using assms(3) by (simp add: DIGEST_VALUES_to_bytes_def joinE_def encode_ok)
  moreover have "length (concat (map ?e ds)) \<le> 1002 * length ds"
    using assms(4) by (induction ds) (fastforce simp: add_mono)+
  ultimately show ?thesis
    using assms(1-3) by (simp add: TPMPCRExtend_def encode_ok makes_plain)
qed

lemma makes_PCRReset [makes_rules]:
  "0 \<le> h \<Longrightarrow> h < 4294967296 \<Longrightarrow> makes rt TPM_CC_PCR_RESET (TPMPCRReset h PW)"
  by (simp add: TPMPCRReset_def encode_ok makes_plain)

lemma makes_NVUndefineSpace [makes_rules]:
  "0 \<le> i \<Longrightarrow> i < 4294967296 \<Longrightarrow> 0 \<le> sess \<Longrightarrow> sess < 4294967296 \<Longrightarrow> makes rt TPM_CC_NV_UNDEFINE_SPACE (TPMNVUndefineSpace i h sess)"
  by (simp add: TPMNVUndefineSpace_def encode_ok makes_plain)

lemma rh_arg_ok [encode_ok]: "0 \<le> rh_to_int (RhEnum h)" "rh_to_int (RhEnum h) < 4294967296"
  by (simp_all add: encode_ok)

lemma makes_NVWriteLock [makes_rules]:
  "0 \<le> i \<Longrightarrow> i < 4294967296 \<Longrightarrow> 0 \<le> rh_to_int h \<Longrightarrow> rh_to_int h < 4294967296 \<Longrightarrow>
    0 \<le> sess \<Longrightarrow> sess < 4294967296 \<Longrightarrow> makes rt TPM_CC_NV_WRITE_LOCK (TPMNVWriteLock i h sess)"
  by (simp add: TPMNVWriteLock_def encode_ok makes_plain)

lemma makes_NVReadLock [makes_rules]:
  "0 \<le> i \<Longrightarrow> i < 4294967296 \<Longrightarrow> 0 \<le> sess \<Longrightarrow> sess < 4294967296 \<Longrightarrow> makes rt TPM_CC_NV_READ_LOCK (TPMNVReadLock i (RhEnum h) sess)"
  by (simp add: TPMNVReadLock_def encode_ok makes_plain)

lemma makes_NVWrite [makes_rules]:
  "0 \<le> i \<Longrightarrow> i < 4294967296 \<Longrightarrow> length d < 65536 \<Longrightarrow>
    makes rt TPM_CC_NV_WRITE (TPMNVWrite (HtInt i) d 0 (Some (RhEnum h)) PW)"
  by (simp add: TPMNVWrite_def encode_ok makes_plain)

lemma makes_NVRead [makes_rules]:
  "0 \<le> i \<Longrightarrow> i < 4294967296 \<Longrightarrow> 0 \<le> n \<Longrightarrow> n < 65536 \<Longrightarrow>
    0 \<le> sess \<Longrightarrow> sess < 4294967296 \<Longrightarrow> makes rt TPM_CC_NV_READ (TPMNVRead i n 0 (RhEnum h) sess)"
  by (simp add: TPMNVRead_def encode_ok makes_plain)

lemma makes_NVExtend [makes_rules]:
  "0 \<le> i \<Longrightarrow> i < 4294967296 \<Longrightarrow> length d < 65536 \<Longrightarrow>
    makes rt TPM_CC_NV_EXTEND (TPMNVExtend i d None PW)"
  "0 \<le> i \<Longrightarrow> i < 4294967296 \<Longrightarrow> length d < 65536 \<Longrightarrow>
    makes rt TPM_CC_NV_EXTEND (TPMNVExtend i d (Some (RhEnum h)) PW)"
  by (simp_all add: TPMNVExtend_def encode_ok makes_plain)

lemma makes_NVSetBits [makes_rules]:
  "0 \<le> i \<Longrightarrow> i < 4294967296 \<Longrightarrow> 0 \<le> b \<Longrightarrow> b < 18446744073709551616 \<Longrightarrow>
    0 \<le> sess \<Longrightarrow> sess < 4294967296 \<Longrightarrow> makes rt TPM_CC_NV_SET_BITS (TPMNVSetBits i b (RhEnum h) sess)"
  by (simp add: TPMNVSetBits_def encode_ok makes_plain)

lemma makes_LoadExternal [makes_rules]:
  "makes rt TPM_CC_LOAD_EXTERNAL (TPMLoadExternal ALG_SHA256 2048 RH_NULL priv)"
  by (cases priv; simp only: TPMLoadExternal_def if_True if_False; simp add: SENSITIVE_to_bytes_def
      TPM2B_PUBLIC_to_bytes_def PUBLIC_to_bytes_def PUBLIC_default_def RSA_PARMS_to_bytes_def
      SYM_DEF_to_bytes_def SYM_DEF_default_def encode_ok Let_def makes_plain del: replicate_Suc
      attrs_to_int.simps add: attrs_list_range)

subsection \<open>Commands with a message\<close>

text \<open>The methods that describe a command's own attributes.\<close>

lemma init_keeps [simp]:
  "TPMCommand_init st cc params Plain\<lparr>cmd_self := self\<rparr> = TPMCommand_init st cc params self"
  by (simp add: TPMCommand_init_def)

lemma makes_Clear [makes_rules]:
  "pb_laws rt \<Longrightarrow> makes rt TPM_CC_CLEAR (TPMClear (RhEnum h) PW)"
  by (simp add: TPMClear_def encode_ok makes_message Let_def)
    (simp add: to_proto_def TPMClear_to_proto_def short_session_msg_def pb_simps encode_ok)

lemma rsa_scheme_bytes:
  obtains sc where "RSA_DECRYPT_to_bytes (rsa_decrypt_scheme a b) = Inr sc" "length sc \<le> 4"
proof (cases "\<exists>h. b = Some h \<and> TPM_ALG_value a = 23")
  case True
  then show thesis using that
    by (auto simp: RSA_DECRYPT_to_bytes_def rsa_decrypt_scheme_def encode_ok)
next
  case False
  then show thesis using that
    by (cases b) (auto simp: RSA_DECRYPT_to_bytes_def rsa_decrypt_scheme_def encode_ok)
qed

lemma rsa_scheme_msg_ok:
  assumes "pb_laws rt"
  obtains kws where "rsa_scheme_msg rt (rsa_decrypt_scheme a b) = Inr (Msg PB_TPMTRSADecrypt kws)"
proof (cases b)
  case None
  then show thesis using that assms TPM_ALG_value_range [of a]
    by (simp add: rsa_scheme_msg_def rsa_decrypt_scheme_def pb_simps)
next
  case (Some h)
  then show thesis using that assms TPM_ALG_value_range [of a] TPM_ALG_value_range [of h]
    by (simp add: rsa_scheme_msg_def rsa_decrypt_scheme_def pb_simps)
qed

lemma makes_RSADecrypt [makes_rules]:
  assumes "pb_laws rt" "0 \<le> h" "h < 4294967296" "length d < 65536"
  shows "makes rt TPM_CC_RSA_DECRYPT (TPMRSADecrypt h d (rsa_decrypt_scheme a b) [] PW)"
proof -
  obtain sc where "RSA_DECRYPT_to_bytes (rsa_decrypt_scheme a b) = Inr sc" "length sc \<le> 4"
    by (rule rsa_scheme_bytes)
  moreover obtain kws where
    "rsa_scheme_msg rt (rsa_decrypt_scheme a b) = Inr (Msg PB_TPMTRSADecrypt kws)"
    by (rule rsa_scheme_msg_ok [OF assms(1)])
  ultimately show ?thesis using assms
    by (simp add: TPMRSADecrypt_def encode_ok makes_message Let_def)
      (simp add: to_proto_def TPMRSADecrypt_to_proto_def short_session_msg_def key_buffer_msg_def
        pb_simps)
qed

lemma makes_RSAEncrypt [makes_rules]:
  assumes "pb_laws rt" "0 \<le> h" "h < 4294967296" "length d < 65536"
  shows "makes rt TPM_CC_RSA_ENCRYPT (TPMRSAEncrypt h d (rsa_decrypt_scheme a b) [])"
proof -
  obtain sc where "RSA_DECRYPT_to_bytes (rsa_decrypt_scheme a b) = Inr sc" "length sc \<le> 4"
    by (rule rsa_scheme_bytes)
  moreover obtain kws where
    "rsa_scheme_msg rt (rsa_decrypt_scheme a b) = Inr (Msg PB_TPMTRSADecrypt kws)"
    by (rule rsa_scheme_msg_ok [OF assms(1)])
  ultimately show ?thesis using assms
    by (simp add: TPMRSAEncrypt_def encode_ok makes_message)
      (simp add: to_proto_def TPMRSAEncrypt_to_proto_def key_buffer_msg_def pb_simps)
qed

lemma makes_MakeCredential [makes_rules]:
  "pb_laws rt \<Longrightarrow> 0 \<le> h \<Longrightarrow> h < 4294967296 \<Longrightarrow> length c < 65536 \<Longrightarrow> length n < 65536 \<Longrightarrow>
    makes rt TPM_CC_MAKE_CREDENTIAL (TPMMakeCredential h c n)"
  by (simp add: TPMMakeCredential_def encode_ok makes_message)
    (simp add: to_proto_def TPMMakeCredential_to_proto_def pb_simps)

text \<open>The classes that build their message in the constructor.\<close>

lemma makes_SetPrimaryPolicy [makes_rules]:
  "pb_laws rt \<Longrightarrow> length p < 65536 \<Longrightarrow>
    makes rt TPM_CC_SET_PRIMARY_POLICY (TPMSetPrimaryPolicy rt (RhEnum h) p (AlgEnum a) PW)"
  using TPM_RH_value_range [of h] TPM_ALG_value_range [of a]
  by (simp add: TPMSetPrimaryPolicy_def encode_ok password_session_msg_def pb_simps Let_def
      makes_message to_proto_def)

lemma makes_PCREvent [makes_rules]:
  "pb_laws rt \<Longrightarrow> 0 \<le> h \<Longrightarrow> h < 4294967296 \<Longrightarrow> length d < 65536 \<Longrightarrow>
    0 \<le> sess \<Longrightarrow> sess < 4294967296 \<Longrightarrow> makes rt TPM_CC_PCR_EVENT (TPMPCREvent rt h d sess)"
  by (simp add: TPMPCREvent_def encode_ok password_session_msg_def pb_simps Let_def makes_message
      to_proto_def)

lemma makes_PCRSetAuthPolicy [makes_rules]:
  "pb_laws rt \<Longrightarrow> 0 \<le> h \<Longrightarrow> h < 2147483648 \<Longrightarrow> length p < 65536 \<Longrightarrow> 0 \<le> n \<Longrightarrow> n < 4294967296 \<Longrightarrow>
    0 \<le> sess \<Longrightarrow> sess < 4294967296 \<Longrightarrow>
    makes rt TPM_CC_PCR_SET_AUTH_POLICY (TPMPCRSetAuthPolicy rt h p (AlgEnum a) n sess)"
  using TPM_ALG_value_range [of a]
  by (simp add: TPMPCRSetAuthPolicy_def encode_ok password_session_msg_def pb_simps Let_def
      makes_message to_proto_def)

lemma one_selection_bytes:
  "length sel < 256 \<Longrightarrow> TPML_PCR_SELECTION_to_bytes (one_selection a sel) =
    Inr (be_bytes 4 1 @ be_bytes 2 (TPM_ALG_value a) @ be_bytes 1 (int (length sel)) @ sel)"
  by (simp add: TPML_PCR_SELECTION_to_bytes_def PCR_SELECTION_to_bytes_def one_selection_def
      encode_ok)

lemma makes_PCRRead [makes_rules]:
  assumes "pb_laws rt" "length sel < 256"
  shows "makes rt TPM_CC_PCR_READ (TPMPCRRead rt (one_selection a sel))"
  using assms pcr_selection_list_msg_ok [OF one_selection_bytes [OF assms(2)] assms(1), of a]
    one_selection_bytes [OF assms(2), of a]
  by (simp add: TPMPCRRead_def Let_def pb_simps makes_message to_proto_def)

text \<open>The classes that decode their parameters.\<close>

lemma makes_PCRAllocate [makes_rules]:
  assumes "pb_laws rt" "TPML_PCR_SELECTION_to_bytes l = Inr b" "length b < 65536"
  shows "makes rt TPM_CC_PCR_ALLOCATE (TPMPCRAllocate l (RhEnum h) PW)"
proof -
  obtain ps self where e: "TPMPCRAllocate l (RhEnum h) PW =
      Inr (TPMCommand_init (TPM_ST TPM_ST_SESSIONS) (TPM_CC TPM_CC_PCR_ALLOCATE) ps self)"
    and l: "length ps < 4294967286"
    using assms by (simp add: TPMPCRAllocate_def encode_ok Let_def)
  show ?thesis
    using TPMPCRAllocate_reads_back [OF e assms(1)] l TPM_RH_value_range(2) [of h]
    by (simp add: e makes_message)
qed

lemma makes_GetRandom [makes_rules]:
  assumes "pb_laws rt" "0 \<le> n" "n < 65536"
  shows "makes rt TPM_CC_GET_RANDOM (TPMGetRandom n st None)"
proof -
  have e: "TPMGetRandom n st None =
      Inr (TPMCommand_init (TPM_ST st) (TPM_CC TPM_CC_GET_RANDOM) (be_bytes 2 n) IsGetRandom)"
    using assms by (simp add: TPMGetRandom_def encode_ok)
  show ?thesis using TPMGetRandom_reads_back [OF e assms(1)] by (simp add: e makes_message)
qed

lemma makes_hmac_session [makes_rules]:
  assumes "pb_laws rt"
  shows "makes rt TPM_CC_START_AUTH_SESSION hmac_session"
proof -
  obtain c where c: "hmac_session = Inr c" and ps: "c =
      TPMCommand_init (TPM_ST TPM_ST_NO_SESSIONS) (TPM_CC TPM_CC_START_AUTH_SESSION) (cmd_params c)
        IsStartAuthSession" "length (cmd_params c) < 4294967286"
    by (simp add: hmac_session_def TPMStartAuthSession_def encode_ok Let_def SYM_DEF_to_bytes_def
        null_symmetric_def default_nonce_def)
  have "message_ok (to_proto rt c)"
    using TPMStartAuthSession_reads_back [OF c [unfolded hmac_session_def] assms, of "[]"]
    by (simp add: sym_named_def null_symmetric_def name_of_null)
  then show ?thesis using makes_message [OF ps(2)] c ps(1) by metis
qed

lemma makes_NVDefineSpace [makes_rules]:
  assumes "pb_laws rt" "0 \<le> i" "i < 4294967296" "0 \<le> sess" "sess < 4294967296"
    "0 \<le> sz" "sz < 65536" "0 \<le> nv_attrs_to_int at" "nv_attrs_to_int at < 4294967296"
  shows "makes rt TPM_CC_NV_DEFINE_SPACE (TPMNVDefineSpace i at sess h sz)"
proof -
  obtain ps where e: "TPMNVDefineSpace i at sess h sz =
      Inr (TPMCommand_init (TPM_ST TPM_ST_SESSIONS) (TPM_CC TPM_CC_NV_DEFINE_SPACE) ps
        IsNVDefineSpace)" and l: "length ps < 4294967286"
    using assms by (simp add: TPMNVDefineSpace_def encode_ok Let_def DATA_to_bytes_def
        DATA_default_def TPM2B_NV_PUBLIC_to_bytes_def NV_PUBLIC_to_bytes_def)
  show ?thesis using TPMNVDefineSpace_reads_back [OF e assms(1)] l by (simp add: e makes_message)
qed

subsection \<open>Objects\<close>

lemma TPM2B_PUBLIC_length: "TPM2B_PUBLIC_to_bytes p = Inr b \<Longrightarrow> length b < 65538"
  by (auto simp: TPM2B_PUBLIC_layout)

lemma object_catE:
  assumes "0 \<le> h" "h < 4294967296" "0 \<le> s" "s < 4294967296" "length d < 65000"
    and "TPM2B_PUBLIC_to_bytes pub = Inr b"
  obtains params where "catE [to_bytes 4 h, AUTH_AREA_to_bytes (one_session_area s),
      TPM2B_SENSITIVE_CREATE_to_bytes \<lparr>sensitive = SENSITIVE_CREATE_default\<lparr>sens_data := d\<rparr>\<rparr>,
      TPM2B_PUBLIC_to_bytes pub, DATA_to_bytes DATA_default,
      TPML_PCR_SELECTION_to_bytes \<lparr>selections = []\<rparr>] = Inr params" "length params < 4294967286"
proof -
  let ?params = "be_bytes 4 h @ one_session s @ be_bytes 2 (4 + int (length d)) @ be_bytes 2 0 @
    be_bytes 2 (int (length d)) @ d @ b @ be_bytes 2 0 @ be_bytes 4 0"
  have "catE [to_bytes 4 h, AUTH_AREA_to_bytes (one_session_area s),
      TPM2B_SENSITIVE_CREATE_to_bytes \<lparr>sensitive = SENSITIVE_CREATE_default\<lparr>sens_data := d\<rparr>\<rparr>,
      TPM2B_PUBLIC_to_bytes pub, DATA_to_bytes DATA_default,
      TPML_PCR_SELECTION_to_bytes \<lparr>selections = []\<rparr>] = Inr ?params"
    using assms by (simp add: TPM2B_SENSITIVE_CREATE_to_bytes_def SENSITIVE_CREATE_to_bytes_def
        SENSITIVE_CREATE_default_def DATA_to_bytes_def DATA_default_def
        TPML_PCR_SELECTION_to_bytes_def encode_ok)
  moreover have "length ?params < 4294967286"
    using assms(5) TPM2B_PUBLIC_length [OF assms(6)] by simp
  ultimately show thesis by (rule that)
qed

lemma pw_range: "0 \<le> rs_to_int PW" "rs_to_int PW < 4294967296"
  by simp_all

lemma makes_Create:
  assumes "pb_laws rt" "0 \<le> h" "h < 4294967296" "length d < 65000"
    and "is_ok (TPM2B_PUBLIC_to_bytes (create_template alg kt kb oa rsa kh))"
  shows "makes rt TPM_CC_CREATE (TPMCreate h PW alg kt kb oa rsa kh d)"
proof -
  from assms(5) obtain b where b: "TPM2B_PUBLIC_to_bytes (create_template alg kt kb oa rsa kh) = Inr b"
    by (auto simp: is_ok_ex)
  obtain params where c: "catE [to_bytes 4 h, AUTH_AREA_to_bytes (one_session_area (rs_to_int PW)),
      TPM2B_SENSITIVE_CREATE_to_bytes \<lparr>sensitive = SENSITIVE_CREATE_default\<lparr>sens_data := d\<rparr>\<rparr>,
      TPM2B_PUBLIC_to_bytes (create_template alg kt kb oa rsa kh), DATA_to_bytes DATA_default,
      TPML_PCR_SELECTION_to_bytes \<lparr>selections = []\<rparr>] = Inr params" and l: "length params < 4294967286"
    by (rule object_catE [OF assms(2,3) pw_range assms(4) b])
  have e: "TPMCreate h PW alg kt kb oa rsa kh d =
      Inr (TPMCommand_init (TPM_ST TPM_ST_SESSIONS) (TPM_CC TPM_CC_CREATE) params IsCreate)"
    by (simp only: TPMCreate_def Let_def c bindE_Inr)
  obtain pubm where "proto_public rt b = Inr pubm" "msg_class pubm = PB_TPM2BPublic"
    by (rule proto_public_serialised [OF assms(1) b])
  from TPMCreate_decodes [OF e assms(1) b this] show ?thesis by (simp add: e makes_message l)
qed

lemma makes_CreatePrimary:
  assumes "pb_laws rt" "0 \<le> rs_to_int s" "rs_to_int s < 4294967296"
    and "is_ok (TPM2B_PUBLIC_to_bytes (case tmpl of None \<Rightarrow> primary_template alg kb | Some t \<Rightarrow> t))"
  shows "makes rt TPM_CC_CREATE_PRIMARY (TPMCreatePrimary s alg kb (RhEnum ph) tmpl)"
proof -
  let ?pub = "case tmpl of None \<Rightarrow> primary_template alg kb | Some t \<Rightarrow> t"
  from assms(4) obtain b where b: "TPM2B_PUBLIC_to_bytes ?pub = Inr b" by (auto simp: is_ok_ex)
  obtain params where c: "catE [to_bytes 4 (rh_to_int (RhEnum ph)),
      AUTH_AREA_to_bytes (one_session_area (rs_to_int s)),
      TPM2B_SENSITIVE_CREATE_to_bytes \<lparr>sensitive = SENSITIVE_CREATE_default\<rparr>,
      TPM2B_PUBLIC_to_bytes ?pub, DATA_to_bytes DATA_default,
      TPML_PCR_SELECTION_to_bytes \<lparr>selections = []\<rparr>] = Inr params" and l: "length params < 4294967286"
    using object_catE [OF rh_arg_ok assms(2,3) _ b, of "[]" ph]
    by (auto simp: SENSITIVE_CREATE_default_def)
  have e: "TPMCreatePrimary s alg kb (RhEnum ph) tmpl =
      Inr (TPMCommand_init (TPM_ST TPM_ST_SESSIONS) (TPM_CC TPM_CC_CREATE_PRIMARY) params
        IsCreatePrimary)"
    by (simp only: TPMCreatePrimary_def Let_def c bindE_Inr)
  obtain pubm where "proto_public rt b = Inr pubm" "msg_class pubm = PB_TPM2BPublic"
    by (rule proto_public_serialised [OF assms(1) b])
  from TPMCreatePrimary_decodes [OF e assms(1) _ refl b this] show ?thesis
    by (simp add: e makes_message l encode_ok)
qed

lemma makes_Load:
  assumes "pb_laws rt" "0 \<le> h" "h < 4294967296" "length prb < 65538"
    and "TPM2B_PUBLIC_to_bytes pub = Inr pubb"
  shows "makes rt TPM_CC_LOAD (TPMLoad rt h prb pubb PW)"
proof -
  note l = TPM2B_PUBLIC_length [OF assms(5)]
  obtain pubm where "proto_public rt pubb = Inr pubm" "msg_class pubm = PB_TPM2BPublic"
    by (rule proto_public_serialised [OF assms(1,5)])
  from TPMLoad_decodes [OF assms(1-3) _ _ assms(4) l this refl, of PW] show ?thesis
    using assms(4) l by (simp add: makes_message to_proto_def)
qed

subsection \<open>The captured blobs are serialised public areas\<close>

definition seal_area :: TPM2B_PUBLIC where
  "seal_area = \<lparr>public_area = (PUBLIC_default (AlgEnum ALG_KEYEDHASH))
     \<lparr>pub_object_attributes := AttrsList [FIXEDTPM, FIXEDPARENT, USERWITHAUTH, NODA],
      pub_unique := drop 16 UNSEAL_SEAL_IN_PUBLIC\<rparr>\<rparr>"

definition hmac_area :: TPM2B_PUBLIC where
  "hmac_area = \<lparr>public_area = (PUBLIC_default (AlgEnum ALG_KEYEDHASH))
     \<lparr>pub_object_attributes := AttrsList [FIXEDTPM, FIXEDPARENT, SENSITIVEDATAORIGIN, USERWITHAUTH,
        NODA, SIGN_ENCRYPT, RESTRICTED],
      pub_keyedhash_scheme := Some \<lparr>kh_scheme = AlgEnum ALG_HMAC, kh_hash_alg = Some (AlgEnum ALG_SHA256)\<rparr>,
      pub_unique := drop 18 UNSEAL_HMAC_IN_PUBLIC\<rparr>\<rparr>"

lemma seal_area_bytes: "TPM2B_PUBLIC_to_bytes seal_area = Inr UNSEAL_SEAL_IN_PUBLIC"
  by code_simp

lemma hmac_area_bytes: "TPM2B_PUBLIC_to_bytes hmac_area = Inr UNSEAL_HMAC_IN_PUBLIC"
  by code_simp

lemma blob_lengths [simp]:
  "length UNSEAL_SEAL_IN_PRIVATE = 140" "length UNSEAL_HMAC_IN_PRIVATE = 160"
  "length corrupted_private = 140"
  by (simp_all add: UNSEAL_SEAL_IN_PRIVATE_def UNSEAL_HMAC_IN_PRIVATE_def corrupted_private_def)

lemma makes_Load_blobs [makes_rules]:
  "pb_laws rt \<Longrightarrow> 0 \<le> h \<Longrightarrow> h < 4294967296 \<Longrightarrow> length prb < 65538 \<Longrightarrow>
    makes rt TPM_CC_LOAD (TPMLoad rt h prb UNSEAL_SEAL_IN_PUBLIC PW)"
  "pb_laws rt \<Longrightarrow> 0 \<le> h \<Longrightarrow> h < 4294967296 \<Longrightarrow> length prb < 65538 \<Longrightarrow>
    makes rt TPM_CC_LOAD (TPMLoad rt h prb UNSEAL_HMAC_IN_PUBLIC PW)"
  by (rule makes_Load [OF _ _ _ _ seal_area_bytes]; assumption)
    (rule makes_Load [OF _ _ _ _ hmac_area_bytes]; assumption)

lemma templates_ok:
  "is_ok (TPM2B_PUBLIC_to_bytes (create_template ALG_SHA256 ALG_KEYEDHASH 2048
     (Some (AttrsList [FIXEDTPM, FIXEDPARENT, USERWITHAUTH, NODA])) None
     (Some \<lparr>kh_scheme = AlgEnum ALG_NULL, kh_hash_alg = None\<rparr>)))"
  "is_ok (TPM2B_PUBLIC_to_bytes (create_template ALG_SHA256 ALG_KEYEDHASH 2048
     (Some (AttrsList [FIXEDTPM, FIXEDPARENT, SENSITIVEDATAORIGIN, USERWITHAUTH, NODA,
        SIGN_ENCRYPT, RESTRICTED])) None
     (Some \<lparr>kh_scheme = AlgEnum ALG_HMAC, kh_hash_alg = Some (AlgEnum ALG_SHA256)\<rparr>)))"
  "is_ok (TPM2B_PUBLIC_to_bytes (primary_template ALG_SHA256 2048))"
  by code_simp+

lemma makes_sealed_create [makes_rules]: "pb_laws rt \<Longrightarrow> makes rt TPM_CC_CREATE sealed_create"
  unfolding sealed_create_def by (rule makes_Create) (simp_all add: ascii_def templates_ok)

lemma makes_hmac_create [makes_rules]: "pb_laws rt \<Longrightarrow> makes rt TPM_CC_CREATE hmac_create"
  unfolding hmac_create_def by (rule makes_Create) (simp_all add: templates_ok)

lemma makes_default_primary [makes_rules]:
  "pb_laws rt \<Longrightarrow> makes rt TPM_CC_CREATE_PRIMARY default_primary"
  unfolding default_primary_def by (rule makes_CreatePrimary) (simp_all add: templates_ok)

end
