(* ===== verification/Seed_Checks.thy ===== *)
theory Seed_Checks
  imports Seed_Props
begin

section \<open>The seed table holds what its comments promise\<close>

text \<open>
  Every seed function, for every runtime that keeps the laws: it returns, with the command codes
  listed in \<open>test_case_codes\<close> (the sequences its doc string describes), and each command serialises
  and has a message or none.
\<close>

definition makes_all ::
  "pb_runtime \<Rightarrow> TPMCC list list \<Rightarrow> TPMCommand list list result \<Rightarrow> bool" where
  "makes_all rt ccs m \<longleftrightarrow>
     (\<exists>vs. m = Inr vs \<and> map (map cmd_cc) vs = map (map TPM_CC) ccs \<and>
        (\<forall>v\<in>set vs. \<forall>c\<in>set v. seed_ok rt c))"

lemma sequence_make:
  "list_all2 (makes rt) ccs v \<Longrightarrow>
    \<exists>cs. mapE (\<lambda>c. c) v = Inr cs \<and> map cmd_cc cs = map TPM_CC ccs \<and> (\<forall>c\<in>set cs. seed_ok rt c)"
  by (induction rule: list_all2_induct) (auto simp: makes_def)

lemma sequences_make:
  "list_all2 (list_all2 (makes rt)) ccs vs \<Longrightarrow> makes_all rt ccs (sequences vs)"
proof (induction rule: list_all2_induct)
  case (Cons cs ccs v vs)
  from sequence_make [OF Cons(1)] Cons(3) show ?case
    by (fastforce simp: makes_all_def sequences_def)
qed (simp add: makes_all_def sequences_def)

lemma makes_bind:
  assumes "makes rt cc m" "\<And>c. makes rt cc (Inr c) \<Longrightarrow> makes_all rt ccs (f c)"
  shows "makes_all rt ccs (bindE m f)"
proof -
  from assms(1) obtain c where c: "m = Inr c" by (auto simp: makes_def)
  with assms(1) have "makes rt cc (Inr c)" by simp
  from assms(2) [OF this] c show ?thesis by simp
qed

lemma nv_index_default_value [simp]: "nv_index_default = 16777216"
  by (simp add: nv_index_default_def push_bit_eq_mult)

abbreviation CP where "CP \<equiv> TPM_CC_CREATE_PRIMARY"

lemma load_seeds_make:
  "pb_laws rt \<Longrightarrow> makes_all rt
     [[CP, TPM_CC_CREATE, TPM_CC_LOAD], [CP, TPM_CC_CREATE, TPM_CC_LOAD], [CP, TPM_CC_LOAD],
      [CP, TPM_CC_LOAD]] (tpm_load_seeds rt)"
  unfolding tpm_load_seeds_def
  by (rule makes_bind [OF makes_default_primary], assumption)
    (simp add: sequences_make makes_rules PRIVATE_to_bytes_def encode_ok)

lemma unseal_seeds_make:
  "pb_laws rt \<Longrightarrow> makes_all rt
     [[CP, TPM_CC_CREATE, TPM_CC_LOAD, TPM_CC_UNSEAL], [CP, TPM_CC_UNSEAL],
      [CP, TPM_CC_CREATE, TPM_CC_LOAD, TPM_CC_UNSEAL]] (tpm_unseal_seeds rt)"
  unfolding tpm_unseal_seeds_def
  by (rule makes_bind [OF makes_default_primary], assumption) (simp add: sequences_make makes_rules)

lemma singles_make:
  assumes "n = length ms" "list_all (makes rt cc) ms"
  shows "makes_all rt (replicate n [cc]) (sequences (map (\<lambda>m. [m]) ms))"
proof -
  have "list_all2 (list_all2 (makes rt)) (replicate (length ms) [cc]) (map (\<lambda>m. [m]) ms)"
    using assms(2) by (induction ms) simp_all
  then show ?thesis using assms(1) sequences_make by simp
qed

lemma self_test_seeds_make:
  "makes_all rt (replicate 3 [TPM_CC_INCREMENTAL_SELF_TEST]) tpm_incremental_self_test_seeds"
  using singles_make [of 3 "map TPMIncrementalSelfTest [[], [ALG_SHA256], [ALG_SHA1, ALG_SHA256]]" rt
      TPM_CC_INCREMENTAL_SELF_TEST]
  by (simp add: tpm_incremental_self_test_seeds_def makes_rules)

lemma get_rand_seeds_make:
  "pb_laws rt \<Longrightarrow> makes_all rt (replicate 10 [TPM_CC_GET_RANDOM]) tpm_get_rand_seeds"
  using singles_make [of 10 "concat (map (\<lambda>st. map (\<lambda>n. TPMGetRandom n st None) [16, 32, 64, 0, 48])
      [TPM_ST_NO_SESSIONS, TPM_ST_SESSIONS])" rt TPM_CC_GET_RANDOM]
  by (simp add: tpm_get_rand_seeds_def makes_rules)

lemma hash_seeds_make: "makes_all rt (replicate 3 [TPM_CC_HASH]) tpm_hash_seeds"
  using singles_make [of 3 "[TPMHash (ascii ''test hash data'') ALG_SHA1 RH_OWNER,
      TPMHash (ascii ''another test'') ALG_SHA256 RH_PLATFORM,
      TPMHash (ascii ''random bytes'') ALG_SHA384 RH_NULL]" rt TPM_CC_HASH]
  by (simp add: tpm_hash_seeds_def makes_rules ascii_def)

lemma get_capability_seeds_make:
  "makes_all rt (replicate 15 [TPM_CC_GET_CAPABILITY]) tpm_get_capability_seeds"
proof -
  let ?cases = "[(CAP_HANDLES, 0x80000000, 10), (CAP_HANDLES, 0x81000000, 10),
    (CAP_HANDLES, 0x01000000, 10), (CAP_HANDLES, 0x02000000, 10), (CAP_HANDLES, 0x03000000, 10),
    (CAP_HANDLES, 0x00000000, 10), (CAP_HANDLES, 0x40000000, 10), (CAP_ALGS, 0x0001, 10),
    (CAP_COMMANDS, 0x0000017A, 10), (CAP_PCRS, 0x00000000, 16),
    (CAP_TPM_PROPERTIES, 0x00000100, 64), (CAP_ECC_CURVES, 0x0000, 10),
    (CAP_AUTH_POLICIES, 0x40000001, 10), (CAP_PUB_KEYS, TPM_PUB_KEY_TPM_SPDM_00, 1),
    (CAP_ACT, 0x00000000, 1)]"
  have "list_all (makes rt TPM_CC_GET_CAPABILITY) (map (\<lambda>(c, p, n). TPMGetCapability c p n) ?cases)"
    by (simp add: makes_rules TPM_PUB_KEY_TPM_SPDM_00_def)
  from singles_make [OF _ this, of 15] show ?thesis
    by (simp add: tpm_get_capability_seeds_def)
qed

subsection \<open>PCR and NV\<close>

lemma pcr_read_seeds_make:
  "pb_laws rt \<Longrightarrow> makes_all rt [[TPM_CC_PCR_READ], [TPM_CC_PCR_READ]] (tpm_pcr_read_seeds rt)"
  by (simp add: tpm_pcr_read_seeds_def sequences_make makes_rules)

lemma pcr_allocate_seeds_make:
  assumes "pb_laws rt"
  shows "makes_all rt [[TPM_CC_PCR_ALLOCATE], [TPM_CC_PCR_ALLOCATE], [TPM_CC_PCR_ALLOCATE]]
    tpm_pcr_allocate_seeds"
proof -
  have "makes rt TPM_CC_PCR_ALLOCATE (TPMPCRAllocate (one_selection ALG_SHA256 sel) (RhEnum h) PW)"
    if "length sel = 3" for sel h
    by (rule makes_PCRAllocate [OF assms one_selection_bytes]) (use that in simp_all)
  moreover have "makes rt TPM_CC_PCR_ALLOCATE (TPMPCRAllocate
      \<lparr>selections = [\<lparr>pcr_hash = AlgEnum ALG_SHA256, pcr_select = [1, 0, 0]\<rparr>,
        \<lparr>pcr_hash = AlgEnum ALG_SHA256, pcr_select = [1, 0, 2]\<rparr>]\<rparr> (RhEnum h) PW)" for h
    by (rule makes_PCRAllocate [OF assms])
      (simp add: TPML_PCR_SELECTION_to_bytes_def joinE_def PCR_SELECTION_to_bytes_def encode_ok, simp)
  ultimately show ?thesis
    by (simp add: tpm_pcr_allocate_seeds_def sequences_make)
qed

lemma pcr_extend_seeds_make:
  "makes_all rt [[TPM_CC_PCR_EXTEND], [TPM_CC_PCR_EXTEND], [TPM_CC_PCR_EXTEND]] tpm_pcr_extend_seeds"
  unfolding tpm_pcr_extend_seeds_def Let_def
  by (rule sequences_make) (auto intro!: makes_PCRExtend simp del: replicate.simps)

lemma pcr_reset_seeds_make:
  "makes_all rt [[TPM_CC_PCR_RESET], [TPM_CC_PCR_RESET]] tpm_pcr_reset_seeds"
  by (simp add: tpm_pcr_reset_seeds_def sequences_make makes_rules)

lemma pcr_setauthpolicy_seeds_make:
  "pb_laws rt \<Longrightarrow> makes_all rt
     ([[TPM_CC_PCR_SET_AUTH_POLICY], [TPM_CC_PCR_SET_AUTH_POLICY], [TPM_CC_PCR_SET_AUTH_POLICY],
       [TPM_CC_PCR_SET_AUTH_POLICY], [TPM_CC_START_AUTH_SESSION, TPM_CC_PCR_SET_AUTH_POLICY],
       [TPM_CC_PCR_SET_AUTH_POLICY, TPM_CC_PCR_READ],
       [TPM_CC_START_AUTH_SESSION, TPM_CC_PCR_SET_AUTH_POLICY, TPM_CC_PCR_READ]])
     (tpm_pcr_setauthpolicy_seeds rt)"
  unfolding tpm_pcr_setauthpolicy_seeds_def Let_def
  by (rule sequences_make)
    (simp add: makes_rules TPM_FIRST_HMAC_SESSION_HANDLE_def)

lemma makes_define_index [makes_rules]:
  "pb_laws rt \<Longrightarrow> 0 \<le> i \<Longrightarrow> i < 4294967296 \<Longrightarrow> makes rt TPM_CC_NV_DEFINE_SPACE (define_index i as)"
  unfolding define_index_def
  by (rule makes_NVDefineSpace) (simp_all del: nv_attrs_to_int.simps add: nv_attrs_list_range)

lemma makes_write_as_owner [makes_rules]:
  "0 \<le> i \<Longrightarrow> i < 4294967296 \<Longrightarrow> makes rt TPM_CC_NV_WRITE (write_as_owner i)"
  by (simp add: write_as_owner_def makes_rules)

lemma nv_extend_seeds_make:
  assumes "pb_laws rt"
  shows "makes_all rt
     [[TPM_CC_NV_DEFINE_SPACE, TPM_CC_NV_EXTEND],
      [TPM_CC_NV_DEFINE_SPACE, TPM_CC_NV_EXTEND, TPM_CC_NV_EXTEND],
      [TPM_CC_NV_DEFINE_SPACE, TPM_CC_NV_EXTEND],
      [TPM_CC_NV_DEFINE_SPACE, TPM_CC_NV_WRITE_LOCK, TPM_CC_NV_EXTEND],
      [TPM_CC_NV_DEFINE_SPACE, TPM_CC_NV_EXTEND]] tpm_nv_extend_seeds"
proof -
  have d: "makes rt TPM_CC_NV_DEFINE_SPACE (define_index nv_index_default as)" for as
    by (simp add: makes_rules assms)
  show ?thesis
    unfolding tpm_nv_extend_seeds_def Let_def
    by (rule makes_bind [OF d], rule makes_bind [OF d], rule makes_bind [OF d], rule sequences_make)
      (simp add: makes_rules ascii_def)
qed

lemma nv_definespace_seeds_make:
  "pb_laws rt \<Longrightarrow> makes_all rt
     [[TPM_CC_NV_DEFINE_SPACE], [TPM_CC_START_AUTH_SESSION, TPM_CC_NV_DEFINE_SPACE]]
     tpm_nv_definespace_seeds"
  unfolding tpm_nv_definespace_seeds_def nv_attributes_default_def TPM_FIRST_HMAC_SESSION_HANDLE_def
  by (rule sequences_make) (simp add: makes_rules makes_NVDefineSpace nv_attrs_list_range
      del: nv_attrs_to_int.simps)

lemma nv_setbits_seeds_make:
  assumes "pb_laws rt"
  shows "makes_all rt
     [[TPM_CC_NV_DEFINE_SPACE, TPM_CC_NV_SET_BITS],
      [TPM_CC_NV_DEFINE_SPACE, TPM_CC_NV_SET_BITS, TPM_CC_NV_SET_BITS]] tpm_nv_setbits_seeds"
proof -
  have a: "TPMA_NV_value NV_OWNERWRITE OR TPMA_NV_value NV_OWNERREAD OR TPMA_NV_value NV_NT_BITS =
      131106"
    by code_simp
  show ?thesis
    unfolding tpm_nv_setbits_seeds_def Let_def a
    by (rule sequences_make) (simp add: makes_rules makes_NVDefineSpace assms)
qed

subsection \<open>RSA, objects and the entries written in place\<close>

lemma makes_rsa_primary:
  assumes "pb_laws rt" "alg_to_int scheme = 16 \<and> h = None \<or> alg_to_int scheme = 20 \<and> h = Some (AlgEnum a)"
  shows "makes rt CP (rsa_primary attributes scheme h)"
proof -
  have "is_ok (TPM2B_PUBLIC_to_bytes \<lparr>public_area = (PUBLIC_default (AlgEnum ALG_RSA))
      \<lparr>pub_name_alg := AlgEnum ALG_SHA256, pub_object_attributes := AttrsList attributes,
       pub_rsa_parameters := Some
         \<lparr>rsa_symmetric = SYM_DEF_default\<lparr>sym_algorithm := AlgEnum ALG_NULL\<rparr>,
          rsa_scheme = scheme, rsa_scheme_hash = h, rsa_key_bits = 2048, rsa_exponent = 0\<rparr>\<rparr>\<rparr>)"
    using assms(2) attrs_list_range [of attributes] TPM_ALG_bound [of a]
    by (auto simp: TPM2B_PUBLIC_to_bytes_def PUBLIC_to_bytes_def PUBLIC_default_def
        RSA_PARMS_to_bytes_def SYM_DEF_to_bytes_def SYM_DEF_default_def encode_ok
        simp del: attrs_to_int.simps)
  then show ?thesis
    unfolding rsa_primary_def by (intro makes_CreatePrimary [OF assms(1)]) simp_all
qed

lemma make_credential_seeds_make:
  assumes "pb_laws rt"
  shows "makes_all rt
     [[CP, TPM_CC_MAKE_CREDENTIAL], [CP, TPM_CC_MAKE_CREDENTIAL], [CP, TPM_CC_MAKE_CREDENTIAL]]
     tpm_make_credential_seeds"
proof -
  have n: "catE [to_bytes 2 0x000B, Inr (replicate 32 0)] = Inr (be_bytes 2 11 @ replicate 32 0)"
    by (simp add: encode_ok)
  show ?thesis
    unfolding tpm_make_credential_seeds_def Let_def n bindE_Inr
    by (rule makes_bind [OF makes_default_primary [OF assms]],
        rule makes_bind [OF makes_rsa_primary [OF assms]], simp, rule sequences_make)
      (simp add: makes_rules assms)
qed

lemma rsa_encrypt_seeds_make:
  assumes "pb_laws rt"
  shows "makes_all rt
     [[CP, TPM_CC_RSA_ENCRYPT], [CP, TPM_CC_RSA_ENCRYPT], [CP, TPM_CC_RSA_ENCRYPT],
      [CP, TPM_CC_RSA_ENCRYPT]] tpm_rsa_encrypt_seeds"
  unfolding tpm_rsa_encrypt_seeds_def Let_def
  by (rule makes_bind [OF makes_rsa_primary [OF assms]], simp, rule sequences_make)
    (simp add: makes_rules assms)

lemma rsa_decrypt_seeds_make:
  assumes "pb_laws rt"
  shows "makes_all rt
     [[CP, TPM_CC_RSA_DECRYPT], [CP, TPM_CC_RSA_DECRYPT], [CP, TPM_CC_RSA_DECRYPT]]
     tpm_rsa_decrypt_seeds"
  unfolding tpm_rsa_decrypt_seeds_def Let_def
  by (rule makes_bind [OF makes_rsa_primary [OF assms]], simp, rule sequences_make)
    (simp add: makes_rules assms)

lemma create_templates_ok:
  "is_ok (TPM2B_PUBLIC_to_bytes (create_template ALG_SHA256 ALG_RSA 2048 None None None))"
  "is_ok (TPM2B_PUBLIC_to_bytes (create_template ALG_SHA256 ALG_RSA 1024 None None None))"
  "is_ok (TPM2B_PUBLIC_to_bytes (create_template ALG_SHA1 ALG_RSA 2048 None None None))"
  "is_ok (TPM2B_PUBLIC_to_bytes (create_template ALG_SHA1 ALG_RSA 1024 None None None))"
  "is_ok (TPM2B_PUBLIC_to_bytes (create_template ALG_SHA384 ALG_RSA 2048 None None None))"
  "is_ok (TPM2B_PUBLIC_to_bytes (create_template ALG_SHA384 ALG_RSA 1024 None None None))"
  by code_simp+

lemma create_seeds_make:
  "pb_laws rt \<Longrightarrow> makes_all rt
     [[CP, TPM_CC_CREATE], [CP, TPM_CC_CREATE], [CP, TPM_CC_CREATE], [CP, TPM_CC_CREATE],
      [CP, TPM_CC_CREATE], [CP, TPM_CC_CREATE]] create_seeds"
  unfolding create_seeds_def
  by (rule sequences_make) (simp add: makes_rules makes_Create create_templates_ok)

lemma create_primary_seeds_make:
  "pb_laws rt \<Longrightarrow> makes_all rt [[CP, TPM_CC_GET_RANDOM], [TPM_CC_GET_RANDOM, CP], [CP, CP]]
     create_primary_seeds"
  unfolding create_primary_seeds_def by (rule sequences_make) (simp add: makes_rules)

lemma start_auth_session_seeds_make:
  "pb_laws rt \<Longrightarrow> makes_all rt [[TPM_CC_START_AUTH_SESSION], [TPM_CC_START_AUTH_SESSION, CP]]
     start_auth_session_seeds"
  unfolding start_auth_session_seeds_def TPM_FIRST_HMAC_SESSION_HANDLE_def
  by (rule sequences_make) (simp add: makes_rules makes_CreatePrimary templates_ok)

lemma load_external_seeds_make:
  "makes_all rt [[TPM_CC_LOAD_EXTERNAL], [TPM_CC_LOAD_EXTERNAL]] load_external_seeds"
  unfolding load_external_seeds_def by (rule sequences_make) (simp add: makes_rules)

lemma sign_seeds_make:
  assumes "pb_laws rt"
  shows "makes_all rt
     [[CP, TPM_CC_SIGN], [CP, TPM_CC_SIGN], [CP, TPM_CC_SIGN], [CP, TPM_CC_SIGN], [CP, TPM_CC_SIGN],
      [CP, TPM_CC_SIGN]] sign_seeds"
proof -
  have "makes rt CP (rsa_primary as (AlgEnum ALG_NULL) None)"
    "makes rt CP (rsa_primary as (AlgEnum ALG_RSASSA) (Some (AlgEnum ALG_SHA256)))" for as
    by (rule makes_rsa_primary [OF assms], simp)+
  then show ?thesis
    unfolding sign_seeds_def sign_with_def
    by (intro sequences_make) (simp add: makes_rules assms)
qed

lemma clear_seeds_make: "pb_laws rt \<Longrightarrow> makes_all rt [[TPM_CC_CLEAR], [TPM_CC_CLEAR]] clear_seeds"
  unfolding clear_seeds_def by (rule sequences_make) (simp add: makes_rules)

lemma set_primary_policy_seeds_make:
  "pb_laws rt \<Longrightarrow> makes_all rt
     [[TPM_CC_SET_PRIMARY_POLICY], [TPM_CC_SET_PRIMARY_POLICY], [TPM_CC_SET_PRIMARY_POLICY],
      [TPM_CC_SET_PRIMARY_POLICY], [TPM_CC_SET_PRIMARY_POLICY], [TPM_CC_SET_PRIMARY_POLICY]]
     (set_primary_policy_seeds rt)"
  unfolding set_primary_policy_seeds_def by (rule sequences_make) (simp add: makes_rules)

lemma nv_write_lock_seeds_make:
  "pb_laws rt \<Longrightarrow> makes_all rt
     [[TPM_CC_NV_DEFINE_SPACE, TPM_CC_NV_WRITE_LOCK],
      [TPM_CC_NV_DEFINE_SPACE, TPM_CC_NV_WRITE_LOCK, TPM_CC_NV_WRITE_LOCK],
      [TPM_CC_NV_DEFINE_SPACE, TPM_CC_NV_WRITE_LOCK]] nv_write_lock_seeds"
  unfolding nv_write_lock_seeds_def Let_def by (rule sequences_make) (simp add: makes_rules)

lemma nv_write_seeds_make:
  "pb_laws rt \<Longrightarrow> makes_all rt [[TPM_CC_NV_DEFINE_SPACE, TPM_CC_NV_WRITE]] nv_write_seeds"
  unfolding nv_write_seeds_def by (rule sequences_make) (simp add: makes_rules)

lemma nv_read_lock_seeds_make:
  "pb_laws rt \<Longrightarrow> makes_all rt
     [[TPM_CC_NV_DEFINE_SPACE, TPM_CC_NV_WRITE, TPM_CC_NV_READ_LOCK],
      [TPM_CC_NV_DEFINE_SPACE, TPM_CC_NV_WRITE, TPM_CC_NV_READ_LOCK, TPM_CC_NV_READ_LOCK],
      [TPM_CC_NV_DEFINE_SPACE, TPM_CC_NV_WRITE, TPM_CC_NV_READ_LOCK]] nv_read_lock_seeds"
  unfolding nv_read_lock_seeds_def Let_def by (rule sequences_make) (simp add: makes_rules)

lemma nv_read_seeds_make:
  "pb_laws rt \<Longrightarrow> makes_all rt
     [[TPM_CC_NV_DEFINE_SPACE, TPM_CC_NV_WRITE, TPM_CC_NV_READ],
      [TPM_CC_NV_DEFINE_SPACE, TPM_CC_NV_WRITE, TPM_CC_NV_READ],
      [TPM_CC_NV_DEFINE_SPACE, TPM_CC_NV_READ]] nv_read_seeds"
  unfolding nv_read_seeds_def Let_def by (rule sequences_make) (simp add: makes_rules)

lemma nv_undefine_space_seeds_make:
  "pb_laws rt \<Longrightarrow> makes_all rt
     [[TPM_CC_NV_DEFINE_SPACE, TPM_CC_NV_UNDEFINE_SPACE],
      [TPM_CC_NV_DEFINE_SPACE, TPM_CC_NV_UNDEFINE_SPACE],
      [TPM_CC_NV_DEFINE_SPACE, TPM_CC_NV_UNDEFINE_SPACE]] nv_undefine_space_seeds"
  unfolding nv_undefine_space_seeds_def Let_def
  by (rule sequences_make)
    (simp add: makes_rules makes_NVDefineSpace nv_attrs_list_range del: nv_attrs_to_int.simps)

lemma pcr_event_seeds_make:
  "pb_laws rt \<Longrightarrow> makes_all rt
     [[TPM_CC_PCR_EVENT], [TPM_CC_PCR_EVENT], [TPM_CC_PCR_EVENT], [TPM_CC_PCR_EVENT]]
     (pcr_event_seeds rt)"
  unfolding pcr_event_seeds_def
  by (rule sequences_make) (simp add: makes_rules del: replicate.simps)

subsection \<open>The table\<close>

definition test_case_codes :: "(string \<times> TPMCC list list) list" where
  "test_case_codes =
     [(''TPMGetRandom'', replicate 10 [TPM_CC_GET_RANDOM]),
      (''TPMStirRandom'', [[TPM_CC_STIR_RANDOM]]),
      (''TPMHash'', replicate 3 [TPM_CC_HASH]),
      (''TPMGetTestResult'', [[TPM_CC_GET_TEST_RESULT]]),
      (''TPMSelfTest'', [[TPM_CC_SELF_TEST], [TPM_CC_SELF_TEST]]),
      (''TPMReadClock'', [[TPM_CC_READ_CLOCK]]),
      (''TPMVendorTCGTest'', [[TPM_CC_VENDOR_TCG_TEST]]),
      (''TPMUnseal'',
       [[CP, TPM_CC_CREATE, TPM_CC_LOAD, TPM_CC_UNSEAL], [CP, TPM_CC_UNSEAL],
        [CP, TPM_CC_CREATE, TPM_CC_LOAD, TPM_CC_UNSEAL]]),
      (''TPMLoad'',
       [[CP, TPM_CC_CREATE, TPM_CC_LOAD], [CP, TPM_CC_CREATE, TPM_CC_LOAD], [CP, TPM_CC_LOAD],
        [CP, TPM_CC_LOAD]]),
      (''TPMCreate'',
       [[CP, TPM_CC_CREATE], [CP, TPM_CC_CREATE], [CP, TPM_CC_CREATE], [CP, TPM_CC_CREATE],
        [CP, TPM_CC_CREATE], [CP, TPM_CC_CREATE]]),
      (''TPMCreatePrimary'', [[CP, TPM_CC_GET_RANDOM], [TPM_CC_GET_RANDOM, CP], [CP, CP]]),
      (''TPMStartAuthSessionHMAC'',
       [[TPM_CC_START_AUTH_SESSION], [TPM_CC_START_AUTH_SESSION, CP]]),
      (''TPMRSADecrypt'', [[CP, TPM_CC_RSA_DECRYPT], [CP, TPM_CC_RSA_DECRYPT], [CP, TPM_CC_RSA_DECRYPT]]),
      (''TPMRSAEncrypt'',
       [[CP, TPM_CC_RSA_ENCRYPT], [CP, TPM_CC_RSA_ENCRYPT], [CP, TPM_CC_RSA_ENCRYPT],
        [CP, TPM_CC_RSA_ENCRYPT]]),
      (''TPMMakeCredential'',
       [[CP, TPM_CC_MAKE_CREDENTIAL], [CP, TPM_CC_MAKE_CREDENTIAL], [CP, TPM_CC_MAKE_CREDENTIAL]]),
      (''TPMIncrementalSelfTest'', replicate 3 [TPM_CC_INCREMENTAL_SELF_TEST]),
      (''TPMGetCapability'', replicate 15 [TPM_CC_GET_CAPABILITY]),
      (''TPMECCParameters'', [[TPM_CC_ECC_PARAMETERS]]),
      (''TPMLoadExternal'', [[TPM_CC_LOAD_EXTERNAL], [TPM_CC_LOAD_EXTERNAL]]),
      (''TPMSign'',
       [[CP, TPM_CC_SIGN], [CP, TPM_CC_SIGN], [CP, TPM_CC_SIGN], [CP, TPM_CC_SIGN],
        [CP, TPM_CC_SIGN], [CP, TPM_CC_SIGN]]),
      (''TPMPCRAllocate'', [[TPM_CC_PCR_ALLOCATE], [TPM_CC_PCR_ALLOCATE], [TPM_CC_PCR_ALLOCATE]]),
      (''TPMPCRRead'', [[TPM_CC_PCR_READ], [TPM_CC_PCR_READ]]),
      (''TPMPCRExtend'', [[TPM_CC_PCR_EXTEND], [TPM_CC_PCR_EXTEND], [TPM_CC_PCR_EXTEND]]),
      (''TPMPCRReset'', [[TPM_CC_PCR_RESET], [TPM_CC_PCR_RESET]]),
      (''TPMPCRSetAuthPolicy'',
       [[TPM_CC_PCR_SET_AUTH_POLICY], [TPM_CC_PCR_SET_AUTH_POLICY], [TPM_CC_PCR_SET_AUTH_POLICY],
        [TPM_CC_PCR_SET_AUTH_POLICY], [TPM_CC_START_AUTH_SESSION, TPM_CC_PCR_SET_AUTH_POLICY],
        [TPM_CC_PCR_SET_AUTH_POLICY, TPM_CC_PCR_READ],
        [TPM_CC_START_AUTH_SESSION, TPM_CC_PCR_SET_AUTH_POLICY, TPM_CC_PCR_READ]]),
      (''TPMTestParms'', [[TPM_CC_TEST_PARMS]]),
      (''TPMNVDefineSpace'',
       [[TPM_CC_NV_DEFINE_SPACE], [TPM_CC_START_AUTH_SESSION, TPM_CC_NV_DEFINE_SPACE]]),
      (''TPMNVSetBits'',
       [[TPM_CC_NV_DEFINE_SPACE, TPM_CC_NV_SET_BITS],
        [TPM_CC_NV_DEFINE_SPACE, TPM_CC_NV_SET_BITS, TPM_CC_NV_SET_BITS]]),
      (''TPMClear'', [[TPM_CC_CLEAR], [TPM_CC_CLEAR]]),
      (''TPMSetPrimaryPolicy'',
       [[TPM_CC_SET_PRIMARY_POLICY], [TPM_CC_SET_PRIMARY_POLICY], [TPM_CC_SET_PRIMARY_POLICY],
        [TPM_CC_SET_PRIMARY_POLICY], [TPM_CC_SET_PRIMARY_POLICY], [TPM_CC_SET_PRIMARY_POLICY]]),
      (''TPMNVWriteLock'',
       [[TPM_CC_NV_DEFINE_SPACE, TPM_CC_NV_WRITE_LOCK],
        [TPM_CC_NV_DEFINE_SPACE, TPM_CC_NV_WRITE_LOCK, TPM_CC_NV_WRITE_LOCK],
        [TPM_CC_NV_DEFINE_SPACE, TPM_CC_NV_WRITE_LOCK]]),
      (''TPMNVWrite'', [[TPM_CC_NV_DEFINE_SPACE, TPM_CC_NV_WRITE]]),
      (''TPMNVReadLock'',
       [[TPM_CC_NV_DEFINE_SPACE, TPM_CC_NV_WRITE, TPM_CC_NV_READ_LOCK],
        [TPM_CC_NV_DEFINE_SPACE, TPM_CC_NV_WRITE, TPM_CC_NV_READ_LOCK, TPM_CC_NV_READ_LOCK],
        [TPM_CC_NV_DEFINE_SPACE, TPM_CC_NV_WRITE, TPM_CC_NV_READ_LOCK]]),
      (''TPMNVRead'',
       [[TPM_CC_NV_DEFINE_SPACE, TPM_CC_NV_WRITE, TPM_CC_NV_READ],
        [TPM_CC_NV_DEFINE_SPACE, TPM_CC_NV_WRITE, TPM_CC_NV_READ],
        [TPM_CC_NV_DEFINE_SPACE, TPM_CC_NV_READ]]),
      (''TPMNVExtend'',
       [[TPM_CC_NV_DEFINE_SPACE, TPM_CC_NV_EXTEND],
        [TPM_CC_NV_DEFINE_SPACE, TPM_CC_NV_EXTEND, TPM_CC_NV_EXTEND],
        [TPM_CC_NV_DEFINE_SPACE, TPM_CC_NV_EXTEND],
        [TPM_CC_NV_DEFINE_SPACE, TPM_CC_NV_WRITE_LOCK, TPM_CC_NV_EXTEND],
        [TPM_CC_NV_DEFINE_SPACE, TPM_CC_NV_EXTEND]]),
      (''TPMNVUndefineSpace'',
       [[TPM_CC_NV_DEFINE_SPACE, TPM_CC_NV_UNDEFINE_SPACE],
        [TPM_CC_NV_DEFINE_SPACE, TPM_CC_NV_UNDEFINE_SPACE],
        [TPM_CC_NV_DEFINE_SPACE, TPM_CC_NV_UNDEFINE_SPACE]]),
      (''TPMPCREvent'',
       [[TPM_CC_PCR_EVENT], [TPM_CC_PCR_EVENT], [TPM_CC_PCR_EVENT], [TPM_CC_PCR_EVENT]])]"

definition entry_makes :: "pb_runtime \<Rightarrow> TPMCC list list \<Rightarrow> seed_definition result \<Rightarrow> bool" where
  "entry_makes rt ccs m \<longleftrightarrow> (\<exists>def. m = Inr def \<and> makes_all rt ccs (normalize_variants def))"

lemma entry_makes_calls [simp]: "entry_makes rt ccs (calls f) \<longleftrightarrow> makes_all rt ccs f"
  by (simp add: entry_makes_def calls_def)

lemma entry_makes_built [simp]: "makes_all rt ccs m \<Longrightarrow> entry_makes rt ccs (built m)"
  by (auto simp: entry_makes_def built_def makes_all_def)

lemma entry_makes_command [simp]: "makes rt cc m \<Longrightarrow> entry_makes rt [[cc]] (command_of m)"
  by (auto simp: entry_makes_def command_of_def makes_all_def makes_def)

lemma self_test_entry_makes:
  "makes_all rt [[TPM_CC_SELF_TEST], [TPM_CC_SELF_TEST]]
     (sequences [[TPMSelfTest YES], [TPMSelfTest NO]])"
  by (rule sequences_make) (simp add: makes_rules)

lemmas entries_make = load_seeds_make unseal_seeds_make self_test_seeds_make get_rand_seeds_make
  hash_seeds_make get_capability_seeds_make pcr_read_seeds_make pcr_allocate_seeds_make
  pcr_extend_seeds_make pcr_reset_seeds_make pcr_setauthpolicy_seeds_make nv_extend_seeds_make
  nv_definespace_seeds_make nv_setbits_seeds_make make_credential_seeds_make
  rsa_encrypt_seeds_make rsa_decrypt_seeds_make create_seeds_make create_primary_seeds_make
  start_auth_session_seeds_make load_external_seeds_make sign_seeds_make clear_seeds_make
  set_primary_policy_seeds_make nv_write_lock_seeds_make nv_write_seeds_make
  nv_read_lock_seeds_make nv_read_seeds_make nv_undefine_space_seeds_make pcr_event_seeds_make
  self_test_entry_makes

lemma test_case_entries_make:
  assumes "pb_laws rt"
  shows "list_all2 (\<lambda>(name, ccs) (cmd, m). name = cmd \<and> entry_makes rt ccs m)
    test_case_codes (test_case_entries rt)"
  unfolding test_case_codes_def test_case_entries_def
  by (simp add: entries_make makes_rules assms)

lemma TEST_CASES_make:
  assumes "pb_laws rt"
  obtains seeds where "TEST_CASES rt = Inr seeds"
    "list_all2 (\<lambda>(name, ccs) (cmd, def). name = cmd \<and> makes_all rt ccs (normalize_variants def))
       test_case_codes seeds"
proof -
  have "list_all2 (\<lambda>(name, ccs) (cmd, m). name = cmd \<and> entry_makes rt ccs m) codes entries \<Longrightarrow>
    \<exists>seeds. mapE (\<lambda>(cmd, m). bindE m (\<lambda>def. Inr (cmd, def))) entries = Inr seeds \<and>
      list_all2 (\<lambda>(name, ccs) (cmd, def). name = cmd \<and> makes_all rt ccs (normalize_variants def))
        codes seeds" for codes entries
    by (induction rule: list_all2_induct) (auto simp: entry_makes_def)
  from this [OF test_case_entries_make [OF assms]] show thesis
    using that by (auto simp: TEST_CASES_def)
qed

end
