(* ===== verification/Run_Props.thy ===== *)
theory Run_Props
  imports Seed_Checks
begin

section \<open>The generator runs to the end\<close>

text \<open>
  From the table to the files: a sequence of good commands serialises and has message text or
  none, so \<open>_run_commands\<close> meets no exception, and without \<open>-recreate\<close> neither does
  \<open>_create_variant\<close>.
\<close>

lemma good_sequence_serialises:
  "\<forall>c\<in>set cs. seed_ok rt c \<Longrightarrow> is_ok (serialize_sequence cs)"
  using is_ok_mapE [of command_bytes cs]
  by (auto simp: serialize_sequence_def joinE_def seed_ok_def is_ok_bindE is_ok_ex)

definition loop_result :: "pb_runtime \<Rightarrow> TPMCommand list \<Rightarrow> pb_msg list option \<Rightarrow> bool" where
  "loop_result rt cs ms \<longleftrightarrow>
     (ms = None \<longleftrightarrow> (\<exists>c\<in>set cs. to_proto rt c = Inr None)) \<and>
     (\<forall>l. ms = Some l \<longrightarrow> (\<forall>m\<in>set l. msg_class m = PB_TPMCommand))"

lemma proto_commands_ok:
  assumes "pb_laws rt"
  shows "\<forall>c\<in>set cs. seed_ok rt c \<Longrightarrow>
    \<exists>ms. proto_commands_loop rt cs = Inr ms \<and> loop_result rt cs ms"
proof (induction cs)
  case (Cons c cs)
  have "\<forall>c\<in>set cs. seed_ok rt c" using Cons.prems by simp
  from Cons.IH [OF this] obtain ms where ih: "proto_commands_loop rt cs = Inr ms"
    "loop_result rt cs ms" by blast
  have "message_ok (to_proto rt c)" using Cons.prems by (simp add: seed_ok_def)
  then consider "to_proto rt c = Inr None" | key m where "to_proto rt c = Inr (Some (key, m))"
      "map_of (pb_schema PB_TPMCommand) key = Some (T_msg (msg_class m))"
    by (auto simp: message_ok_def simp del: pb_schema.simps split: sum.splits option.splits)
  then show ?case
  proof cases
    case 1
    then show ?thesis by (simp add: loop_result_def)
  next
    case (2 key m)
    have "kwargs_ok PB_TPMCommand [(key, PbMsg m)]" using 2(2) by (simp add: kwargs_ok_def del: pb_schema.simps)
    then show ?thesis using 2 ih assms by (cases ms) (auto simp: pb_new_ok loop_result_def)
  qed
qed (simp add: loop_result_def)

lemma good_sequence_text:
  assumes "pb_laws rt" "\<forall>c\<in>set cs. seed_ok rt c"
  shows "\<exists>t. serialize_proto_sequence rt cs = Inr t \<and>
    (t = None \<longleftrightarrow> (\<exists>c\<in>set cs. to_proto rt c = Inr None)) \<and>
    (\<forall>text. t = Some text \<longrightarrow> utf8_valid text)"
proof -
  from proto_commands_ok [OF assms] obtain ms where ms: "proto_commands_loop rt cs = Inr ms"
    "loop_result rt cs ms" by blast
  show ?thesis
  proof (cases ms)
    case (Some l)
    with ms(2) have "kwargs_ok PB_TPMCommandSequence [(''commands'', PbList l)]"
      by (simp add: kwargs_ok_def loop_result_def)
    then show ?thesis using ms Some assms(1) by (simp add: loop_result_def serialize_proto_sequence_def pb_new_ok utf8_valid_encoded)
  qed (use ms in \<open>simp add: loop_result_def serialize_proto_sequence_def\<close>)
qed

lemma create_variant_plain_ok:
  assumes "os_laws env" "finite (dom dir)"
  shows "fst (create_variant env name ts dir content False proto) = Inr ()"
proof (cases "has_variant dir name")
  case True
  then show ?thesis by (simp add: create_variant_has [OF assms])
next
  case False
  then have "filter (prefix (name @ ''-'')) (os_listdir env dir) = []"
    using assms by (simp add: has_variant_def os_laws_def filter_empty_conv)
  then show ?thesis by (simp add: create_variant_def)
qed

lemma write_ok:
  assumes "os_laws env" "corpus_finite s" "pb_laws rt" "\<forall>c\<in>set cs. seed_ok rt c"
  shows "\<exists>t. write_bytes env name ts False cs s = (Inr (), t) \<and> corpus_finite t"
    and "\<exists>t. write_proto rt env name ts False cs s = (Inr (), t) \<and> corpus_finite t"
proof -
  obtain b where "serialize_sequence cs = Inr b"
    using good_sequence_serialises [OF assms(4)] by (auto simp: is_ok_ex)
  then have "fst (write_bytes env name ts False cs s) = Inr ()"
    using create_variant_plain_ok [OF assms(1), of "byte_dir s" name ts b False] assms(2)
    by (simp add: write_bytes_def corpus_finite_def case_prod_beta)
  moreover obtain t where "write_bytes env name ts False cs s = (fst (write_bytes env name ts False cs s), t)"
    by (cases "write_bytes env name ts False cs s") simp
  ultimately show "\<exists>t. write_bytes env name ts False cs s = (Inr (), t) \<and> corpus_finite t"
    using write_bytes_keeps [OF assms(1)] assms(2) by (metis corpus_keeps_def)
  obtain m where m: "serialize_proto_sequence rt cs = Inr m"
    using good_sequence_text [OF assms(3,4)] by auto
  then have "fst (write_proto rt env name ts False cs s) = Inr ()"
    using create_variant_plain_ok [OF assms(1), of "proto_dir s" name ts "the m" True] assms(2)
    by (cases m) (simp_all add: write_proto_def corpus_finite_def case_prod_beta)
  moreover obtain t where
    "write_proto rt env name ts False cs s = (fst (write_proto rt env name ts False cs s), t)"
    by (cases "write_proto rt env name ts False cs s") simp
  ultimately show "\<exists>t. write_proto rt env name ts False cs s = (Inr (), t) \<and> corpus_finite t"
    using write_proto_keeps [OF assms(1)] assms(2) by (metis corpus_keeps_def)
qed

lemma run_variants_ok:
  assumes "os_laws env" "pb_laws rt"
  shows "corpus_finite s \<Longrightarrow> \<forall>v\<in>set vs. \<forall>c\<in>set v. seed_ok rt c \<Longrightarrow>
    \<exists>t. run_variants rt env cmd ts False i vs s = (Inr (), t) \<and> corpus_finite t"
proof (induction vs arbitrary: i s)
  case (Cons v vs)
  have v: "\<forall>c\<in>set v. seed_ok rt c" using Cons.prems(2) by simp
  from write_ok(1) [OF assms(1) Cons.prems(1) assms(2) v] obtain t where
    t: "write_bytes env (variant_name cmd i) ts False v s = (Inr (), t)" "corpus_finite t" by blast
  from write_ok(2) [OF assms(1) t(2) assms(2) v] obtain u where
    u: "write_proto rt env (variant_name cmd i) ts False v t = (Inr (), u)" "corpus_finite u" by blast
  from Cons.IH [OF u(2)] Cons.prems(2) t(1) u(1) show ?case by (simp add: then_io_def)
qed simp

lemma generate_ok:
  assumes "os_laws env" "pb_laws rt"
  shows "corpus_finite s \<Longrightarrow>
    \<forall>seed\<in>set seeds. \<exists>ccs. makes_all rt ccs (normalize_variants (snd seed)) \<Longrightarrow>
    \<exists>t. generate_seeds rt env False seeds ts s = (Inr (), t) \<and> corpus_finite t"
proof (induction seeds arbitrary: s)
  case (Cons seed seeds)
  obtain cmd def where sd: "seed = (cmd, def)" by (cases seed)
  with Cons.prems(2) obtain vs where vs: "normalize_variants def = Inr vs"
    "\<forall>v\<in>set vs. \<forall>c\<in>set v. seed_ok rt c"
    by (auto simp: makes_all_def)
  from run_variants_ok [OF assms Cons.prems(1) vs(2)] obtain t where
    t: "run_variants rt env cmd ts False 0 vs s = (Inr (), t)" "corpus_finite t" by blast
  from Cons.IH [OF t(2)] Cons.prems(2) t(1) vs(1) sd show ?case
    by (simp add: then_io_def run_commands_def)
qed simp

text \<open>
  C7: the generator's own table is sound. For every protobuf runtime that keeps its documented
  laws, \<open>TEST_CASES\<close> is built without an exception, its entries are the 37 named in
  \<open>test_case_codes\<close> in that order, each entry yields the listed command sequences, and each
  command of them serialises and has a well-typed message or none.
\<close>

theorem seed_table_builds:
  assumes "pb_laws rt"
  shows "\<exists>seeds. TEST_CASES rt = Inr seeds \<and>
    list_all2 (\<lambda>(name, ccs) (cmd, def). name = cmd \<and> makes_all rt ccs (normalize_variants def))
      test_case_codes seeds"
  using TEST_CASES_make [OF assms] by metis

lemma seed_table_builds_witness:
  "\<exists>seeds. TEST_CASES (plain_runtime (\<lambda>_. [])) = Inr seeds \<and>
    list_all2 (\<lambda>(name, ccs) (cmd, def). name = cmd \<and>
        makes_all (plain_runtime (\<lambda>_. [])) ccs (normalize_variants def)) test_case_codes seeds"
  by (rule seed_table_builds [OF plain_runtime_laws])

text \<open>
  C13: the program without \<open>-recreate\<close> always succeeds. On any existing corpus, with any listing
  order, any time stamp and any lawful protobuf runtime, it runs to its end and raises nothing;
  the test script is not consulted.
\<close>

theorem plain_run_succeeds:
  assumes "pb_laws rt" "os_laws env" "finite (dom (byte_dir s))" "finite (dom (proto_dir s))"
  shows "fst (main rt env False timestamp s) = Inr ()"
proof -
  obtain seeds where s: "TEST_CASES rt = Inr seeds" and
    l: "list_all2 (\<lambda>(name, ccs) (cmd, def). name = cmd \<and> makes_all rt ccs (normalize_variants def))
       test_case_codes seeds"
    by (rule TEST_CASES_make [OF assms(1)])
  have "\<forall>seed\<in>set seeds. \<exists>ccs. makes_all rt ccs (normalize_variants (snd seed))"
    using l by (fastforce simp: list_all2_conv_all_nth in_set_conv_nth case_prod_beta)
  moreover have "corpus_finite s" using assms(3,4) by (simp add: corpus_finite_def)
  ultimately obtain t where "generate_seeds rt env False seeds timestamp s = (Inr (), t)"
    using generate_ok [OF assms(2,1)] by blast
  then show ?thesis by (simp add: main_def s)
qed

lemma plain_run_succeeds_witness:
  "fst (main (plain_runtime (\<lambda>_. [])) sample_env False ''202601241713''
     \<lparr>byte_dir = Map.empty, proto_dir = Map.empty\<rparr>) = Inr ()"
  by (rule plain_run_succeeds [OF plain_runtime_laws]) simp_all

text \<open>
  Which sequences get a message seed. For good commands, the text of the sequence exists
  exactly when every command of it has a \<open>to_proto\<close>; one command without it, and
  \<open>_serialize_proto_sequence\<close> returns \<open>None\<close> and only the byte seed is written.
\<close>

theorem message_seed_iff_all_commands_have_one:
  assumes "pb_laws rt" "\<forall>c\<in>set cs. seed_ok rt c"
  shows "if \<exists>c\<in>set cs. to_proto rt c = Inr None
    then serialize_proto_sequence rt cs = Inr None \<and> write_proto rt env name ts force cs s = (Inr (), s)
    else \<exists>text. serialize_proto_sequence rt cs = Inr (Some text) \<and> utf8_valid text"
proof -
  from good_sequence_text [OF assms] obtain t where "serialize_proto_sequence rt cs = Inr t"
    "t = None \<longleftrightarrow> (\<exists>c\<in>set cs. to_proto rt c = Inr None)" "\<forall>text. t = Some text \<longrightarrow> utf8_valid text"
    by auto
  then show ?thesis by (cases t) (auto simp: write_proto_def)
qed

lemma message_seed_iff_all_commands_have_one_witness:
  "serialize_proto_sequence (plain_runtime (\<lambda>_. [])) [clock_command] = Inr None \<and>
   write_proto (plain_runtime (\<lambda>_. [])) sample_env ''a'' ''1'' False [clock_command]
     \<lparr>byte_dir = Map.empty, proto_dir = Map.empty\<rparr> =
   (Inr (), \<lparr>byte_dir = Map.empty, proto_dir = Map.empty\<rparr>)"
proof -
  have "to_proto (plain_runtime (\<lambda>_. [])) clock_command = Inr None"
    by (simp add: clock_command_def TPMCommand_init_def to_proto_def)
  moreover have "is_ok (command_bytes clock_command)" by code_simp
  ultimately show ?thesis
    using message_seed_iff_all_commands_have_one [OF plain_runtime_laws, of "[clock_command]" "\<lambda>_. []"]
    by (simp add: seed_ok_def)
qed

end

