(* ===== verification/Store_Props.thy ===== *)
theory Store_Props
  imports Corpus_Spec Run_Props
begin

section \<open>Runs refine the store\<close>

text \<open>
  \<open>_create_variant\<close> keeps the contract \<open>variant_writer\<close> in both modes: without \<open>force\<close> it is
  \<open>fill\<close>, on any finite directory; with \<open>force\<close> it is \<open>replace\<close>, on a directory where no variant
  has two files and no file carries the time stamp of the run, when the test script shows a
  request section for every seed.
\<close>

subsection \<open>Without \<open>-recreate\<close>\<close>

lemma seeds_in_new:
  assumes "plain_name (fst v)" "seeds_in dir v = {}"
  shows "seeds_in (dir(stamped ts v \<mapsto> b)) = (seeds_in dir)(v := {b})"
proof
  fix u
  have "\<forall>g\<in>dom dir. file_of v g \<longrightarrow> g = stamped ts v" using assms by (auto simp: seeds_in_def)
  then show "seeds_in (dir(stamped ts v \<mapsto> b)) u = ((seeds_in dir)(v := {b})) u"
    using seeds_in_only [OF assms(1) stamped_file] seeds_in_other [OF assms(1) stamped_file]
    by simp
qed

lemma create_variant_new:
  assumes "os_laws env" "finite (dom dir)" "plain_name (fst v)" "seeds_in dir v = {}"
  shows "create_variant env (variant_name (fst v) (snd v)) ts dir content force p =
    (Inr (), dir(stamped ts v \<mapsto> content))"
proof -
  have "filter (prefix (variant_name (fst v) (snd v) @ ''-'')) (os_listdir env dir) = []"
    using assms by (simp add: seeds_in_empty has_variant_def os_laws_def filter_empty_conv)
  then show ?thesis by (simp add: create_variant_def stamped_def)
qed

lemma create_variant_fill:
  assumes "os_laws env" "finite (dom dir)" "plain_name (fst v)"
  shows "\<exists>dir'. create_variant env (variant_name (fst v) (snd v)) ts dir content False p = (Inr (), dir') \<and>
    finite (dom dir') \<and> seeds_in dir' = fill v content (seeds_in dir)"
proof (cases "seeds_in dir v = {}")
  case True
  then show ?thesis
    using create_variant_new [OF assms True] seeds_in_new [OF assms(3) True] assms(2)
    by (simp add: fill_def)
next
  case False
  then have "has_variant dir (variant_name (fst v) (snd v))" using assms(3) by (simp add: seeds_in_empty)
  from create_variant_has [OF assms(1,2) this] show ?thesis using False assms(2) by (simp add: fill_def)
qed

interpretation plain: variant_writer env ts False
  "\<lambda>_ _ dir. os_laws env \<and> finite (dom dir)" fill for env ts
  by unfold_locales (use create_variant_fill in blast)+

subsection \<open>With \<open>-recreate\<close>\<close>

definition script_works :: "os_env \<Rightarrow> bool" where
  "script_works env \<longleftrightarrow>
     (\<forall>path b. \<exists>out section. test_script env path b = Inr out \<and> request_section out = Inr section)"

definition one_file_each :: "directory \<Rightarrow> bool" where
  "one_file_each dir \<longleftrightarrow>
     (\<forall>v f g. plain_name (fst v) \<and> f \<in> dom dir \<and> g \<in> dom dir \<and> file_of v f \<and> file_of v g \<longrightarrow> f = g)"

definition fresh_for :: "string \<Rightarrow> variant set \<Rightarrow> directory \<Rightarrow> bool" where
  "fresh_for ts K dir \<longleftrightarrow> (\<forall>v\<in>K. stamped ts v \<notin> dom dir)"

definition recreate_ready :: "os_env \<Rightarrow> string \<Rightarrow> bool \<Rightarrow> variant set \<Rightarrow> directory \<Rightarrow> bool" where
  "recreate_ready env ts p K dir \<longleftrightarrow>
     os_laws env \<and> script_works env \<and> finite (dom dir) \<and> one_file_each dir \<and>
     fresh_for ts {v \<in> K. plain_name (fst v)} dir \<and> (p \<longrightarrow> (\<forall>b\<in>ran dir. utf8_valid b))"

lemma one_fileD:
  "one_file_each dir \<Longrightarrow> plain_name (fst v) \<Longrightarrow> dir f = Some a \<Longrightarrow> dir g = Some b \<Longrightarrow> file_of v f
    \<Longrightarrow> file_of v g \<Longrightarrow> f = g"
  unfolding one_file_each_def by blast

lemma only_file:
  assumes "one_file_each dir" "plain_name (fst v)" "dir out = Some b" "file_of v out"
  shows "\<forall>f\<in>dom dir. file_of v f \<longrightarrow> f = out"
  using assms unfolding one_file_each_def by blast

lemma one_file_each_upd:
  assumes "one_file_each dir" "plain_name (fst v)" "\<forall>f\<in>dom dir. file_of v f \<longrightarrow> f = out"
  shows "one_file_each ((dir(out := None))(stamped ts v \<mapsto> b))"
  unfolding one_file_each_def
proof (intro allI impI, elim conjE)
  fix u f g
  assume u: "plain_name (fst u)" "f \<in> dom ((dir(out := None))(stamped ts v \<mapsto> b))"
    "g \<in> dom ((dir(out := None))(stamped ts v \<mapsto> b))" "file_of u f" "file_of u g"
  show "f = g"
  proof (cases "u = v")
    case True
    then show ?thesis using assms(3) u by (auto split: if_splits)
  next
    case False
    then have "f \<noteq> stamped ts v" "g \<noteq> stamped ts v"
      using file_of_unique [OF u(1) assms(2)] stamped_file u(4,5) by blast+
    then show ?thesis using one_fileD [OF assms(1) u(1)] u by (auto split: if_splits)
  qed
qed

lemma seeds_in_replaced:
  assumes "plain_name (fst v)" "file_of v out" "\<forall>f\<in>dom dir. file_of v f \<longrightarrow> f = out"
  shows "seeds_in ((dir(out := None))(stamped ts v \<mapsto> b)) = (seeds_in dir)(v := {b})"
proof
  fix u
  have "\<forall>g\<in>dom (dir(out := None)). file_of v g \<longrightarrow> g = stamped ts v" using assms(3) by auto
  then show "seeds_in ((dir(out := None))(stamped ts v \<mapsto> b)) u = ((seeds_in dir)(v := {b})) u"
    using seeds_in_only [OF assms(1) stamped_file] seeds_in_other [OF assms(1)] assms(2)
    by (cases "u = v") simp_all
qed

lemma create_variant_force:
  assumes "os_laws env" "script_works env" "finite (dom dir)" "plain_name (fst v)" "one_file_each dir"
    and "stamped ts v \<notin> dom dir" "dir out = Some data" "file_of v out" "data \<noteq> content"
    and "p \<Longrightarrow> utf8_valid data \<and> utf8_valid content"
  shows "create_variant env (variant_name (fst v) (snd v)) ts dir content True p =
    (Inr (), (dir(out := None))(stamped ts v \<mapsto> content))"
proof -
  have "{f \<in> dom dir. prefix (variant_name (fst v) (snd v) @ ''-'') f} = {out}"
    using only_file [OF assms(5,4,7,8)] assms(7,8) unfolding file_of_def by blast
  note only = only_existing [OF assms(1,3) this]
  have name: "variant_name (fst v) (snd v) @ CHR ''-'' # ts = stamped ts v" by (simp add: stamped_def)
  have ne: "out \<noteq> stamped ts v" using assms(6,7) by auto
  from assms(2) obtain o1 s1 o2 s2 where
    "test_script env out data = Inr o1" "request_section o1 = Inr s1"
    "test_script env (stamped ts v) content = Inr o2" "request_section o2 = Inr s2"
    unfolding script_works_def by metis
  then show ?thesis using only assms(7,9,10) ne fun_upd_twist [OF ne, of dir None "Some content"]
    by (simp add: create_variant_def Let_def script_on_def decode_utf8_def name)
qed

lemma create_variant_replace:
  assumes "v \<in> K" "plain_name (fst v)" "recreate_ready env ts p K dir" "p \<Longrightarrow> utf8_valid content"
  shows "\<exists>dir'. create_variant env (variant_name (fst v) (snd v)) ts dir content True p = (Inr (), dir') \<and>
    recreate_ready env ts p (K - {v}) dir' \<and> seeds_in dir' = replace v content (seeds_in dir)"
proof -
  have r: "os_laws env" "script_works env" "finite (dom dir)" "one_file_each dir" "stamped ts v \<notin> dom dir"
    "fresh_for ts {v \<in> K. plain_name (fst v)} dir" "p \<longrightarrow> (\<forall>b\<in>ran dir. utf8_valid b)"
    using assms(1-3) by (simp_all add: recreate_ready_def fresh_for_def del: split_paired_All)
  have ready: "recreate_ready env ts p (K - {v}) ((dir(out := None))(stamped ts v \<mapsto> content))"
    if "\<forall>f\<in>dom dir. file_of v f \<longrightarrow> f = out" for out
    using r assms(2,4) one_file_each_upd [OF r(4) assms(2) that]
    by (auto simp: recreate_ready_def fresh_for_def stamped_inject ran_def split: if_splits)
  show ?thesis
  proof (cases "seeds_in dir v = {}")
    case True
    then have no: "\<forall>f\<in>dom dir. file_of v f \<longrightarrow> f = stamped ts v"
      using assms(2) by (auto simp: seeds_in_def)
    show ?thesis
      using create_variant_new [OF r(1,3) assms(2) True] ready [OF no] seeds_in_new [OF assms(2) True]
      by (simp add: replace_def)
  next
    case False
    then obtain out data where out: "dir out = Some data" "file_of v out"
      using assms(2) by (auto simp: seeds_in_def)
    then have only: "\<forall>f\<in>dom dir. file_of v f \<longrightarrow> f = out"
      by (rule only_file [OF r(4) assms(2)])
    show ?thesis
    proof (cases "data = content")
      case True
      have "{f \<in> dom dir. prefix (variant_name (fst v) (snd v) @ ''-'') f} = {out}"
        using only out by (auto simp: file_of_def)
      from only_existing [OF r(1,3) this] out True
      have "create_variant env (variant_name (fst v) (snd v)) ts dir content True p = (Inr (), dir)"
        by (simp add: create_variant_def)
      moreover have "seeds_in dir v = {content}"
      proof -
        have "(\<exists>f. dir f = Some b \<and> file_of v f) \<longleftrightarrow> b = content" for b
          using only out True by (metis domI option.inject)
        then show ?thesis by (simp add: seeds_in_def assms(2))
      qed
      moreover have "recreate_ready env ts p (K - {v}) dir"
        using assms(3) by (auto simp: recreate_ready_def fresh_for_def)
      ultimately show ?thesis by (intro exI [of _ dir] conjI) (simp_all add: replace_def fun_upd_idem)
    next
      case False
      have "p \<Longrightarrow> utf8_valid data \<and> utf8_valid content" using r(7) out(1) assms(4) by (auto simp: ran_def)
      from create_variant_force [OF r(1-3) assms(2) r(4,5) out False this] ready [OF only]
        seeds_in_replaced [OF assms(2) out(2) only]
      show ?thesis by (simp add: replace_def)
    qed
  qed
qed

interpretation recreate: variant_writer env ts True "recreate_ready env ts" replace for env ts
proof unfold_locales
  show "recreate_ready env ts p K dir \<Longrightarrow> K' \<subseteq> K \<Longrightarrow> recreate_ready env ts p K' dir" for p K dir K'
    by (auto simp: recreate_ready_def fresh_for_def)
qed (rule create_variant_replace)

subsection \<open>The specification of a whole run\<close>

lemma fold_write_store:
  "store.byte_seeds (fold (write_store rt op) items A) =
     fold (\<lambda>it. writes op (wanted_bytes (snd it)) (fst it)) items (store.byte_seeds A)"
  "message_seeds (fold (write_store rt op) items A) =
     fold (\<lambda>it. writes op (wanted_text rt (snd it)) (fst it)) items (message_seeds A)"
  by (induction items arbitrary: A) (simp_all add: write_store_def)

lemma map_of_fresh: "v \<notin> fst ` set items \<Longrightarrow> map_of items v = None"
  by (simp add: map_of_eq_None_iff)

lemma fold_fill:
  "distinct (map fst items) \<Longrightarrow>
    fold (\<lambda>it. writes fill (w (snd it)) (fst it)) items A = filled (\<lambda>v. Option.bind (map_of items v) w) A"
proof (induction items arbitrary: A)
  case (Cons it items)
  obtain u cs where it: "it = (u, cs)" by (cases it)
  have u: "map_of items u = None" using Cons.prems it by (simp add: map_of_fresh)
  have "filled (\<lambda>v. Option.bind (map_of items v) w) (writes fill (w cs) u A) v =
      filled (\<lambda>v. Option.bind (map_of (it # items) v) w) A v" for v
    using u by (cases "w cs") (auto simp: it filled_def writes_def fill_def)
  then show ?case using Cons it by auto
qed (simp add: filled_def fun_eq_iff)

lemma fold_replace:
  "distinct (map fst items) \<Longrightarrow>
    fold (\<lambda>it. writes replace (w (snd it)) (fst it)) items A = updated (\<lambda>v. Option.bind (map_of items v) w) A"
proof (induction items arbitrary: A)
  case (Cons it items)
  obtain u cs where it: "it = (u, cs)" by (cases it)
  have u: "map_of items u = None" using Cons.prems it by (simp add: map_of_fresh)
  have "updated (\<lambda>v. Option.bind (map_of items v) w) (writes replace (w cs) u A) v =
      updated (\<lambda>v. Option.bind (map_of (it # items) v) w) A v" for v
    using u by (cases "w cs") (auto simp: it updated_def writes_def replace_def split: option.splits)
  then show ?case using Cons it by auto
qed (simp add: updated_def fun_eq_iff)

lemma variants_of_distinct: "distinct (map fst (variants_of seed))"
  by (auto simp: variants_of_def o_def distinct_map inj_on_def split: sum.splits)

lemma table_variants_distinct:
  "distinct (map fst seeds) \<Longrightarrow> distinct (map fst (table_variants seeds))"
proof (induction seeds)
  case (Cons seed seeds)
  have "v \<notin> fst ` set (table_variants seeds)" if "v \<in> fst ` set (variants_of seed)" for v
  proof
    assume "v \<in> fst ` set (table_variants seeds)"
    then have "fst v \<in> fst ` set seeds" by (rule table_variant_names)
    moreover have "fst v = fst seed" using that by (auto simp: variants_of_def split: sum.splits)
    ultimately show False using Cons.prems by auto
  qed
  moreover have "table_variants (seed # seeds) = variants_of seed @ table_variants seeds"
    by (simp add: table_variants_def)
  ultimately show ?case using Cons variants_of_distinct [of seed] by auto
qed (simp add: table_variants_def)

lemma fold_store:
  assumes "distinct (map fst seeds)"
  shows "fold (write_store rt fill) (table_variants seeds) A = fill_store rt seeds A"
    and "fold (write_store rt replace) (table_variants seeds) A = update_store rt seeds A"
  by (rule store.equality;
      simp add: fold_write_store fill_store_def update_store_def wanted_def [abs_def]
        fold_fill [OF table_variants_distinct [OF assms]]
        fold_replace [OF table_variants_distinct [OF assms]])+

lemma settled_good:
  assumes "run_settled rt s seeds"
  shows "\<forall>seed\<in>set seeds. is_ok (normalize_variants (snd seed))"
    and "\<forall>item\<in>set (table_variants seeds). good_sequence rt (snd item)"
proof -
  have *: "settled rt s name cs \<Longrightarrow> good_sequence rt cs" for name cs
    by (auto simp: settled_def good_sequence_def is_ok_ex split: sum.splits)
  show "\<forall>seed\<in>set seeds. is_ok (normalize_variants (snd seed))"
    using assms by (auto simp: run_settled_def is_ok_ex)
  show "\<forall>item\<in>set (table_variants seeds). good_sequence rt (snd item)"
    using assms * by (fastforce simp: run_settled_def table_variants_def variants_of_def)
qed

lemma run_fills:
  assumes "os_laws env" "corpus_finite s" "\<forall>seed\<in>set seeds. plain_name (fst seed)"
    and "distinct (map fst seeds)" "generate_seeds rt env False seeds ts s = (Inr (), t)"
  shows "store_of t = fill_store rt seeds (store_of s)"
proof -
  have "run_settled rt t seeds" by (rule generate_settles [OF assms(1,2,5)])
  note good = settled_good [OF this]
  have "plain.good_for env UNIV s"
    unfolding plain.good_for_def using assms(1,2) by (simp add: corpus_finite_def)
  from plain.generate_refines [OF _ good(2) assms(4) _ this, of ts] good(1) assms(3)
  have "\<exists>u. generate_seeds rt env False seeds ts s = (Inr (), u) \<and>
      store_of u = fold (write_store rt fill) (table_variants seeds) (store_of s)" by auto
  then show ?thesis using assms(5) fold_store(1) [OF assms(4)] by auto
qed

subsection \<open>The table of the program\<close>

lemma test_case_names:
  "distinct (map fst test_case_codes) \<and> list_all plain_name (map fst test_case_codes)"
  by code_simp

lemma table_names:
  assumes "list_all2 (\<lambda>(name, ccs) (cmd, def). name = cmd \<and> P ccs def) codes seeds"
  shows "map fst seeds = map fst codes"
  using assms by (induction rule: list_all2_induct) auto

lemma table_facts:
  assumes "pb_laws rt" "TEST_CASES rt = Inr seeds"
  shows "distinct (map fst seeds)" "\<forall>seed\<in>set seeds. plain_name (fst seed)"
    "\<forall>seed\<in>set seeds. is_ok (normalize_variants (snd seed))"
    "\<forall>item\<in>set (table_variants seeds). \<forall>c\<in>set (snd item). seed_ok rt c"
    "\<forall>seed\<in>set seeds. \<exists>ccs. makes_all rt ccs (normalize_variants (snd seed))"
proof -
  obtain seeds' where s': "TEST_CASES rt = Inr seeds'" and
    l: "list_all2 (\<lambda>(name, ccs) (cmd, def). name = cmd \<and> makes_all rt ccs (normalize_variants def))
       test_case_codes seeds'"
    by (rule TEST_CASES_make [OF assms(1)])
  have ss: "seeds' = seeds" using s' assms(2) by simp
  have names: "map fst seeds = map fst test_case_codes" using table_names [OF l] ss by simp
  then show "distinct (map fst seeds)" using test_case_names by simp
  from names have "list_all plain_name (map fst seeds)" using test_case_names by simp
  then show "\<forall>seed\<in>set seeds. plain_name (fst seed)" by (simp add: list_all_iff)
  show all: "\<forall>seed\<in>set seeds. \<exists>ccs. makes_all rt ccs (normalize_variants (snd seed))"
    using l ss by (fastforce simp: list_all2_conv_all_nth in_set_conv_nth case_prod_beta)
  then show "\<forall>seed\<in>set seeds. is_ok (normalize_variants (snd seed))"
    by (auto simp: makes_all_def is_ok_ex)
  show "\<forall>item\<in>set (table_variants seeds). \<forall>c\<in>set (snd item). seed_ok rt c"
    using all by (fastforce simp: makes_all_def table_variants_def variants_of_def)
qed

lemma table_good:
  assumes "pb_laws rt" "TEST_CASES rt = Inr seeds"
  shows "\<forall>item\<in>set (table_variants seeds). good_sequence rt (snd item)"
proof
  fix item
  assume "item \<in> set (table_variants seeds)"
  then have ok: "\<forall>c\<in>set (snd item). seed_ok rt c" using table_facts(4) [OF assms] by blast
  then show "good_sequence rt (snd item)"
    using good_sequence_serialises [OF ok] good_sequence_text [OF assms(1) ok]
    by (auto simp: good_sequence_def is_ok_ex)
qed

lemma main_fills:
  assumes "pb_laws rt" "os_laws env" "corpus_finite s" "TEST_CASES rt = Inr seeds"
  shows "\<exists>t. main rt env False ts s = (Inr (), t) \<and> store_of t = fill_store rt seeds (store_of s)"
proof -
  note f = table_facts [OF assms(1,4)]
  from generate_ok [OF assms(2,1,3) f(5)] obtain t where
    "generate_seeds rt env False seeds ts s = (Inr (), t)" by blast
  with run_fills [OF assms(2,3) f(2,1)] show ?thesis by (auto simp: main_def assms(4))
qed

lemma wanted_item:
  "distinct (map fst (table_variants seeds)) \<Longrightarrow> (v, cs) \<in> set (table_variants seeds) \<Longrightarrow> wanted w seeds v = w cs"
  by (simp add: wanted_def)

subsection \<open>Corpora that runs can leave\<close>

text \<open>
  Every corpus of a user is the result of runs of the program on the empty one, with any flag,
  test script, listing order and time, each finished or aborted.
\<close>

inductive reachable :: "pb_runtime \<Rightarrow> corpus \<Rightarrow> bool" for rt where
  empty: "reachable rt \<lparr>byte_dir = Map.empty, proto_dir = Map.empty\<rparr>"
| run: "reachable rt s \<Longrightarrow> main rt env recreate ts s = (r, t) \<Longrightarrow> reachable rt t"

inductive_cases run_from_empty: "reachable rt \<lparr>byte_dir = Map.empty, proto_dir = Map.empty\<rparr>"

interpretation finite: corpus_relation
  "\<lambda>s t. corpus_finite s \<longrightarrow> corpus_finite t" env timestamp force "\<lambda>_ _. True" for env timestamp force
  by unfold_locales (auto simp: corpus_finite_def create_variant_finite)

lemma main_finite:
  assumes "corpus_finite s" "main rt env recreate ts s = (r, t)"
  shows "corpus_finite t"
proof (cases "TEST_CASES rt")
  case (Inr seeds)
  then show ?thesis using finite.generate_step [of seeds s rt env recreate ts] assms
    by (simp add: main_def)
qed (use assms in \<open>simp add: main_def\<close>)

lemma reachable_finite: "reachable rt s \<Longrightarrow> corpus_finite s"
  by (induction rule: reachable.induct) (simp add: corpus_finite_def, rule main_finite)

lemma sound_new_file:
  assumes "main rt env recreate ts s = (r, t)" "byte_dir t f = Some b" "byte_dir s f \<noteq> Some b"
    and "TEST_CASES rt = Inr seeds"
  shows "\<exists>v cs. (v, cs) \<in> set (table_variants seeds) \<and> file_of v f \<and> serialize_sequence cs = Inr b"
proof -
  have "generate_seeds rt env recreate seeds ts s = (r, t)" using assms(1,4) by (simp add: main_def)
  then have "corpus_sound ts (seed_content seeds) s t"
    using sound.generate_step [of seeds "seed_content seeds" ts s rt env recreate] by simp
  then obtain name where n: "seed_content seeds name b" "f = name @ ''-'' @ ts"
    using assms(2,3) by (auto simp: corpus_sound_def)
  then obtain cmd def vs i where d: "(cmd, def) \<in> set seeds" "normalize_variants def = Inr vs"
    "i < length vs" "name = variant_name cmd i" "serialize_sequence (vs ! i) = Inr b"
    by (auto simp: seed_content_def)
  then have "((cmd, i), vs ! i) \<in> set (table_variants seeds)"
    by (force simp: table_variants_def variants_of_def)
  moreover have "file_of (cmd, i) f" using d(4) n(2) stamped_file [of "(cmd, i)" ts] by (simp add: stamped_def)
  ultimately show ?thesis using d(5) by blast
qed

subsection \<open>Properties\<close>

text \<open>
  C9: a run without \<open>-recreate\<close> refines \<open>fill_store\<close>. Seen as a store of seeds per variant, the
  corpus after a successful run is the corpus before with exactly the missing variants added,
  each with the one content the table asks for; no other variant changes.
\<close>

theorem plain_run_refines_fill:
  assumes "os_laws env" "finite (dom (byte_dir s))" "finite (dom (proto_dir s))"
    and "\<forall>seed\<in>set seeds. plain_name (fst seed)" "distinct (map fst seeds)"
    and "generate_seeds rt env False seeds ts s = (Inr (), t)"
  shows "store_of t = fill_store rt seeds (store_of s)"
  by (rule run_fills [OF assms(1) _ assms(4-6)]) (simp add: corpus_finite_def assms(2,3))

lemma plain_run_refines_fill_witness:
  "store_of \<lparr>byte_dir = [''TPMReadClock-variant0-7'' \<mapsto> clock_bytes], proto_dir = Map.empty\<rparr> =
     fill_store (plain_runtime (\<lambda>_. [])) clock_seeds
       (store_of \<lparr>byte_dir = Map.empty, proto_dir = Map.empty\<rparr>)"
proof -
  have "\<forall>seed\<in>set clock_seeds. plain_name (fst seed)" "distinct (map fst clock_seeds)"
    by (simp_all add: clock_seeds_def plain_name_def)
  from plain_run_refines_fill [OF _ _ _ this clock_run] show ?thesis by simp
qed

text \<open>
  C11: the program with \<open>-recreate\<close> refines \<open>update_store\<close>. If the test script works, no variant
  has two files, no file has the time stamp of the run and the message seeds are UTF-8, it
  succeeds; afterwards every variant of the table holds exactly the content the table asks for,
  every other variant is as before, and still no variant has two files.
\<close>

theorem recreate_run_refines_update:
  assumes "pb_laws rt" "os_laws env" "script_works env" "TEST_CASES rt = Inr seeds"
    and "finite (dom (byte_dir s))" "finite (dom (proto_dir s))"
    and "one_file_each (byte_dir s)" "one_file_each (proto_dir s)"
    and "\<forall>b\<in>ran (proto_dir s). utf8_valid b"
    and "\<forall>f\<in>dom (byte_dir s) \<union> dom (proto_dir s). \<not> suffix (''-'' @ ts) f"
  shows "\<exists>t. main rt env True ts s = (Inr (), t) \<and> store_of t = update_store rt seeds (store_of s) \<and>
    one_file_each (byte_dir t) \<and> one_file_each (proto_dir t)"
proof -
  note f = table_facts [OF assms(1,4)]
  have "suffix (''-'' @ ts) (stamped ts v)" for v by (auto simp: stamped_def suffix_def)
  then have "stamped ts v \<notin> dom (byte_dir s)" "stamped ts v \<notin> dom (proto_dir s)" for v
    using assms(10) by blast+
  then have "recreate.good_for env ts UNIV s"
    unfolding recreate.good_for_def recreate_ready_def fresh_for_def using assms by blast
  from recreate.generate_refines [OF _ table_good [OF assms(1,4)] f(1) _ this] f(2,3) obtain t where
    t: "generate_seeds rt env True seeds ts s = (Inr (), t)"
    "recreate.good_for env ts (UNIV - fst ` set (table_variants seeds)) t"
    "store_of t = fold (write_store rt replace) (table_variants seeds) (store_of s)" by blast
  then show ?thesis using fold_store(2) [OF f(1)]
    by (simp add: main_def assms(4) recreate.good_for_def recreate_ready_def)
qed

lemma recreate_run_refines_update_witness:
  "\<exists>seeds t. TEST_CASES (plain_runtime (\<lambda>_. [])) = Inr seeds \<and>
    main (plain_runtime (\<lambda>_. [])) sample_env True ''2''
      \<lparr>byte_dir = [''TPMReadClock-variant0-1'' \<mapsto> []], proto_dir = Map.empty\<rparr> = (Inr (), t) \<and>
    store_of t = update_store (plain_runtime (\<lambda>_. [])) seeds
      (store_of \<lparr>byte_dir = [''TPMReadClock-variant0-1'' \<mapsto> []], proto_dir = Map.empty\<rparr>)"
proof -
  obtain seeds where s: "TEST_CASES (plain_runtime (\<lambda>_. [])) = Inr seeds"
    by (rule TEST_CASES_make [OF plain_runtime_laws])
  have "script_works sample_env" by (auto simp: script_works_def sample_section)
  moreover have "\<not> suffix ''-2'' ''TPMReadClock-variant0-1''" by code_simp
  ultimately show ?thesis
    using recreate_run_refines_update [OF plain_runtime_laws _ _ s, of sample_env
        "\<lparr>byte_dir = [''TPMReadClock-variant0-1'' \<mapsto> []], proto_dir = Map.empty\<rparr>" "''2''"] s
    by (simp add: one_file_each_def) blast
qed

text \<open>
  C10: whatever happened to the corpus, one plain run completes it. From every reachable corpus,
  aborted \<open>-recreate\<close> runs included, the program without \<open>-recreate\<close> ends normally, and then every
  variant of the table has a byte seed, and a message seed if all its commands have messages.
\<close>

theorem plain_run_completes_any_corpus:
  assumes "pb_laws rt" "os_laws env" "reachable rt s" "TEST_CASES rt = Inr seeds"
  shows "\<exists>t. main rt env False ts s = (Inr (), t) \<and> reachable rt t \<and>
    (\<forall>(v, cs)\<in>set (table_variants seeds). byte_seeds (store_of t) v \<noteq> {} \<and>
       ((\<exists>c\<in>set cs. to_proto rt c = Inr None) \<or> message_seeds (store_of t) v \<noteq> {}))"
proof -
  from main_fills [OF assms(1,2) reachable_finite [OF assms(3)] assms(4)] obtain t where
    t: "main rt env False ts s = (Inr (), t)" "store_of t = fill_store rt seeds (store_of s)" by blast
  have "byte_seeds (store_of t) v \<noteq> {} \<and>
      ((\<exists>c\<in>set cs. to_proto rt c = Inr None) \<or> message_seeds (store_of t) v \<noteq> {})"
    if v: "(v, cs) \<in> set (table_variants seeds)" for v cs
  proof -
    have ok: "\<forall>c\<in>set cs. seed_ok rt c" using table_facts(4) [OF assms(1,4)] v by fastforce
    note w = wanted_item [OF table_variants_distinct [OF table_facts(1) [OF assms(1,4)]] v]
    show ?thesis
      using good_sequence_serialises [OF ok] good_sequence_text [OF assms(1) ok]
      by (auto simp: t(2) fill_store_def filled_def w wanted_bytes_def wanted_text_def is_ok_ex)
  qed
  then show ?thesis using t(1) reachable.run [OF assms(3) t(1)] by blast
qed

lemma plain_run_completes_any_corpus_witness:
  "\<exists>t. main (plain_runtime (\<lambda>_. [])) sample_env False ''7'' \<lparr>byte_dir = Map.empty, proto_dir = Map.empty\<rparr> =
      (Inr (), t) \<and> reachable (plain_runtime (\<lambda>_. [])) t"
proof -
  obtain seeds where s: "TEST_CASES (plain_runtime (\<lambda>_. [])) = Inr seeds"
    by (rule TEST_CASES_make [OF plain_runtime_laws])
  from plain_run_completes_any_corpus [OF plain_runtime_laws _ reachable.empty s, of sample_env "''7''"]
  show ?thesis by auto
qed

text \<open>
  C12: every byte seed that any history of runs leaves is a sequence of the table. Its name is
  the name of a variant, it parses with \<open>parseCommands\<close> to the end, and the commands are those
  of the variant it is named after.
\<close>

theorem reachable_seeds_are_table_sequences:
  assumes "reachable rt s" "byte_dir s f = Some b" "TEST_CASES rt = Inr seeds"
  shows "\<exists>v cs. (v, cs) \<in> set (table_variants seeds) \<and> file_of v f \<and>
    parseCommands b = (True, map command_layout cs)"
proof -
  have "byte_dir s f = Some b \<Longrightarrow>
    \<exists>v cs. (v, cs) \<in> set (table_variants seeds) \<and> file_of v f \<and> serialize_sequence cs = Inr b"
    using assms(1)
  proof (induction rule: reachable.induct)
    case (run s env recreate ts r t)
    then show ?case
      using sound_new_file [OF run.hyps(2) _ _ assms(3)] by (cases "byte_dir s f = Some b") blast+
  qed simp
  then show ?thesis using assms(2)
    by (auto simp: serialize_sequence_def simp del: split_paired_Ex dest: parse_serialized)
qed

text \<open>The table is not empty, so a first run leaves files.\<close>

lemma table_nonempty:
  assumes "pb_laws rt"
  obtains seeds v cs where "TEST_CASES rt = Inr seeds" "(v, cs) \<in> set (table_variants seeds)"
proof -
  obtain seeds where s: "TEST_CASES rt = Inr seeds" and
    l: "list_all2 (\<lambda>(name, ccs) (cmd, def). name = cmd \<and> makes_all rt ccs (normalize_variants def))
       test_case_codes seeds"
    by (rule TEST_CASES_make [OF assms])
  then obtain cmd def rest ccs where d: "seeds = (cmd, def) # rest" "makes_all rt ccs (normalize_variants def)"
    "ccs = snd (hd test_case_codes)"
    by (cases seeds) (auto simp: test_case_codes_def)
  then have "0 < length ccs" by (simp add: test_case_codes_def)
  with d(2) obtain vs where vs: "normalize_variants def = Inr vs" "0 < length vs"
    by (cases ccs) (auto simp: makes_all_def map_eq_Cons_conv)
  then have "((cmd, 0), vs ! 0) \<in> set (table_variants seeds)"
    by (force simp: d(1) table_variants_def variants_of_def)
  then show thesis by (rule that [OF s])
qed

lemma reachable_seeds_are_table_sequences_witness:
  "\<exists>seeds t f b. TEST_CASES (plain_runtime (\<lambda>_. [])) = Inr seeds \<and> reachable (plain_runtime (\<lambda>_. [])) t \<and>
    byte_dir t f = Some b \<and> (\<exists>v cs. (v, cs) \<in> set (table_variants seeds) \<and> file_of v f \<and>
      parseCommands b = (True, map command_layout cs))"
proof -
  let ?rt = "plain_runtime (\<lambda>_. [])" and ?e = "\<lparr>byte_dir = Map.empty, proto_dir = Map.empty\<rparr>"
  obtain seeds v cs where s: "TEST_CASES ?rt = Inr seeds" "(v, cs) \<in> set (table_variants seeds)"
    by (rule table_nonempty [OF plain_runtime_laws])
  have "corpus_finite ?e" by (simp add: corpus_finite_def)
  from main_fills [OF plain_runtime_laws sample_env_simps(1) this s(1)] obtain t where
    t: "main ?rt sample_env False ''7'' ?e = (Inr (), t)" "store_of t = fill_store ?rt seeds (store_of ?e)"
    by blast
  have r: "reachable ?rt t" by (rule reachable.run [OF reachable.empty t(1)])
  note w = wanted_item [OF table_variants_distinct [OF table_facts(1) [OF plain_runtime_laws s(1)]] s(2)]
  have "good_sequence ?rt cs" using table_good [OF plain_runtime_laws s(1)] s(2) by fastforce
  then have "byte_seeds (store_of t) v \<noteq> {}"
    by (auto simp: t(2) fill_store_def filled_def w wanted_bytes_def good_sequence_def is_ok_ex)
  then obtain f b where "byte_dir t f = Some b"
    by (auto simp: store_of_def seeds_in_def split: if_splits)
  from reachable_seeds_are_table_sequences [OF r this s(1)] this r s(1) show ?thesis by blast
qed

end
