(* ===== verification/Command_Line.thy ===== *)
theory Command_Line
  imports Store_Props
begin

section \<open>The program on a command line\<close>

text \<open>
  The \<open>__main__\<close> block of \<open>main.py\<close> after the table: the three options, their defaults, and
  \<open>_generate_seeds\<close> on the directories that they name. \<open>argparse\<close> is modelled as Python 3.13 runs it
  on these options: full and abbreviated spellings, values in the same word after \<open>=\<close> or in the next
  word, and what may be such a next word. A command line that it refuses, and one that asks for
  help, ends the program (\<open>SystemExit\<close>): that is \<open>None\<close>. Negative numbers with underscores, as
  values of their own, are left out.

  A file system maps the paths of directories to their files. Two paths are one
  directory only if they are the same string, so links and other spellings of a path are left out.
\<close>

subsection \<open>Options\<close>

datatype cli_option = Help | Recreate | Output_dir | Test_script

definition option_strings :: "(string \<times> cli_option) list" where
  "option_strings =
     [(''-h'', Help), (''--help'', Help), (''-recreate'', Recreate), (''--output-dir'', Output_dir),
      (''--test-script'', Test_script)]"

text \<open>A word of the command line: an option with its value if it is in the word, an argument, or an error.\<close>

datatype word_kind = Option cli_option "string option" | Argument | Bad

definition split_value :: "string \<Rightarrow> string \<times> string option" where
  "split_value w =
     (let p = takeWhile (\<lambda>c. c \<noteq> CHR ''='') w
      in (p, if p = w then None else Some (drop (length p + 1) w)))"

definition abbreviations :: "string \<Rightarrow> (cli_option \<times> string option) list" where
  "abbreviations w =
     (case split_value w of (p, v) \<Rightarrow>
        if prefix ''--'' w then map (\<lambda>(s, a). (a, v)) (filter (\<lambda>(s, a). prefix p s) option_strings)
        else List.map_filter (\<lambda>(s, a).
          if s = take 2 w then Some (a, Some (drop 2 w))
          else if prefix p s then Some (a, v) else None) option_strings)"

definition is_digit :: "char \<Rightarrow> bool" where
  "is_digit c \<longleftrightarrow> (let n = of_char c :: nat in 48 \<le> n \<and> n \<le> 57)"

text \<open>\<open>^-\d+$|^-\d*\.\d+$\<close>, where \<open>$\<close> also matches before a newline at the end.\<close>

definition negative_number :: "string \<Rightarrow> bool" where
  "negative_number w \<longleftrightarrow>
     (let r = (if w \<noteq> [] \<and> last w = CHR 0x0A then butlast w else w);
          ds = takeWhile is_digit (drop 1 r); rest = dropWhile is_digit (drop 1 r)
      in take 1 r = ''-'' \<and>
         (ds \<noteq> [] \<and> rest = [] \<or>
          take 1 rest = ''.'' \<and> drop 1 rest \<noteq> [] \<and> list_all is_digit (drop 1 rest)))"

definition classify_word :: "string \<Rightarrow> word_kind" where
  "classify_word w =
     (if take 1 w \<noteq> ''-'' then Argument
      else case map_of option_strings w of
        Some a \<Rightarrow> Option a None
      | None \<Rightarrow>
          if length w = 1 then Argument
          else case split_value w of (p, v) \<Rightarrow>
            if v \<noteq> None \<and> map_of option_strings p \<noteq> None then Option (the (map_of option_strings p)) v
            else case abbreviations w of
              [(a, v)] \<Rightarrow> Option a v
            | [] \<Rightarrow> if negative_number w \<or> CHR '' '' \<in> set w then Argument else Bad
            | _ \<Rightarrow> Bad)"

subsection \<open>\<open>parse_args\<close>\<close>

record cli_args =
  recreate_arg :: bool
  output_dir_arg :: string
  test_script_arg :: string

definition os_path_join :: "string \<Rightarrow> string \<Rightarrow> string" where
  "os_path_join a b =
     (if prefix ''/'' b \<or> a = [] then b else if last a = CHR ''/'' then a @ b else a @ ''/'' @ b)"

definition DEFAULT_SEED_DIRECTORY :: string where "DEFAULT_SEED_DIRECTORY = ''seeds/''"

text \<open>\<open>here\<close> is \<open>os.path.dirname(os.path.abspath(__file__))\<close>.\<close>

definition DEFAULT_TEST_SEED_SCRIPT :: "string \<Rightarrow> string" where
  "DEFAULT_TEST_SEED_SCRIPT here = os_path_join (os_path_join here ''scripts'') ''test_seed.sh''"

definition default_args :: "string \<Rightarrow> cli_args" where
  "default_args here =
     \<lparr>recreate_arg = False, output_dir_arg = DEFAULT_SEED_DIRECTORY,
      test_script_arg = DEFAULT_TEST_SEED_SCRIPT here\<rparr>"

definition store_value :: "cli_option \<Rightarrow> string \<Rightarrow> cli_args \<Rightarrow> cli_args option" where
  "store_value a v args =
     (case a of
        Output_dir \<Rightarrow> Some (args\<lparr>output_dir_arg := v\<rparr>)
      | Test_script \<Rightarrow> Some (args\<lparr>test_script_arg := v\<rparr>)
      | _ \<Rightarrow> None)"

fun parse_args :: "string list \<Rightarrow> cli_args \<Rightarrow> cli_args option" where
  "parse_args [] args = Some args"
| "parse_args (w # ws) args =
     (case classify_word w of
        Option Recreate None \<Rightarrow> parse_args ws (args\<lparr>recreate_arg := True\<rparr>)
      | Option a (Some v) \<Rightarrow> Option.bind (store_value a v args) (parse_args ws)
      | Option a None \<Rightarrow>
          (case ws of
             [] \<Rightarrow> None
           | v # vs \<Rightarrow>
               if classify_word v = Argument then Option.bind (store_value a v args) (parse_args vs)
               else None)
      | _ \<Rightarrow> None)"

subsection \<open>Directories\<close>

type_synonym file_system = "string \<rightharpoonup> directory"

definition is_parent :: "string \<Rightarrow> string \<Rightarrow> bool" where
  "is_parent q path \<longleftrightarrow> q \<noteq> [] \<and> last q \<noteq> CHR ''/'' \<and> prefix (q @ ''/'') path"

text \<open>\<open>os.makedirs(path, exist_ok=True)\<close>: the directory and its parents, where they are missing.\<close>

definition makedirs :: "string \<Rightarrow> file_system \<Rightarrow> file_system" where
  "makedirs path fs =
     (\<lambda>q. if fs q = None \<and> (q = path \<or> is_parent q path) then Some Map.empty else fs q)"

text \<open>The world outside: the order of a listing, and a script on a path with the content it has.\<close>

record os_world =
  world_listdir :: "directory \<Rightarrow> string list"
  world_run :: "string \<Rightarrow> string \<Rightarrow> bytes \<Rightarrow> string result"

definition env_of :: "os_world \<Rightarrow> string \<Rightarrow> string \<Rightarrow> os_env" where
  "env_of w script dir =
     \<lparr>os_listdir = world_listdir w, test_script = (\<lambda>file b. world_run w script (os_path_join dir file) b)\<rparr>"

text \<open>\<open>_generate_seeds\<close> with its directories. The test script only ever runs on files of \<open>bytearray\<close>.\<close>

definition generate_in ::
  "pb_runtime \<Rightarrow> os_world \<Rightarrow> string \<Rightarrow> bool \<Rightarrow> (string \<times> seed_definition) list \<Rightarrow> string \<Rightarrow> string
    \<Rightarrow> file_system \<Rightarrow> unit result \<times> file_system" where
  "generate_in rt w directory recreate seeds script timestamp fs =
     (let byte_directory = os_path_join directory ''bytearray'';
          proto_directory = os_path_join directory ''proto'';
          fs = makedirs proto_directory (makedirs byte_directory fs)
      in case generate_seeds rt (env_of w script byte_directory) recreate seeds timestamp
            \<lparr>byte_dir = the (fs byte_directory), proto_dir = the (fs proto_directory)\<rparr> of
           (r, s) \<Rightarrow> (r, fs(byte_directory \<mapsto> byte_dir s, proto_directory \<mapsto> proto_dir s)))"

text \<open>The whole program: the table is built before the command line is read.\<close>

definition run_program ::
  "pb_runtime \<Rightarrow> os_world \<Rightarrow> string \<Rightarrow> string list \<Rightarrow> string \<Rightarrow> file_system
    \<Rightarrow> unit result option \<times> file_system" where
  "run_program rt w here argv timestamp fs =
     (case TEST_CASES rt of
        Inl e \<Rightarrow> (Some (Inl e), fs)
      | Inr seeds \<Rightarrow>
          (case parse_args argv (default_args here) of
             None \<Rightarrow> (None, fs)
           | Some a \<Rightarrow>
               (case generate_in rt w (output_dir_arg a) (recreate_arg a) seeds (test_script_arg a) timestamp fs of
                  (r, fs) \<Rightarrow> (Some r, fs))))"

subsection \<open>Spellings\<close>

text \<open>
  A use of an option: the flag, or a value; how many characters of its name are written; and
  whether the value is in the same word.
\<close>

datatype option_use = Use_recreate nat | Use_value bool nat bool string

definition option_name :: "bool \<Rightarrow> string" where
  "option_name dir = (if dir then ''--output-dir'' else ''--test-script'')"

primrec use_ok :: "option_use \<Rightarrow> bool" where
  "use_ok (Use_recreate k) \<longleftrightarrow> 2 \<le> k"
| "use_ok (Use_value dir k same v) \<longleftrightarrow> 3 \<le> k \<and> (same \<or> classify_word v = Argument)"

primrec spell :: "option_use \<Rightarrow> string list" where
  "spell (Use_recreate k) = [take k ''-recreate'']"
| "spell (Use_value dir k same v) =
     (if same then [take k (option_name dir) @ ''='' @ v] else [take k (option_name dir), v])"

primrec apply_use :: "option_use \<Rightarrow> cli_args \<Rightarrow> cli_args" where
  "apply_use (Use_recreate k) args = args\<lparr>recreate_arg := True\<rparr>"
| "apply_use (Use_value dir k same v) args =
     (if dir then args\<lparr>output_dir_arg := v\<rparr> else args\<lparr>test_script_arg := v\<rparr>)"

lemma take_any:
  assumes "\<forall>k\<in>set [m..<Suc (length s)]. P (take k s)" "m \<le> k" "m \<le> length s"
  shows "P (take k s)"
proof (cases "k \<le> length s")
  case False
  then have "take k s = take (length s) s" by simp
  then show ?thesis using assms(1,3) by (metis atLeastLessThan_iff lessI set_upt)
qed (use assms in auto)

lemma classify_recreate: "2 \<le> k \<Longrightarrow> classify_word (take k ''-recreate'') = Option Recreate None"
  by (rule take_any [where m = 2 and P = "\<lambda>w. classify_word w = Option Recreate None"]) (code_simp, simp_all)

text \<open>A name that stands for one option, and what \<open>=\<close> and a value after it do.\<close>

definition names_only :: "cli_option \<Rightarrow> string \<Rightarrow> bool" where
  "names_only a p \<longleftrightarrow>
     prefix ''--'' p \<and> CHR ''='' \<notin> set p \<and> map snd (filter (\<lambda>(s, a). prefix p s) option_strings) = [a] \<and>
     classify_word p = Option a None"

lemma names_only_option:
  "3 \<le> k \<Longrightarrow> names_only (if dir then Output_dir else Test_script) (take k (option_name dir))"
proof -
  have o: "\<forall>k\<in>set [3..<Suc (length ''--output-dir'')]. names_only Output_dir (take k ''--output-dir'')"
    and t: "\<forall>k\<in>set [3..<Suc (length ''--test-script'')]. names_only Test_script (take k ''--test-script'')"
    by code_simp+
  show "3 \<le> k \<Longrightarrow> ?thesis"
    using take_any [OF o] take_any [OF t] by (cases dir) (simp_all add: option_name_def)
qed

lemma split_value_at: "CHR ''='' \<notin> set p \<Longrightarrow> split_value (p @ ''='' @ v) = (p, Some v)"
proof -
  assume p: "CHR ''='' \<notin> set p"
  then have "takeWhile (\<lambda>c. c \<noteq> CHR ''='') (p @ CHR ''='' # v) = p" by (induction p) auto
  then show ?thesis by (simp add: split_value_def)
qed

lemma classify_with_value:
  assumes "names_only a p"
  shows "classify_word (p @ ''='' @ v) = Option a (Some v)"
proof -
  let ?w = "p @ ''='' @ v"
  have p: "prefix ''--'' p" "CHR ''='' \<notin> set p" "map snd (filter (\<lambda>(s, a). prefix p s) option_strings) = [a]"
    using assms by (simp_all add: names_only_def)
  then obtain p' where p': "p = ''--'' @ p'" by (auto simp: prefix_def)
  have w: "take 1 ?w = ''-''" "length ?w \<noteq> 1" "prefix ''--'' ?w" by (simp_all add: p')
  have "\<forall>(s, b)\<in>set option_strings. CHR ''='' \<notin> set s" by code_simp
  then have n: "map_of option_strings ?w = None" by (force simp: map_of_eq_None_iff)
  have b: "b = a" if "map_of option_strings p = Some b" for b
  proof -
    have "(p, b) \<in> set (filter (\<lambda>(s, a). prefix p s) option_strings)" using map_of_SomeD [OF that] by simp
    then have "snd (p, b) \<in> snd ` set (filter (\<lambda>(s, a). prefix p s) option_strings)" by (rule imageI)
    then show ?thesis unfolding set_map [symmetric] p(3) by simp
  qed
  obtain s where "filter (\<lambda>(s, a). prefix p s) option_strings = [(s, a)]" using p(3) by (auto simp: map_eq_Cons_conv)
  then have "abbreviations ?w = [(a, Some v)]"
    using w(3) split_value_at [OF p(2), of v] by (simp add: abbreviations_def)
  with w(1,2) n b split_value_at [OF p(2), of v] show ?thesis
    by (cases "map_of option_strings p") (simp_all add: classify_word_def)
qed

text \<open>
  C23: every spelling of the options is understood. Any sequence of uses of the three options, each
  name written in full or shortened to at least two characters of \<open>-recreate\<close> or three of the
  others, each value after \<open>=\<close> or as a word of its own, is parsed to exactly these uses, the last
  value of an option winning.
\<close>

theorem options_round_trip:
  assumes "\<forall>u\<in>set us. use_ok u"
  shows "parse_args (concat (map spell us)) args = Some (fold apply_use us args)"
  using assms
proof (induction us arbitrary: args)
  case (Cons u us)
  then have ih: "parse_args (concat (map spell us)) args = Some (fold apply_use us args)" for args by simp
  show ?case
  proof (cases u)
    case (Use_recreate k)
    then show ?thesis using Cons.prems ih by (simp add: classify_recreate)
  next
    case (Use_value dir k same v)
    with Cons.prems have k: "3 \<le> k" and v: "same \<or> classify_word v = Argument" by simp_all
    note n = names_only_option [OF k, of dir]
    have "classify_word (take k (option_name dir)) = Option (if dir then Output_dir else Test_script) None"
      using n by (simp add: names_only_def)
    then show ?thesis
      using Use_value v ih classify_with_value [OF n, of v] by (cases dir) (auto simp: store_value_def)
  qed
qed simp

lemma options_round_trip_witness:
  "parse_args [''-re'', ''--output'', ''x'', ''--t=-y''] (default_args ''/src'') =
    Some \<lparr>recreate_arg = True, output_dir_arg = ''x'', test_script_arg = ''-y''\<rparr>"
proof -
  let ?us = "[Use_recreate 3, Use_value True 8 False ''x'', Use_value False 3 True ''-y'']"
  have "\<forall>u\<in>set ?us. use_ok u" by code_simp
  from options_round_trip [OF this, of "default_args ''/src''"] show ?thesis
    by (simp add: option_name_def default_args_def del: parse_args.simps)
qed

subsection \<open>The program is \<open>main\<close> on the two directories\<close>

definition files :: "file_system \<Rightarrow> string \<Rightarrow> directory" where
  "files fs q = (case fs q of None \<Rightarrow> Map.empty | Some d \<Rightarrow> d)"

definition corpus_in :: "string \<Rightarrow> file_system \<Rightarrow> corpus" where
  "corpus_in directory fs =
     \<lparr>byte_dir = files fs (os_path_join directory ''bytearray''),
      proto_dir = files fs (os_path_join directory ''proto'')\<rparr>"

definition world_laws :: "os_world \<Rightarrow> bool" where
  "world_laws w \<longleftrightarrow> (\<forall>dir. finite (dom dir) \<longrightarrow> set (world_listdir w dir) = dom dir)"

lemma env_of_laws: "world_laws w \<Longrightarrow> os_laws (env_of w script dir)"
  by (simp add: world_laws_def os_laws_def env_of_def)

lemma seed_directories_differ [simp]:
  "os_path_join d ''bytearray'' \<noteq> os_path_join d ''proto''" "os_path_join d ''proto'' \<noteq> os_path_join d ''bytearray''"
  by (auto simp: os_path_join_def)

lemma files_makedirs [simp]: "files (makedirs path fs) q = files fs q"
  by (simp add: files_def makedirs_def)

lemma the_makedirs:
  "makedirs path fs path = Some (files fs path)"
  "makedirs other (makedirs path fs) path = Some (files fs path)"
  by (simp_all add: files_def makedirs_def split: option.split)

lemma generate_in_corpus:
  assumes "generate_in rt w d rec seeds script ts fs = (r, fs')"
  shows "generate_seeds rt (env_of w script (os_path_join d ''bytearray'')) rec seeds ts (corpus_in d fs) =
    (r, corpus_in d fs')"
    and "q \<noteq> os_path_join d ''bytearray'' \<Longrightarrow> q \<noteq> os_path_join d ''proto'' \<Longrightarrow>
      fs' q = makedirs (os_path_join d ''proto'') (makedirs (os_path_join d ''bytearray'') fs) q"
  using assms
  by (auto simp: generate_in_def Let_def the_makedirs corpus_in_def files_def [of "f(x \<mapsto> y)" for f x y] split: prod.splits)

lemma corpus_in_finite: "\<forall>d\<in>ran fs. finite (dom d) \<Longrightarrow> corpus_finite (corpus_in d fs)"
  by (auto simp: corpus_finite_def corpus_in_def files_def ran_def split: option.split)

lemma made_directories:
  "makedirs p (makedirs b fs) q = fs q \<or>
    fs q = None \<and> (q = b \<or> q = p \<or> is_parent q b \<or> is_parent q p) \<and> makedirs p (makedirs b fs) q = Some Map.empty"
  by (auto simp: makedirs_def)

text \<open>
  C14: the program from its command line. When \<open>argparse\<close> refuses the words, or help is asked for, no
  file system changes. Otherwise the run is \<open>main\<close> on the directories \<open>bytearray\<close> and \<open>proto\<close> of the
  output directory that the words name, created where they are missing, and
  every other directory keeps its files: at most a missing parent is created. Without \<open>-recreate\<close> it ends normally, no file of any
  directory is lost or changed, and the two directories hold the old seeds and the missing ones of the table.
\<close>

theorem command_line_runs:
  assumes "pb_laws rt" "world_laws w" "\<forall>d\<in>ran fs. finite (dom d)"
  shows "case parse_args argv (default_args here) of
      None \<Rightarrow> run_program rt w here argv ts fs = (None, fs)
    | Some a \<Rightarrow> \<exists>seeds r fs'. TEST_CASES rt = Inr seeds \<and> run_program rt w here argv ts fs = (Some r, fs') \<and>
        main rt (env_of w (test_script_arg a) (os_path_join (output_dir_arg a) ''bytearray'')) (recreate_arg a) ts
          (corpus_in (output_dir_arg a) fs) = (r, corpus_in (output_dir_arg a) fs') \<and>
        (\<forall>q. q \<in> {os_path_join (output_dir_arg a) ''bytearray'', os_path_join (output_dir_arg a) ''proto''} \<or>
           fs' q = fs q \<or>
           fs q = None \<and> fs' q = Some Map.empty \<and> (is_parent q (os_path_join (output_dir_arg a) ''bytearray'') \<or>
             is_parent q (os_path_join (output_dir_arg a) ''proto''))) \<and>
        (\<not> recreate_arg a \<longrightarrow> r = Inr () \<and> (\<forall>q. files fs q \<subseteq>\<^sub>m files fs' q) \<and>
           store_of (corpus_in (output_dir_arg a) fs') =
             fill_store rt seeds (store_of (corpus_in (output_dir_arg a) fs)))"
proof -
  obtain seeds where seeds: "TEST_CASES rt = Inr seeds" by (rule TEST_CASES_make [OF assms(1)])
  show ?thesis
  proof (cases "parse_args argv (default_args here)")
    case None
    then show ?thesis by (simp add: run_program_def seeds)
  next
    case (Some a)
    let ?d = "output_dir_arg a"
    let ?env = "env_of w (test_script_arg a) (os_path_join ?d ''bytearray'')"
    obtain r fs' where gen: "generate_in rt w ?d (recreate_arg a) seeds (test_script_arg a) ts fs = (r, fs')"
      by (cases "generate_in rt w ?d (recreate_arg a) seeds (test_script_arg a) ts fs")
    note g = generate_in_corpus [OF gen]
    have run: "run_program rt w here argv ts fs = (Some r, fs')" by (simp add: run_program_def seeds Some gen)
    have main: "main rt ?env (recreate_arg a) ts (corpus_in ?d fs) = (r, corpus_in ?d fs')"
      using g(1) by (simp add: main_def seeds)
    have frame: "fs' q = fs q \<or> fs q = None \<and> fs' q = Some Map.empty \<and>
        (is_parent q (os_path_join ?d ''bytearray'') \<or> is_parent q (os_path_join ?d ''proto''))"
      if "q \<notin> {os_path_join ?d ''bytearray'', os_path_join ?d ''proto''}" for q
      using g(2) [of q] that made_directories [of "os_path_join ?d ''proto''" "os_path_join ?d ''bytearray''" fs q] by auto
    then have others: "files fs' q = files fs q"
      if "q \<noteq> os_path_join ?d ''bytearray''" "q \<noteq> os_path_join ?d ''proto''" for q
      using that by (fastforce simp: files_def)
    note fin = corpus_in_finite [OF assms(3), of ?d]
    have plain: "r = Inr () \<and> (\<forall>q. files fs q \<subseteq>\<^sub>m files fs' q) \<and>
        store_of (corpus_in ?d fs') = fill_store rt seeds (store_of (corpus_in ?d fs))" if "\<not> recreate_arg a"
    proof -
      from main_fills [OF assms(1) env_of_laws [OF assms(2)] fin seeds, of "test_script_arg a"
          "os_path_join ?d ''bytearray''" ts] main that
      have "r = Inr ()" "store_of (corpus_in ?d fs') = fill_store rt seeds (store_of (corpus_in ?d fs))" by auto
      moreover have "corpus_keeps (corpus_in ?d fs) (corpus_in ?d fs')"
        using generate_keeps [OF env_of_laws [OF assms(2)]] g(1) that by auto
      then have "files fs q \<subseteq>\<^sub>m files fs' q" for q
        using fin others [of q]
        by (cases "q \<in> {os_path_join ?d ''bytearray'', os_path_join ?d ''proto''}") (auto simp: corpus_keeps_def corpus_in_def)
      ultimately show ?thesis by blast
    qed
    show ?thesis unfolding Some option.case using seeds run main frame plain by (intro exI conjI allI) blast+
  qed
qed

definition sample_world :: os_world where
  "sample_world =
     \<lparr>world_listdir = (\<lambda>dir. sorted_list_of_set (dom dir)), world_run = (\<lambda>_ _ _. Inr sample_output)\<rparr>"

lemma command_line_runs_witness:
  "\<exists>seeds fs'. TEST_CASES (plain_runtime (\<lambda>_. [])) = Inr seeds \<and>
    run_program (plain_runtime (\<lambda>_. [])) sample_world ''/src'' [''--out'', ''x''] ''7'' [''x/proto'' \<mapsto> [''a'' \<mapsto> []]] = (Some (Inr ()), fs') \<and>
    (\<forall>q. q \<in> {''x/bytearray'', ''x/proto'', ''x''} \<or> fs' q = None)"
proof -
  let ?fs = "[''x/proto'' \<mapsto> [''a'' \<mapsto> ([] :: bytes)]]"
  have args: "parse_args [''--out'', ''x''] (default_args ''/src'') =
      Some \<lparr>recreate_arg = False, output_dir_arg = ''x'', test_script_arg = ''/src/scripts/test_seed.sh''\<rparr>"
    "os_path_join ''x'' ''bytearray'' = ''x/bytearray''" "os_path_join ''x'' ''proto'' = ''x/proto''" by code_simp+
  have parent: "is_parent q ''x/bytearray'' \<Longrightarrow> q = ''x''" "is_parent q ''x/proto'' \<Longrightarrow> q = ''x''" for q
    by (auto simp: is_parent_def prefix_def Cons_eq_append_conv append_eq_Cons_conv)
  have w: "world_laws sample_world" "\<forall>d\<in>ran ?fs. finite (dom d)"
    by (auto simp: world_laws_def sample_world_def)
  from command_line_runs [where rt = "plain_runtime (\<lambda>_. [])" and argv = "[''--out'', ''x'']" and here = "''/src''" and
      ts = "''7''", OF plain_runtime_laws w, unfolded args option.case cli_args.select_convs]
  obtain seeds r fs' where run: "TEST_CASES (plain_runtime (\<lambda>_. [])) = Inr seeds" "r = Inr ()"
    "run_program (plain_runtime (\<lambda>_. [])) sample_world ''/src'' [''--out'', ''x''] ''7'' ?fs = (Some r, fs')"
    "\<forall>q. q \<in> {''x/bytearray'', ''x/proto''} \<or> fs' q = ?fs q \<or>
      ?fs q = None \<and> fs' q = Some Map.empty \<and> (is_parent q ''x/bytearray'' \<or> is_parent q ''x/proto'')"
    unfolding args cli_args.select_convs by (elim exE conjE) (assumption | simp only: not_False_eq_True simp_thms)+
  have "q \<in> {''x/bytearray'', ''x/proto'', ''x''} \<or> fs' q = None" for q
    using run(4) [rule_format, of q] parent [of q] by auto
  then show ?thesis using run(1-3) by blast
qed

end
