(* ===== verification/Harness_Message.thy ===== *)
theory Harness_Message
  imports To_Proto "HOL-Library.AList"
begin

section \<open>Messages as the harness reads and changes them\<close>

text \<open>
  The accessors that protoc generates for the C++ harness, on the messages of \<open>Protobuf\<close>: a getter
  returns the default of its type for an absent field, \<open>has_x()\<close> says whether a field is there,
  \<open>mutable_x()\<close> creates an absent sub-message, and a setter overwrites. An enum field holds the
  number of its value, whether the seed writes the number or the name.
\<close>

definition enum_number :: "pb_enum \<Rightarrow> string \<Rightarrow> int" where
  "enum_number e n = (case map_of (enum_names e) n of None \<Rightarrow> 0 | Some v \<Rightarrow> v)"

definition has_field :: "pb_msg \<Rightarrow> string \<Rightarrow> bool" where
  "has_field m f \<longleftrightarrow> msg_field m f \<noteq> None"

definition uint_field :: "pb_msg \<Rightarrow> string \<Rightarrow> int" where
  "uint_field m f = (case msg_field m f of Some (PbInt v) \<Rightarrow> v | _ \<Rightarrow> 0)"

definition enum_field :: "pb_enum \<Rightarrow> pb_msg \<Rightarrow> string \<Rightarrow> int" where
  "enum_field e m f =
     (case msg_field m f of Some (PbInt v) \<Rightarrow> v | Some (PbName n) \<Rightarrow> enum_number e n | _ \<Rightarrow> 0)"

definition bytes_field :: "pb_msg \<Rightarrow> string \<Rightarrow> bytes" where
  "bytes_field m f = (case msg_field m f of Some (PbBytes b) \<Rightarrow> b | _ \<Rightarrow> [])"

definition msg_sub :: "pb_class \<Rightarrow> pb_msg \<Rightarrow> string \<Rightarrow> pb_msg" where
  "msg_sub c m f = (case msg_field m f of Some (PbMsg n) \<Rightarrow> n | _ \<Rightarrow> Msg c [])"

definition msg_list :: "pb_msg \<Rightarrow> string \<Rightarrow> pb_msg list" where
  "msg_list m f = (case msg_field m f of Some (PbList ns) \<Rightarrow> ns | _ \<Rightarrow> [])"

fun set_field :: "string \<Rightarrow> pb_value \<Rightarrow> pb_msg \<Rightarrow> pb_msg" where
  "set_field f v (Msg c kws) = Msg c (AList.update f v kws)"

text \<open>\<open>f(msg->mutable_x())\<close>: change a sub-message in place.\<close>

definition mutate :: "pb_class \<Rightarrow> string \<Rightarrow> (pb_msg \<Rightarrow> pb_msg) \<Rightarrow> pb_msg \<Rightarrow> pb_msg" where
  "mutate c f g m = set_field f (PbMsg (g (msg_sub c m f))) m"

named_theorems field_simps \<open>reading fields after setters\<close>

lemma msg_field_set [field_simps]:
  "msg_field (set_field f v m) g = (if g = f then Some v else msg_field m g)"
  by (cases m) (simp add: update_conv)

lemma msg_class_set [field_simps, simp]: "msg_class (set_field f v m) = msg_class m"
  by (cases m) simp

lemma accessors_set [field_simps]:
  "has_field (set_field f v m) g \<longleftrightarrow> g = f \<or> has_field m g"
  "g \<noteq> f \<Longrightarrow> uint_field (set_field f v m) g = uint_field m g"
  "g \<noteq> f \<Longrightarrow> enum_field e (set_field f v m) g = enum_field e m g"
  "g \<noteq> f \<Longrightarrow> bytes_field (set_field f v m) g = bytes_field m g"
  "g \<noteq> f \<Longrightarrow> msg_sub c (set_field f v m) g = msg_sub c m g"
  "g \<noteq> f \<Longrightarrow> msg_list (set_field f v m) g = msg_list m g"
  "uint_field (set_field f (PbInt i) m) f = i"
  "enum_field e (set_field f (PbInt i) m) f = i"
  "bytes_field (set_field f (PbBytes b) m) f = b"
  "msg_sub c (set_field f (PbMsg n) m) f = n"
  "msg_list (set_field f (PbList ns) m) f = ns"
  by (simp_all add: has_field_def uint_field_def enum_field_def bytes_field_def msg_sub_def
      msg_list_def msg_field_set)

end
