(* ===== verification/Harness_Normalise.thy ===== *)
theory Harness_Normalise
  imports Harness_Message
begin

section \<open>Normalisation before a seed is executed\<close>

text \<open>
  \<open>proto_normalization.cc\<close> and the post-processors of \<open>proto_postprocessors.cc\<close>, which the fuzzer
  runs on every message before it marshals it.
\<close>

definition kFirstTransientObjectHandle :: int where "kFirstTransientObjectHandle = 0x80000000"
definition kPasswordSessionHandle :: int where "kPasswordSessionHandle = 0x40000009"

definition kStorageParentObjectAttributes :: int where
  "kStorageParentObjectAttributes =
     0x00000002 OR 0x00000010 OR 0x00000020 OR 0x00000040 OR 0x00000400 OR 0x00010000 OR 0x00020000"

definition kChildObjectAttributes :: int where
  "kChildObjectAttributes =
     0x00000002 OR 0x00000010 OR 0x00000020 OR 0x00000040 OR 0x00000400 OR 0x00010000 OR 0x00020000"

definition SetPasswordSession :: "pb_msg \<Rightarrow> pb_msg" where
  "SetPasswordSession session =
     set_field ''hmac_size'' (PbInt 0) (set_field ''session_attributes'' (PbInt 0)
       (set_field ''nonce_size'' (PbInt 0)
         (set_field ''session_handle'' (PbInt kPasswordSessionHandle) session)))"

definition add_password_session :: "pb_msg \<Rightarrow> pb_msg" where
  "add_password_session m =
     (if msg_list m ''sessions'' = []
      then set_field ''sessions'' (PbList [SetPasswordSession (Msg PB_TPMSession [])]) m else m)"

definition default_enum :: "pb_enum \<Rightarrow> string \<Rightarrow> int \<Rightarrow> pb_msg \<Rightarrow> pb_msg" where
  "default_enum e f v m = (if enum_field e m f = 0 then set_field f (PbInt v) m else m)"

definition default_uint :: "string \<Rightarrow> int \<Rightarrow> pb_msg \<Rightarrow> pb_msg" where
  "default_uint f v m = (if uint_field m f = 0 then set_field f (PbInt v) m else m)"

definition normalize_rsa :: "pb_msg \<Rightarrow> pb_msg" where
  "normalize_rsa rsa =
     default_uint ''exponent'' 0 (default_uint ''key_bits'' 2048
       (default_enum E_TPMALG ''scheme'' (TPM_ALG_value ALG_NULL)
         (default_uint ''symmetric_key_bits'' 128
           (default_enum E_TPMALG ''symmetric'' (TPM_ALG_value ALG_AES) rsa))))"

definition normalize_keyedhash :: "pb_msg \<Rightarrow> pb_msg" where
  "normalize_keyedhash = default_enum E_TPMALG ''scheme'' (TPM_ALG_value ALG_NULL)"

definition normalize_parameters :: "pb_msg \<Rightarrow> pb_msg" where
  "normalize_parameters area =
     (let parameters = msg_sub PB_TPMUPublicParms area ''parameters'';
          keyed = (\<lambda>m. set_field ''type'' (PbInt (TPM_ALG_value ALG_KEYEDHASH))
            (mutate PB_TPMUPublicParms ''parameters''
              (mutate PB_TPMSKeyedHashParms ''keyedhash'' normalize_keyedhash) m))
      in if \<not> has_field parameters ''rsa'' \<and> \<not> has_field parameters ''keyedhash'' then keyed area
         else if has_field parameters ''keyedhash'' then keyed area
         else set_field ''type'' (PbInt (TPM_ALG_value ALG_RSA))
           (mutate PB_TPMUPublicParms ''parameters'' (mutate PB_TPMSRSAParms ''rsa'' normalize_rsa) area))"

definition NormalizeRsaOrKeyedHashPublic :: "int \<Rightarrow> pb_msg \<Rightarrow> pb_msg" where
  "NormalizeRsaOrKeyedHashPublic object_attributes area =
     default_uint ''object_attributes'' object_attributes
       (default_enum E_TPMALG ''name_alg'' (TPM_ALG_value ALG_SHA256) (normalize_parameters area))"

definition set_header :: "TPMST \<Rightarrow> TPMCC \<Rightarrow> pb_msg \<Rightarrow> pb_msg" where
  "set_header st cc =
     mutate PB_TPMHeader ''header'' (\<lambda>h. set_field ''command_code'' (PbInt (TPM_CC cc))
       (set_field ''tag'' (PbInt (TPM_ST st)) h))"

definition normalize_in_public :: "int \<Rightarrow> pb_msg \<Rightarrow> pb_msg" where
  "normalize_in_public object_attributes =
     mutate PB_TPM2BPublic ''in_public''
       (mutate PB_TPMTPublic ''public_area'' (NormalizeRsaOrKeyedHashPublic object_attributes))"

definition NormalizeInPublic :: "pb_msg \<Rightarrow> pb_msg" where
  "NormalizeInPublic m =
     (if has_field m ''in_public'' then normalize_in_public kChildObjectAttributes m else m)"

definition NormalizeLoad :: "pb_msg \<Rightarrow> pb_msg" where
  "NormalizeLoad m =
     add_password_session (default_uint ''parent_handle'' kFirstTransientObjectHandle
       (set_header TPM_ST_SESSIONS TPM_CC_LOAD m))"

definition NormalizeCreatePrimary :: "pb_msg \<Rightarrow> pb_msg" where
  "NormalizeCreatePrimary m =
     normalize_in_public kStorageParentObjectAttributes
       (default_enum E_TPMRH ''hierarchy'' (TPM_RH_value RH_OWNER)
         (set_header TPM_ST_SESSIONS TPM_CC_CREATE_PRIMARY m))"

definition NormalizeCreate :: "pb_msg \<Rightarrow> pb_msg" where
  "NormalizeCreate m =
     normalize_in_public kChildObjectAttributes
       (default_uint ''parent_handle'' kFirstTransientObjectHandle
         (set_header TPM_ST_SESSIONS TPM_CC_CREATE m))"

definition NormalizeClear :: "pb_msg \<Rightarrow> pb_msg" where
  "NormalizeClear m =
     add_password_session (default_uint ''auth_handle'' (TPM_RH_value RH_LOCKOUT)
       (set_header TPM_ST_SESSIONS TPM_CC_CLEAR m))"

text \<open>The policy digest follows the hash algorithm: another size is replaced by zeros.\<close>

definition digest_policy :: "nat \<Rightarrow> pb_msg \<Rightarrow> pb_msg" where
  "digest_policy n =
     mutate PB_TPM2BDigest ''auth_policy'' (\<lambda>p.
       let p = set_field ''size'' (PbInt (int n)) p
       in if length (bytes_field p ''buffer'') \<noteq> n
          then set_field ''buffer'' (PbBytes (replicate n 0)) p else p)"

definition NormalizeSetPrimaryPolicy :: "pb_msg \<Rightarrow> pb_msg" where
  "NormalizeSetPrimaryPolicy m =
     (let m = add_password_session (default_enum E_TPMRH ''auth_handle'' (TPM_RH_value RH_OWNER)
            (set_header TPM_ST_SESSIONS TPM_CC_SET_PRIMARY_POLICY m));
          alg = enum_field E_TPMALG m ''hash_alg''
      in if alg = TPM_ALG_value ALG_SHA1 then digest_policy 20 m
         else if alg = TPM_ALG_value ALG_SHA256 then digest_policy 32 m
         else if alg = TPM_ALG_value ALG_SHA384 then digest_policy 48 m
         else if alg = TPM_ALG_value ALG_NULL then
           mutate PB_TPM2BDigest ''auth_policy'' (\<lambda>p. set_field ''buffer'' (PbBytes [])
             (set_field ''size'' (PbInt 0) p)) m
         else mutate PB_TPM2BDigest ''auth_policy'' (\<lambda>p. set_field ''buffer'' (PbBytes (replicate 32 0))
             (set_field ''size'' (PbInt 32) p))
             (set_field ''hash_alg'' (PbInt (TPM_ALG_value ALG_SHA256)) m))"

definition NormalizeStartAuthSession :: "pb_msg \<Rightarrow> pb_msg" where
  "NormalizeStartAuthSession m =
     (let m = default_enum E_TPMALG ''auth_hash'' (TPM_ALG_value ALG_SHA256)
           (default_enum E_TPMRH ''bind'' (TPM_RH_value RH_NULL)
             (default_enum E_TPMRH ''tpm_key'' (TPM_RH_value RH_NULL)
               (set_header TPM_ST_NO_SESSIONS TPM_CC_START_AUTH_SESSION m)));
          m = (if enum_field E_TPMALG (msg_sub PB_TPMTSymDef m ''symmetric'') ''algorithm'' = 0
               then mutate PB_TPMTSymDef ''symmetric''
                 (set_field ''algorithm'' (PbInt (TPM_ALG_value ALG_NULL))) m
               else m)
      in if bytes_field (msg_sub PB_TPM2BData m ''nonce'') ''buffer'' = []
         then mutate PB_TPM2BData ''nonce'' (set_field ''buffer'' (PbBytes (replicate 16 0))) m
         else m)"

definition NormalizeGetRandom :: "pb_msg \<Rightarrow> pb_msg" where
  "NormalizeGetRandom m =
     default_uint ''bytes_requested'' 1
       (mutate PB_TPMHeader ''header'' (set_field ''command_size'' (PbInt 12))
         (set_header TPM_ST_NO_SESSIONS TPM_CC_GET_RANDOM m))"

text \<open>The registered post-processors, by the class of the message.\<close>

definition post_process :: "pb_msg \<Rightarrow> pb_msg" where
  "post_process m =
     (case msg_class m of
        PB_TPMClear \<Rightarrow> NormalizeClear m
      | PB_TPMLoad \<Rightarrow> NormalizeInPublic (NormalizeLoad m)
      | PB_TPMPCRAllocate \<Rightarrow> set_header TPM_ST_SESSIONS TPM_CC_PCR_ALLOCATE m
      | PB_TPMSetPrimaryPolicy \<Rightarrow> NormalizeSetPrimaryPolicy m
      | PB_TPMGetRandom \<Rightarrow> NormalizeGetRandom m
      | PB_TPMStartAuthSession \<Rightarrow> NormalizeStartAuthSession m
      | PB_TPMCreatePrimary \<Rightarrow> NormalizeCreatePrimary m
      | PB_TPMCreate \<Rightarrow> NormalizeCreate m
      | PB_TPMRSADecrypt \<Rightarrow> set_header TPM_ST_SESSIONS TPM_CC_RSA_DECRYPT m
      | PB_TPMRSAEncrypt \<Rightarrow> set_header TPM_ST_NO_SESSIONS TPM_CC_RSA_ENCRYPT m
      | PB_TPMPCREvent \<Rightarrow> set_header TPM_ST_SESSIONS TPM_CC_PCR_EVENT m
      | PB_TPMNvDefineSpace \<Rightarrow> set_header TPM_ST_SESSIONS TPM_CC_NV_DEFINE_SPACE m
      | PB_TPMMakeCredential \<Rightarrow> set_header TPM_ST_NO_SESSIONS TPM_CC_MAKE_CREDENTIAL m
      | PB_TPMPCRRead \<Rightarrow> set_header TPM_ST_NO_SESSIONS TPM_CC_PCR_READ m
      | PB_TPMPCRSetAuthPolicy \<Rightarrow> set_header TPM_ST_SESSIONS TPM_CC_PCR_SET_AUTH_POLICY m
      | _ \<Rightarrow> m)"

end
