(* ===== verification/Harness_Marshal.thy ===== *)
theory Harness_Marshal
  imports Harness_Normalise
begin

section \<open>From messages back to command bytes\<close>

text \<open>
  \<open>proto_conversion.cc\<close>: the fuzzer turns a message into the bytes of a command. The marshalling
  functions of tpm2-tss (\<open>Tss2_MU_...\<close>) and the sizes of its structures are not part of the
  repository; they are the record \<open>tss\<close>. A marshalling function is modelled by the encoding it
  writes, \<open>None\<close> for a failure code; \<open>tss_laws\<close> states the encodings that the TPM 2.0 structures
  specification prescribes.

  The buffer of \<open>kMaxBuffer\<close> bytes with the write position \<open>offset\<close> is the list of the bytes
  written so far: every write goes to the position, or overwrites earlier bytes (the two size
  fields), and the buffer is cut at the position in the end. Writing past the buffer fails.
\<close>

datatype tss_buffer = B_DATA | B_PRIVATE | B_EVENT | B_RSA_KEY | B_AUTH | B_SENSITIVE_DATA | B_DIGEST

text \<open>The fields of the structures of tpm2-tss that the code fills; all others stay zero.\<close>

record sym_def_c =
  symd_algorithm :: int
  symd_key_bits :: int
  symd_mode :: int

record public_c =
  pc_type :: int
  pc_name_alg :: int
  pc_attributes :: int
  pc_auth_policy :: bytes
  pc_symmetric :: sym_def_c
  pc_scheme :: int
  pc_key_bits :: int
  pc_exponent :: int
  pc_unique :: bytes

record pcr_selection_c =
  pcrs_hash :: int
  pcrs_select :: bytes

record nv_public_c =
  nvc_index :: int
  nvc_name_alg :: int
  nvc_attributes :: int
  nvc_auth_policy :: bytes
  nvc_data_size :: int

record tss =
  mu_u16 :: "int \<Rightarrow> bytes option"
  mu_u32 :: "int \<Rightarrow> bytes option"
  mu_tpm2b :: "tss_buffer \<Rightarrow> bytes \<Rightarrow> bytes option"
  mu_sym_def :: "sym_def_c \<Rightarrow> bytes option"
  mu_sensitive :: "bytes \<Rightarrow> bytes \<Rightarrow> bytes option"
  mu_public :: "public_c \<Rightarrow> bytes option"
  mu_pcr_selection :: "pcr_selection_c list \<Rightarrow> bytes option"
  mu_nv_public :: "nv_public_c \<Rightarrow> bytes option"
  buffer_size :: "tss_buffer \<Rightarrow> nat"
  num_pcr_banks :: nat
  pcr_select_max :: nat

definition kMaxBuffer :: nat where "kMaxBuffer = 1024 * 1024"

definition put :: "bytes option \<Rightarrow> bytes \<Rightarrow> bytes option" where
  "put enc out =
     (case enc of None \<Rightarrow> None
      | Some b \<Rightarrow> if length out + length b > kMaxBuffer then None else Some (out @ b))"

text \<open>Marshalling over bytes that were written before.\<close>

definition patch :: "nat \<Rightarrow> bytes option \<Rightarrow> bytes \<Rightarrow> bytes option" where
  "patch pos enc out =
     (case enc of None \<Rightarrow> None | Some b \<Rightarrow> Some (take pos out @ b @ drop (pos + length b) out))"

text \<open>\<open>static_cast\<close> to an unsigned type.\<close>

definition u8 :: "int \<Rightarrow> int" where "u8 v = v mod 2 ^ 8"
definition u16 :: "int \<Rightarrow> int" where "u16 v = v mod 2 ^ 16"
definition u32 :: "int \<Rightarrow> int" where "u32 v = v mod 2 ^ 32"

definition FillTpm2b :: "tss \<Rightarrow> tss_buffer \<Rightarrow> bytes \<Rightarrow> bytes" where
  "FillTpm2b mu k src = take (buffer_size mu k) src"

definition MarshalCommandHeader :: "tss \<Rightarrow> pb_msg \<Rightarrow> bytes \<Rightarrow> bytes option" where
  "MarshalCommandHeader mu header out =
     Option.bind (put (mu_u16 mu (u16 (enum_field E_TPMST header ''tag''))) out) (\<lambda>out1.
     Option.bind (put (mu_u32 mu (uint_field header ''command_size'')) out1) (\<lambda>out2.
     Option.bind (put (mu_u32 mu (u32 (enum_field E_TPMCC header ''command_code''))) out2) (\<lambda>out3.
     if length out3 - length out = 10 then Some out3 else None)))"

definition MarshalTPM2B :: "tss \<Rightarrow> tss_buffer \<Rightarrow> pb_msg \<Rightarrow> bytes \<Rightarrow> bytes option" where
  "MarshalTPM2B mu k m = put (mu_tpm2b mu k (FillTpm2b mu k (bytes_field m ''buffer'')))"

definition MarshalTPM2BDigest :: "tss \<Rightarrow> pb_msg \<Rightarrow> bytes \<Rightarrow> bytes option" where
  "MarshalTPM2BDigest mu m out =
     (let data = bytes_field m ''buffer''
      in if length data > 65535 then None
         else Option.bind (put (mu_u16 mu (int (length data))) out) (put (Some data)))"

definition MarshalTPMTSymDef :: "tss \<Rightarrow> pb_msg \<Rightarrow> bytes \<Rightarrow> bytes option" where
  "MarshalTPMTSymDef mu symd =
     (let NULL = TPM_ALG_value ALG_NULL;
          alg = u16 (enum_field E_TPMALG symd ''algorithm'');
          alg = (if alg \<noteq> TPM_ALG_value ALG_AES \<and> alg \<noteq> NULL then NULL else alg)
      in put (mu_sym_def mu
           (if alg \<noteq> NULL
            then \<lparr>symd_algorithm = alg, symd_key_bits = u16 (uint_field symd ''key_bits''),
                  symd_mode = u16 (enum_field E_TPMALG symd ''mode'')\<rparr>
            else \<lparr>symd_algorithm = alg, symd_key_bits = 0, symd_mode = 0\<rparr>)))"

definition marshal_sized :: "tss \<Rightarrow> bytes \<Rightarrow> bytes \<Rightarrow> bytes option" where
  "marshal_sized mu data out =
     (let sz = u16 (int (length data))
      in Option.bind (put (mu_u16 mu sz) out) (put (Some (take (nat sz) data))))"

definition MarshalTPMSession :: "tss \<Rightarrow> pb_msg \<Rightarrow> bytes \<Rightarrow> bytes option" where
  "MarshalTPMSession mu session out =
     Option.bind (put (mu_u32 mu (uint_field session ''session_handle'')) out) (\<lambda>out.
     Option.bind (marshal_sized mu (bytes_field session ''nonce'') out) (\<lambda>out.
     Option.bind (put (Some [word_of_int (u8 (uint_field session ''session_attributes''))]) out) (\<lambda>out.
     marshal_sized mu (bytes_field session ''hmac'') out)))"

primrec marshal_sessions :: "tss \<Rightarrow> pb_msg list \<Rightarrow> bytes \<Rightarrow> bytes option" where
  "marshal_sessions mu [] out = Some out"
| "marshal_sessions mu (s # ss) out =
     Option.bind (MarshalTPMSession mu s out) (marshal_sessions mu ss)"

definition MarshalRepeatedField :: "tss \<Rightarrow> pb_msg \<Rightarrow> string \<Rightarrow> pb_class \<Rightarrow> bytes \<Rightarrow> bytes option" where
  "MarshalRepeatedField mu parent field msg_type out =
     (if msg_type \<noteq> PB_TPMSession then None
      else Option.bind (put (mu_u32 mu 0) out) (\<lambda>out1.
           Option.bind (marshal_sessions mu (msg_list parent field) out1) (\<lambda>out2.
           patch (length out) (mu_u32 mu (u32 (int (length out2 - length out1)))) out2)))"

definition MarshalTPM2BSensitiveCreate :: "tss \<Rightarrow> pb_msg \<Rightarrow> bytes \<Rightarrow> bytes option" where
  "MarshalTPM2BSensitiveCreate mu sens_proto =
     (let s = msg_sub PB_TPMSSensitiveCreate sens_proto ''sensitive''
      in put (mu_sensitive mu
           (FillTpm2b mu B_AUTH (bytes_field (msg_sub PB_TPM2BAuth s ''user_auth'') ''buffer''))
           (FillTpm2b mu B_SENSITIVE_DATA
              (bytes_field (msg_sub PB_TPM2BSensitiveData s ''data'') ''buffer''))))"

definition zero_public :: public_c where
  "zero_public =
     \<lparr>pc_type = TPM_ALG_value ALG_NULL, pc_name_alg = 0, pc_attributes = 0, pc_auth_policy = [],
      pc_symmetric = \<lparr>symd_algorithm = 0, symd_key_bits = 0, symd_mode = 0\<rparr>, pc_scheme = 0,
      pc_key_bits = 0, pc_exponent = 0, pc_unique = []\<rparr>"

text \<open>\<open>TPM2_ALG_XOR\<close> of tpm2-tss, from the registry of algorithm identifiers.\<close>

definition TPM2_ALG_XOR :: int where "TPM2_ALG_XOR = 0x000A"

definition fill_rsa :: "pb_msg \<Rightarrow> public_c \<Rightarrow> public_c" where
  "fill_rsa rsa pc =
     (let NULL = TPM_ALG_value ALG_NULL;
          sym_alg = u16 (enum_field E_TPMALG rsa ''symmetric'');
          sym_alg = (if sym_alg \<noteq> TPM_ALG_value ALG_AES \<and> sym_alg \<noteq> NULL then NULL else sym_alg);
          scheme_alg = u16 (enum_field E_TPMALG rsa ''scheme'')
      in pc\<lparr>pc_type := TPM_ALG_value ALG_RSA,
            pc_symmetric :=
              (if sym_alg \<noteq> NULL
               then \<lparr>symd_algorithm = sym_alg,
                     symd_key_bits = u16 (uint_field rsa ''symmetric_key_bits''),
                     symd_mode = TPM_ALG_value ALG_CFB\<rparr>
               else \<lparr>symd_algorithm = sym_alg, symd_key_bits = 0, symd_mode = 0\<rparr>),
            pc_scheme :=
              (if scheme_alg \<noteq> TPM_ALG_value ALG_RSASSA \<and> scheme_alg \<noteq> NULL then NULL else scheme_alg),
            pc_key_bits := u16 (uint_field rsa ''key_bits''),
            pc_exponent := uint_field rsa ''exponent''\<rparr>)"

definition fill_keyedhash :: "pb_msg \<Rightarrow> public_c \<Rightarrow> public_c" where
  "fill_keyedhash kh pc =
     (let NULL = TPM_ALG_value ALG_NULL;
          kh_scheme = u16 (enum_field E_TPMALG kh ''scheme'')
      in pc\<lparr>pc_type := TPM_ALG_value ALG_KEYEDHASH,
            pc_scheme :=
              (if kh_scheme \<noteq> TPM_ALG_value ALG_HMAC \<and> kh_scheme \<noteq> TPM2_ALG_XOR \<and> kh_scheme \<noteq> NULL
               then NULL else kh_scheme)\<rparr>)"

definition fill_parameters :: "pb_msg \<Rightarrow> public_c \<Rightarrow> public_c" where
  "fill_parameters pa pc =
     (let parms = msg_sub PB_TPMUPublicParms pa ''parameters''
      in if has_field pa ''parameters'' then
           (if has_field parms ''rsa'' then fill_rsa (msg_sub PB_TPMSRSAParms parms ''rsa'') pc
            else if has_field parms ''keyedhash'' then
              fill_keyedhash (msg_sub PB_TPMSKeyedHashParms parms ''keyedhash'') pc
            else pc\<lparr>pc_type := TPM_ALG_value ALG_NULL\<rparr>)
         else pc\<lparr>pc_type := TPM_ALG_value ALG_NULL\<rparr>)"

definition fill_unique :: "tss \<Rightarrow> pb_msg \<Rightarrow> public_c \<Rightarrow> public_c" where
  "fill_unique mu pa pc =
     (let uid = msg_sub PB_TPMUPublicId pa ''unique''
      in if \<not> has_field pa ''unique'' then pc
         else if pc_type pc = TPM_ALG_value ALG_RSA \<and> has_field uid ''rsa'' then
           pc\<lparr>pc_unique := FillTpm2b mu B_RSA_KEY (bytes_field uid ''rsa'')\<rparr>
         else if pc_type pc = TPM_ALG_value ALG_KEYEDHASH \<and> has_field uid ''keyedhash'' then
           pc\<lparr>pc_unique := FillTpm2b mu B_DIGEST
                (bytes_field (msg_sub PB_TPM2BDigest uid ''keyedhash'') ''buffer'')\<rparr>
         else pc)"

definition MarshalTPM2BPublic :: "tss \<Rightarrow> pb_msg \<Rightarrow> bytes \<Rightarrow> bytes option" where
  "MarshalTPM2BPublic mu pub_proto =
     (let pa = msg_sub PB_TPMTPublic pub_proto ''public_area''
      in put (mu_public mu
           (if has_field pub_proto ''public_area'' then
              fill_unique mu pa (fill_parameters pa
                (zero_public\<lparr>pc_name_alg := u16 (enum_field E_TPMALG pa ''name_alg''),
                   pc_attributes := uint_field pa ''object_attributes'',
                   pc_auth_policy := FillTpm2b mu B_DIGEST
                     (bytes_field (msg_sub PB_TPM2BDigest pa ''auth_policy'') ''buffer'')\<rparr>))
            else zero_public)))"

text \<open>A selection: \<open>sizeofSelect\<close> bytes, the given ones first and zeros after them.\<close>

definition fill_pcr_selection :: "tss \<Rightarrow> pb_msg \<Rightarrow> pcr_selection_c" where
  "fill_pcr_selection mu sel =
     (let sizeof_select = min (nat (uint_field sel ''sizeof_select'')) (pcr_select_max mu);
          data = take sizeof_select (bytes_field sel ''pcr_select'')
      in \<lparr>pcrs_hash = u16 (enum_field E_TPMALG sel ''hash''),
          pcrs_select = data @ replicate (sizeof_select - length data) 0\<rparr>)"

definition MarshalTPMLPCRSelection :: "tss \<Rightarrow> pb_msg \<Rightarrow> bytes \<Rightarrow> bytes option" where
  "MarshalTPMLPCRSelection mu pcr_proto =
     put (mu_pcr_selection mu
       (map (fill_pcr_selection mu) (take (num_pcr_banks mu) (msg_list pcr_proto ''pcr_selections''))))"

definition MarshalTPMTRSADecrypt :: "tss \<Rightarrow> pb_msg \<Rightarrow> bytes \<Rightarrow> bytes option" where
  "MarshalTPMTRSADecrypt mu scheme_proto out =
     (let scheme = u16 (enum_field E_TPMALG scheme_proto ''scheme'')
      in Option.bind (put (mu_u16 mu scheme) out) (\<lambda>out.
         if scheme = TPM_ALG_value ALG_OAEP
         then put (mu_u16 mu (u16 (enum_field E_TPMALG scheme_proto ''hash_alg''))) out
         else Some out))"

definition MarshalTPMNvPublic :: "tss \<Rightarrow> pb_msg \<Rightarrow> bytes \<Rightarrow> bytes option" where
  "MarshalTPMNvPublic mu pub =
     put (mu_nv_public mu
       \<lparr>nvc_index = uint_field pub ''nv_index'',
        nvc_name_alg = u16 (enum_field E_TPMALG pub ''name_alg''),
        nvc_attributes = uint_field pub ''attributes'',
        nvc_auth_policy = FillTpm2b mu B_DIGEST (bytes_field pub ''auth_policy''),
        nvc_data_size = u16 (uint_field pub ''data_size'')\<rparr>)"

text \<open>The dispatch on the name of the message type.\<close>

definition MarshalMessageField :: "tss \<Rightarrow> pb_msg \<Rightarrow> bytes \<Rightarrow> bytes option" where
  "MarshalMessageField mu child =
     (case msg_class child of
        PB_TPMHeader \<Rightarrow> MarshalCommandHeader mu child
      | PB_TPM2BData \<Rightarrow> MarshalTPM2B mu B_DATA child
      | PB_TPM2BDigest \<Rightarrow> MarshalTPM2BDigest mu child
      | PB_TPM2BPrivate \<Rightarrow> MarshalTPM2B mu B_PRIVATE child
      | PB_TPMTSymDef \<Rightarrow> MarshalTPMTSymDef mu child
      | PB_TPM2BSensitiveCreate \<Rightarrow> MarshalTPM2BSensitiveCreate mu child
      | PB_TPM2BPublic \<Rightarrow> MarshalTPM2BPublic mu child
      | PB_TPMLPCRSelection \<Rightarrow> MarshalTPMLPCRSelection mu child
      | PB_TPM2BPublicKeyRSA \<Rightarrow> MarshalTPM2B mu B_RSA_KEY child
      | PB_TPMTRSADecrypt \<Rightarrow> MarshalTPMTRSADecrypt mu child
      | PB_TPM2BEvent \<Rightarrow> MarshalTPM2B mu B_EVENT child
      | PB_TPMNvPublic \<Rightarrow> MarshalTPMNvPublic mu child
      | _ \<Rightarrow> (\<lambda>_. None))"

definition MarshalCommandField ::
  "tss \<Rightarrow> pb_msg \<Rightarrow> string \<times> pb_type \<Rightarrow> bytes \<Rightarrow> bytes option" where
  "MarshalCommandField mu parent field out =
     (let f = fst field
      in case snd field of
        T_rep msg_type \<Rightarrow> MarshalRepeatedField mu parent f msg_type out
      | T_msg c \<Rightarrow> MarshalMessageField mu (msg_sub c parent f) out
      | T_enum e \<Rightarrow>
          (let value = enum_field e parent f
           in if e = E_TPMSE then put (Some [word_of_int (u8 value)]) out
              else if e = E_TPMALG then put (mu_u16 mu (u16 value)) out
              else put (mu_u32 mu (u32 value)) out)
      | T_uint32 \<Rightarrow>
          (let value = uint_field parent f
           in if f = ''bytes_requested'' then
                (if value > 65535 then None else put (mu_u16 mu value) out)
              else put (mu_u32 mu value) out)
      | T_bytes \<Rightarrow> put (Some (bytes_field parent f)) out)"

primrec marshal_fields :: "tss \<Rightarrow> pb_msg \<Rightarrow> (string \<times> pb_type) list \<Rightarrow> bytes \<Rightarrow> bytes option" where
  "marshal_fields mu cmd [] out = Some out"
| "marshal_fields mu cmd (f # fs) out =
     Option.bind (MarshalCommandField mu cmd f out) (marshal_fields mu cmd fs)"

definition MarshalTPMCommand :: "tss \<Rightarrow> pb_msg \<Rightarrow> bytes \<Rightarrow> bytes option" where
  "MarshalTPMCommand mu cmd = marshal_fields mu cmd (pb_schema (msg_class cmd))"

text \<open>\<open>PatchCommandSize\<close> ignores the result of the marshalling function.\<close>

definition PatchCommandSize :: "tss \<Rightarrow> bytes \<Rightarrow> bytes" where
  "PatchCommandSize mu out =
     (case patch 2 (mu_u32 mu (u32 (int (length out)))) out of None \<Rightarrow> out | Some out \<Rightarrow> out)"

text \<open>\<open>MarshalCommand\<close> on the message that is set in the \<open>oneof\<close> of a \<open>TPMCommand\<close>.\<close>

fun MarshalCommand :: "tss \<Rightarrow> pb_msg \<Rightarrow> bytes option" where
  "MarshalCommand mu (Msg c [(key, PbMsg msg)]) =
     map_option (PatchCommandSize mu) (MarshalTPMCommand mu msg [])"
| "MarshalCommand mu _ = None"

text \<open>A seed's message as the fuzzer executes it: normalised, then marshalled.\<close>

definition harness_command :: "tss \<Rightarrow> string \<times> pb_msg \<Rightarrow> bytes option" where
  "harness_command mu km =
     MarshalCommand mu (Msg PB_TPMCommand [(fst km, PbMsg (post_process (snd km)))])"

subsection \<open>What the marshalling functions write\<close>

definition sized :: "bytes \<Rightarrow> bytes" where
  "sized b = be_bytes 2 (int (length b)) @ b"

definition is_u16 :: "int \<Rightarrow> bool" where "is_u16 v \<longleftrightarrow> 0 \<le> v \<and> v < 65536"
definition is_u32 :: "int \<Rightarrow> bool" where "is_u32 v \<longleftrightarrow> 0 \<le> v \<and> v < 4294967296"

definition sym_def_bytes :: "sym_def_c \<Rightarrow> bytes" where
  "sym_def_bytes s =
     be_bytes 2 (symd_algorithm s) @
     (if symd_algorithm s = TPM_ALG_value ALG_NULL then []
      else be_bytes 2 (symd_key_bits s) @ be_bytes 2 (symd_mode s))"

text \<open>A scheme other than NULL is followed by its details, here a hash algorithm of zero.\<close>

definition scheme_bytes :: "int \<Rightarrow> bytes" where
  "scheme_bytes scheme =
     be_bytes 2 scheme @ (if scheme = TPM_ALG_value ALG_NULL then [] else be_bytes 2 0)"

definition public_bytes :: "public_c \<Rightarrow> bytes" where
  "public_bytes p = sized (
     be_bytes 2 (pc_type p) @ be_bytes 2 (pc_name_alg p) @ be_bytes 4 (pc_attributes p) @
     sized (pc_auth_policy p) @
     (if pc_type p = TPM_ALG_value ALG_RSA
      then sym_def_bytes (pc_symmetric p) @ scheme_bytes (pc_scheme p) @
           be_bytes 2 (pc_key_bits p) @ be_bytes 4 (pc_exponent p)
      else scheme_bytes (pc_scheme p)) @
     sized (pc_unique p))"

definition pcr_selection_bytes :: "pcr_selection_c \<Rightarrow> bytes" where
  "pcr_selection_bytes s =
     be_bytes 2 (pcrs_hash s) @ word_of_int (int (length (pcrs_select s))) # pcrs_select s"

definition nv_public_bytes :: "nv_public_c \<Rightarrow> bytes" where
  "nv_public_bytes p = sized (
     be_bytes 4 (nvc_index p) @ be_bytes 2 (nvc_name_alg p) @ be_bytes 4 (nvc_attributes p) @
     sized (nvc_auth_policy p) @ be_bytes 2 (nvc_data_size p))"

text \<open>The areas whose encoding the laws fix: an RSA key, or a keyed hash, with a known scheme.\<close>

definition public_known :: "public_c \<Rightarrow> bool" where
  "public_known p \<longleftrightarrow>
     (pc_type p = TPM_ALG_value ALG_RSA \<and> pc_scheme p \<in> {TPM_ALG_value ALG_NULL, TPM_ALG_value ALG_RSASSA} \<or>
      pc_type p = TPM_ALG_value ALG_KEYEDHASH \<and>
        pc_scheme p \<in> {TPM_ALG_value ALG_NULL, TPM_ALG_value ALG_HMAC}) \<and>
     length (public_bytes p) < 65538"

definition tss_laws :: "tss \<Rightarrow> bool" where
  "tss_laws mu \<longleftrightarrow>
     (\<forall>v. is_u16 v \<longrightarrow> mu_u16 mu v = Some (be_bytes 2 v)) \<and>
     (\<forall>v. is_u32 v \<longrightarrow> mu_u32 mu v = Some (be_bytes 4 v)) \<and>
     (\<forall>k b. length b \<le> buffer_size mu k \<longrightarrow> mu_tpm2b mu k b = Some (sized b)) \<and>
     (\<forall>s. symd_algorithm s \<in> {TPM_ALG_value ALG_AES, TPM_ALG_value ALG_NULL} \<longrightarrow>
        mu_sym_def mu s = Some (sym_def_bytes s)) \<and>
     (\<forall>a d. length a \<le> buffer_size mu B_AUTH \<longrightarrow> length d \<le> buffer_size mu B_SENSITIVE_DATA \<longrightarrow>
        mu_sensitive mu a d = Some (sized (sized a @ sized d))) \<and>
     (\<forall>p. public_known p \<longrightarrow> mu_public mu p = Some (public_bytes p)) \<and>
     (\<forall>ss. length ss \<le> num_pcr_banks mu \<longrightarrow>
        (\<forall>s\<in>set ss. length (pcrs_select s) \<le> pcr_select_max mu) \<longrightarrow>
        mu_pcr_selection mu ss = Some (be_bytes 4 (int (length ss)) @ concat (map pcr_selection_bytes ss))) \<and>
     (\<forall>p. length (nvc_auth_policy p) \<le> buffer_size mu B_DIGEST \<longrightarrow>
        mu_nv_public mu p = Some (nv_public_bytes p))"

text \<open>One library that keeps the laws, with the buffer sizes of tpm2-tss.\<close>

definition plain_tss :: tss where
  "plain_tss =
     \<lparr>mu_u16 = (\<lambda>v. Some (be_bytes 2 v)), mu_u32 = (\<lambda>v. Some (be_bytes 4 v)),
      mu_tpm2b = (\<lambda>k b. Some (sized b)), mu_sym_def = (\<lambda>s. Some (sym_def_bytes s)),
      mu_sensitive = (\<lambda>a d. Some (sized (sized a @ sized d))),
      mu_public = (\<lambda>p. if public_known p then Some (public_bytes p) else None),
      mu_pcr_selection =
        (\<lambda>ss. Some (be_bytes 4 (int (length ss)) @ concat (map pcr_selection_bytes ss))),
      mu_nv_public = (\<lambda>p. Some (nv_public_bytes p)),
      buffer_size = (\<lambda>k. case k of B_DATA \<Rightarrow> 66 | B_PRIVATE \<Rightarrow> 1024 | B_EVENT \<Rightarrow> 1024
        | B_RSA_KEY \<Rightarrow> 512 | B_AUTH \<Rightarrow> 64 | B_SENSITIVE_DATA \<Rightarrow> 256 | B_DIGEST \<Rightarrow> 64),
      num_pcr_banks = 16, pcr_select_max = 4\<rparr>"

lemma plain_tss_laws: "tss_laws plain_tss"
  by (simp add: tss_laws_def plain_tss_def)

end
