(* ===== verification/Harness_Emit.thy ===== *)
theory Harness_Emit
  imports Harness_Marshal Nv_Pcr_Props
begin

section \<open>What the marshallers of the harness write\<close>

text \<open>
  \<open>emits f b\<close>: the marshaller \<open>f\<close> appends exactly the bytes \<open>b\<close>, as long as they fit the buffer.
  One lemma per marshaller of \<open>proto_conversion.cc\<close>, on the messages that the generator builds: the
  bytes are those that the \<open>to_bytes\<close> method of the same structure wrote.
\<close>

definition emits :: "(bytes \<Rightarrow> bytes option) \<Rightarrow> bytes \<Rightarrow> bool" where
  "emits f b \<longleftrightarrow> (\<forall>out. length out + length b \<le> kMaxBuffer \<longrightarrow> f out = Some (out @ b))"

named_theorems emits_intro \<open>what a marshaller appends\<close>

lemma emits_put [emits_intro]: "enc = Some b \<Longrightarrow> emits (put enc) b"
  by (simp add: emits_def put_def)

lemma emits_done: "emits Some []"
  by (simp add: emits_def)

lemma emits_bind: "emits f a \<Longrightarrow> emits g b \<Longrightarrow> emits (\<lambda>out. Option.bind (f out) g) (a @ b)"
  by (simp add: emits_def)

lemma emits_cong: "emits f a \<Longrightarrow> a = b \<Longrightarrow> emits f b"
  by simp

lemma emitsD: "emits f b \<Longrightarrow> length out + length b \<le> kMaxBuffer \<Longrightarrow> f out = Some (out @ b)"
  by (simp add: emits_def)

lemma u_ranges [simp]:
  "0 \<le> v \<Longrightarrow> v < 256 \<Longrightarrow> u8 v = v"
  "0 \<le> v \<Longrightarrow> v < 65536 \<Longrightarrow> u16 v = v"
  "0 \<le> v \<Longrightarrow> v < 4294967296 \<Longrightarrow> u32 v = v"
  by (simp_all add: u8_def u16_def u32_def)

lemma tss_lawsD:
  assumes "tss_laws mu"
  shows "0 \<le> v \<Longrightarrow> v < 65536 \<Longrightarrow> mu_u16 mu v = Some (be_bytes 2 v)"
    and "0 \<le> v \<Longrightarrow> v < 4294967296 \<Longrightarrow> mu_u32 mu v = Some (be_bytes 4 v)"
    and "length b \<le> buffer_size mu k \<Longrightarrow> mu_tpm2b mu k b = Some (sized b)"
    and "symd_algorithm s \<in> {TPM_ALG_value ALG_AES, TPM_ALG_value ALG_NULL}
      \<Longrightarrow> mu_sym_def mu s = Some (sym_def_bytes s)"
    and "length a \<le> buffer_size mu B_AUTH \<Longrightarrow> length d \<le> buffer_size mu B_SENSITIVE_DATA
      \<Longrightarrow> mu_sensitive mu a d = Some (sized (sized a @ sized d))"
    and "public_known p \<Longrightarrow> mu_public mu p = Some (public_bytes p)"
    and "length ss \<le> num_pcr_banks mu \<Longrightarrow> \<forall>s\<in>set ss. length (pcrs_select s) \<le> pcr_select_max mu
      \<Longrightarrow> mu_pcr_selection mu ss =
        Some (be_bytes 4 (int (length ss)) @ concat (map pcr_selection_bytes ss))"
    and "length (nvc_auth_policy q) \<le> buffer_size mu B_DIGEST
      \<Longrightarrow> mu_nv_public mu q = Some (nv_public_bytes q)"
  using assms unfolding tss_laws_def is_u16_def is_u32_def by blast+

lemma length_sized [simp]: "length (sized b) = 2 + length b"
  by (simp add: sized_def)

subsection \<open>Headers, sized buffers and handles\<close>

lemma emits_header:
  assumes "tss_laws mu" "0 \<le> t" "t < 65536" "0 \<le> sz" "sz < 4294967296" "0 \<le> cc" "cc < 4294967296"
    and "enum_field E_TPMST h ''tag'' = t" "uint_field h ''command_size'' = sz"
      "enum_field E_TPMCC h ''command_code'' = cc"
  shows "emits (MarshalCommandHeader mu h) (be_bytes 2 t @ be_bytes 4 sz @ be_bytes 4 cc)"
  using assms by (simp add: emits_def MarshalCommandHeader_def put_def tss_lawsD)

lemma emits_tpm2b:
  assumes "tss_laws mu" "length (bytes_field m ''buffer'') \<le> buffer_size mu k"
  shows "emits (MarshalTPM2B mu k m) (sized (bytes_field m ''buffer''))"
  using assms by (simp add: MarshalTPM2B_def FillTpm2b_def tss_lawsD emits_put)

lemma emits_digest:
  assumes "tss_laws mu" "length (bytes_field m ''buffer'') < 65536"
  shows "emits (MarshalTPM2BDigest mu m) (sized (bytes_field m ''buffer''))"
  using assms by (simp add: emits_def MarshalTPM2BDigest_def Let_def put_def tss_lawsD sized_def)

lemma emits_marshal_sized:
  "tss_laws mu \<Longrightarrow> length d < 65536 \<Longrightarrow> emits (marshal_sized mu d) (sized d)"
  by (simp add: emits_def marshal_sized_def put_def tss_lawsD sized_def)

subsection \<open>Sessions\<close>

lemma emits_session:
  assumes "tss_laws mu" "AUTH_COMMAND_to_bytes a = Inr b"
    "uint_field m ''session_handle'' = auth_session_handle a" "bytes_field m ''nonce'' = auth_nonce a"
    "uint_field m ''session_attributes'' = auth_session_attributes a"
    "bytes_field m ''hmac'' = auth_hmac a"
  shows "emits (MarshalTPMSession mu m) b"
proof -
  from assms(2) have r: "0 \<le> auth_session_handle a" "auth_session_handle a < 4294967296"
    "length (auth_nonce a) < 65536" "0 \<le> auth_session_attributes a" "auth_session_attributes a < 256"
    "length (auth_hmac a) < 65536"
    and b: "b = be_bytes 4 (auth_session_handle a) @ sized (auth_nonce a) @
      [word_of_int (auth_session_attributes a)] @ sized (auth_hmac a)"
    by (auto simp: AUTH_COMMAND_layout sized_def)
  show ?thesis
    unfolding MarshalTPMSession_def b assms(3-6) u_ranges(1) [OF r(4,5)]
    by (intro emits_bind emits_put emits_marshal_sized assms(1) r refl)
      (simp add: tss_lawsD(2) [OF assms(1)] r)
qed

lemma emits_sessions:
  assumes "tss_laws mu" "joinE AUTH_COMMAND_to_bytes as = Inr b"
    and "list_all2 (\<lambda>a m. uint_field m ''session_handle'' = auth_session_handle a \<and>
      bytes_field m ''nonce'' = auth_nonce a \<and>
      uint_field m ''session_attributes'' = auth_session_attributes a \<and>
      bytes_field m ''hmac'' = auth_hmac a) as ms"
  shows "emits (marshal_sessions mu ms) b"
  using assms(3,2)
proof (induction arbitrary: b rule: list_all2_induct)
  case Nil
  then show ?case by (simp add: emits_def)
next
  case (Cons a as m ms)
  from Cons.prems obtain b1 b2 where b: "AUTH_COMMAND_to_bytes a = Inr b1"
    "joinE AUTH_COMMAND_to_bytes as = Inr b2" "b = b1 @ b2"
    by (auto simp: joinE_Cons result_simps)
  from emits_session [OF assms(1) b(1)] Cons.hyps have "emits (MarshalTPMSession mu m) b1" by blast
  from emits_bind [OF this Cons.IH [OF b(2)]] show ?case by (simp add: b(3))
qed

lemma patch_over:
  "length z = length b \<Longrightarrow> patch (length out) (Some b) (out @ z @ rest) = Some (out @ b @ rest)"
  by (simp add: patch_def)

lemma emits_auth_area:
  assumes "tss_laws mu" "AUTH_AREA_to_bytes area = Inr b"
    and "list_all2 (\<lambda>a m. uint_field m ''session_handle'' = auth_session_handle a \<and>
      bytes_field m ''nonce'' = auth_nonce a \<and>
      uint_field m ''session_attributes'' = auth_session_attributes a \<and>
      bytes_field m ''hmac'' = auth_hmac a) (auth_commands area) (msg_list m f)"
  shows "emits (MarshalRepeatedField mu m f PB_TPMSession) b"
proof -
  from assms(2) obtain bs where bs: "joinE AUTH_COMMAND_to_bytes (auth_commands area) = Inr bs"
    "length bs < 4294967296" and b: "b = be_bytes 4 (int (length bs)) @ bs"
    by (auto simp: AUTH_AREA_layout)
  note s = emitsD [OF emits_sessions [OF assms(1) bs(1) assms(3)]]
  show ?thesis
    unfolding emits_def
  proof (intro allI impI)
    fix out :: bytes
    assume l: "length out + length b \<le> kMaxBuffer"
    have "length (out @ be_bytes 4 0) + length bs \<le> kMaxBuffer" using l b by simp
    note s [OF this]
    moreover have "put (Some (be_bytes 4 0)) out = Some (out @ be_bytes 4 0)"
      using l b by (simp add: put_def)
    moreover have "patch (length out) (Some (be_bytes 4 (int (length bs)))) ((out @ be_bytes 4 0) @ bs) =
        Some (out @ b)"
      using patch_over [of "be_bytes 4 0" "be_bytes 4 (int (length bs))" out bs] b by simp
    ultimately show "MarshalRepeatedField mu m f PB_TPMSession out = Some (out @ b)"
      using bs(2) by (simp add: MarshalRepeatedField_def tss_lawsD [OF assms(1)])
  qed
qed

text \<open>The area with one password session, and the empty one.\<close>

lemma emits_one_session:
  assumes "tss_laws mu" "0 \<le> s" "s < 4294967296" "msg_list m f = [sm]"
    "uint_field sm ''session_handle'' = s" "bytes_field sm ''nonce'' = []"
    "uint_field sm ''session_attributes'' = 0" "bytes_field sm ''hmac'' = []"
  shows "emits (MarshalRepeatedField mu m f PB_TPMSession) (one_session s)"
  by (rule emits_auth_area [OF assms(1), of "\<lparr>auth_commands = [AUTH_COMMAND s]\<rparr>"])
    (use assms in \<open>simp_all add: one_session_layout\<close>, simp_all add: AUTH_COMMAND_def)

lemma emits_no_session:
  assumes "tss_laws mu" "msg_list m f = []"
  shows "emits (MarshalRepeatedField mu m f PB_TPMSession) (be_bytes 4 0)"
  by (rule emits_auth_area [OF assms(1), of "\<lparr>auth_commands = []\<rparr>"])
    (use assms in \<open>simp_all add: AUTH_AREA_layout\<close>)

subsection \<open>Structures\<close>

lemma emits_sensitive:
  assumes "tss_laws mu" "SENSITIVE_CREATE_to_bytes s = Inr i"
    "length (sens_user_auth s) \<le> buffer_size mu B_AUTH"
    "length (sens_data s) \<le> buffer_size mu B_SENSITIVE_DATA"
  shows "emits (MarshalTPM2BSensitiveCreate mu (sensitive_create_msg s)) (sized i)"
proof -
  have i: "i = sized (sens_user_auth s) @ sized (sens_data s)"
    using assms(2) by (simp add: SENSITIVE_CREATE_layout sized_def)
  show ?thesis
    unfolding MarshalTPM2BSensitiveCreate_def Let_def i
    by (rule emits_put)
      (use assms in \<open>simp add: sensitive_create_msg_def msg_sub_def bytes_field_def FillTpm2b_def
        tss_lawsD\<close>)
qed

text \<open>
  The public areas whose message is executed unchanged: no field that the normaliser fills in is
  zero, a symmetric cipher is AES-128 in CFB mode (the message holds neither its key size nor its
  mode), there is no signing scheme, and policy and unique field fit the buffers.
\<close>

definition replayable_public :: "tss \<Rightarrow> TPMT_PUBLIC \<Rightarrow> bool" where
  "replayable_public mu p \<longleftrightarrow>
     alg_to_int (pub_name_alg p) \<noteq> 0 \<and> attrs_to_int (pub_object_attributes p) \<noteq> 0 \<and>
     length (pub_auth_policy p) \<le> buffer_size mu B_DIGEST \<and>
     (if alg_to_int (pub_type p) = TPM_ALG_value ALG_RSA
      then (case pub_rsa_parameters p of None \<Rightarrow> False
            | Some r \<Rightarrow>
                (alg_to_int (sym_algorithm (rsa_symmetric r)) = TPM_ALG_value ALG_NULL \<or>
                 alg_to_int (sym_algorithm (rsa_symmetric r)) = TPM_ALG_value ALG_AES \<and>
                 sym_key_bits (rsa_symmetric r) = 128 \<and>
                 alg_to_int (sym_mode (rsa_symmetric r)) = TPM_ALG_value ALG_CFB) \<and>
                alg_to_int (rsa_scheme r) = TPM_ALG_value ALG_NULL \<and> rsa_key_bits r \<noteq> 0 \<and>
                length (pub_unique p) \<le> buffer_size mu B_RSA_KEY)
      else alg_to_int (kh_scheme (keyedhash_of p)) = TPM_ALG_value ALG_NULL \<and>
           length (pub_unique p) \<le> buffer_size mu B_DIGEST)"

lemma replayable_plain: "replayable_public mu p \<Longrightarrow> plain_scheme p"
  by (auto simp: replayable_public_def plain_scheme_def keyedhash_of_def split: option.splits if_splits)

text \<open>The structure that the harness fills from the normalised message.\<close>

definition public_struct :: "TPMT_PUBLIC \<Rightarrow> public_c" where
  "public_struct p =
     (if alg_to_int (pub_type p) = 1
      then (let r = the (pub_rsa_parameters p); a = alg_to_int (sym_algorithm (rsa_symmetric r))
        in \<lparr>pc_type = 1, pc_name_alg = alg_to_int (pub_name_alg p),
            pc_attributes = attrs_to_int (pub_object_attributes p),
            pc_auth_policy = pub_auth_policy p,
            pc_symmetric = \<lparr>symd_algorithm = a, symd_key_bits = if a = 16 then 0 else 128,
              symd_mode = if a = 16 then 0 else TPM_ALG_value ALG_CFB\<rparr>,
            pc_scheme = 16, pc_key_bits = rsa_key_bits r, pc_exponent = rsa_exponent r,
            pc_unique = pub_unique p\<rparr>)
      else \<lparr>pc_type = 8, pc_name_alg = alg_to_int (pub_name_alg p),
            pc_attributes = attrs_to_int (pub_object_attributes p),
            pc_auth_policy = pub_auth_policy p,
            pc_symmetric = \<lparr>symd_algorithm = 0, symd_key_bits = 0, symd_mode = 0\<rparr>,
            pc_scheme = 16, pc_key_bits = 0, pc_exponent = 0, pc_unique = pub_unique p\<rparr>)"

lemma public_struct_bytes:
  assumes "PUBLIC_to_bytes p = Inr j" "replayable_public mu p"
  shows "public_bytes (public_struct p) = sized j"
proof (cases "alg_to_int (pub_type p) = 1")
  case True
  with assms show ?thesis
    by (auto simp: PUBLIC_layout RSA_PARMS_layout SYM_DEF_layout replayable_public_def
        public_struct_def public_bytes_def sym_def_bytes_def scheme_bytes_def sized_def Let_def
        scheme_suffix_def split: option.splits)
next
  case False
  with assms show ?thesis
    by (auto simp: PUBLIC_layout KEYEDHASH_PARMS_layout replayable_public_def keyedhash_of_def
        public_struct_def public_bytes_def scheme_bytes_def sized_def scheme_suffix_def
        split: option.splits)
qed

definition normalised_public :: "int \<Rightarrow> pb_msg \<Rightarrow> pb_msg" where
  "normalised_public oa =
     mutate PB_TPMTPublic ''public_area'' (NormalizeRsaOrKeyedHashPublic oa)"

lemmas accessors =
  has_field_def uint_field_def enum_field_def bytes_field_def msg_sub_def msg_list_def mutate_def

lemmas normalisers =
  normalised_public_def NormalizeRsaOrKeyedHashPublic_def default_uint_def default_enum_def
  normalize_parameters_def normalize_rsa_def normalize_keyedhash_def

text \<open>The area with the numbers the messages hold, before and after normalisation.\<close>

definition area_msg :: "int \<Rightarrow> int \<Rightarrow> int \<Rightarrow> bytes \<Rightarrow> pb_msg \<Rightarrow> pb_kwargs \<Rightarrow> pb_msg" where
  "area_msg t n a pol parms u =
     Msg PB_TPMTPublic
       [(''type'', PbInt t), (''name_alg'', PbInt n), (''object_attributes'', PbInt a),
        (''auth_policy'', PbMsg (digest_msg pol)), (''parameters'', PbMsg parms),
        (''unique'', PbMsg (Msg PB_TPMUPublicId u))]"

definition rsa_msg :: "int \<Rightarrow> int \<Rightarrow> int \<Rightarrow> int \<Rightarrow> pb_kwargs \<Rightarrow> pb_msg" where
  "rsa_msg y sch kb ex extra =
     Msg PB_TPMUPublicParms [(''rsa'', PbMsg (Msg PB_TPMSRSAParms
       ([(''symmetric'', PbInt y), (''scheme'', PbInt sch), (''key_bits'', PbInt kb),
         (''exponent'', PbInt ex)] @ extra)))]"

definition keyed_msg :: "int \<Rightarrow> pb_msg" where
  "keyed_msg sch =
     Msg PB_TPMUPublicParms [(''keyedhash'', PbMsg (Msg PB_TPMSKeyedHashParms [(''scheme'', PbInt sch)]))]"

lemma normalise_rsa_msg:
  "y \<noteq> 0 \<Longrightarrow> sch \<noteq> 0 \<Longrightarrow> kb \<noteq> 0 \<Longrightarrow>
     mutate PB_TPMSRSAParms ''rsa'' normalize_rsa (rsa_msg y sch kb ex []) =
     rsa_msg y sch kb ex [(''symmetric_key_bits'', PbInt 128)]"
  by (simp add: rsa_msg_def normalize_rsa_def default_uint_def default_enum_def accessors)

lemma normalise_rsa_area:
  "n \<noteq> 0 \<Longrightarrow> a \<noteq> 0 \<Longrightarrow> y \<noteq> 0 \<Longrightarrow> sch \<noteq> 0 \<Longrightarrow> kb \<noteq> 0 \<Longrightarrow>
     NormalizeRsaOrKeyedHashPublic oa (area_msg 1 n a pol (rsa_msg y sch kb ex []) u) =
     area_msg 1 n a pol (rsa_msg y sch kb ex [(''symmetric_key_bits'', PbInt 128)]) u"
proof -
  assume r: "n \<noteq> 0" "a \<noteq> 0" "y \<noteq> 0" "sch \<noteq> 0" "kb \<noteq> 0"
  let ?m = "area_msg 1 n a pol (rsa_msg y sch kb ex []) u"
  have parms: "msg_sub PB_TPMUPublicParms ?m ''parameters'' = rsa_msg y sch kb ex []"
    by (simp add: area_msg_def accessors)
  have h: "has_field (rsa_msg y sch kb ex []) ''rsa''" "\<not> has_field (rsa_msg y sch kb ex []) ''keyedhash''"
    by (simp_all add: rsa_msg_def accessors)
  have "mutate PB_TPMUPublicParms ''parameters'' (mutate PB_TPMSRSAParms ''rsa'' normalize_rsa) ?m =
      area_msg 1 n a pol (rsa_msg y sch kb ex [(''symmetric_key_bits'', PbInt 128)]) u"
    unfolding mutate_def [of PB_TPMUPublicParms] parms normalise_rsa_msg [OF r(3-5)]
    by (simp add: area_msg_def)
  then have "normalize_parameters ?m =
      area_msg 1 n a pol (rsa_msg y sch kb ex [(''symmetric_key_bits'', PbInt 128)]) u"
    using h by (simp add: normalize_parameters_def Let_def parms) (simp add: area_msg_def)
  then show ?thesis
    using r by (simp add: NormalizeRsaOrKeyedHashPublic_def default_uint_def default_enum_def
        area_msg_def accessors)
qed

lemma normalise_keyed_area:
  "n \<noteq> 0 \<Longrightarrow> a \<noteq> 0 \<Longrightarrow> sch \<noteq> 0 \<Longrightarrow>
     NormalizeRsaOrKeyedHashPublic oa (area_msg 8 n a pol (keyed_msg sch) u) =
     area_msg 8 n a pol (keyed_msg sch) u"
  by (simp add: normalisers area_msg_def keyed_msg_def accessors Let_def)

lemma fill_area:
  assumes "0 \<le> n" "n < 65536" "length pol \<le> buffer_size mu B_DIGEST" and m: "m = area_msg t n a pol parms u"
  shows "enum_field E_TPMALG m ''name_alg'' = n" "uint_field m ''object_attributes'' = a"
    "FillTpm2b mu B_DIGEST (bytes_field (msg_sub PB_TPM2BDigest m ''auth_policy'') ''buffer'') = pol"
    "has_field m ''parameters''" "msg_sub PB_TPMUPublicParms m ''parameters'' = parms"
    "has_field m ''unique''" "msg_sub PB_TPMUPublicId m ''unique'' = Msg PB_TPMUPublicId u"
  using assms by (simp_all add: area_msg_def accessors FillTpm2b_def digest_msg_def)

lemma fill_rsa_parms:
  assumes "y \<in> {6, 16}" "0 \<le> kb" "kb < 65536"
  shows "fill_parameters (area_msg 1 n a pol (rsa_msg y 16 kb ex [(''symmetric_key_bits'', PbInt 128)]) u) pc =
     pc\<lparr>pc_type := 1,
        pc_symmetric := \<lparr>symd_algorithm = y, symd_key_bits = if y = 16 then 0 else 128,
          symd_mode = if y = 16 then 0 else TPM_ALG_value ALG_CFB\<rparr>,
        pc_scheme := 16, pc_key_bits := kb, pc_exponent := ex\<rparr>"
  using assms by (auto simp: fill_parameters_def fill_rsa_def area_msg_def rsa_msg_def accessors Let_def)

lemma fill_keyed_parms:
  "fill_parameters (area_msg 8 n a pol (keyed_msg 16) u) pc = pc\<lparr>pc_type := 8, pc_scheme := 16\<rparr>"
  by (simp add: fill_parameters_def fill_keyedhash_def area_msg_def keyed_msg_def accessors Let_def)

lemma public_view_area:
  "alg_to_int (pub_type p) = 1 \<Longrightarrow> pub_rsa_parameters p = Some r \<Longrightarrow>
     msg_sub PB_TPMTPublic (public_view p sz) ''public_area'' =
     area_msg 1 (alg_to_int (pub_name_alg p)) (attrs_to_int (pub_object_attributes p)) (pub_auth_policy p)
       (rsa_msg (alg_to_int (sym_algorithm (rsa_symmetric r))) (alg_to_int (rsa_scheme r))
          (rsa_key_bits r) (rsa_exponent r) [])
       [(''rsa'', PbBytes (pub_unique p))]"
  "alg_to_int (pub_type p) = 8 \<Longrightarrow>
     msg_sub PB_TPMTPublic (public_view p sz) ''public_area'' =
     area_msg 8 (alg_to_int (pub_name_alg p)) (attrs_to_int (pub_object_attributes p)) (pub_auth_policy p)
       (keyed_msg (alg_to_int (kh_scheme (keyedhash_of p))))
       [(''keyedhash'', PbMsg (digest_msg (pub_unique p)))]"
  by (simp_all add: public_view_def rsa_public_msg_def keyedhash_public_msg_def public_msg_def
      rsa_parms_msg_def area_msg_def rsa_msg_def keyed_msg_def msg_sub_def)

lemma normalised_public_area:
  assumes "PUBLIC_to_bytes p = Inr j" "replayable_public mu p"
    and pa_def: "pa = msg_sub PB_TPMTPublic (normalised_public oa (public_view p sz)) ''public_area''"
  shows "has_field (normalised_public oa (public_view p sz)) ''public_area''"
    and "fill_unique mu pa (fill_parameters pa
           (zero_public\<lparr>pc_name_alg := u16 (enum_field E_TPMALG pa ''name_alg''),
              pc_attributes := uint_field pa ''object_attributes'',
              pc_auth_policy := FillTpm2b mu B_DIGEST
                (bytes_field (msg_sub PB_TPM2BDigest pa ''auth_policy'') ''buffer'')\<rparr>)) =
         public_struct p"
proof -
  let ?n = "alg_to_int (pub_name_alg p)" and ?a = "attrs_to_int (pub_object_attributes p)"
    and ?pol = "pub_auth_policy p" and ?u = "pub_unique p"
  show "has_field (normalised_public oa (public_view p sz)) ''public_area''"
    by (simp add: normalised_public_def mutate_def accessors_set)
  have pa: "pa = NormalizeRsaOrKeyedHashPublic oa
      (msg_sub PB_TPMTPublic (public_view p sz) ''public_area'')"
    by (simp add: pa_def normalised_public_def mutate_def accessors_set)
  have r: "?n \<noteq> 0" "?a \<noteq> 0" and f: "0 \<le> ?n" "?n < 65536" "length ?pol \<le> buffer_size mu B_DIGEST"
    using assms(1,2) by (simp_all add: PUBLIC_layout replayable_public_def)
  show "fill_unique mu pa (fill_parameters pa
           (zero_public\<lparr>pc_name_alg := u16 (enum_field E_TPMALG pa ''name_alg''),
              pc_attributes := uint_field pa ''object_attributes'',
              pc_auth_policy := FillTpm2b mu B_DIGEST
                (bytes_field (msg_sub PB_TPM2BDigest pa ''auth_policy'') ''buffer'')\<rparr>)) =
         public_struct p"
  proof (cases "alg_to_int (pub_type p) = 1")
    case True
    with assms(1,2) obtain r where k: "pub_rsa_parameters p = Some r" "rsa_key_bits r \<noteq> 0"
      "0 \<le> rsa_key_bits r" "rsa_key_bits r < 65536" "alg_to_int (rsa_scheme r) = 16"
      "alg_to_int (sym_algorithm (rsa_symmetric r)) \<in> {6, 16}" "length ?u \<le> buffer_size mu B_RSA_KEY"
      by (auto simp: PUBLIC_layout RSA_PARMS_layout replayable_public_def)
    let ?y = "alg_to_int (sym_algorithm (rsa_symmetric r))"
    have pa': "pa = area_msg 1 ?n ?a ?pol (rsa_msg ?y 16 (rsa_key_bits r) (rsa_exponent r)
        [(''symmetric_key_bits'', PbInt 128)]) [(''rsa'', PbBytes ?u)]"
      unfolding pa public_view_area(1) [OF True k(1)] k(5)
      by (rule normalise_rsa_area [OF r]) (use k in auto)
    show ?thesis
      unfolding fill_area [OF f pa'] unfolding pa' fill_rsa_parms [OF k(6,3,4)]
      unfolding fill_unique_def fill_area [OF f refl]
      using k(1,7) True f
      by (simp add: public_struct_def Let_def has_field_def bytes_field_def FillTpm2b_def zero_public_def
          area_msg_def)
  next
    case False
    with assms(1,2) have k: "alg_to_int (pub_type p) = 8" "alg_to_int (kh_scheme (keyedhash_of p)) = 16"
      "length ?u \<le> buffer_size mu B_DIGEST"
      by (auto simp: PUBLIC_layout replayable_public_def)
    have pa': "pa = area_msg 8 ?n ?a ?pol (keyed_msg 16) [(''keyedhash'', PbMsg (digest_msg ?u))]"
      unfolding pa public_view_area(2) [OF k(1)] k(2)
      by (rule normalise_keyed_area [OF r]) simp
    show ?thesis
      unfolding fill_area [OF f pa'] unfolding pa' fill_keyed_parms
      unfolding fill_unique_def fill_area [OF f refl]
      using k f by (simp add: public_struct_def Let_def has_field_def bytes_field_def msg_sub_def
          digest_msg_def FillTpm2b_def zero_public_def area_msg_def)
  qed
qed

lemma emits_public:
  assumes "tss_laws mu" "PUBLIC_to_bytes p = Inr j" "length j < 65536" "replayable_public mu p"
  shows "emits (MarshalTPM2BPublic mu (normalised_public oa (public_view p n))) (sized j)"
proof -
  note b = public_struct_bytes [OF assms(2,4)]
  have "public_known (public_struct p)"
    using assms(3) b by (simp add: public_known_def) (simp add: public_struct_def Let_def)
  then have "mu_public mu (public_struct p) = Some (sized j)"
    using tss_lawsD(6) [OF assms(1)] b by simp
  then show ?thesis
    using normalised_public_area [OF assms(2,4)]
    by (simp add: MarshalTPM2BPublic_def Let_def emits_put)
qed

text \<open>PCR selections and the public area of an NV index.\<close>

definition pcrs_fit :: "tss \<Rightarrow> TPML_PCR_SELECTION \<Rightarrow> bool" where
  "pcrs_fit mu l \<longleftrightarrow>
     length (selections l) \<le> num_pcr_banks mu \<and>
     list_all (\<lambda>s. length (pcr_select s) \<le> pcr_select_max mu) (selections l)"

lemma fill_pcr_selection_msg:
  assumes "PCR_SELECTION_to_bytes s = Inr b" "length (pcr_select s) \<le> pcr_select_max mu"
  shows "fill_pcr_selection mu (pcr_selection_msg s) =
      \<lparr>pcrs_hash = alg_to_int (pcr_hash s), pcrs_select = pcr_select s\<rparr>"
    and "pcr_selection_bytes (fill_pcr_selection mu (pcr_selection_msg s)) = b"
proof -
  show f: "fill_pcr_selection mu (pcr_selection_msg s) =
      \<lparr>pcrs_hash = alg_to_int (pcr_hash s), pcrs_select = pcr_select s\<rparr>"
    using assms by (simp add: PCR_SELECTION_layout fill_pcr_selection_def pcr_selection_msg_def
        accessors Let_def)
  show "pcr_selection_bytes (fill_pcr_selection mu (pcr_selection_msg s)) = b"
    using assms(1) by (simp add: f pcr_selection_bytes_def PCR_SELECTION_layout)
qed

lemma pcr_bytes_joined:
  assumes "joinE PCR_SELECTION_to_bytes ss = Inr b" "\<forall>s\<in>set ss. length (pcr_select s) \<le> pcr_select_max mu"
  shows "concat (map (\<lambda>s. pcr_selection_bytes (fill_pcr_selection mu (pcr_selection_msg s))) ss) = b"
  using assms
proof (induction ss arbitrary: b)
  case (Cons s ss)
  from Cons.prems(1) obtain b1 b2 where "PCR_SELECTION_to_bytes s = Inr b1"
    "joinE PCR_SELECTION_to_bytes ss = Inr b2" "b = b1 @ b2"
    by (auto simp: joinE_Cons result_simps)
  with Cons show ?case by (simp add: fill_pcr_selection_msg(2))
qed simp

lemma joinE_elem: "joinE f xs = Inr b \<Longrightarrow> x \<in> set xs \<Longrightarrow> \<exists>c. f x = Inr c"
proof (induction xs arbitrary: b)
  case (Cons y ys)
  then show ?case by (auto simp: joinE_Cons result_simps)
qed simp

lemma emits_pcr_list:
  assumes "tss_laws mu" "TPML_PCR_SELECTION_to_bytes l = Inr b" "pcrs_fit mu l"
  shows "emits (MarshalTPMLPCRSelection mu (pcr_list_msg l)) b"
proof -
  let ?ss = "map (fill_pcr_selection mu) (map pcr_selection_msg (selections l))"
  from assms(2) obtain bs where j: "joinE PCR_SELECTION_to_bytes (selections l) = Inr bs"
    and b: "b = be_bytes 4 (int (length (selections l))) @ bs"
    by (auto simp: TPML_PCR_SELECTION_layout)
  have fit: "length (selections l) \<le> num_pcr_banks mu"
    "\<forall>s\<in>set (selections l). length (pcr_select s) \<le> pcr_select_max mu"
    using assms(3) by (simp_all add: pcrs_fit_def list_all_iff)
  have sel: "\<forall>s\<in>set ?ss. length (pcrs_select s) \<le> pcr_select_max mu"
    using fit(2) joinE_elem [OF j] fill_pcr_selection_msg(1) by fastforce
  have "mu_pcr_selection mu ?ss = Some (be_bytes 4 (int (length ?ss)) @ concat (map pcr_selection_bytes ?ss))"
    by (rule tss_lawsD(7) [OF assms(1) _ sel]) (simp add: fit)
  moreover have "map pcr_selection_bytes ?ss =
      map (\<lambda>s. pcr_selection_bytes (fill_pcr_selection mu (pcr_selection_msg s))) (selections l)"
    by simp
  ultimately have "mu_pcr_selection mu ?ss = Some b"
    using pcr_bytes_joined [OF j fit(2)] b by (simp only: length_map)
  moreover have "msg_list (pcr_list_msg l) ''pcr_selections'' = map pcr_selection_msg (selections l)"
    by (simp add: pcr_list_msg_def accessors)
  ultimately show ?thesis
    using fit(1) by (simp add: MarshalTPMLPCRSelection_def emits_put)
qed

lemma emits_nv_public:
  assumes "tss_laws mu" "0 \<le> ix" "ix < 4294967296" "0 \<le> sz" "sz < 65536"
  shows "emits (MarshalTPMNvPublic mu (nv_public_msg ix attrs sz))
    (sized (be_bytes 4 ix @ be_bytes 2 11 @ be_bytes 4 (nv_attrs_to_int attrs) @ sized [] @ be_bytes 2 sz))"
  unfolding MarshalTPMNvPublic_def
  by (rule emits_put)
    (use assms in \<open>simp add: tss_lawsD nv_public_bytes_def nv_public_msg_def accessors enum_number_def
      enum_names_def TPMALG_names_def FillTpm2b_def\<close>)

subsection \<open>Whole commands\<close>

lemma command_field_simps:
  "MarshalCommandField mu m (f, T_msg c) = MarshalMessageField mu (msg_sub c m f)"
  "MarshalCommandField mu m (f, T_rep c) = MarshalRepeatedField mu m f c"
  "MarshalCommandField mu m (f, T_bytes) = put (Some (bytes_field m f))"
  "f \<noteq> ''bytes_requested'' \<Longrightarrow>
     MarshalCommandField mu m (f, T_uint32) = put (mu_u32 mu (uint_field m f))"
  "e \<noteq> E_TPMSE \<Longrightarrow> e \<noteq> E_TPMALG \<Longrightarrow>
     MarshalCommandField mu m (f, T_enum e) = put (mu_u32 mu (u32 (enum_field e m f)))"
  "MarshalCommandField mu m (f, T_enum E_TPMALG) = put (mu_u16 mu (u16 (enum_field E_TPMALG m f)))"
  "MarshalCommandField mu m (f, T_enum E_TPMSE) = put (Some [word_of_int (u8 (enum_field E_TPMSE m f))])"
  by (simp_all add: MarshalCommandField_def Let_def fun_eq_iff)

lemma emits_fields:
  "emits (marshal_fields mu m []) []"
  "emits (MarshalCommandField mu m f) a \<Longrightarrow> emits (marshal_fields mu m fs) b
    \<Longrightarrow> emits (marshal_fields mu m (f # fs)) (a @ b)"
  by (simp_all add: emits_def)

lemma harness_command_writes:
  assumes "tss_laws mu" and m': "post_process m = m'"
    and schema: "pb_schema (msg_class m') = (''header'', T_msg PB_TPMHeader) # fs"
    and h: "msg_sub PB_TPMHeader m' ''header'' = h" "msg_class h = PB_TPMHeader"
      "enum_field E_TPMST h ''tag'' = t" "enum_field E_TPMCC h ''command_code'' = cc"
    and r: "0 \<le> t" "t < 65536" "0 \<le> uint_field h ''command_size''"
      "uint_field h ''command_size'' < 4294967296" "0 \<le> cc" "cc < 4294967296"
    and fs: "emits (marshal_fields mu m' fs) ps" "length ps + 10 \<le> kMaxBuffer"
  shows "harness_command mu (key, m) =
    Some (be_bytes 2 t @ be_bytes 4 (10 + int (length ps)) @ be_bytes 4 cc @ ps)"
proof -
  let ?sz = "uint_field h ''command_size''"
  let ?hd = "be_bytes 2 t @ be_bytes 4 ?sz @ be_bytes 4 cc"
  have "emits (MarshalCommandHeader mu h) ?hd"
    by (rule emits_header [OF assms(1) r]) (use h in simp_all)
  then have "emits (MarshalCommandField mu m' (''header'', T_msg PB_TPMHeader)) ?hd"
    using h by (simp add: command_field_simps MarshalMessageField_def)
  from emitsD [OF emits_fields(2) [OF this fs(1)], of "[]"]
  have w: "MarshalTPMCommand mu m' [] = Some (?hd @ ps)"
    using fs(2) by (simp add: MarshalTPMCommand_def schema)
  have "10 + int (length ps) < 4294967296" using fs(2) by (simp add: kMaxBuffer_def)
  then have "PatchCommandSize mu (?hd @ ps) =
      be_bytes 2 t @ be_bytes 4 (10 + int (length ps)) @ be_bytes 4 cc @ ps"
    by (simp add: PatchCommandSize_def tss_lawsD(2) [OF assms(1)] patch_def)
  then show ?thesis using w m' by (simp add: harness_command_def)
qed

lemma command_bytes_init:
  assumes "length ps + 10 \<le> kMaxBuffer"
  shows "command_bytes (TPMCommand_init (TPM_ST st) (TPM_CC cc) ps x) =
    Inr (be_bytes 2 (TPM_ST st) @ be_bytes 4 (10 + int (length ps)) @ be_bytes 4 (TPM_CC cc) @ ps)"
  using assms TPM_ST_range [of st] TPM_CC_range [of cc]
  by (simp add: command_bytes_def TPMCommand_init_def command_size_def ST_LEN_def CC_LEN_def
      SIZE_LEN_def kMaxBuffer_def to_bytes_ok)

end
