(* ===== verification/Message_Props.thy ===== *)
theory Message_Props
  imports Nv_Pcr_Props Byte_Parser
begin

section \<open>Bytes and messages of a command agree\<close>

text \<open>
  The properties of the command layer: what is written can be read back, and where the code reads
  something else. \<open>field_at\<close> follows a path of field names through a message.
\<close>

fun field_at :: "pb_msg \<Rightarrow> string list \<Rightarrow> pb_value option" where
  "field_at m [] = Some (PbMsg m)"
| "field_at m (f # fs) =
     (case msg_field m f of
        None \<Rightarrow> None
      | Some v \<Rightarrow> if fs = [] then Some v
          else (case v of PbMsg n \<Rightarrow> field_at n fs | _ \<Rightarrow> None))"

subsection \<open>Commands\<close>

text \<open>
  C33: \<open>bytes(command)\<close> is tag, size, code and parameters, and the size field is the length of
  the whole; it raises \<open>OverflowError\<close>, and nothing else, when one of them does not fit.
\<close>

theorem command_serialisation:
  "command_bytes c =
     (if 0 \<le> cmd_tag c \<and> cmd_tag c < 65536 \<and> 0 \<le> cmd_cc c \<and> cmd_cc c < 4294967296 \<and>
         10 + length (cmd_params c) < 4294967296
      then Inr (be_bytes 2 (cmd_tag c) @ be_bytes 4 (int (length (command_layout c))) @
             be_bytes 4 (cmd_cc c) @ cmd_params c)
      else Inl OverflowError)"
proof (cases "command_bytes c")
  case (Inl e)
  then have "e = OverflowError"
    by (auto simp: command_bytes_def bindE_eq_Inl to_bytes_Inl)
  then show ?thesis using Inl command_bytes_layout [of c "command_layout c"] by auto
next
  case (Inr b)
  then have ok: "0 \<le> cmd_tag c \<and> cmd_tag c < 65536 \<and> 0 \<le> cmd_cc c \<and> cmd_cc c < 4294967296 \<and>
      10 + length (cmd_params c) < 4294967296" and b: "b = command_layout c"
    by (simp_all add: command_bytes_layout)
  have "command_layout c = be_bytes 2 (cmd_tag c) @ be_bytes 4 (int (length (command_layout c))) @
      be_bytes 4 (cmd_cc c) @ cmd_params c"
    by (subst command_layout_def) (simp only: command_size_length)
  then show ?thesis by (simp only: ok if_True Inr b simp_thms)
qed

text \<open>
  C34: the harness recovers a sequence from its bytes. For every sequence that serialises,
  \<open>parseCommands\<close> accepts the bytes and returns one buffer per command, in order, each the
  serialisation of that command alone.
\<close>

theorem serialised_sequence_splits:
  assumes "joinE command_bytes cs = Inr b"
  shows "\<exists>frames. parseCommands b = (True, frames) \<and> mapE command_bytes cs = Inr frames"
proof -
  from assms obtain frames where f: "mapE command_bytes cs = Inr frames"
    by (auto simp: joinE_def result_simps)
  have "frames = map command_layout cs"
    by (rule nth_equalityI)
      (use mapE_length [OF f] mapE_nth [OF f] in \<open>auto simp: command_bytes_layout\<close>)
  then show ?thesis using parse_serialized [OF assms] f by simp
qed

lemma serialised_sequence_splits_witness:
  "\<exists>frames. parseCommands [0x80, 1, 0, 0, 0, 10, 0, 0, 1, 0x81] = (True, frames) \<and>
    mapE command_bytes [\<lparr>cmd_tag = 0x8001, cmd_cc = 0x181, cmd_params = [], cmd_self = Plain\<rparr>] =
      Inr frames"
  by (rule serialised_sequence_splits) code_simp

lemma parse_from_prefix:
  assumes "joinE command_bytes cs = Inr b" "at_cursor data i (b @ rest)"
  shows "parse_from data i acc = parse_from data (i + length b) (acc @ map command_layout cs)"
  using assms
proof (induction cs arbitrary: b i acc)
  case (Cons c cs)
  from Cons.prems(1) obtain a b' where ab: "command_bytes c = Inr a" "joinE command_bytes cs = Inr b'"
    "b = a @ b'" by (auto simp: joinE_Cons result_simps)
  have at: "at_cursor data i (a @ (b' @ rest))" using Cons.prems(2) ab by simp
  have "frame_at data i = Some (command_layout c, i + length a)"
    using frame_dec_command [OF ab(1) at] by (simp add: frame_dec_def split: option.splits)
  moreover have "i < length data"
    using frame.enc_nonempty [of c] ab(1) at_cursor_length [OF at] by (cases a) auto
  moreover have "parse_from data (i + length a) (acc @ [command_layout c]) =
      parse_from data (i + length a + length b') ((acc @ [command_layout c]) @ map command_layout cs)"
    using Cons.IH [OF ab(2) at_cursor_skip [OF at refl]] .
  ultimately show ?case
    using ab(3) by (subst parse_from.simps) (simp add: add.assoc)
qed simp

lemma frame_at_cut:
  assumes "command_bytes c = Inr b" "b = tail @ missing" "missing \<noteq> []" "at_cursor data i tail"
  shows "frame_at data i = None"
proof (cases "10 \<le> length tail")
  case True
  let ?n = "length (command_layout c)"
  from assms(1) have b: "b = command_layout c" and l: "?n < 4294967296"
    by (auto simp: command_bytes_layout command_layout_def)
  have "take 4 (drop 2 tail) = take 4 (drop 2 (tail @ missing))" using True by simp
  also have "\<dots> = be_bytes 4 (command_size c)"
    using assms(2) by (simp add: b [unfolded assms(2)] command_layout_def)
  finally have "from_bytes (take 4 (drop 2 tail)) = int ?n"
    using l by (simp add: command_size_length byte_simps)
  moreover have "py_slice data (i + 2) (i + 2 + 4) = take 4 (drop 2 tail)"
    using slice_at_cursor [OF at_cursor_skip [of data i "take 2 tail" "drop 2 tail" 2], of 4]
      assms(4) True by simp
  moreover have "length data < i + ?n"
    using at_cursor_length [OF assms(4)] assms(2,3) b by (metis add_strict_left_mono append_eq_conv_conj
        length_append length_greater_0_conv less_add_same_cancel1)
  ultimately show ?thesis by (simp add: frame_at_def Let_def)
next
  case False
  then show ?thesis using at_cursor_length [OF assms(4)] by (simp add: frame_at_def)
qed

text \<open>
  C35: a seed cut inside a command is rejected, with the complete commands before the cut. The
  rest \<open>tail\<close> is any non-empty proper prefix of the serialisation of the next command.
\<close>

theorem cut_sequence_is_rejected:
  assumes "joinE command_bytes cs = Inr b" "command_bytes c = Inr (tail @ missing)"
    and "tail \<noteq> []" "missing \<noteq> []"
  shows "parseCommands (b @ tail) = (False, map command_layout cs)"
proof -
  have "parseCommands (b @ tail) = parse_from (b @ tail) (length b) (map command_layout cs)"
    using parse_from_prefix [OF assms(1), of "b @ tail" 0 tail "[]"] by (simp add: parseCommands_def)
  moreover have "frame_at (b @ tail) (length b) = None"
    by (rule frame_at_cut [OF assms(2) refl assms(4) at_cursor_append])
  ultimately show ?thesis using assms(3) by (simp add: parse_from.simps [of "b @ tail" "length b"])
qed

lemma cut_sequence_is_rejected_witness:
  "parseCommands ([] @ [0x80, 1, 0]) = (False, map command_layout [])"
proof -
  have "command_bytes \<lparr>cmd_tag = 0x8001, cmd_cc = 0x181, cmd_params = [], cmd_self = Plain\<rparr> =
      Inr ([0x80, 1, 0] @ [0, 0, 10, 0, 0, 1, 0x81])" by code_simp
  from cut_sequence_is_rejected [OF joinE_Nil this] show ?thesis by simp
qed

text \<open>
  C40: a list of attributes is a set of bits. The integer written for it has bit \<open>n\<close> exactly when
  a member of the list is that bit, so order and repetition do not matter, and it fits 32 bits.
\<close>

theorem attribute_lists_are_bit_sets:
  "(bit (attrs_to_int (AttrsList as)) n \<longleftrightarrow> (\<exists>a\<in>set as. TPMA_OBJECT_value a = 2 ^ n)) \<and>
   (bit (nv_attrs_to_int (NvList bs)) n \<longleftrightarrow> (\<exists>b\<in>set bs. TPMA_NV_value b = 2 ^ n)) \<and>
   attrs_to_int (AttrsList as) \<in> {0..<2 ^ 32} \<and> nv_attrs_to_int (NvList bs) \<in> {0..<2 ^ 32}"
  using attrs_list_range [of as] nv_attrs_list_range [of bs]
  by (simp add: foldl_or_bit TPMA_OBJECT_single_bit TPMA_NV_single_bit)

text \<open>The runtime and the structures of the concrete instances below.\<close>

abbreviation rt0 :: pb_runtime where "rt0 \<equiv> plain_runtime (\<lambda>_. [])"

definition rsa_area :: "alg_arg \<Rightarrow> alg_arg option \<Rightarrow> TPM2B_PUBLIC" where
  "rsa_area scheme h =
     \<lparr>public_area = (PUBLIC_default (AlgEnum ALG_RSA))\<lparr>pub_rsa_parameters :=
        Some (RSA_PARMS_default\<lparr>rsa_scheme := scheme, rsa_scheme_hash := h\<rparr>)\<rparr>\<rparr>"

definition hmac_key_area :: TPM2B_PUBLIC where
  "hmac_key_area =
     \<lparr>public_area = (PUBLIC_default (AlgEnum ALG_KEYEDHASH))
        \<lparr>pub_unique := [1, 2, 3], pub_keyedhash_scheme :=
           Some \<lparr>kh_scheme = AlgEnum ALG_HMAC, kh_hash_alg = Some (AlgEnum ALG_SHA1)\<rparr>\<rparr>\<rparr>"

definition two_sessions :: TPM_AUTH_AREA where
  "two_sessions = \<lparr>auth_commands = [AUTH_COMMAND 0x40000009,
     \<lparr>auth_session_handle = 0x02000000, auth_nonce = [7], auth_session_attributes = 1,
      auth_hmac = [8, 9]\<rparr>]\<rparr>"

lemma serialises: "is_ok m \<Longrightarrow> (\<And>b. m = Inr b \<Longrightarrow> P b) \<Longrightarrow> \<exists>b. m = Inr b \<and> P b"
  by (auto simp: is_ok_ex)

subsection \<open>Round trips of the structures\<close>

text \<open>
  C31: an authorization area reads back. \<open>_proto_sessions\<close> returns one message for each
  session of the area it was serialised from, in order, with the session's handle, nonce,
  attributes and hmac.
\<close>

theorem sessions_round_trip:
  assumes "pb_laws rt" "AUTH_AREA_to_bytes a = Inr b"
  shows "proto_sessions rt b = Inr (map (\<lambda>s. Msg PB_TPMSession
      [(''session_handle'', PbInt (auth_session_handle s)),
       (''nonce_size'', PbInt (int (length (auth_nonce s)))), (''nonce'', PbBytes (auth_nonce s)),
       (''session_attributes'', PbInt (auth_session_attributes s)),
       (''hmac_size'', PbInt (int (length (auth_hmac s)))), (''hmac'', PbBytes (auth_hmac s))])
     (auth_commands a))"
proof -
  have "(\<lambda>s. Msg PB_TPMSession
      [(''session_handle'', PbInt (auth_session_handle s)),
       (''nonce_size'', PbInt (int (length (auth_nonce s)))), (''nonce'', PbBytes (auth_nonce s)),
       (''session_attributes'', PbInt (auth_session_attributes s)),
       (''hmac_size'', PbInt (int (length (auth_hmac s)))), (''hmac'', PbBytes (auth_hmac s))]) =
    session_msg"
    by (rule ext) (simp add: session_msg_def)
  then show ?thesis using proto_sessions_bytes [OF assms(2,1)] by simp
qed

lemma sessions_round_trip_witness:
  "\<exists>b. AUTH_AREA_to_bytes two_sessions = Inr b \<and>
    is_ok (proto_sessions rt0 b) \<and> length b = 25"
proof (rule serialises)
  show "is_ok (AUTH_AREA_to_bytes two_sessions)" by code_simp
  show "is_ok (proto_sessions rt0 b) \<and> length b = 25" if b: "AUTH_AREA_to_bytes two_sessions = Inr b" for b
    using sessions_round_trip [OF plain_runtime_laws b] b
    by (auto simp: two_sessions_def AUTH_AREA_layout AUTH_COMMAND_def AUTH_COMMAND_layout joinE_Cons
        result_simps)
qed

text \<open>
  C32: a PCR selection list reads back, from its own bytes or with other bytes after it, and both
  commands that carry one, \<open>TPMPCRRead\<close> (from the objects) and \<open>TPMPCRAllocate\<close> (from the bytes),
  describe it by the same message.
\<close>

theorem pcr_selection_round_trip:
  assumes "pb_laws rt" "TPML_PCR_SELECTION_to_bytes l = Inr b"
  shows "proto_pcr_selection rt (b @ rest) = pcr_selection_list_msg rt l \<and>
    pcr_selection_list_msg rt l = Inr (Msg PB_TPMLPCRSelection
      [(''count'', PbInt (int (length (selections l)))),
       (''pcr_selections'', PbList (map (\<lambda>s. Msg PB_TPMSPCRSelection
          [(''hash'', PbInt (alg_to_int (pcr_hash s))),
           (''sizeof_select'', PbInt (int (length (pcr_select s)))),
           (''pcr_select'', PbBytes (pcr_select s))]) (selections l)))])"
proof -
  have "(\<lambda>s. Msg PB_TPMSPCRSelection
          [(''hash'', PbInt (alg_to_int (pcr_hash s))),
           (''sizeof_select'', PbInt (int (length (pcr_select s)))),
           (''pcr_select'', PbBytes (pcr_select s))]) = pcr_selection_msg"
    by (rule ext) (simp add: pcr_selection_msg_def)
  then show ?thesis
    using proto_pcr_selection_bytes [OF assms(2,1)] pcr_selection_list_msg_ok [OF assms(2,1)]
    by (simp add: pcr_list_msg_def)
qed

lemma pcr_selection_round_trip_witness:
  "proto_pcr_selection rt0 ([0, 0, 0, 1, 0, 11, 3, 1, 0, 2] @ [9]) =
    pcr_selection_list_msg rt0 \<lparr>selections = [\<lparr>pcr_hash = AlgEnum ALG_SHA256, pcr_select = [1, 0, 2]\<rparr>]\<rparr>"
proof -
  have "TPML_PCR_SELECTION_to_bytes
      \<lparr>selections = [\<lparr>pcr_hash = AlgEnum ALG_SHA256, pcr_select = [1, 0, 2]\<rparr>]\<rparr> =
    Inr [0, 0, 0, 1, 0, 11, 3, 1, 0, 2]" by code_simp
  from pcr_selection_round_trip [OF plain_runtime_laws this] show ?thesis by blast
qed

text \<open>A sensitive area reads back: the authorization value and the data, with their sizes.\<close>

theorem sensitive_create_round_trip:
  assumes "pb_laws rt" "TPM2B_SENSITIVE_CREATE_to_bytes s = Inr b"
    and "u = sens_user_auth (sensitive s)" "d = sens_data (sensitive s)"
  shows "\<exists>m. proto_sensitive_create rt b = Inr m \<and>
    field_at m [''size''] = Some (PbInt (int (length b) - 2)) \<and>
    field_at m [''sensitive'', ''user_auth'', ''size''] = Some (PbInt (int (length u))) \<and>
    field_at m [''sensitive'', ''user_auth'', ''buffer''] = Some (PbBytes u) \<and>
    field_at m [''sensitive'', ''data'', ''size''] = Some (PbInt (int (length d))) \<and>
    field_at m [''sensitive'', ''data'', ''buffer''] = Some (PbBytes d)"
proof -
  have "int (length b) = 6 + int (length u) + int (length d)"
    using assms(2-4) by (auto simp: TPM2B_SENSITIVE_CREATE_layout SENSITIVE_CREATE_layout)
  then show ?thesis
    using proto_sensitive_create_bytes [OF assms(2,1)] assms(3,4)
    by (simp add: sensitive_create_msg_def)
qed

lemma sensitive_create_round_trip_witness:
  "\<exists>m. proto_sensitive_create rt0 [0, 6, 0, 0, 0, 2, 5, 6] = Inr m \<and>
    field_at m [''sensitive'', ''data'', ''buffer''] = Some (PbBytes [5, 6])"
proof -
  have "TPM2B_SENSITIVE_CREATE_to_bytes \<lparr>sensitive = \<lparr>sens_user_auth = [], sens_data = [5, 6]\<rparr>\<rparr> =
    Inr [0, 6, 0, 0, 0, 2, 5, 6]" by code_simp
  from sensitive_create_round_trip [OF plain_runtime_laws this refl refl] show ?thesis by auto
qed

text \<open>
  C30: a public area reads back when no hash algorithm follows its scheme: an RSA area with its
  symmetric algorithm, scheme, key size, exponent and unique field, a keyed-hash area with its
  scheme and unique field, each with type, name algorithm, attributes and policy.
\<close>

theorem public_area_round_trip:
  assumes "pb_laws rt" "TPM2B_PUBLIC_to_bytes p = Inr b" "plain_scheme (public_area p)"
    and q: "q = public_area p"
  shows "\<exists>m. proto_public rt b = Inr m \<and>
    field_at m [''size''] = Some (PbInt (int (length b) - 2)) \<and>
    field_at m [''public_area'', ''type''] = Some (PbInt (alg_to_int (pub_type q))) \<and>
    field_at m [''public_area'', ''name_alg''] = Some (PbInt (alg_to_int (pub_name_alg q))) \<and>
    field_at m [''public_area'', ''object_attributes''] =
      Some (PbInt (attrs_to_int (pub_object_attributes q))) \<and>
    field_at m [''public_area'', ''auth_policy'', ''buffer''] = Some (PbBytes (pub_auth_policy q)) \<and>
    (if alg_to_int (pub_type q) = TPM_ALG_value ALG_RSA
     then (\<exists>r. pub_rsa_parameters q = Some r \<and>
       field_at m [''public_area'', ''parameters'', ''rsa'', ''symmetric''] =
         Some (PbInt (alg_to_int (sym_algorithm (rsa_symmetric r)))) \<and>
       field_at m [''public_area'', ''parameters'', ''rsa'', ''scheme''] =
         Some (PbInt (alg_to_int (rsa_scheme r))) \<and>
       field_at m [''public_area'', ''parameters'', ''rsa'', ''key_bits''] = Some (PbInt (rsa_key_bits r)) \<and>
       field_at m [''public_area'', ''parameters'', ''rsa'', ''exponent''] = Some (PbInt (rsa_exponent r)) \<and>
       field_at m [''public_area'', ''unique'', ''rsa''] = Some (PbBytes (pub_unique q)))
     else
       field_at m [''public_area'', ''parameters'', ''keyedhash'', ''scheme''] =
         Some (PbInt (alg_to_int (kh_scheme (keyedhash_of q)))) \<and>
       field_at m [''public_area'', ''unique'', ''keyedhash'', ''buffer''] =
         Some (PbBytes (pub_unique q)))"
proof -
  have len: "int (length b - 2) = int (length b) - 2"
    using assms(2) by (auto simp: TPM2B_PUBLIC_layout)
  show ?thesis
  proof (cases "alg_to_int (pub_type q) = 1")
    case True
    with assms(2) q obtain r where r: "pub_rsa_parameters q = Some r"
      by (auto simp: TPM2B_PUBLIC_layout PUBLIC_layout)
    then show ?thesis
      using proto_public_rsa_bytes [OF assms(1,2) _ _ assms(3), of r] True q len
      by (simp add: rsa_public_msg_def public_msg_def rsa_parms_msg_def digest_msg_def)
  next
    case False
    with assms(2) q have "alg_to_int (pub_type q) = 8"
      by (auto simp: TPM2B_PUBLIC_layout PUBLIC_layout)
    then show ?thesis
      using proto_public_keyedhash_bytes [OF assms(1,2) _ assms(3)] q len
      by (simp add: keyedhash_public_msg_def public_msg_def digest_msg_def)
  qed
qed

lemma public_area_round_trip_witness:
  "\<exists>b. TPM2B_PUBLIC_to_bytes (rsa_area (AlgEnum ALG_NULL) None) = Inr b \<and>
    (\<exists>m. proto_public rt0 b = Inr m \<and>
       field_at m [''public_area'', ''type''] = Some (PbInt 1))"
proof (rule serialises)
  show "is_ok (TPM2B_PUBLIC_to_bytes (rsa_area (AlgEnum ALG_NULL) None))" by code_simp
  show "\<exists>m. proto_public rt0 b = Inr m \<and> field_at m [''public_area'', ''type''] = Some (PbInt 1)"
    if b: "TPM2B_PUBLIC_to_bytes (rsa_area (AlgEnum ALG_NULL) None) = Inr b" for b
  proof -
    have "plain_scheme (public_area (rsa_area (AlgEnum ALG_NULL) None))" by code_simp
    from public_area_round_trip [OF plain_runtime_laws b this refl] obtain m where
      "proto_public rt0 b = Inr m" "field_at m [''public_area'', ''type''] =
        Some (PbInt (alg_to_int (pub_type (public_area (rsa_area (AlgEnum ALG_NULL) None)))))"
      by blast
    then show ?thesis by (auto simp: rsa_area_def PUBLIC_default_def)
  qed
qed

text \<open>
  Which public areas cannot be serialised for their type. With the fields before the
  parameters in range, an area that is neither RSA nor keyed hash raises
  \<open>NotImplementedError\<close>, and an RSA area without parameters \<open>ValueError\<close>.
\<close>

theorem public_area_errors:
  assumes "0 \<le> alg_to_int (pub_type q)" "alg_to_int (pub_type q) < 65536"
    and "0 \<le> alg_to_int (pub_name_alg q)" "alg_to_int (pub_name_alg q) < 65536"
    and "0 \<le> attrs_to_int (pub_object_attributes q)"
      "attrs_to_int (pub_object_attributes q) < 4294967296" "length (pub_auth_policy q) < 65536"
  shows "if alg_to_int (pub_type q) = TPM_ALG_value ALG_RSA
    then pub_rsa_parameters q = None \<longleftrightarrow> PUBLIC_to_bytes q = Inl ValueError
    else alg_to_int (pub_type q) = TPM_ALG_value ALG_KEYEDHASH \<longleftrightarrow>
      PUBLIC_to_bytes q \<noteq> Inl NotImplementedError"
proof -
  have over: "RSA_PARMS_to_bytes r = Inl e \<Longrightarrow> e = OverflowError"
    "KEYEDHASH_PARMS_to_bytes k = Inl e \<Longrightarrow> e = OverflowError" for r k e
    by (auto simp: RSA_PARMS_to_bytes_def KEYEDHASH_PARMS_to_bytes_def SYM_DEF_to_bytes_def
        bindE_eq_Inl to_bytes_Inl split: option.splits if_splits)
  note front = to_bytes_ok [of _ 2] to_bytes_ok [of _ 4] tpm2b_layout
  show ?thesis
  proof (cases "alg_to_int (pub_type q) = 1")
    case True
    then show ?thesis using assms over
      by (cases "pub_rsa_parameters q")
        (auto simp: PUBLIC_to_bytes_def front bindE_eq_Inl tpm2b_overflow to_bytes_Inl dest: over)
  next
    case False
    then show ?thesis using assms over
      by (auto simp: PUBLIC_to_bytes_def front bindE_eq_Inl tpm2b_overflow to_bytes_Inl dest: over)
  qed
qed

lemma public_area_errors_witness:
  "PUBLIC_to_bytes ((PUBLIC_default (AlgEnum ALG_RSA))\<lparr>pub_rsa_parameters := None\<rparr>) = Inl ValueError \<and>
   attrs_to_int default_object_attributes < 4294967296"
proof -
  have "0 \<le> attrs_to_int default_object_attributes \<and> attrs_to_int default_object_attributes < 4294967296"
    by code_simp
  then show ?thesis
    using public_area_errors [of "(PUBLIC_default (AlgEnum ALG_RSA))\<lparr>pub_rsa_parameters := None\<rparr>"]
    by (simp add: PUBLIC_default_def)
qed

subsection \<open>Commands and their messages\<close>

lemma TPMCreate_made:
  assumes "TPMCreate h s alg kt kb oa rsa kh d = Inr c"
  obtains i j where
    "SENSITIVE_CREATE_to_bytes (SENSITIVE_CREATE_default\<lparr>sens_data := d\<rparr>) = Inr i"
    "PUBLIC_to_bytes (public_area (create_template alg kt kb oa rsa kh)) = Inr j"
    "length i < 65536" "length j < 65536" "0 \<le> rs_to_int s" "rs_to_int s < 4294967296"
    "c = TPMCommand_init (TPM_ST TPM_ST_SESSIONS) (TPM_CC TPM_CC_CREATE)
      (object_params h (rs_to_int s) i j) IsCreate"
proof -
  from assms obtain params where
    cat: "catE [to_bytes 4 h, AUTH_AREA_to_bytes (one_session_area (rs_to_int s)),
      TPM2B_SENSITIVE_CREATE_to_bytes \<lparr>sensitive = SENSITIVE_CREATE_default\<lparr>sens_data := d\<rparr>\<rparr>,
      TPM2B_PUBLIC_to_bytes (create_template alg kt kb oa rsa kh), DATA_to_bytes DATA_default,
      TPML_PCR_SELECTION_to_bytes \<lparr>selections = []\<rparr>] = Inr params"
    and c: "c = TPMCommand_init (TPM_ST TPM_ST_SESSIONS) (TPM_CC TPM_CC_CREATE) params IsCreate"
    by (auto simp only: TPMCreate_def Let_def bindE_eq_Inr sum.inject)
  show thesis
    by (rule object_pieces [OF cat], rule that) (simp_all add: c)
qed

text \<open>
  The message of \<open>TPMCreate\<close> is the command: whatever the constructor accepted, \<open>to_proto\<close>
  gives a \<open>create\<close> message with the header's three fields, the parent handle, the sensitive data
  and, for a template whose scheme has no hash algorithm, the template's public area.
\<close>

theorem create_message_is_the_command:
  assumes "pb_laws rt" "TPMCreate h s alg kt kb oa rsa kh d = Inr c"
    and t: "t = create_template alg kt kb oa rsa kh" "plain_scheme (public_area t)"
  shows "\<exists>m b. to_proto rt c = Inr (Some (''create'', m)) \<and> command_bytes c = Inr b \<and>
    field_at m [''header'', ''tag''] = Some (PbInt 0x8002) \<and>
    field_at m [''header'', ''command_size''] = Some (PbInt (int (length b))) \<and>
    field_at m [''header'', ''command_code''] = Some (PbInt 0x153) \<and>
    field_at m [''parent_handle''] = Some (PbInt h) \<and>
    field_at m [''in_sensitive'', ''sensitive'', ''data'', ''buffer''] = Some (PbBytes d) \<and>
    (\<exists>pub. TPM2B_PUBLIC_to_bytes t = Inr pub \<and>
       field_at m [''in_public''] =
         Some (PbMsg (public_view (public_area t) (int (length pub) - 2))))"
proof -
  obtain i j where
    j: "PUBLIC_to_bytes (public_area t) = Inr j" "length i < 65536" "length j < 65536"
    and c: "c = TPMCommand_init (TPM_ST TPM_ST_SESSIONS) (TPM_CC TPM_CC_CREATE)
      (object_params h (rs_to_int s) i j) IsCreate"
    unfolding t(1) by (rule TPMCreate_made [OF assms(2)])
  let ?pub = "be_bytes 2 (int (length j)) @ j"
  have pub: "TPM2B_PUBLIC_to_bytes t = Inr ?pub" using j by (simp add: TPM2B_PUBLIC_layout)
  have bytes: "command_bytes c = Inr (command_layout c)"
    using j by (simp add: command_bytes_layout c TPMCommand_init_def object_params_length)
  from TPMCreate_decodes [OF assms(2,1) pub [unfolded t(1)]
      proto_public_plain [OF assms(1) pub t(2)]]
  have "to_proto rt c = Inr (Some (''create'', Msg PB_TPMCreate
    ([(''header'', PbMsg (header_msg c)), (''parent_handle'', PbInt h)] @
      object_fields \<lparr>sensitive = SENSITIVE_CREATE_default\<lparr>sens_data := d\<rparr>\<rparr>
        (public_view (public_area t) (int (length ?pub - 2))))))" by simp
  then show ?thesis using bytes pub
    by (simp add: object_fields_def sensitive_create_msg_def header_msg_def command_size_length)
      (simp add: c TPMCommand_init_def)
qed

lemma create_message_is_the_command_witness:
  "\<exists>c. TPMCreate 0x80000000 (RsEnum RS_PW) ALG_SHA256 ALG_RSA 2048 None None None [1] = Inr c \<and>
    (\<exists>m. to_proto rt0 c = Inr (Some (''create'', m)) \<and>
       field_at m [''parent_handle''] = Some (PbInt 0x80000000))"
proof (rule serialises)
  show "is_ok (TPMCreate 0x80000000 (RsEnum RS_PW) ALG_SHA256 ALG_RSA 2048 None None None [1])"
    by code_simp
  have "plain_scheme (public_area (create_template ALG_SHA256 ALG_RSA 2048 None None None))"
    by code_simp
  then show "\<exists>m. to_proto rt0 c = Inr (Some (''create'', m)) \<and>
      field_at m [''parent_handle''] = Some (PbInt 0x80000000)"
    if "TPMCreate 0x80000000 (RsEnum RS_PW) ALG_SHA256 ALG_RSA 2048 None None None [1] = Inr c" for c
    using create_message_is_the_command [OF plain_runtime_laws that refl] by blast
qed

text \<open>
  The message of \<open>TPMCreatePrimary\<close> is the command: besides the public area, for a
  template whose scheme has no hash algorithm, it holds the hierarchy and the session.
\<close>

theorem create_primary_message_is_the_command:
  assumes "pb_laws rt" "TPMCreatePrimary s alg kb ph tmpl = Inr c" "rh_to_int ph < 2 ^ 31"
    and t: "t = (case tmpl of None \<Rightarrow> primary_template alg kb | Some t \<Rightarrow> t)"
      "plain_scheme (public_area t)"
  shows "\<exists>m pub. to_proto rt c = Inr (Some (''createprimary'', m)) \<and>
    TPM2B_PUBLIC_to_bytes t = Inr pub \<and>
    field_at m [''header''] = Some (PbMsg (header_msg c)) \<and>
    field_at m [''hierarchy''] = Some (PbInt (rh_to_int ph)) \<and>
    field_at m [''sessions''] = Some (PbList [session_msg (AUTH_COMMAND (rs_to_int s))]) \<and>
    field_at m [''in_public''] = Some (PbMsg (public_view (public_area t) (int (length pub) - 2)))"
proof -
  have "is_ok (TPM2B_PUBLIC_to_bytes t)"
    using assms(2) unfolding t(1)
    by (cases tmpl) (auto simp: TPMCreatePrimary_def bindE_eq_Inr is_ok_ex)
  then obtain pub where pub: "TPM2B_PUBLIC_to_bytes t = Inr pub" by (auto simp: is_ok_ex)
  then have "int (length pub - 2) = int (length pub) - 2" by (auto simp: TPM2B_PUBLIC_layout)
  then show ?thesis
    using TPMCreatePrimary_decodes [OF assms(2,1) _ t(1) pub proto_public_plain [OF assms(1) pub t(2)]]
      assms(3) pub
    by (simp add: object_fields_def)
qed

lemma create_primary_message_is_the_command_witness:
  "\<exists>c. TPMCreatePrimary (RsEnum RS_PW) ALG_SHA256 2048 (RhEnum RH_OWNER) None = Inr c \<and>
    (\<exists>m. to_proto rt0 c = Inr (Some (''createprimary'', m)) \<and>
       field_at m [''hierarchy''] = Some (PbInt (rh_to_int (RhEnum RH_OWNER))))"
proof (rule serialises)
  show "is_ok (TPMCreatePrimary (RsEnum RS_PW) ALG_SHA256 2048 (RhEnum RH_OWNER) None)"
    by code_simp
  have "plain_scheme (public_area (case None of None \<Rightarrow> primary_template ALG_SHA256 2048 | Some t \<Rightarrow> t))"
    by code_simp
  then show "\<exists>m. to_proto rt0 c = Inr (Some (''createprimary'', m)) \<and>
      field_at m [''hierarchy''] = Some (PbInt (rh_to_int (RhEnum RH_OWNER)))"
    if "TPMCreatePrimary (RsEnum RS_PW) ALG_SHA256 2048 (RhEnum RH_OWNER) None = Inr c" for c
    using create_primary_message_is_the_command [OF plain_runtime_laws that _ refl] by fastforce
qed

text \<open>
  C29: with a hash algorithm after the RSA scheme the message of \<open>TPMCreatePrimary\<close> is another
  key. \<open>_proto_public\<close> skips only the two bytes of the scheme, so the hash identifier is reported
  as key size, the exponent holds the key size in its upper half, and the unique field is cut
  to the length in the exponent's lower half.
\<close>

theorem create_primary_misreads_hashed_rsa_scheme:
  assumes "pb_laws rt" "TPMCreatePrimary s alg kb ph (Some t) = Inr c" "rh_to_int ph < 2 ^ 31"
    and "alg_to_int (pub_type (public_area t)) = TPM_ALG_value ALG_RSA"
    and "pub_rsa_parameters (public_area t) = Some r" "rsa_scheme_hash r = Some h"
    and "alg_to_int (rsa_scheme r) \<noteq> TPM_ALG_value ALG_NULL"
  shows "\<exists>m. to_proto rt c = Inr (Some (''createprimary'', m)) \<and>
    field_at m [''in_public'', ''public_area'', ''parameters'', ''rsa'', ''key_bits''] =
      Some (PbInt (alg_to_int h)) \<and>
    field_at m [''in_public'', ''public_area'', ''parameters'', ''rsa'', ''exponent''] =
      Some (PbInt (rsa_key_bits r * 65536 + rsa_exponent r div 65536)) \<and>
    field_at m [''in_public'', ''public_area'', ''unique'', ''rsa''] =
      Some (PbBytes (take (nat (rsa_exponent r mod 65536))
        (be_bytes 2 (int (length (pub_unique (public_area t)))) @ pub_unique (public_area t))))"
proof -
  have "is_ok (TPM2B_PUBLIC_to_bytes t)"
    using assms(2) by (auto simp: TPMCreatePrimary_def bindE_eq_Inr is_ok_ex)
  then obtain pub where pub: "TPM2B_PUBLIC_to_bytes t = Inr pub" by (auto simp: is_ok_ex)
  have "alg_to_int (pub_type (public_area t)) = 1" "alg_to_int (rsa_scheme r) \<noteq> 16"
    using assms(4,7) by simp_all
  from TPMCreatePrimary_decodes [OF assms(2,1) _ _ pub
      proto_public_rsa_hash [OF assms(1) pub this(1) assms(5,6) this(2)]] assms(3)
  show ?thesis
    by (simp add: object_fields_def public_msg_def rsa_parms_msg_def)
qed

lemma create_primary_misreads_hashed_rsa_scheme_witness:
  "\<exists>c. TPMCreatePrimary (RsEnum RS_PW) ALG_SHA256 2048 (RhEnum RH_OWNER)
      (Some (rsa_area (AlgEnum ALG_RSASSA) (Some (AlgEnum ALG_SHA256)))) = Inr c \<and>
    (\<exists>m. to_proto rt0 c = Inr (Some (''createprimary'', m)) \<and>
       field_at m [''in_public'', ''public_area'', ''parameters'', ''rsa'', ''key_bits''] =
         Some (PbInt 11) \<and>
       field_at m [''in_public'', ''public_area'', ''parameters'', ''rsa'', ''exponent''] =
         Some (PbInt (2048 * 65536)))"
proof (rule serialises)
  let ?t = "rsa_area (AlgEnum ALG_RSASSA) (Some (AlgEnum ALG_SHA256))"
  show "is_ok (TPMCreatePrimary (RsEnum RS_PW) ALG_SHA256 2048 (RhEnum RH_OWNER) (Some ?t))"
    by code_simp
  show "\<exists>m. to_proto rt0 c = Inr (Some (''createprimary'', m)) \<and>
       field_at m [''in_public'', ''public_area'', ''parameters'', ''rsa'', ''key_bits''] =
         Some (PbInt 11) \<and>
       field_at m [''in_public'', ''public_area'', ''parameters'', ''rsa'', ''exponent''] =
         Some (PbInt (2048 * 65536))"
    if "TPMCreatePrimary (RsEnum RS_PW) ALG_SHA256 2048 (RhEnum RH_OWNER) (Some ?t) = Inr c" for c
    using create_primary_misreads_hashed_rsa_scheme [OF plain_runtime_laws that, of
        "RSA_PARMS_default\<lparr>rsa_scheme := AlgEnum ALG_RSASSA, rsa_scheme_hash := Some (AlgEnum ALG_SHA256)\<rparr>"
        "AlgEnum ALG_SHA256"]
    by (auto simp: rsa_area_def PUBLIC_default_def RSA_PARMS_default_def)
qed

text \<open>
  C28: loading an HMAC key is described with a cut key. For a keyed-hash area with scheme HMAC
  and a hash algorithm, the message of \<open>TPMLoad\<close> has, instead of the unique field, the first bytes
  of the sized buffer (size field included), as many as the hash identifier's number; the
  command's own bytes hold the area unchanged.
\<close>

theorem load_message_cuts_hmac_key:
  assumes "pb_laws rt" "0 \<le> h" "h < 2 ^ 32" "length prb < 65538"
    and pub: "TPM2B_PUBLIC_to_bytes t = Inr pubb"
    and "alg_to_int (pub_type (public_area t)) = TPM_ALG_value ALG_KEYEDHASH"
    and "pub_keyedhash_scheme (public_area t) = Some k"
      "alg_to_int (kh_scheme k) = TPM_ALG_value ALG_HMAC" "kh_hash_alg k = Some a"
  shows "\<exists>c m. TPMLoad rt h prb pubb (RsEnum RS_PW) = Inr c \<and>
    cmd_params c = be_bytes 4 h @ one_session (TPM_RS_value RS_PW) @ prb @ pubb \<and>
    to_proto rt c = Inr (Some (''load'', m)) \<and>
    field_at m [''in_public'', ''public_area'', ''unique'', ''keyedhash'', ''buffer''] =
      Some (PbBytes (take (nat (alg_to_int a))
        (be_bytes 2 (int (length (pub_unique (public_area t)))) @ pub_unique (public_area t))))"
proof -
  have l: "length pubb < 65538" using pub by (auto simp: TPM2B_PUBLIC_layout)
  have e: "alg_to_int (pub_type (public_area t)) = 8" "alg_to_int (kh_scheme k) = 5"
    using assms(6,8) by simp_all
  have hu: "h < 4294967296" using assms(3) by simp
  show ?thesis
    using TPMLoad_decodes [OF assms(1,2) hu _ _ assms(4) l
        proto_public_hmac_hash [OF assms(1) pub e(1) assms(7) e(2) assms(9)] _ refl,
        of "RsEnum RS_PW"]
    by (simp add: keyedhash_public_msg_def to_proto_def)
      (simp add: TPMCommand_init_def public_msg_def digest_msg_def)
qed

lemma load_message_cuts_hmac_key_witness:
  "\<exists>b. TPM2B_PUBLIC_to_bytes hmac_key_area = Inr b \<and>
    (\<exists>c m. TPMLoad rt0 0x80000000 [0, 0] b (RsEnum RS_PW) = Inr c \<and>
       to_proto rt0 c = Inr (Some (''load'', m)) \<and>
       field_at m [''in_public'', ''public_area'', ''unique'', ''keyedhash'', ''buffer''] =
         Some (PbBytes [0, 3, 1, 2]))"
proof (rule serialises)
  show "is_ok (TPM2B_PUBLIC_to_bytes hmac_key_area)" by code_simp
  show "\<exists>c m. TPMLoad rt0 0x80000000 [0, 0] b (RsEnum RS_PW) = Inr c \<and>
       to_proto rt0 c = Inr (Some (''load'', m)) \<and>
       field_at m [''in_public'', ''public_area'', ''unique'', ''keyedhash'', ''buffer''] =
         Some (PbBytes [0, 3, 1, 2])"
    if b: "TPM2B_PUBLIC_to_bytes hmac_key_area = Inr b" for b
  proof -
    have "take 4 (be_bytes 2 3 @ [1, 2, 3]) = [0, 3, 1, 2]" by code_simp
    then show ?thesis
      using load_message_cuts_hmac_key [OF plain_runtime_laws _ _ _ b,
          where h = "0x80000000" and prb = "[0, 0]" and a = "AlgEnum ALG_SHA1" and
          k = "\<lparr>kh_scheme = AlgEnum ALG_HMAC, kh_hash_alg = Some (AlgEnum ALG_SHA1)\<rparr>"]
      by (force simp: hmac_key_area_def PUBLIC_default_def)
  qed
qed

text \<open>
  For every other area the message of \<open>TPMLoad\<close> holds the private part without its size field
  and the public area that was serialised.
\<close>

theorem load_message_is_the_command:
  assumes "pb_laws rt" "0 \<le> h" "h < 2 ^ 32"
    and pr: "PRIVATE_to_bytes pr = Inr prb"
    and pub: "TPM2B_PUBLIC_to_bytes t = Inr pubb" "plain_scheme (public_area t)"
  shows "\<exists>c m. TPMLoad rt h prb pubb (RsEnum RS_PW) = Inr c \<and>
    cmd_params c = be_bytes 4 h @ one_session (TPM_RS_value RS_PW) @ prb @ pubb \<and>
    to_proto rt c = Inr (Some (''load'', m)) \<and>
    field_at m [''header''] = Some (PbMsg (header_msg c)) \<and>
    field_at m [''parent_handle''] = Some (PbInt h) \<and>
    field_at m [''in_private'', ''buffer''] = Some (PbBytes (private_buffer pr)) \<and>
    field_at m [''in_public''] = Some (PbMsg (public_view (public_area t) (int (length pubb) - 2)))"
proof -
  have l: "length pubb < 65538" "int (length pubb - 2) = int (length pubb) - 2"
    using pub by (auto simp: TPM2B_PUBLIC_layout)
  have p: "length prb < 65538" "drop 2 prb = private_buffer pr"
    using pr by (auto simp: PRIVATE_to_bytes_def result_simps)
  have hu: "h < 4294967296" using assms(3) by simp
  show ?thesis
    using TPMLoad_decodes [OF assms(1,2) hu _ _ p(1) l(1) proto_public_plain [OF assms(1) pub] _ refl,
        of "RsEnum RS_PW"] p l
    by (simp add: to_proto_def)
      (simp add: TPMCommand_init_def header_msg_def command_size_def)
qed

lemma load_message_is_the_command_witness:
  "\<exists>b. TPM2B_PUBLIC_to_bytes (rsa_area (AlgEnum ALG_NULL) None) = Inr b \<and>
    (\<exists>c m. TPMLoad rt0 0x80000000 [0, 1, 7] b (RsEnum RS_PW) = Inr c \<and>
       to_proto rt0 c = Inr (Some (''load'', m)) \<and>
       field_at m [''in_private'', ''buffer''] = Some (PbBytes [7]))"
proof (rule serialises)
  show "is_ok (TPM2B_PUBLIC_to_bytes (rsa_area (AlgEnum ALG_NULL) None))" by code_simp
  have "plain_scheme (public_area (rsa_area (AlgEnum ALG_NULL) None))" by code_simp
  moreover have "PRIVATE_to_bytes \<lparr>private_buffer = [7]\<rparr> = Inr [0, 1, 7]" by code_simp
  ultimately show "\<exists>c m. TPMLoad rt0 0x80000000 [0, 1, 7] b (RsEnum RS_PW) = Inr c \<and>
       to_proto rt0 c = Inr (Some (''load'', m)) \<and>
       field_at m [''in_private'', ''buffer''] = Some (PbBytes [7])"
    if "TPM2B_PUBLIC_to_bytes (rsa_area (AlgEnum ALG_NULL) None) = Inr b" for b
    using load_message_is_the_command [OF plain_runtime_laws _ _ _ that,
        where h = "0x80000000" and pr = "\<lparr>private_buffer = [7]\<rparr>" and prb = "[0, 1, 7]"]
    by force
qed

text \<open>
  \<open>TPMCreate.to_proto\<close> drops the session. Two commands that differ only in the session
  handle have different bytes but one and the same message.
\<close>

theorem create_message_ignores_the_session:
  assumes "pb_laws rt" "TPMCreate h s alg kt kb oa rsa kh d = Inr c"
    and "TPMCreate h s' alg kt kb oa rsa kh d = Inr c'" "rs_to_int s \<noteq> rs_to_int s'"
  shows "to_proto rt c = to_proto rt c' \<and> command_bytes c \<noteq> command_bytes c'"
proof -
  let ?t = "create_template alg kt kb oa rsa kh"
  obtain i j where ij: "SENSITIVE_CREATE_to_bytes (SENSITIVE_CREATE_default\<lparr>sens_data := d\<rparr>) = Inr i"
    "PUBLIC_to_bytes (public_area ?t) = Inr j" "length i < 65536" "length j < 65536"
    and s: "0 \<le> rs_to_int s" "rs_to_int s < 4294967296"
    and c: "c = TPMCommand_init (TPM_ST TPM_ST_SESSIONS) (TPM_CC TPM_CC_CREATE)
      (object_params h (rs_to_int s) i j) IsCreate"
    by (rule TPMCreate_made [OF assms(2)])
  obtain i' j' where "SENSITIVE_CREATE_to_bytes (SENSITIVE_CREATE_default\<lparr>sens_data := d\<rparr>) = Inr i'"
    "PUBLIC_to_bytes (public_area ?t) = Inr j'"
    and s': "0 \<le> rs_to_int s'" "rs_to_int s' < 4294967296"
    and "c' = TPMCommand_init (TPM_ST TPM_ST_SESSIONS) (TPM_CC TPM_CC_CREATE)
      (object_params h (rs_to_int s') i' j') IsCreate"
    by (rule TPMCreate_made [OF assms(3)])
  with ij have c': "c' = TPMCommand_init (TPM_ST TPM_ST_SESSIONS) (TPM_CC TPM_CC_CREATE)
      (object_params h (rs_to_int s') i j) IsCreate" by simp
  have pub: "TPM2B_PUBLIC_to_bytes ?t = Inr (be_bytes 2 (int (length j)) @ j)"
    using ij by (simp add: TPM2B_PUBLIC_layout)
  obtain pubm where m: "proto_public rt (be_bytes 2 (int (length j)) @ j) = Inr pubm"
    "msg_class pubm = PB_TPM2BPublic" by (rule proto_public_serialised [OF assms(1) pub])
  have "header_msg c = header_msg c'"
    by (simp add: c c' header_msg_def command_size_def TPMCommand_init_def object_params_length)
  then have eq: "to_proto rt c = to_proto rt c'"
    using TPMCreate_decodes [OF assms(2,1) pub m] TPMCreate_decodes [OF assms(3,1) pub m] by simp
  have bytes: "command_bytes c = Inr (command_layout c)" "command_bytes c' = Inr (command_layout c')"
    using ij by (simp_all add: command_bytes_layout c c' TPMCommand_init_def object_params_length)
  have "from_bytes (be_bytes 4 (rs_to_int s)) \<noteq> from_bytes (be_bytes 4 (rs_to_int s'))"
    using assms(4) s s' by (simp add: byte_simps del: be_bytes.simps)
  then have "be_bytes 4 (rs_to_int s) \<noteq> be_bytes 4 (rs_to_int s')" by metis
  then have "command_layout c \<noteq> command_layout c'"
    by (simp add: c c' command_layout_def TPMCommand_init_def object_params_def one_session_def
        command_size_def)
  then show ?thesis using eq bytes by simp
qed

lemma create_message_ignores_the_session_witness:
  "\<exists>c c'. TPMCreate 0x80000000 (RsEnum RS_PW) ALG_SHA256 ALG_RSA 2048 None None None [] = Inr c \<and>
    TPMCreate 0x80000000 (RsInt 0x02000000) ALG_SHA256 ALG_RSA 2048 None None None [] = Inr c' \<and>
    to_proto rt0 c = to_proto rt0 c' \<and> command_bytes c \<noteq> command_bytes c'"
proof -
  have "is_ok (TPMCreate 0x80000000 (RsEnum RS_PW) ALG_SHA256 ALG_RSA 2048 None None None [])"
    "is_ok (TPMCreate 0x80000000 (RsInt 0x02000000) ALG_SHA256 ALG_RSA 2048 None None None [])"
    by code_simp+
  then obtain c c' where
    c: "TPMCreate 0x80000000 (RsEnum RS_PW) ALG_SHA256 ALG_RSA 2048 None None None [] = Inr c"
    "TPMCreate 0x80000000 (RsInt 0x02000000) ALG_SHA256 ALG_RSA 2048 None None None [] = Inr c'"
    by (auto simp: is_ok_ex)
  from create_message_ignores_the_session [OF plain_runtime_laws c] c show ?thesis by auto
qed

text \<open>
  The message of \<open>TPMStartAuthSession\<close> is the command: both handles, the nonce, the encrypted
  salt without its size, and by their declared names the session type, the hash and the
  symmetric definition; a NULL algorithm has neither key size nor mode.
\<close>

theorem start_auth_session_message_is_the_command:
  assumes "pb_laws rt" "TPMStartAuthSession k b n salt t sd h = Inr c"
    and "salt = None \<and> e = [] \<or> salt = Some (be_bytes 2 (int (length e)) @ e)" "length e < 65536"
    and "rh_to_int k < 2 ^ 31" "rh_to_int b < 2 ^ 31" "sym_named sd"
  shows "\<exists>m. to_proto rt c = Inr (Some (''startauthsession'', m)) \<and>
    field_at m [''header''] = Some (PbMsg (header_msg c)) \<and>
    field_at m [''tpm_key''] = Some (PbInt (rh_to_int k)) \<and>
    field_at m [''bind''] = Some (PbInt (rh_to_int b)) \<and>
    field_at m [''nonce'', ''buffer''] =
      Some (PbBytes (case n of None \<Rightarrow> default_nonce | Some n \<Rightarrow> n)) \<and>
    field_at m [''encrypted_salt'', ''buffer''] = Some (PbBytes e) \<and>
    field_at m [''session_type''] = map_option PbName (name_of E_TPMSE (TPM_SE t)) \<and>
    field_at m [''symmetric'', ''algorithm''] =
      map_option PbName (name_of E_TPMALG (alg_to_int (sym_algorithm sd))) \<and>
    field_at m [''symmetric'', ''key_bits''] =
      Some (PbInt (if alg_to_int (sym_algorithm sd) = TPM_ALG_value ALG_NULL then 0
                   else sym_key_bits sd)) \<and>
    field_at m [''auth_hash''] = map_option PbName (name_of E_TPMALG (TPM_ALG_value h))"
proof -
  have "rh_to_int k < 2147483648" "rh_to_int b < 2147483648" using assms(5,6) by simp_all
  from TPMStartAuthSession_reads_back [OF assms(2,1,3,4,7) this] assms(7) show ?thesis
    by (auto simp: data_msg_def sym_def_msg_def name_of_se name_of_alg name_of_null sym_named_def)
qed

lemma start_auth_session_message_is_the_command_witness:
  "\<exists>c. TPMStartAuthSession (RhEnum RH_NULL) (RhEnum RH_NULL) None None TPM_SE_HMAC null_symmetric
      ALG_SHA256 = Inr c \<and>
    (\<exists>m. to_proto rt0 c = Inr (Some (''startauthsession'', m)) \<and>
       field_at m [''encrypted_salt'', ''buffer''] = Some (PbBytes []))"
proof (rule serialises)
  let ?m = "TPMStartAuthSession (RhEnum RH_NULL) (RhEnum RH_NULL) None None TPM_SE_HMAC
    null_symmetric ALG_SHA256"
  show "is_ok ?m" by code_simp
  have "sym_named null_symmetric" by code_simp
  then show "\<exists>m. to_proto rt0 c = Inr (Some (''startauthsession'', m)) \<and>
      field_at m [''encrypted_salt'', ''buffer''] = Some (PbBytes [])" if "?m = Inr c" for c
    using start_auth_session_message_is_the_command [OF plain_runtime_laws that, of "[]"] by auto
qed

text \<open>
  The message of \<open>TPMNVDefineSpace\<close> is the command: hierarchy, session, an empty
  authorization value, and the index with its attributes, name algorithm, policy and size.
\<close>

theorem nv_define_space_message_is_the_command:
  assumes "pb_laws rt" "TPMNVDefineSpace ix attrs s h sz = Inr c"
  shows "\<exists>m. to_proto rt c = Inr (Some (''nvdefinespace'', m)) \<and>
    field_at m [''header''] = Some (PbMsg (header_msg c)) \<and>
    field_at m [''auth_handle''] = Some (PbInt (TPM_RH_value h)) \<and>
    field_at m [''sessions''] = Some (PbList [session_msg (AUTH_COMMAND s)]) \<and>
    field_at m [''auth'', ''buffer''] = Some (PbBytes []) \<and>
    field_at m [''nv_public'', ''nv_index''] = Some (PbInt ix) \<and>
    field_at m [''nv_public'', ''name_alg''] = Some (PbName ''TPM_ALG_SHA256'') \<and>
    field_at m [''nv_public'', ''attributes''] = Some (PbInt (nv_attrs_to_int attrs)) \<and>
    field_at m [''nv_public'', ''auth_policy''] = Some (PbBytes []) \<and>
    field_at m [''nv_public'', ''data_size''] = Some (PbInt sz)"
  using TPMNVDefineSpace_reads_back [OF assms(2,1)] by (simp add: data_msg_def nv_public_msg_def)

lemma nv_define_space_message_is_the_command_witness:
  "\<exists>c. TPMNVDefineSpace nv_index_default nv_attributes_default 0x40000009 RH_OWNER 32 = Inr c \<and>
    (\<exists>m. to_proto rt0 c = Inr (Some (''nvdefinespace'', m)) \<and>
       field_at m [''nv_public'', ''data_size''] = Some (PbInt 32))"
proof (rule serialises)
  show "is_ok (TPMNVDefineSpace nv_index_default nv_attributes_default 0x40000009 RH_OWNER 32)"
    by code_simp
  show "\<exists>m. to_proto rt0 c = Inr (Some (''nvdefinespace'', m)) \<and>
      field_at m [''nv_public'', ''data_size''] = Some (PbInt 32)"
    if "TPMNVDefineSpace nv_index_default nv_attributes_default 0x40000009 RH_OWNER 32 = Inr c" for c
    using nv_define_space_message_is_the_command [OF plain_runtime_laws that] by blast
qed

text \<open>
  \<open>TPMGetRandom\<close> accepts exactly the sizes of two bytes, and its message holds the number
  of bytes requested even when an authorization area precedes it in the parameters.
\<close>

theorem get_random_message_is_the_command:
  assumes "pb_laws rt" "TPMGetRandom n st (Some a) = m" "AUTH_AREA_to_bytes a = Inr ab"
    "length ab < 2 ^ 31"
  shows "if 0 \<le> n \<and> n < 2 ^ 16
    then \<exists>c. m = Inr c \<and> cmd_params c = ab @ be_bytes 2 n \<and>
      to_proto rt c = Inr (Some (''getrandom'', Msg PB_TPMGetRandom
        [(''header'', PbMsg (header_msg c)), (''bytes_requested'', PbInt n)]))
    else m = Inl OverflowError"
proof (cases "0 \<le> n \<and> n < 2 ^ 16")
  case True
  then have m: "TPMGetRandom n st (Some a) =
      Inr (TPMCommand_init (TPM_ST st) (TPM_CC TPM_CC_GET_RANDOM) (ab @ be_bytes 2 n) IsGetRandom)"
    using assms(3) by (simp add: TPMGetRandom_def to_bytes_ok)
  have "length (cmd_params (TPMCommand_init (TPM_ST st) (TPM_CC TPM_CC_GET_RANDOM)
      (ab @ be_bytes 2 n) IsGetRandom)) < 4294967286"
    using assms(4) by (simp add: TPMCommand_init_def)
  from TPMGetRandom_reads_back [OF m assms(1) this] show ?thesis
    using True m assms(2) by (simp add: TPMCommand_init_def)
next
  case False
  then have "to_bytes 2 n = Inl OverflowError" by (simp add: to_bytes_def not_less not_le)
  then show ?thesis using False assms(2,3) by (auto simp: TPMGetRandom_def)
qed

lemma get_random_message_is_the_command_witness:
  "\<exists>b c. AUTH_AREA_to_bytes two_sessions = Inr b \<and>
    TPMGetRandom 48 TPM_ST_SESSIONS (Some two_sessions) = Inr c \<and> cmd_params c = b @ be_bytes 2 48"
proof -
  have "is_ok (AUTH_AREA_to_bytes two_sessions)" by code_simp
  then obtain b where b: "AUTH_AREA_to_bytes two_sessions = Inr b" by (auto simp: is_ok_ex)
  then have "length b = 25"
    by (auto simp: two_sessions_def AUTH_AREA_layout AUTH_COMMAND_def AUTH_COMMAND_layout joinE_Cons
        result_simps)
  then show ?thesis
    using get_random_message_is_the_command [OF plain_runtime_laws refl b,
        where n = 48 and st = TPM_ST_SESSIONS] b
    by auto
qed

end
