(* ===== verification/Harness_Props.thy ===== *)
theory Harness_Props
  imports Harness_Emit Message_Props
begin

section \<open>The harness executes the command that the seed holds\<close>

text \<open>
  The two seeds of a command sequence should make the fuzzer send the same bytes: the byte seed
  directly, the message seed after normalisation and marshalling. The properties below close the
  loop constructor, \<open>to_proto\<close>, post-processor, \<open>MarshalCommand\<close>, and name the commands for which
  it does not close.
\<close>

definition replays :: "tss \<Rightarrow> pb_runtime \<Rightarrow> TPMCommand \<Rightarrow> bool" where
  "replays mu rt c =
     (case to_proto rt c of
        Inr (Some km) \<Rightarrow>
          (case command_bytes c of Inr b \<Rightarrow> harness_command mu km = Some b | Inl _ \<Rightarrow> False)
      | _ \<Rightarrow> False)"

subsection \<open>Normalised headers\<close>

definition headed :: "TPMST \<Rightarrow> TPMCC \<Rightarrow> pb_msg \<Rightarrow> pb_msg" where
  "headed st cc h =
     set_field ''command_code'' (PbInt (TPM_CC cc)) (set_field ''tag'' (PbInt (TPM_ST st)) h)"

lemma set_header_first [simp]:
  "set_header st cc (Msg c ((''header'', PbMsg h) # kws)) =
     Msg c ((''header'', PbMsg (headed st cc h)) # kws)"
  by (simp add: set_header_def mutate_def msg_sub_def headed_def)

lemma headed_reads:
  "msg_class (headed st cc h) = msg_class h"
  "enum_field E_TPMST (headed st cc h) ''tag'' = TPM_ST st"
  "enum_field E_TPMCC (headed st cc h) ''command_code'' = TPM_CC cc"
  "uint_field (headed st cc h) ''command_size'' = uint_field h ''command_size''"
  by (simp_all add: headed_def accessors_set)

lemma header_size: "uint_field (header_msg c) ''command_size'' = command_size c"
  by (simp add: header_msg_def uint_field_def)

lemma harness_command_headed:
  assumes "tss_laws mu" "post_process m = Msg k ((''header'', PbMsg (headed st cc (header_msg c))) # kws)"
    and "pb_schema k = (''header'', T_msg PB_TPMHeader) # fs"
    and "emits (marshal_fields mu (Msg k ((''header'', PbMsg (headed st cc (header_msg c))) # kws)) fs) ps"
    and "length ps + 10 \<le> kMaxBuffer" "length (cmd_params c) + 10 \<le> kMaxBuffer"
  shows "harness_command mu (key, m) =
    Some (be_bytes 2 (TPM_ST st) @ be_bytes 4 (10 + int (length ps)) @ be_bytes 4 (TPM_CC cc) @ ps)"
proof (rule harness_command_writes [OF assms(1,2) _ refl _ _ _ _ _ _ _ _ _ assms(4,5)])
  let ?h = "headed st cc (header_msg c)"
  have sub: "msg_sub PB_TPMHeader (Msg k ((''header'', PbMsg ?h) # kws)) ''header'' = ?h"
    by (simp add: msg_sub_def)
  show "pb_schema (msg_class (Msg k ((''header'', PbMsg ?h) # kws))) = (''header'', T_msg PB_TPMHeader) # fs"
    using assms(3) by simp
  show "msg_class (msg_sub PB_TPMHeader (Msg k ((''header'', PbMsg ?h) # kws)) ''header'') = PB_TPMHeader"
    "enum_field E_TPMST (msg_sub PB_TPMHeader (Msg k ((''header'', PbMsg ?h) # kws)) ''header'') ''tag'' = TPM_ST st"
    "enum_field E_TPMCC (msg_sub PB_TPMHeader (Msg k ((''header'', PbMsg ?h) # kws)) ''header'') ''command_code'' = TPM_CC cc"
    unfolding sub by (simp_all add: headed_reads)
  show "0 \<le> uint_field (msg_sub PB_TPMHeader (Msg k ((''header'', PbMsg ?h) # kws)) ''header'') ''command_size''"
    "uint_field (msg_sub PB_TPMHeader (Msg k ((''header'', PbMsg ?h) # kws)) ''header'') ''command_size'' < 4294967296"
    unfolding sub using assms(6)
    by (simp_all add: headed_reads header_size command_size_def ST_LEN_def CC_LEN_def SIZE_LEN_def
        kMaxBuffer_def)
  show "0 \<le> TPM_ST st" "TPM_ST st < 65536" "0 \<le> TPM_CC cc" "TPM_CC cc < 4294967296"
    using TPM_ST_range [of st] TPM_CC_range [of cc] by simp_all
qed

lemma replays_command:
  assumes "tss_laws mu" and c: "c = TPMCommand_init (TPM_ST st) (TPM_CC cc) ps x"
    and "to_proto rt c = Inr (Some (key, m))"
    and "post_process m = Msg k ((''header'', PbMsg (headed st cc (header_msg c))) # kws)"
    and "pb_schema k = (''header'', T_msg PB_TPMHeader) # fs"
    and "emits (marshal_fields mu (Msg k ((''header'', PbMsg (headed st cc (header_msg c))) # kws)) fs) ps"
    and l: "length ps + 10 \<le> kMaxBuffer"
  shows "replays mu rt c"
proof -
  have "length (cmd_params c) + 10 \<le> kMaxBuffer" using l by (simp add: c TPMCommand_init_def)
  from harness_command_headed [OF assms(1,4-6) l this]
  have "harness_command mu (key, m) =
    Some (be_bytes 2 (TPM_ST st) @ be_bytes 4 (10 + int (length ps)) @ be_bytes 4 (TPM_CC cc) @ ps)" .
  then show ?thesis
    unfolding replays_def assms(3) unfolding c command_bytes_init [OF l] by simp
qed

subsection \<open>Single fields\<close>

lemma data_msg_buffer [simp]: "bytes_field (data_msg d) ''buffer'' = d"
  by (simp add: data_msg_def bytes_field_def)

lemma emits_data_field:
  assumes "tss_laws mu" "msg_sub PB_TPM2BData m f = data_msg d" "length d \<le> buffer_size mu B_DATA"
  shows "emits (MarshalCommandField mu m (f, T_msg PB_TPM2BData)) (sized d)"
  using emits_tpm2b [OF assms(1), of "data_msg d" B_DATA] assms(3)
  by (simp add: command_field_simps assms(2) MarshalMessageField_def)

lemma emits_u32_field:
  "tss_laws mu \<Longrightarrow> f \<noteq> ''bytes_requested'' \<Longrightarrow> uint_field m f = v \<Longrightarrow> 0 \<le> v \<Longrightarrow> v < 4294967296
    \<Longrightarrow> emits (MarshalCommandField mu m (f, T_uint32)) (be_bytes 4 v)"
  by (simp add: command_field_simps emits_put tss_lawsD)

lemma emits_rh_field:
  "tss_laws mu \<Longrightarrow> enum_field E_TPMRH m f = v \<Longrightarrow> 0 \<le> v \<Longrightarrow> v < 4294967296
    \<Longrightarrow> emits (MarshalCommandField mu m (f, T_enum E_TPMRH)) (be_bytes 4 v)"
  by (simp add: command_field_simps emits_put tss_lawsD)

lemma emits_session_field:
  assumes "tss_laws mu" "0 \<le> s" "s < 4294967296" "msg_list m f = [session_msg (AUTH_COMMAND s)]"
  shows "emits (MarshalCommandField mu m (f, T_rep PB_TPMSession)) (one_session s)"
  unfolding command_field_simps
  by (rule emits_one_session [OF assms])
    (simp_all add: session_msg_def AUTH_COMMAND_def uint_field_def bytes_field_def)

lemmas field_reads = uint_field_def [of "Msg c kws" for c kws] enum_field_def [of _ "Msg c kws" for c kws]
  msg_list_def [of "Msg c kws" for c kws] msg_sub_def [of _ "Msg c kws" for c kws]
  bytes_field_def [of "Msg c kws" for c kws] has_field_def [of "Msg c kws" for c kws]

subsection \<open>Object commands\<close>

lemma normalize_in_public_split:
  "normalize_in_public oa m =
     set_field ''in_public'' (PbMsg (normalised_public oa (msg_sub PB_TPM2BPublic m ''in_public''))) m"
  by (simp add: normalize_in_public_def normalised_public_def mutate_def)

text \<open>The fields after the sessions, common to \<open>TPM2_Create\<close> and \<open>TPM2_CreatePrimary\<close>.\<close>

definition object_tail :: "TPMS_SENSITIVE_CREATE \<Rightarrow> pb_msg \<Rightarrow> pb_kwargs" where
  "object_tail s pubm =
     [(''in_sensitive'', PbMsg (sensitive_create_msg s)), (''in_public'', PbMsg pubm),
      (''outside_info'', PbMsg (data_msg [])),
      (''creation_pcr'', PbMsg (pcr_list_msg \<lparr>selections = []\<rparr>))]"

lemma class_normalised [simp]: "msg_class (normalised_public oa m) = msg_class m"
  by (simp add: normalised_public_def mutate_def)

lemma emits_object_tail:
  assumes "tss_laws mu" "SENSITIVE_CREATE_to_bytes s = Inr i"
    and fit: "length (sens_user_auth s) \<le> buffer_size mu B_AUTH"
      "length (sens_data s) \<le> buffer_size mu B_SENSITIVE_DATA"
    and j: "PUBLIC_to_bytes p = Inr j" "length j < 65536" "replayable_public mu p"
    and m: "m = Msg k (pre @ object_tail s (normalised_public oa (public_view p n)))"
      "map_of pre ''in_sensitive'' = None" "map_of pre ''in_public'' = None"
      "map_of pre ''outside_info'' = None" "map_of pre ''creation_pcr'' = None"
  shows "emits (marshal_fields mu m
      [(''in_sensitive'', T_msg PB_TPM2BSensitiveCreate), (''in_public'', T_msg PB_TPM2BPublic),
       (''outside_info'', T_msg PB_TPM2BData), (''creation_pcr'', T_msg PB_TPMLPCRSelection)])
      (sized i @ sized j @ sized [] @ be_bytes 4 0 @ [])"
proof (intro emits_fields)
  have sub: "msg_sub PB_TPM2BSensitiveCreate m ''in_sensitive'' = sensitive_create_msg s"
    "msg_sub PB_TPM2BPublic m ''in_public'' = normalised_public oa (public_view p n)"
    "msg_sub PB_TPM2BData m ''outside_info'' = data_msg []"
    "msg_sub PB_TPMLPCRSelection m ''creation_pcr'' = pcr_list_msg \<lparr>selections = []\<rparr>"
    using m by (simp_all add: msg_sub_def object_tail_def map_add_def)
  show "emits (MarshalCommandField mu m (''in_sensitive'', T_msg PB_TPM2BSensitiveCreate)) (sized i)"
    using emits_sensitive [OF assms(1,2) fit]
    by (simp add: command_field_simps sub MarshalMessageField_def)
  show "emits (MarshalCommandField mu m (''in_public'', T_msg PB_TPM2BPublic)) (sized j)"
    using emits_public [OF assms(1) j] by (simp add: command_field_simps sub MarshalMessageField_def)
  show "emits (MarshalCommandField mu m (''outside_info'', T_msg PB_TPM2BData)) (sized [])"
    by (rule emits_data_field [OF assms(1) sub(3)]) simp
  show "emits (MarshalCommandField mu m (''creation_pcr'', T_msg PB_TPMLPCRSelection)) (be_bytes 4 0)"
    using emits_pcr_list [OF assms(1), of "\<lparr>selections = []\<rparr>" "be_bytes 4 0"]
    by (simp add: command_field_simps sub MarshalMessageField_def pcrs_fit_def
        TPML_PCR_SELECTION_layout)
qed

lemma TPMCreatePrimary_pieces:
  assumes "TPMCreatePrimary s alg kb ph tmpl = Inr c"
  obtains i j where
    "SENSITIVE_CREATE_to_bytes SENSITIVE_CREATE_default = Inr i"
    "PUBLIC_to_bytes (public_area (case tmpl of None \<Rightarrow> primary_template alg kb | Some t \<Rightarrow> t)) = Inr j"
    "length i < 65536" "length j < 65536" "0 \<le> rh_to_int ph" "rh_to_int ph < 4294967296"
    "0 \<le> rs_to_int s" "rs_to_int s < 4294967296"
    "c = TPMCommand_init (TPM_ST TPM_ST_SESSIONS) (TPM_CC TPM_CC_CREATE_PRIMARY)
      (object_params (rh_to_int ph) (rs_to_int s) i j) IsCreatePrimary"
proof -
  from assms obtain params where
    cat: "catE [to_bytes 4 (rh_to_int ph), AUTH_AREA_to_bytes (one_session_area (rs_to_int s)),
      TPM2B_SENSITIVE_CREATE_to_bytes \<lparr>sensitive = SENSITIVE_CREATE_default\<rparr>,
      TPM2B_PUBLIC_to_bytes (case tmpl of None \<Rightarrow> primary_template alg kb | Some t \<Rightarrow> t),
      DATA_to_bytes DATA_default, TPML_PCR_SELECTION_to_bytes \<lparr>selections = []\<rparr>] = Inr params"
    and c: "c = TPMCommand_init (TPM_ST TPM_ST_SESSIONS) (TPM_CC TPM_CC_CREATE_PRIMARY) params
      IsCreatePrimary"
    by (auto simp only: TPMCreatePrimary_def Let_def bindE_eq_Inr sum.inject)
  from object_pieces [OF cat] show thesis using that c by (metis TPM2B_SENSITIVE_CREATE.select_convs(1))
qed

lemma object_params_sized:
  "object_params h s i j = be_bytes 4 h @ one_session s @ sized i @ sized j @ sized [] @ be_bytes 4 0 @ []"
  by (simp add: object_params_def sized_def)

lemma CreatePrimary_replays:
  assumes "TPMCreatePrimary s alg kb ph tmpl = Inr c" "pb_laws rt" "tss_laws mu"
    and "rh_to_int ph \<noteq> 0" "rh_to_int ph < 2147483648"
    and "replayable_public mu (public_area (case tmpl of None \<Rightarrow> primary_template alg kb | Some t \<Rightarrow> t))"
  shows "replays mu rt c"
proof -
  let ?t = "case tmpl of None \<Rightarrow> primary_template alg kb | Some t \<Rightarrow> t" and ?h = "rh_to_int ph"
  from TPMCreatePrimary_pieces [OF assms(1)] obtain i j where
    i: "SENSITIVE_CREATE_to_bytes SENSITIVE_CREATE_default = Inr i" "length i < 65536"
    and j: "PUBLIC_to_bytes (public_area ?t) = Inr j" "length j < 65536"
    and r: "0 \<le> ?h" "?h < 4294967296" "0 \<le> rs_to_int s" "rs_to_int s < 4294967296"
    and c: "c = TPMCommand_init (TPM_ST TPM_ST_SESSIONS) (TPM_CC TPM_CC_CREATE_PRIMARY)
      (object_params ?h (rs_to_int s) i j) IsCreatePrimary" by metis
  let ?b = "be_bytes 2 (int (length j)) @ j"
  let ?pubm = "public_view (public_area ?t) (int (length ?b - 2))"
  let ?np = "normalised_public kStorageParentObjectAttributes ?pubm"
  let ?kws = "[(''hierarchy'', PbInt ?h), (''sessions'', PbList [session_msg (AUTH_COMMAND (rs_to_int s))])]"
  let ?hd = "PbMsg (headed TPM_ST_SESSIONS TPM_CC_CREATE_PRIMARY (header_msg c))"
  let ?m = "Msg PB_TPMCreatePrimary ((''header'', ?hd) # ?kws @ object_tail SENSITIVE_CREATE_default ?np)"
  have enc: "TPM2B_PUBLIC_to_bytes ?t = Inr ?b" using j by (simp add: TPM2B_PUBLIC_layout)
  note msg = TPMCreatePrimary_decodes [OF assms(1,2,5) refl enc
      proto_public_plain [OF assms(2) enc replayable_plain [OF assms(6)]] msg_classes(3)]
  have post: "post_process (Msg PB_TPMCreatePrimary ([(''header'', PbMsg (header_msg c)),
      (''hierarchy'', PbInt ?h), (''sessions'', PbList [session_msg (AUTH_COMMAND (rs_to_int s))])] @
      object_fields \<lparr>sensitive = SENSITIVE_CREATE_default\<rparr> ?pubm)) = ?m"
    using assms(4)
    by (simp add: post_process_def NormalizeCreatePrimary_def default_enum_def enum_field_def
        normalize_in_public_split object_fields_def object_tail_def msg_sub_def)
  have "emits (marshal_fields mu ?m (tl (pb_schema PB_TPMCreatePrimary)))
      (be_bytes 4 ?h @ one_session (rs_to_int s) @ sized i @ sized j @ sized [] @ be_bytes 4 0 @ [])"
    unfolding pb_schema.simps fields_TPMCreatePrimary_def list.sel
  proof (rule emits_fields(2) [OF _ emits_fields(2)])
    show "emits (MarshalCommandField mu ?m (''hierarchy'', T_enum E_TPMRH)) (be_bytes 4 ?h)"
      using r by (simp add: command_field_simps enum_field_def emits_put tss_lawsD [OF assms(3)])
    show "emits (MarshalCommandField mu ?m (''sessions'', T_rep PB_TPMSession)) (one_session (rs_to_int s))"
      by (rule emits_session_field [OF assms(3) r(3,4)]) (simp add: field_reads)
  qed (rule emits_object_tail [OF assms(3) i(1) _ _ j assms(6), of _ _
        "(''header'', ?hd) # ?kws"], simp_all add: SENSITIVE_CREATE_default_def)
  then show ?thesis
    by (intro replays_command [OF assms(3) c msg post])
      (use i j in \<open>simp_all add: object_params_sized kMaxBuffer_def\<close>)
qed

text \<open>
  C16: a \<open>TPMCreatePrimary\<close> seed under a hierarchy other than 0 and with a replayable public area makes
  the fuzzer send exactly the bytes of the command. \<open>replayable_public\<close> asks that name algorithm and
  attributes are not zero; that an RSA key has the scheme \<open>NULL\<close>, which has no hash, a key size other
  than zero and AES-128 in CFB mode or no symmetric cipher; that another object has the scheme \<open>NULL\<close>;
  and that policy and unique field fit their buffers. The default template of a 2048-bit SHA-256 key
  satisfies it, a template with a scheme hash does not (C29).
\<close>

theorem create_primary_replays:
  assumes "TPMCreatePrimary s alg kb ph tmpl = Inr c" "pb_laws rt" "tss_laws mu"
    and "rh_to_int ph \<noteq> 0" "rh_to_int ph < 2147483648"
    and "replayable_public mu (public_area (case tmpl of None \<Rightarrow> primary_template alg kb | Some t \<Rightarrow> t))"
  shows "replays mu rt c"
  by (rule CreatePrimary_replays [OF assms])

lemma create_primary_replays_witness:
  "\<exists>c. TPMCreatePrimary (RsEnum RS_PW) ALG_SHA256 2048 (RhEnum RH_OWNER) None = Inr c \<and>
    replays plain_tss rt0 c"
proof (rule serialises)
  show "is_ok (TPMCreatePrimary (RsEnum RS_PW) ALG_SHA256 2048 (RhEnum RH_OWNER) None)"
    by code_simp
  have "replayable_public plain_tss (public_area (case None of None \<Rightarrow> primary_template ALG_SHA256 2048
      | Some t \<Rightarrow> t))"
    by code_simp
  then show "replays plain_tss rt0 c"
    if "TPMCreatePrimary (RsEnum RS_PW) ALG_SHA256 2048 (RhEnum RH_OWNER) None = Inr c" for c
    using create_primary_replays [OF that plain_runtime_laws plain_tss_laws] by simp
qed

definition create_msg :: "pb_msg \<Rightarrow> int \<Rightarrow> TPMS_SENSITIVE_CREATE \<Rightarrow> pb_msg \<Rightarrow> pb_msg" where
  "create_msg hm h s pubm =
     Msg PB_TPMCreate ((''header'', PbMsg hm) # (''parent_handle'', PbInt h) # object_tail s pubm)"

lemma post_create_msg:
  "h \<noteq> 0 \<Longrightarrow> post_process (create_msg hm h s pubm) =
    create_msg (headed TPM_ST_SESSIONS TPM_CC_CREATE hm) h s
      (normalised_public kChildObjectAttributes pubm)"
  by (simp add: create_msg_def post_process_def NormalizeCreate_def default_uint_def
      normalize_in_public_split object_tail_def field_reads)

lemma emits_create_fields:
  assumes "tss_laws mu" "0 \<le> h" "h < 4294967296" "SENSITIVE_CREATE_to_bytes s = Inr i"
    and fit: "length (sens_user_auth s) \<le> buffer_size mu B_AUTH"
      "length (sens_data s) \<le> buffer_size mu B_SENSITIVE_DATA"
    and j: "PUBLIC_to_bytes p = Inr j" "length j < 65536" "replayable_public mu p"
  shows "emits (marshal_fields mu (create_msg hm h s (normalised_public oa (public_view p n)))
      (tl (pb_schema PB_TPMCreate)))
    (be_bytes 4 h @ be_bytes 4 0 @ sized i @ sized j @ sized [] @ be_bytes 4 0 @ [])"
  unfolding pb_schema.simps fields_TPMCreate_def list.sel
proof (rule emits_fields(2) [OF _ emits_fields(2)])
  let ?m = "create_msg hm h s (normalised_public oa (public_view p n))"
  show "emits (MarshalCommandField mu ?m (''parent_handle'', T_uint32)) (be_bytes 4 h)"
    by (rule emits_u32_field [OF assms(1)]) (use assms(2,3) in \<open>simp_all add: create_msg_def field_reads\<close>)
  show "emits (MarshalCommandField mu ?m (''sessions'', T_rep PB_TPMSession)) (be_bytes 4 0)"
    unfolding command_field_simps
    by (rule emits_no_session [OF assms(1)]) (simp add: create_msg_def object_tail_def field_reads)
qed (rule emits_object_tail [OF assms(1,4) fit j, where pre = "[(''header'', PbMsg hm), (''parent_handle'', PbInt h)]"],
    simp_all add: create_msg_def)

text \<open>
  The message of a \<open>TPMCreate\<close> command has no session, and no post-processor adds one. With a
  replayable public area this is the only thing that changes.
\<close>

lemma create_sent:
  assumes "TPMCreate h s alg kt kb oa rsa kh d = Inr c" "pb_laws rt" "tss_laws mu"
    and h: "0 < h" "h < 2 ^ 32" and d: "length d \<le> buffer_size mu B_SENSITIVE_DATA"
    and rep: "replayable_public mu (public_area (create_template alg kt kb oa rsa kh))"
  shows "\<exists>km b rest. to_proto rt c = Inr (Some km) \<and> command_bytes c = Inr b \<and>
    b = be_bytes 2 (TPM_ST TPM_ST_SESSIONS) @ be_bytes 4 (int (length b)) @
      be_bytes 4 (TPM_CC TPM_CC_CREATE) @ be_bytes 4 h @ one_session (rs_to_int s) @ rest \<and>
    harness_command mu km =
      Some (be_bytes 2 (TPM_ST TPM_ST_SESSIONS) @ be_bytes 4 (int (length b) - 9) @
        be_bytes 4 (TPM_CC TPM_CC_CREATE) @ be_bytes 4 h @ be_bytes 4 0 @ rest) \<and>
    \<not> replays mu rt c"
proof -
  let ?t = "create_template alg kt kb oa rsa kh" and ?s = "SENSITIVE_CREATE_default\<lparr>sens_data := d\<rparr>"
  from TPMCreate_made [OF assms(1)] obtain i j where
    i: "SENSITIVE_CREATE_to_bytes ?s = Inr i" "length i < 65536"
    and j: "PUBLIC_to_bytes (public_area ?t) = Inr j" "length j < 65536"
    and c: "c = TPMCommand_init (TPM_ST TPM_ST_SESSIONS) (TPM_CC TPM_CC_CREATE)
      (object_params h (rs_to_int s) i j) IsCreate" by metis
  let ?pubm = "public_view (public_area ?t) (int (length (sized j) - 2))"
    and ?tail = "sized i @ sized j @ sized [] @ be_bytes 4 0 @ []"
  have enc: "TPM2B_PUBLIC_to_bytes ?t = Inr (sized j)" using j by (simp add: TPM2B_PUBLIC_layout sized_def)
  have msg: "to_proto rt c = Inr (Some (''create'', create_msg (header_msg c) h ?s ?pubm))"
    using TPMCreate_decodes [OF assms(1,2) enc proto_public_plain [OF assms(2) enc replayable_plain [OF rep]]]
    by (simp add: create_msg_def object_fields_def object_tail_def)
  have l: "length (object_params h (rs_to_int s) i j) + 10 \<le> kMaxBuffer"
    "length (be_bytes 4 h @ be_bytes 4 0 @ ?tail) + 10 \<le> kMaxBuffer"
    using i j by (simp_all add: object_params_sized kMaxBuffer_def)
  let ?B = "be_bytes 2 (TPM_ST TPM_ST_SESSIONS) @
      be_bytes 4 (10 + int (length (object_params h (rs_to_int s) i j))) @
      be_bytes 4 (TPM_CC TPM_CC_CREATE) @ object_params h (rs_to_int s) i j"
  have whole: "?B = be_bytes 2 (TPM_ST TPM_ST_SESSIONS) @ be_bytes 4 (int (length ?B)) @
      be_bytes 4 (TPM_CC TPM_CC_CREATE) @ be_bytes 4 h @ one_session (rs_to_int s) @ ?tail"
    by (simp add: object_params_sized)
  note cb = command_bytes_init [OF l(1), of TPM_ST_SESSIONS TPM_CC_CREATE IsCreate, folded c]
  have f: "h \<noteq> 0" "0 \<le> h" "h < 4294967296" "length (sens_user_auth ?s) \<le> buffer_size mu B_AUTH"
    "length (sens_data ?s) \<le> buffer_size mu B_SENSITIVE_DATA" "length (cmd_params c) + 10 \<le> kMaxBuffer"
    using h d l(1) by (simp_all add: SENSITIVE_CREATE_default_def c TPMCommand_init_def)
  have sent: "harness_command mu (''create'', create_msg (header_msg c) h ?s ?pubm) =
    Some (be_bytes 2 (TPM_ST TPM_ST_SESSIONS) @ be_bytes 4 (int (length ?B) - 9) @
      be_bytes 4 (TPM_CC TPM_CC_CREATE) @ be_bytes 4 h @ be_bytes 4 0 @ ?tail)"
    using harness_command_headed [OF assms(3) post_create_msg [OF f(1), unfolded create_msg_def] _
        emits_create_fields [OF assms(3) f(2,3) i(1) f(4,5) j rep, unfolded create_msg_def] l(2) f(6)]
    by (simp add: object_params_sized create_msg_def)
  have "be_bytes 4 0 \<noteq> one_session (rs_to_int s)"
    using length_one_session [of "rs_to_int s"] length_be_bytes [of 4 0] by force
  then have "\<not> replays mu rt c"
    unfolding replays_def msg cb option.case sum.case sent by (simp add: object_params_sized)
  then show ?thesis using msg cb whole sent by blast
qed

subsection \<open>Random bytes and sessions\<close>

lemma be_bytes_cancel:
  "0 \<le> v \<Longrightarrow> v < 256 ^ n \<Longrightarrow> 0 \<le> w \<Longrightarrow> w < 256 ^ n \<Longrightarrow> be_bytes n v = be_bytes n w \<longleftrightarrow> v = w"
  by (metis from_bytes_be_bytes_id)

lemma tag_bytes_cancel: "be_bytes 2 (TPM_ST s) = be_bytes 2 (TPM_ST t) \<longleftrightarrow> s = t"
proof -
  have "TPM_ST s = TPM_ST t \<longleftrightarrow> s = t" by (cases s; cases t) simp_all
  then show ?thesis using TPM_ST_range [of s] TPM_ST_range [of t] by (simp add: be_bytes_cancel)
qed

lemma GetRandom_pieces:
  assumes "TPMGetRandom n st auth = Inr c"
  obtains pre where "0 \<le> n" "n < 65536" "auth = None \<longleftrightarrow> pre = []"
    "c = TPMCommand_init (TPM_ST st) (TPM_CC TPM_CC_GET_RANDOM) (pre @ be_bytes 2 n) IsGetRandom"
proof (cases auth)
  case None
  with assms show thesis
    by (intro that [of "[]"]) (auto simp: TPMGetRandom_def result_simps)
next
  case (Some a)
  with assms obtain pre where "AUTH_AREA_to_bytes a = Inr pre" "0 \<le> n" "n < 65536"
    "c = TPMCommand_init (TPM_ST st) (TPM_CC TPM_CC_GET_RANDOM) (pre @ be_bytes 2 n) IsGetRandom"
    by (auto simp: TPMGetRandom_def result_simps)
  moreover from this(1) have "pre \<noteq> []" by (auto simp: AUTH_AREA_layout)
  ultimately show thesis using Some by (intro that) auto
qed

lemma GetRandom_sent:
  assumes "tss_laws mu" "0 \<le> n" "n < 65536" "msg_class hm = PB_TPMHeader"
  shows "harness_command mu (''getrandom'', Msg PB_TPMGetRandom
      [(''header'', PbMsg hm), (''bytes_requested'', PbInt n)]) =
    Some (be_bytes 2 (TPM_ST TPM_ST_NO_SESSIONS) @ be_bytes 4 12 @
      be_bytes 4 (TPM_CC TPM_CC_GET_RANDOM) @ be_bytes 2 (if n = 0 then 1 else n))"
proof -
  let ?n = "if n = 0 then 1 else n"
  let ?h = "set_field ''command_size'' (PbInt 12) (headed TPM_ST_NO_SESSIONS TPM_CC_GET_RANDOM hm)"
  let ?m = "Msg PB_TPMGetRandom [(''header'', PbMsg ?h), (''bytes_requested'', PbInt ?n)]"
  have post: "post_process (Msg PB_TPMGetRandom [(''header'', PbMsg hm),
      (''bytes_requested'', PbInt n)]) = ?m"
    by (simp add: post_process_def NormalizeGetRandom_def mutate_def default_uint_def field_reads)
  have "emits (MarshalCommandField mu ?m (''bytes_requested'', T_uint32)) (be_bytes 2 ?n)"
    using assms(2,3) by (simp add: MarshalCommandField_def uint_field_def Let_def emits_def put_def
        tss_lawsD [OF assms(1)])
  then have fs: "emits (marshal_fields mu ?m [(''bytes_requested'', T_uint32)]) (be_bytes 2 ?n)"
    using emits_fields(2) [OF _ emits_fields(1)] by force
  have sub: "msg_sub PB_TPMHeader ?m ''header'' = ?h" by (simp add: msg_sub_def)
  show ?thesis
    using harness_command_writes [OF assms(1) post _ sub _ _ _ _ _ _ _ _ _ fs, where key = "''getrandom''"]
      assms(4) by (simp add: headed_reads accessors_set kMaxBuffer_def)
qed

lemma GetRandom_replay:
  assumes "TPMGetRandom n st auth = Inr c" "pb_laws rt" "tss_laws mu" "length (cmd_params c) < 2 ^ 16"
  shows "(\<exists>km. to_proto rt c = Inr (Some km) \<and>
      harness_command mu km = Some (be_bytes 2 (TPM_ST TPM_ST_NO_SESSIONS) @ be_bytes 4 12 @
        be_bytes 4 (TPM_CC TPM_CC_GET_RANDOM) @ be_bytes 2 (if n = 0 then 1 else n))) \<and>
    (replays mu rt c \<longleftrightarrow> st = TPM_ST_NO_SESSIONS \<and> auth = None \<and> 0 < n)"
proof -
  from GetRandom_pieces [OF assms(1)] obtain pre where n: "0 \<le> n" "n < 65536"
    and pre: "auth = None \<longleftrightarrow> pre = []"
    and c: "c = TPMCommand_init (TPM_ST st) (TPM_CC TPM_CC_GET_RANDOM) (pre @ be_bytes 2 n) IsGetRandom"
    by blast
  let ?n = "if n = 0 then 1 else n"
  have msg: "to_proto rt c = Inr (Some (''getrandom'', Msg PB_TPMGetRandom
      [(''header'', PbMsg (header_msg c)), (''bytes_requested'', PbInt n)]))"
    by (rule TPMGetRandom_reads_back [OF assms(1,2)]) (use assms(4) in simp)
  note sent = GetRandom_sent [OF assms(3) n msg_classes(1) [of c]]
  have l: "length (pre @ be_bytes 2 n) + 10 \<le> kMaxBuffer"
    using assms(4) by (simp add: c TPMCommand_init_def kMaxBuffer_def)
  note cb = command_bytes_init [OF l, of st TPM_CC_GET_RANDOM IsGetRandom, folded c]
  have num: "be_bytes 2 ?n = be_bytes 2 n \<longleftrightarrow> 0 < n"
    using n by (auto simp: be_bytes_cancel)
  have params: "be_bytes 2 k = pre @ be_bytes 2 n \<longleftrightarrow> pre = [] \<and> be_bytes 2 k = be_bytes 2 n" for k
  proof
    assume e: "be_bytes 2 k = pre @ be_bytes 2 n"
    then have "length (be_bytes 2 k) = length (pre @ be_bytes 2 n)" by (rule arg_cong)
    then have "pre = []" by simp
    with e show "pre = [] \<and> be_bytes 2 k = be_bytes 2 n" by simp
  qed simp
  have "replays mu rt c \<longleftrightarrow> be_bytes 2 (TPM_ST TPM_ST_NO_SESSIONS) = be_bytes 2 (TPM_ST st) \<and>
      pre = [] \<and> be_bytes 2 ?n = be_bytes 2 n"
    unfolding replays_def msg cb option.case sum.case sent by (auto simp: params simp del: TPM_ST.simps)
  then show ?thesis using msg sent unfolding tag_bytes_cancel num pre by auto
qed

text \<open>
  C25: \<open>TPM2_GetRandom\<close> is sent without sessions and never for zero bytes, whatever the seed says.
  The two seeds agree exactly when the command has the tag \<open>TPM_ST_NO_SESSIONS\<close>, no authorization
  area and a positive size.
\<close>

theorem get_random_replay:
  assumes "TPMGetRandom n st auth = Inr c" "pb_laws rt" "tss_laws mu" "length (cmd_params c) < 2 ^ 16"
  shows "(\<exists>km. to_proto rt c = Inr (Some km) \<and>
      harness_command mu km = Some (be_bytes 2 (TPM_ST TPM_ST_NO_SESSIONS) @ be_bytes 4 12 @
        be_bytes 4 (TPM_CC TPM_CC_GET_RANDOM) @ be_bytes 2 (if n = 0 then 1 else n))) \<and>
    (replays mu rt c \<longleftrightarrow> st = TPM_ST_NO_SESSIONS \<and> auth = None \<and> 0 < n)"
  by (rule GetRandom_replay [OF assms])

lemma get_random_replay_witness:
  "\<exists>c. TPMGetRandom 0 TPM_ST_NO_SESSIONS None = Inr c \<and> \<not> replays plain_tss rt0 c"
proof (rule serialises)
  show "is_ok (TPMGetRandom 0 TPM_ST_NO_SESSIONS None)" by code_simp
  show "\<not> replays plain_tss rt0 c" if "TPMGetRandom 0 TPM_ST_NO_SESSIONS None = Inr c" for c
  proof -
    have "length (cmd_params c) < 2 ^ 16"
      using that by (auto simp: TPMGetRandom_def result_simps TPMCommand_init_def)
    then show ?thesis
      using get_random_replay [OF that plain_runtime_laws plain_tss_laws] by blast
  qed
qed

lemma enum_number_name:
  assumes "name_of e v = Some n"
  shows "enum_number e n = v"
proof -
  have d: "distinct (map fst (enum_names e))" by (cases e) (simp_all add: enum_names_def TPMALG_names_def TPMSE_names_def)
  from assms have "(n, v) \<in> set (enum_names e)"
    by (auto simp: name_of_def find_Some_iff intro: nth_mem) (metis nth_mem)
  then have "map_of (enum_names e) n = Some v" using d by simp
  then show ?thesis by (simp add: enum_number_def)
qed

lemma enum_field_name: "name_of e v = Some n \<Longrightarrow> msg_field m f = Some (PbName n) \<Longrightarrow> enum_field e m f = v"
  by (simp add: enum_field_def enum_number_name)

definition sym_replayable :: "TPMS_SYM_DEF_OBJECT \<Rightarrow> bool" where
  "sym_replayable s \<longleftrightarrow>
     sym_named s \<and> alg_to_int (sym_algorithm s) \<in> {TPM_ALG_value ALG_AES, TPM_ALG_value ALG_NULL}"

lemma sym_def_reads:
  assumes "sym_replayable s"
  shows "enum_field E_TPMALG (sym_def_msg s) ''algorithm'' = alg_to_int (sym_algorithm s)"
    and "alg_to_int (sym_algorithm s) \<noteq> 16 \<Longrightarrow>
      uint_field (sym_def_msg s) ''key_bits'' = sym_key_bits s \<and>
      enum_field E_TPMALG (sym_def_msg s) ''mode'' = alg_to_int (sym_mode s)"
  using assms by (auto simp: sym_replayable_def sym_named_def sym_def_msg_def uint_field_def
      intro!: enum_field_name intro: name_of_null)

lemma emits_sym_def:
  assumes "tss_laws mu" "SYM_DEF_to_bytes s = Inr b" "sym_replayable s"
  shows "emits (MarshalTPMTSymDef mu (sym_def_msg s)) b"
proof -
  note reads = sym_def_reads [OF assms(3)]
  have a: "alg_to_int (sym_algorithm s) = 6 \<or> alg_to_int (sym_algorithm s) = 16"
    using assms(3) by (simp add: sym_replayable_def)
  show ?thesis
    unfolding MarshalTPMTSymDef_def Let_def reads(1)
    by (rule emits_put)
      (use a assms(2) reads(2) in \<open>auto simp: SYM_DEF_layout tss_lawsD [OF assms(1)] sym_def_bytes_def\<close>)
qed

text \<open>The message of \<open>TPMStartAuthSession\<close> with the header \<open>hm\<close>: normalised, and marshalled.\<close>

definition start_msg ::
  "pb_msg \<Rightarrow> int \<Rightarrow> int \<Rightarrow> bytes \<Rightarrow> bytes \<Rightarrow> TPMSE \<Rightarrow> TPMS_SYM_DEF_OBJECT \<Rightarrow> TPM_ALG \<Rightarrow> pb_msg" where
  "start_msg hm k b n e t s h = Msg PB_TPMStartAuthSession
     [(''header'', PbMsg hm), (''tpm_key'', PbInt k), (''bind'', PbInt b),
      (''nonce'', PbMsg (data_msg n)), (''encrypted_salt'', PbMsg (data_msg e)),
      (''session_type'', PbName (se_name t)), (''symmetric'', PbMsg (sym_def_msg s)),
      (''auth_hash'', PbName (alg_name h))]"

lemma start_msg_reads:
  "msg_class (start_msg hm k b n e t s h) = PB_TPMStartAuthSession"
  "set_header st cc (start_msg hm k b n e t s h) = start_msg (headed st cc hm) k b n e t s h"
  "enum_field E_TPMALG (start_msg hm k b n e t s h) ''auth_hash'' = TPM_ALG_value h"
  "enum_field E_TPMSE (start_msg hm k b n e t s h) ''session_type'' = TPM_SE t"
  "enum_field E_TPMRH (start_msg hm k b n e t s h) ''tpm_key'' = k"
  "enum_field E_TPMRH (start_msg hm k b n e t s h) ''bind'' = b"
  "msg_sub PB_TPMTSymDef (start_msg hm k b n e t s h) ''symmetric'' = sym_def_msg s"
  "msg_sub PB_TPM2BData (start_msg hm k b n e t s h) ''nonce'' = data_msg n"
  "msg_sub PB_TPM2BData (start_msg hm k b n e t s h) ''encrypted_salt'' = data_msg e"
  by (simp_all add: start_msg_def enum_field_name [OF name_of_alg] enum_field_name [OF name_of_se]
      msg_sub_def enum_field_def [of E_TPMRH])

lemma post_start_msg:
  assumes "k \<noteq> 0" "b \<noteq> 0" "n \<noteq> []" "sym_replayable s"
  shows "post_process (start_msg hm k b n e t s h) =
    start_msg (headed TPM_ST_NO_SESSIONS TPM_CC_START_AUTH_SESSION hm) k b n e t s h"
proof -
  have "TPM_ALG_value h \<noteq> 0" by (cases h) simp_all
  moreover have "alg_to_int (sym_algorithm s) \<noteq> 0" using assms(4) by (auto simp: sym_replayable_def)
  ultimately show ?thesis
    using assms(1-3)
    by (simp add: post_process_def start_msg_reads NormalizeStartAuthSession_def default_enum_def
        sym_def_reads(1) [OF assms(4)] Let_def)
qed

lemma emits_start_fields:
  assumes "tss_laws mu" "0 \<le> k" "k < 4294967296" "0 \<le> b" "b < 4294967296"
    and n: "length n \<le> buffer_size mu B_DATA" "length e \<le> buffer_size mu B_DATA"
    and sd: "SYM_DEF_to_bytes s = Inr sd" "sym_replayable s"
  shows "emits (marshal_fields mu (start_msg hm k b n e t s h) (tl (pb_schema PB_TPMStartAuthSession)))
    (be_bytes 4 k @ be_bytes 4 b @ sized n @ sized e @ [word_of_int (TPM_SE t)] @ sd @
     be_bytes 2 (TPM_ALG_value h) @ [])"
  unfolding pb_schema.simps fields_TPMStartAuthSession_def list.sel
proof (intro emits_fields)
  let ?m = "start_msg hm k b n e t s h"
  show "emits (MarshalCommandField mu ?m (''tpm_key'', T_enum E_TPMRH)) (be_bytes 4 k)"
    "emits (MarshalCommandField mu ?m (''bind'', T_enum E_TPMRH)) (be_bytes 4 b)"
    using assms(2-5) by (simp_all add: command_field_simps start_msg_reads emits_put tss_lawsD [OF assms(1)])
  show "emits (MarshalCommandField mu ?m (''nonce'', T_msg PB_TPM2BData)) (sized n)"
    "emits (MarshalCommandField mu ?m (''encrypted_salt'', T_msg PB_TPM2BData)) (sized e)"
    by (rule emits_data_field [OF assms(1)] start_msg_reads n)+
  show "emits (MarshalCommandField mu ?m (''session_type'', T_enum E_TPMSE)) [word_of_int (TPM_SE t)]"
    using TPM_SE_range [of t] by (simp add: command_field_simps start_msg_reads emits_put)
  have "msg_class (sym_def_msg s) = PB_TPMTSymDef" by (simp add: sym_def_msg_def)
  then show "emits (MarshalCommandField mu ?m (''symmetric'', T_msg PB_TPMTSymDef)) sd"
    using emits_sym_def [OF assms(1) sd] by (simp add: command_field_simps start_msg_reads MarshalMessageField_def)
  show "emits (MarshalCommandField mu ?m (''auth_hash'', T_enum E_TPMALG)) (be_bytes 2 (TPM_ALG_value h))"
    using TPM_ALG_value_range [of h]
    by (simp add: command_field_simps start_msg_reads emits_put tss_lawsD [OF assms(1)])
qed

lemma StartAuthSession_replays:
  assumes "TPMStartAuthSession k b n salt t s h = Inr c" "pb_laws rt" "tss_laws mu"
    and salt: "salt = None \<and> e = [] \<or> salt = Some (be_bytes 2 (int (length e)) @ e)"
    and handles: "rh_to_int k \<in> {1..<2 ^ 31}" "rh_to_int b \<in> {1..<2 ^ 31}"
    and nonce: "nn = (case n of None \<Rightarrow> default_nonce | Some n \<Rightarrow> n)" "nn \<noteq> []"
      "length nn \<le> buffer_size mu B_DATA" "length e \<le> buffer_size mu B_DATA" "length e < 2 ^ 16"
    and sr: "sym_replayable s"
  shows "replays mu rt c"
proof -
  let ?k = "rh_to_int k" and ?b = "rh_to_int b"
  from TPMStartAuthSession_params [OF assms(1) salt] obtain sd where
    sd: "SYM_DEF_to_bytes s = Inr sd" and ln: "length nn < 65536"
    and c: "c = TPMCommand_init (TPM_ST TPM_ST_NO_SESSIONS) (TPM_CC TPM_CC_START_AUTH_SESSION)
      (session_params ?k ?b nn e t sd h) IsStartAuthSession"
    unfolding nonce(1) by metis
  have small: "?k < 2147483648" "?b < 2147483648" "length e < 65536" "sym_named s"
    and r: "0 \<le> ?k" "?k < 4294967296" "0 \<le> ?b" "?b < 4294967296" and nz: "?k \<noteq> 0" "?b \<noteq> 0"
    using handles nonce(5) sr by (auto simp: sym_replayable_def)
  have msg: "to_proto rt c =
      Inr (Some (''startauthsession'', start_msg (header_msg c) ?k ?b nn e t s h))"
    using TPMStartAuthSession_reads_back [OF assms(1,2) salt small(3,4,1,2)] nonce(1)
    by (simp add: start_msg_def)
  have "emits (marshal_fields mu
      (start_msg (headed TPM_ST_NO_SESSIONS TPM_CC_START_AUTH_SESSION (header_msg c)) ?k ?b nn e t s h)
      (tl (pb_schema PB_TPMStartAuthSession))) (session_params ?k ?b nn e t sd h)"
    by (rule emits_cong [OF emits_start_fields [OF assms(3) r nonce(3,4) sd sr]])
      (simp add: session_params_def sized_def)
  then show ?thesis
    by (intro replays_command [OF assms(3) c msg [unfolded start_msg_def]
          post_start_msg [OF nz nonce(2) sr, unfolded start_msg_def]])
      (use ln small(3) sym_def_length [OF sd] in \<open>simp_all add: session_params_def kMaxBuffer_def start_msg_def\<close>)
qed

text \<open>
  C17: a \<open>TPMStartAuthSession\<close> seed is replayed: the message names the session type, the hash and
  the symmetric definition, and the fuzzer writes their numbers back. Nonce and salt must fit
  \<open>TPM2B_DATA\<close>, no handle is zero and the nonce is not empty.
\<close>

theorem start_auth_session_replays:
  assumes "TPMStartAuthSession k b n salt t s h = Inr c" "pb_laws rt" "tss_laws mu"
    and salt: "salt = None \<and> e = [] \<or> salt = Some (be_bytes 2 (int (length e)) @ e)"
    and handles: "rh_to_int k \<in> {1..<2 ^ 31}" "rh_to_int b \<in> {1..<2 ^ 31}"
    and nonce: "nn = (case n of None \<Rightarrow> default_nonce | Some n \<Rightarrow> n)" "nn \<noteq> []"
      "length nn \<le> buffer_size mu B_DATA" "length e \<le> buffer_size mu B_DATA" "length e < 2 ^ 16"
    and sr: "sym_replayable s"
  shows "replays mu rt c"
  by (rule StartAuthSession_replays [OF assms])

lemma start_auth_session_replays_witness:
  "\<exists>c. TPMStartAuthSession (RhEnum RH_NULL) (RhEnum RH_NULL) None None TPM_SE_HMAC null_symmetric
      ALG_SHA256 = Inr c \<and> replays plain_tss rt0 c"
proof (rule serialises)
  let ?m = "TPMStartAuthSession (RhEnum RH_NULL) (RhEnum RH_NULL) None None TPM_SE_HMAC
    null_symmetric ALG_SHA256"
  show "is_ok ?m" by code_simp
  have "sym_replayable null_symmetric" "default_nonce \<noteq> []"
    "length default_nonce \<le> buffer_size plain_tss B_DATA" by code_simp+
  then show "replays plain_tss rt0 c" if "?m = Inr c" for c
    using start_auth_session_replays [OF that plain_runtime_laws plain_tss_laws, of "[]" default_nonce]
    by simp
qed

subsection \<open>NV, loading and PCR commands\<close>

lemma TPMNVDefineSpace_pieces:
  assumes "TPMNVDefineSpace ix attrs s h sz = Inr c"
  shows "0 \<le> s" "s < 4294967296" "0 \<le> ix" "ix < 4294967296" "0 \<le> sz" "sz < 65536"
    and "c = TPMCommand_init (TPM_ST TPM_ST_SESSIONS) (TPM_CC TPM_CC_NV_DEFINE_SPACE)
      (be_bytes 4 (TPM_RH_value h) @ one_session s @ sized [] @ sized (be_bytes 4 ix @ be_bytes 2 11 @
         be_bytes 4 (nv_attrs_to_int attrs) @ sized [] @ be_bytes 2 sz) @ []) IsNVDefineSpace"
  using assms
  by (auto simp: TPMNVDefineSpace_def Let_def bindE_eq_Inr to_bytes_Inr DATA_default_def
      one_session_area_layout DATA_layout TPM2B_NV_PUBLIC_layout NV_PUBLIC_layout sized_def)

lemma NVDefineSpace_replays:
  assumes "TPMNVDefineSpace ix attrs s h sz = Inr c" "pb_laws rt" "tss_laws mu"
  shows "replays mu rt c"
proof -
  note r = TPMNVDefineSpace_pieces [OF assms(1)]
  note msg = TPMNVDefineSpace_reads_back [OF assms(1,2)]
  let ?kws = "[(''auth_handle'', PbInt (TPM_RH_value h)),
     (''sessions'', PbList [session_msg (AUTH_COMMAND s)]), (''auth'', PbMsg (data_msg [])),
     (''nv_public'', PbMsg (nv_public_msg ix attrs sz))]"
  let ?m = "Msg PB_TPMNvDefineSpace
    ((''header'', PbMsg (headed TPM_ST_SESSIONS TPM_CC_NV_DEFINE_SPACE (header_msg c))) # ?kws)"
  have post: "post_process (Msg PB_TPMNvDefineSpace ((''header'', PbMsg (header_msg c)) # ?kws)) = ?m"
    by (simp only: post_process_def msg_class.simps pb_class.case set_header_first)
  have "emits (marshal_fields mu ?m (tl (pb_schema PB_TPMNvDefineSpace)))
      (be_bytes 4 (TPM_RH_value h) @ one_session s @ sized [] @ sized (be_bytes 4 ix @ be_bytes 2 11 @
         be_bytes 4 (nv_attrs_to_int attrs) @ sized [] @ be_bytes 2 sz) @ [])"
    unfolding pb_schema.simps fields_TPMNvDefineSpace_def list.sel
  proof (intro emits_fields)
    show "emits (MarshalCommandField mu ?m (''auth_handle'', T_uint32)) (be_bytes 4 (TPM_RH_value h))"
      using TPM_RH_value_range [of h]
      by (simp add: command_field_simps uint_field_def emits_put tss_lawsD [OF assms(3)])
    show "emits (MarshalCommandField mu ?m (''sessions'', T_rep PB_TPMSession)) (one_session s)"
      by (rule emits_session_field [OF assms(3) r(1,2)]) (simp add: field_reads)
    show "emits (MarshalCommandField mu ?m (''auth'', T_msg PB_TPM2BData)) (sized [])"
      by (rule emits_data_field [OF assms(3)]) (simp_all add: msg_sub_def)
    show "emits (MarshalCommandField mu ?m (''nv_public'', T_msg PB_TPMNvPublic))
      (sized (be_bytes 4 ix @ be_bytes 2 11 @ be_bytes 4 (nv_attrs_to_int attrs) @ sized [] @ be_bytes 2 sz))"
      using emits_nv_public [OF assms(3) r(3-6), of attrs]
      by (simp add: command_field_simps msg_sub_def MarshalMessageField_def nv_public_msg_def)
  qed
  then show ?thesis
    by (intro replays_command [OF assms(3) r(7) msg post]) (simp_all add: kMaxBuffer_def)
qed

text \<open>C19: a \<open>TPMNVDefineSpace\<close> seed is replayed, whatever its arguments.\<close>

theorem nv_define_space_replays:
  assumes "TPMNVDefineSpace ix attrs s h sz = Inr c" "pb_laws rt" "tss_laws mu"
  shows "replays mu rt c"
  by (rule NVDefineSpace_replays [OF assms])

lemma nv_define_space_replays_witness:
  "\<exists>c. TPMNVDefineSpace nv_index_default nv_attributes_default (TPM_RS_value RS_PW) RH_OWNER 32 = Inr c \<and>
    replays plain_tss rt0 c"
proof (rule serialises)
  show "is_ok (TPMNVDefineSpace nv_index_default nv_attributes_default (TPM_RS_value RS_PW) RH_OWNER 32)"
    by code_simp
  show "replays plain_tss rt0 c"
    if "TPMNVDefineSpace nv_index_default nv_attributes_default (TPM_RS_value RS_PW) RH_OWNER 32 = Inr c" for c
    by (rule nv_define_space_replays [OF that plain_runtime_laws plain_tss_laws])
qed

definition load_msg :: "pb_msg \<Rightarrow> int \<Rightarrow> int \<Rightarrow> bytes \<Rightarrow> pb_msg \<Rightarrow> pb_msg" where
  "load_msg hm h s prb pubm = Msg PB_TPMLoad
     [(''header'', PbMsg hm), (''parent_handle'', PbInt h),
      (''sessions'', PbList [session_msg (AUTH_COMMAND s)]),
      (''in_private'', PbMsg (Msg PB_TPM2BPrivate
         [(''size'', PbInt (int (length (drop 2 prb)))), (''buffer'', PbBytes (drop 2 prb))])),
      (''in_public'', PbMsg pubm)]"

lemma post_load_msg:
  "h \<noteq> 0 \<Longrightarrow> post_process (load_msg hm h s prb pubm) =
    load_msg (headed TPM_ST_SESSIONS TPM_CC_LOAD hm) h s prb (normalised_public kChildObjectAttributes pubm)"
  by (simp add: load_msg_def post_process_def NormalizeLoad_def NormalizeInPublic_def
      add_password_session_def default_uint_def normalize_in_public_split field_reads)

lemma emits_load_fields:
  assumes "tss_laws mu" "0 \<le> h" "h < 4294967296" "0 \<le> s" "s < 4294967296"
    and "length d \<le> buffer_size mu B_PRIVATE"
    and pub: "PUBLIC_to_bytes p = Inr j" "length j < 65536" "replayable_public mu p"
  shows "emits (marshal_fields mu (load_msg hm h s (sized d) (normalised_public oa (public_view p n)))
      (tl (pb_schema PB_TPMLoad)))
    (be_bytes 4 h @ one_session s @ sized d @ sized j @ [])"
  unfolding pb_schema.simps fields_TPMLoad_def list.sel
proof (intro emits_fields)
  let ?m = "load_msg hm h s (sized d) (normalised_public oa (public_view p n))"
  show "emits (MarshalCommandField mu ?m (''parent_handle'', T_uint32)) (be_bytes 4 h)"
    by (rule emits_u32_field [OF assms(1)]) (use assms(2,3) in \<open>simp_all add: load_msg_def field_reads\<close>)
  show "emits (MarshalCommandField mu ?m (''sessions'', T_rep PB_TPMSession)) (one_session s)"
    by (rule emits_session_field [OF assms(1,4,5)]) (simp add: load_msg_def field_reads)
  show "emits (MarshalCommandField mu ?m (''in_private'', T_msg PB_TPM2BPrivate)) (sized d)"
    using emits_tpm2b [OF assms(1), of "msg_sub PB_TPM2BPrivate ?m ''in_private''" B_PRIVATE] assms(6)
    by (simp add: command_field_simps load_msg_def field_reads MarshalMessageField_def sized_def)
  show "emits (MarshalCommandField mu ?m (''in_public'', T_msg PB_TPM2BPublic)) (sized j)"
    using emits_public [OF assms(1) pub]
    by (simp add: command_field_simps load_msg_def field_reads MarshalMessageField_def)
qed

lemma TPMLoad_made:
  fixes t :: TPM2B_PUBLIC
  assumes "pb_laws rt" "0 \<le> h" "h < 4294967296" "length d < 65536"
    and j: "PUBLIC_to_bytes (public_area t) = Inr j" "length j < 65536" "replayable_public mu (public_area t)"
    and ps: "ps = be_bytes 4 h @ one_session (rs_to_int (RsEnum RS_PW)) @ sized d @ sized j @ []"
  obtains c x n where "TPMLoad rt h (sized d) (sized j) (RsEnum RS_PW) = Inr c"
    "c = TPMCommand_init (TPM_ST TPM_ST_SESSIONS) (TPM_CC TPM_CC_LOAD) ps x"
    "to_proto rt c = Inr (Some (''load'', load_msg (header_msg c) h (rs_to_int (RsEnum RS_PW)) (sized d)
       (public_view (public_area t) n)))"
proof -
  let ?s = "rs_to_int (RsEnum RS_PW)" and ?pubm = "public_view (public_area t) (int (length (sized j) - 2))"
  define hm where
    "hm = header_msg (TPMCommand_init (TPM_ST TPM_ST_SESSIONS) (TPM_CC TPM_CC_LOAD) ps Plain)"
  define c where "c = TPMCommand_init (TPM_ST TPM_ST_SESSIONS) (TPM_CC TPM_CC_LOAD) ps
      (IsLoad (load_msg hm h ?s (sized d) ?pubm))"
  have enc: "TPM2B_PUBLIC_to_bytes t = Inr (sized j)" using j by (simp add: TPM2B_PUBLIC_layout sized_def)
  have "TPMLoad rt h (sized d) (sized j) (RsEnum RS_PW) = Inr c"
    unfolding c_def load_msg_def hm_def
    by (rule TPMLoad_decodes [OF assms(1-3) _ _ _ _ proto_public_plain [OF assms(1) enc
          replayable_plain [OF j(3)]] msg_classes(3)])
      (use assms(4) j ps in simp_all)
  moreover have "header_msg c = hm"
    by (simp add: hm_def c_def header_msg_def TPMCommand_init_def command_size_def)
  then have "to_proto rt c = Inr (Some (''load'', load_msg (header_msg c) h ?s (sized d) ?pubm))"
    by (simp add: c_def to_proto_def TPMCommand_init_def)
  ultimately show thesis using that c_def by blast
qed

lemma Load_replays:
  assumes "pb_laws rt" "tss_laws mu" "0 < h" "h < 2 ^ 32"
    and pr: "PRIVATE_to_bytes pr = Inr prb" "length (private_buffer pr) \<le> buffer_size mu B_PRIVATE"
    and pub: "TPM2B_PUBLIC_to_bytes t = Inr pubb" "replayable_public mu (public_area t)"
  shows "\<exists>c. TPMLoad rt h prb pubb (RsEnum RS_PW) = Inr c \<and> replays mu rt c"
proof -
  let ?s = "rs_to_int (RsEnum RS_PW)" and ?d = "private_buffer pr"
  obtain j where j: "PUBLIC_to_bytes (public_area t) = Inr j" "length j < 65536" and pubb: "pubb = sized j"
    using pub(1) by (auto simp: TPM2B_PUBLIC_layout sized_def)
  have prb: "prb = sized ?d" "length ?d < 65536"
    using pr(1) by (auto simp: PRIVATE_to_bytes_def result_simps sized_def)
  have h: "0 \<le> h" "h < 4294967296" "h \<noteq> 0" and s: "0 \<le> ?s" "?s < 4294967296"
    using assms(3,4) by simp_all
  from TPMLoad_made [OF assms(1) h(1,2) prb(2) j pub(2) refl] obtain c x n where
    load: "TPMLoad rt h (sized ?d) (sized j) (RsEnum RS_PW) = Inr c"
    and c: "c = TPMCommand_init (TPM_ST TPM_ST_SESSIONS) (TPM_CC TPM_CC_LOAD)
      (be_bytes 4 h @ one_session ?s @ sized ?d @ sized j @ []) x"
    and msg: "to_proto rt c = Inr (Some (''load'', load_msg (header_msg c) h ?s (sized ?d)
      (public_view (public_area t) n)))" .
  have "replays mu rt c"
    by (rule replays_command [OF assms(2) c msg [unfolded load_msg_def]
          post_load_msg [OF h(3), unfolded load_msg_def] _
          emits_load_fields [OF assms(2) h(1,2) s pr(2) j pub(2), unfolded load_msg_def]])
      (use j prb in \<open>simp_all add: kMaxBuffer_def\<close>)
  with load show ?thesis unfolding prb(1) pubb by blast
qed

text \<open>
  C18: \<open>TPMLoad\<close> with a private part that fits the buffer and a replayable public area is replayed.
\<close>

theorem load_replays:
  assumes "pb_laws rt" "tss_laws mu" "0 < h" "h < 2 ^ 32"
    and pr: "PRIVATE_to_bytes pr = Inr prb" "length (private_buffer pr) \<le> buffer_size mu B_PRIVATE"
    and pub: "TPM2B_PUBLIC_to_bytes t = Inr pubb" "replayable_public mu (public_area t)"
  shows "\<exists>c. TPMLoad rt h prb pubb (RsEnum RS_PW) = Inr c \<and> replays mu rt c"
  by (rule Load_replays [OF assms])

lemma load_replays_witness:
  "\<exists>b. TPM2B_PUBLIC_to_bytes (rsa_area (AlgEnum ALG_NULL) None) = Inr b \<and>
    (\<exists>c. TPMLoad rt0 0x80000000 [0, 1, 7] b (RsEnum RS_PW) = Inr c \<and> replays plain_tss rt0 c)"
proof (rule serialises)
  show "is_ok (TPM2B_PUBLIC_to_bytes (rsa_area (AlgEnum ALG_NULL) None))" by code_simp
  have "replayable_public plain_tss (public_area (rsa_area (AlgEnum ALG_NULL) None))"
    "PRIVATE_to_bytes \<lparr>private_buffer = [7]\<rparr> = Inr [0, 1, 7]"
    "length (private_buffer \<lparr>private_buffer = [7]\<rparr>) \<le> buffer_size plain_tss B_PRIVATE" by code_simp+
  then show "\<exists>c. TPMLoad rt0 0x80000000 [0, 1, 7] b (RsEnum RS_PW) = Inr c \<and> replays plain_tss rt0 c"
    if "TPM2B_PUBLIC_to_bytes (rsa_area (AlgEnum ALG_NULL) None) = Inr b" for b
    using load_replays [OF plain_runtime_laws plain_tss_laws _ _ _ _ that, of "0x80000000"] by fastforce
qed

lemma emits_selection_field:
  assumes "tss_laws mu" "TPML_PCR_SELECTION_to_bytes l = Inr b" "pcrs_fit mu l"
    and "msg_sub PB_TPMLPCRSelection m f = pcr_list_msg l"
  shows "emits (MarshalCommandField mu m (f, T_msg PB_TPMLPCRSelection)) b"
  using emits_pcr_list [OF assms(1-3)]
  by (simp add: command_field_simps assms(4) MarshalMessageField_def)

lemma PCRRead_replays:
  assumes "TPML_PCR_SELECTION_to_bytes l = Inr b" "length b < 65536" "pb_laws rt" "tss_laws mu"
    and "pcrs_fit mu l" "TPMPCRRead rt l = Inr c"
  shows "replays mu rt c"
proof -
  have l: "length b < 4294967286" using assms(2) by simp
  from TPMPCRRead_message [OF assms(1,3) l] assms(6) have
    msg: "to_proto rt c = Inr (Some (''pcrread'', Msg PB_TPMPCRRead
      [(''header'', PbMsg (header_msg c)), (''pcrSelection'', PbMsg (pcr_list_msg l))]))" by simp
  from assms(1,6) obtain proto where
    c: "c = TPMCommand_init (TPM_ST TPM_ST_NO_SESSIONS) (TPM_CC TPM_CC_PCR_READ) b (IsPCRRead proto)"
    by (auto simp: TPMPCRRead_def Let_def bindE_eq_Inr TPMCommand_init_def)
  let ?kws = "[(''pcrSelection'', PbMsg (pcr_list_msg l))]"
  have post: "post_process (Msg PB_TPMPCRRead ((''header'', PbMsg (header_msg c)) # ?kws)) =
      Msg PB_TPMPCRRead ((''header'', PbMsg (headed TPM_ST_NO_SESSIONS TPM_CC_PCR_READ (header_msg c))) # ?kws)"
    by (simp only: post_process_def msg_class.simps pb_class.case set_header_first)
  have "emits (marshal_fields mu (Msg PB_TPMPCRRead
      ((''header'', PbMsg (headed TPM_ST_NO_SESSIONS TPM_CC_PCR_READ (header_msg c))) # ?kws))
      (tl (pb_schema PB_TPMPCRRead))) (b @ [])"
    unfolding pb_schema.simps fields_TPMPCRRead_def list.sel
    by (intro emits_fields emits_selection_field [OF assms(4,1,5)]) (simp add: msg_sub_def)
  then show ?thesis
    by (intro replays_command [OF assms(4) c msg post]) (use assms(2) in \<open>simp_all add: kMaxBuffer_def\<close>)
qed

lemma PCRAllocate_replays:
  assumes "TPML_PCR_SELECTION_to_bytes l = Inr b" "TPMPCRAllocate l h s = Inr a" "length b < 65536"
    and "pb_laws rt" "tss_laws mu" "pcrs_fit mu l" "rh_to_int h < 2147483648"
  shows "replays mu rt a"
proof -
  note lb = assms(3)
  let ?h = "rh_to_int h" and ?s = "rs_to_int s"
  from assms(1,2) have r: "0 \<le> ?h" "?h < 4294967296" "0 \<le> ?s" "?s < 4294967296"
    and a: "a = TPMCommand_init (TPM_ST TPM_ST_SESSIONS) (TPM_CC TPM_CC_PCR_ALLOCATE)
      (be_bytes 4 ?h @ one_session ?s @ b @ []) (IsPCRAllocate l ?h ?s)"
    by (auto simp: TPMPCRAllocate_def Let_def bindE_eq_Inr to_bytes_Inr one_session_area_layout)
  let ?sm = "Msg PB_TPMSession [(''session_handle'', PbInt ?s), (''nonce_size'', PbInt 0),
     (''session_attributes'', PbInt 0), (''hmac_size'', PbInt 0)]"
  let ?kws = "[(''auth_handle'', PbInt ?h), (''sessions'', PbList [?sm]),
     (''pcr_allocation'', PbMsg (pcr_list_msg l))]"
  let ?m = "Msg PB_TPMPCRAllocate
    ((''header'', PbMsg (headed TPM_ST_SESSIONS TPM_CC_PCR_ALLOCATE (header_msg a))) # ?kws)"
  have msg: "to_proto rt a = Inr (Some (''pcrallocate'', Msg PB_TPMPCRAllocate
      ((''header'', PbMsg (header_msg a)) # ?kws)))"
    by (rule TPMPCRAllocate_reads_back [OF assms(2,4)])
      (use assms(7) lb in \<open>simp_all add: a TPMCommand_init_def\<close>)
  have post: "post_process (Msg PB_TPMPCRAllocate ((''header'', PbMsg (header_msg a)) # ?kws)) = ?m"
    by (simp only: post_process_def msg_class.simps pb_class.case set_header_first)
  have "emits (marshal_fields mu ?m (tl (pb_schema PB_TPMPCRAllocate)))
      (be_bytes 4 ?h @ one_session ?s @ b @ [])"
    unfolding pb_schema.simps fields_TPMPCRAllocate_def list.sel
  proof (intro emits_fields)
    show "emits (MarshalCommandField mu ?m (''auth_handle'', T_enum E_TPMRH)) (be_bytes 4 ?h)"
      using r by (simp add: command_field_simps enum_field_def emits_put tss_lawsD [OF assms(5)])
    show "emits (MarshalCommandField mu ?m (''sessions'', T_rep PB_TPMSession)) (one_session ?s)"
      unfolding command_field_simps
      by (rule emits_one_session [OF assms(5) r(3,4), of _ _ ?sm])
        (simp_all add: msg_list_def uint_field_def bytes_field_def)
    show "emits (MarshalCommandField mu ?m (''pcr_allocation'', T_msg PB_TPMLPCRSelection)) b"
      by (rule emits_selection_field [OF assms(5,1,6)]) (simp add: msg_sub_def)
  qed
  then show ?thesis
    by (intro replays_command [OF assms(5) a msg post]) (use lb in \<open>simp_all add: kMaxBuffer_def\<close>)
qed

text \<open>
  C20: the PCR commands are replayed: reading and allocating a list of selections that fits the
  number of banks and the size of a selection.
\<close>

theorem pcr_commands_replay:
  assumes "TPML_PCR_SELECTION_to_bytes l = Inr b" "length b < 2 ^ 16" "pcrs_fit mu l"
    and "pb_laws rt" "tss_laws mu"
    and "TPMPCRAllocate l h s = Inr a" "rh_to_int h < 2 ^ 31"
  shows "(\<exists>c. TPMPCRRead rt l = Inr c \<and> replays mu rt c) \<and> replays mu rt a"
proof
  have lb: "length b < 65536" using assms(2) by simp
  have "\<exists>c. TPMPCRRead rt l = Inr c"
    using TPMPCRRead_message [OF assms(1,4)] lb by force
  then show "\<exists>c. TPMPCRRead rt l = Inr c \<and> replays mu rt c"
    using PCRRead_replays [OF assms(1) lb assms(4,5,3)] by blast
  show "replays mu rt a"
    using PCRAllocate_replays [OF assms(1,6) lb assms(4,5,3)] assms(7) by simp
qed

lemma pcr_commands_replay_witness:
  "\<exists>a. TPMPCRAllocate \<lparr>selections = [\<lparr>pcr_hash = AlgEnum ALG_SHA256, pcr_select = [1, 0, 2]\<rparr>]\<rparr>
      (RhEnum RH_OWNER) (RsEnum RS_PW) = Inr a \<and> replays plain_tss rt0 a"
proof (rule serialises)
  let ?l = "\<lparr>selections = [\<lparr>pcr_hash = AlgEnum ALG_SHA256, pcr_select = [1, 0, 2]\<rparr>]\<rparr>"
  show "is_ok (TPMPCRAllocate ?l (RhEnum RH_OWNER) (RsEnum RS_PW))" by code_simp
  have l: "TPML_PCR_SELECTION_to_bytes ?l = Inr [0, 0, 0, 1, 0, 11, 3, 1, 0, 2]" "pcrs_fit plain_tss ?l"
    by code_simp+
  show "replays plain_tss rt0 a" if "TPMPCRAllocate ?l (RhEnum RH_OWNER) (RsEnum RS_PW) = Inr a" for a
    using pcr_commands_replay [OF l(1) _ l(2) plain_runtime_laws plain_tss_laws that] by simp
qed

text \<open>
  A policy of another size than the hash algorithm's is executed as zeros of the right size, so
  the message seed of the variant with an empty policy under SHA-256 cannot fail for its size.
\<close>

lemma wrong_policy_size_replaced:
  assumes "msg_class m = PB_TPMSetPrimaryPolicy"
    and "enum_field E_TPMALG m ''hash_alg'' = TPM_ALG_value ALG_SHA256"
    and "length (bytes_field (msg_sub PB_TPM2BDigest m ''auth_policy'') ''buffer'') \<noteq> 32"
  shows "bytes_field (msg_sub PB_TPM2BDigest (post_process m) ''auth_policy'') ''buffer'' = replicate 32 0"
  using assms
  by (simp add: post_process_def NormalizeSetPrimaryPolicy_def Let_def digest_policy_def mutate_def
      add_password_session_def default_enum_def set_header_def accessors_set)

end
