(* ===== verification/Harness_Replay.thy ===== *)
theory Harness_Replay
  imports Harness_Props
begin

section \<open>Replay of the remaining commands\<close>

text \<open>
  The RSA, credential, event, policy and clear commands: the classes whose message is built from the
  arguments and not from the parameters. First the fields they have in common.
\<close>

lemma emits_buffer_field:
  assumes "tss_laws mu" "msg_sub c m f = Msg c [(''size'', PbInt n), (''buffer'', PbBytes d)]"
    and "(c, k) \<in> {(PB_TPM2BData, B_DATA), (PB_TPM2BPublicKeyRSA, B_RSA_KEY), (PB_TPM2BEvent, B_EVENT)}"
    and "length d \<le> buffer_size mu k"
  shows "emits (MarshalCommandField mu m (f, T_msg c)) (sized d)"
  using emits_tpm2b [OF assms(1), of "Msg c [(''size'', PbInt n), (''buffer'', PbBytes d)]" k] assms(3,4)
  by (auto simp: command_field_simps assms(2) MarshalMessageField_def field_reads)

lemma emits_digest_field:
  assumes "tss_laws mu" "bytes_field (msg_sub PB_TPM2BDigest m f) ''buffer'' = d" "length d < 65536"
    and "msg_class (msg_sub PB_TPM2BDigest m f) = PB_TPM2BDigest"
  shows "emits (MarshalCommandField mu m (f, T_msg PB_TPM2BDigest)) (sized d)"
  using emits_digest [OF assms(1), of "msg_sub PB_TPM2BDigest m f"] assms(2-)
  by (simp add: command_field_simps MarshalMessageField_def)

lemma emits_alg_field:
  "tss_laws mu \<Longrightarrow> enum_field E_TPMALG m f = v \<Longrightarrow> 0 \<le> v \<Longrightarrow> v < 65536
    \<Longrightarrow> emits (MarshalCommandField mu m (f, T_enum E_TPMALG)) (be_bytes 2 v)"
  by (simp add: command_field_simps emits_put tss_lawsD)

lemma emits_session_area:
  assumes "tss_laws mu" "0 \<le> s" "s < 4294967296" "msg_list m f = [sm]"
    and "uint_field sm ''session_handle'' = s \<and> bytes_field sm ''nonce'' = [] \<and>
      uint_field sm ''session_attributes'' = 0 \<and> bytes_field sm ''hmac'' = []"
  shows "emits (MarshalCommandField mu m (f, T_rep PB_TPMSession)) (one_session s)"
  unfolding command_field_simps using emits_one_session [OF assms(1-4)] assms(5) by blast

lemma post_sets_header:
  "post_process (Msg PB_TPMMakeCredential ((''header'', PbMsg h) # kws)) =
     Msg PB_TPMMakeCredential ((''header'', PbMsg (headed TPM_ST_NO_SESSIONS TPM_CC_MAKE_CREDENTIAL h)) # kws)"
  "post_process (Msg PB_TPMRSAEncrypt ((''header'', PbMsg h) # kws)) =
     Msg PB_TPMRSAEncrypt ((''header'', PbMsg (headed TPM_ST_NO_SESSIONS TPM_CC_RSA_ENCRYPT h)) # kws)"
  "post_process (Msg PB_TPMRSADecrypt ((''header'', PbMsg h) # kws)) =
     Msg PB_TPMRSADecrypt ((''header'', PbMsg (headed TPM_ST_SESSIONS TPM_CC_RSA_DECRYPT h)) # kws)"
  "post_process (Msg PB_TPMPCREvent ((''header'', PbMsg h) # kws)) =
     Msg PB_TPMPCREvent ((''header'', PbMsg (headed TPM_ST_SESSIONS TPM_CC_PCR_EVENT h)) # kws)"
  "post_process (Msg PB_TPMPCRSetAuthPolicy ((''header'', PbMsg h) # kws)) =
     Msg PB_TPMPCRSetAuthPolicy ((''header'', PbMsg (headed TPM_ST_SESSIONS TPM_CC_PCR_SET_AUTH_POLICY h)) # kws)"
  by (simp_all only: post_process_def msg_class.simps pb_class.case set_header_first)

text \<open>An RSA scheme whose message has the hash that its bytes have.\<close>

definition scheme_replayable :: "TPMT_RSA_DECRYPT \<Rightarrow> bool" where
  "scheme_replayable s \<longleftrightarrow> (alg_to_int (rdec_scheme s) = TPM_ALG_value ALG_OAEP \<longrightarrow> rdec_hash_alg s \<noteq> None)"

definition rsa_scheme :: "TPMT_RSA_DECRYPT \<Rightarrow> pb_msg" where
  "rsa_scheme s = Msg PB_TPMTRSADecrypt
     [(''scheme'', PbInt (alg_to_int (rdec_scheme s))),
      (''hash_alg'', PbInt (case rdec_hash_alg s of None \<Rightarrow> 0 | Some h \<Rightarrow> alg_to_int h))]"

lemma emits_scheme_field:
  assumes "tss_laws mu" "RSA_DECRYPT_to_bytes s = Inr b" "scheme_replayable s"
    and "msg_sub PB_TPMTRSADecrypt m f = rsa_scheme s"
  shows "emits (MarshalCommandField mu m (f, T_msg PB_TPMTRSADecrypt)) b"
proof -
  let ?a = "alg_to_int (rdec_scheme s)"
  have a: "0 \<le> ?a" "?a < 65536" using assms(2) by (simp_all add: RSA_DECRYPT_layout)
  have "emits (MarshalTPMTRSADecrypt mu (rsa_scheme s)) b"
  proof (cases "?a = 23")
    case True
    with assms(2,3) obtain h where h: "rdec_hash_alg s = Some h" "0 \<le> alg_to_int h" "alg_to_int h < 65536"
      "b = be_bytes 2 ?a @ be_bytes 2 (alg_to_int h)"
      by (auto simp: RSA_DECRYPT_layout scheme_replayable_def scheme_suffix_def scheme_suffix_ok_def)
    show ?thesis
      using True h by (simp add: emits_def MarshalTPMTRSADecrypt_def rsa_scheme_def field_reads Let_def
          tss_lawsD [OF assms(1)] put_def)
  next
    case False
    then have "b = be_bytes 2 ?a"
      using assms(2) by (simp add: RSA_DECRYPT_layout scheme_suffix_def split: option.splits)
    then show ?thesis
      using False a by (simp add: emits_def MarshalTPMTRSADecrypt_def rsa_scheme_def field_reads Let_def
          tss_lawsD [OF assms(1)] put_def)
  qed
  then show ?thesis
    using assms(4) by (simp add: command_field_simps MarshalMessageField_def) (simp add: rsa_scheme_def)
qed

lemma rsa_scheme_message:
  assumes "pb_laws rt" "RSA_DECRYPT_to_bytes s = Inr b"
    and "\<forall>h. rdec_hash_alg s = Some h \<longrightarrow> alg_to_int h \<in> {0..<2 ^ 31}"
  shows "rsa_scheme_msg rt s = Inr (rsa_scheme s)"
  using assms by (auto simp: rsa_scheme_msg_def Let_def rsa_scheme_def RSA_DECRYPT_layout pb_simps
      split: option.splits)

subsection \<open>Credentials\<close>

lemma MakeCredential_replays:
  assumes "TPMMakeCredential h cred nm = Inr c" "pb_laws rt" "tss_laws mu"
    and "length cred \<le> buffer_size mu B_DATA" "length nm \<le> buffer_size mu B_DATA"
  shows "replays mu rt c"
proof -
  from assms(1) have r: "0 \<le> h" "h < 4294967296" "length cred < 65536" "length nm < 65536"
    and c: "c = TPMCommand_init (TPM_ST TPM_ST_NO_SESSIONS) (TPM_CC TPM_CC_MAKE_CREDENTIAL)
      (be_bytes 4 h @ sized cred @ sized nm @ []) (IsMakeCredential h cred nm)"
    by (auto simp: TPMMakeCredential_def result_simps sized_def)
  let ?kws = "[(''handle'', PbInt h), (''credential'', PbMsg (data_msg cred)),
     (''object_name'', PbMsg (data_msg nm))]"
  have hd: "proto_header rt c = Inr (header_msg c)"
    unfolding c by (rule proto_header_ok [OF assms(2)]) (use r in simp)
  have "cmd_self c = IsMakeCredential h cred nm" by (simp add: c TPMCommand_init_def)
  then have msg: "to_proto rt c = Inr (Some (''makecredential'', Msg PB_TPMMakeCredential
      ((''header'', PbMsg (header_msg c)) # ?kws)))"
    using r assms(2) by (simp add: to_proto_def TPMMakeCredential_to_proto_def hd pb_simps)
  have "emits (marshal_fields mu (Msg PB_TPMMakeCredential
      ((''header'', PbMsg (headed TPM_ST_NO_SESSIONS TPM_CC_MAKE_CREDENTIAL (header_msg c))) # ?kws))
      (tl (pb_schema PB_TPMMakeCredential))) (be_bytes 4 h @ sized cred @ sized nm @ [])"
    unfolding pb_schema.simps fields_TPMMakeCredential_def list.sel
    by (intro emits_fields emits_u32_field emits_data_field) (use assms r in \<open>simp_all add: field_reads\<close>)
  then show ?thesis
    by (intro replays_command [OF assms(3) c msg post_sets_header(1)]) (use r in \<open>simp_all add: kMaxBuffer_def\<close>)
qed

subsection \<open>RSA encryption and decryption\<close>

text \<open>What an RSA command asks of its arguments: they fit the buffers of tpm2-tss.\<close>

definition rsa_fits :: "tss \<Rightarrow> bytes \<Rightarrow> TPMT_RSA_DECRYPT \<Rightarrow> bytes \<Rightarrow> bool" where
  "rsa_fits mu data s label \<longleftrightarrow>
     length data \<le> buffer_size mu B_RSA_KEY \<and> length label \<le> buffer_size mu B_DATA \<and>
     scheme_replayable s \<and> (\<forall>h. rdec_hash_alg s = Some h \<longrightarrow> alg_to_int h \<in> {0..<2 ^ 31})"

definition key_msg :: "bytes \<Rightarrow> pb_msg" where
  "key_msg b = Msg PB_TPM2BPublicKeyRSA [(''size'', PbInt (int (length b))), (''buffer'', PbBytes b)]"

lemma rsa_msg_classes [simp]:
  "msg_class (key_msg b) = PB_TPM2BPublicKeyRSA" "msg_class (rsa_scheme s) = PB_TPMTRSADecrypt"
  by (simp_all add: key_msg_def rsa_scheme_def)

lemma key_buffer_msg_ok:
  "pb_laws rt \<Longrightarrow> length b < 65536 \<Longrightarrow> key_buffer_msg rt b = Inr (key_msg b)"
  by (simp add: key_buffer_msg_def key_msg_def pb_simps)

lemma RSAEncrypt_replays:
  assumes "TPMRSAEncrypt h ms s lb = Inr c" "pb_laws rt" "tss_laws mu" "rsa_fits mu ms s lb"
  shows "replays mu rt c"
proof -
  from assms(1) obtain sb where sb: "RSA_DECRYPT_to_bytes s = Inr sb"
    and r: "0 \<le> h" "h < 4294967296" "length ms < 65536" "length lb < 65536"
    and c: "c = TPMCommand_init (TPM_ST TPM_ST_NO_SESSIONS) (TPM_CC TPM_CC_RSA_ENCRYPT)
      (be_bytes 4 h @ sized ms @ sb @ sized lb @ []) (IsRSAEncrypt h ms s lb)"
    by (auto simp: TPMRSAEncrypt_def result_simps sized_def tpm2b_layout)
  have fit: "length ms \<le> buffer_size mu B_RSA_KEY" "length lb \<le> buffer_size mu B_DATA"
    "scheme_replayable s" using assms(4) by (simp_all add: rsa_fits_def)
  have sc: "rsa_scheme_msg rt s = Inr (rsa_scheme s)"
    by (rule rsa_scheme_message [OF assms(2) sb]) (use assms(4) in \<open>simp add: rsa_fits_def\<close>)
  have lsb: "length sb \<le> 4" using sb by (auto simp: RSA_DECRYPT_layout scheme_suffix_def split: option.splits)
  let ?kws = "[(''key_handle'', PbInt h), (''message'', PbMsg (key_msg ms)),
     (''in_scheme'', PbMsg (rsa_scheme s)), (''label'', PbMsg (data_msg lb))]"
  have hd: "proto_header rt c = Inr (header_msg c)"
    unfolding c by (rule proto_header_ok [OF assms(2)]) (use r lsb in simp)
  have "cmd_self c = IsRSAEncrypt h ms s lb" by (simp add: c TPMCommand_init_def)
  then have msg: "to_proto rt c = Inr (Some (''rsaencrypt'', Msg PB_TPMRSAEncrypt
      ((''header'', PbMsg (header_msg c)) # ?kws)))"
    using r assms(2)
    by (simp add: to_proto_def TPMRSAEncrypt_to_proto_def hd sc pb_simps key_buffer_msg_ok)
  have "emits (marshal_fields mu (Msg PB_TPMRSAEncrypt
      ((''header'', PbMsg (headed TPM_ST_NO_SESSIONS TPM_CC_RSA_ENCRYPT (header_msg c))) # ?kws))
      (tl (pb_schema PB_TPMRSAEncrypt))) (be_bytes 4 h @ sized ms @ sb @ sized lb @ [])"
    unfolding pb_schema.simps fields_TPMRSAEncrypt_def list.sel
    by (intro emits_fields emits_u32_field emits_data_field emits_scheme_field [OF _ sb]
        emits_buffer_field [where k = B_RSA_KEY and n = "int (length ms)"])
      (use assms(3) fit r in \<open>simp_all add: field_reads key_msg_def\<close>)
  then show ?thesis
    by (intro replays_command [OF assms(3) c msg post_sets_header(2)]) (use r lsb in \<open>simp_all add: kMaxBuffer_def\<close>)
qed

text \<open>The message of the one session that the remaining commands carry, in its two forms.\<close>

definition short_session :: "int \<Rightarrow> pb_msg" where
  "short_session s = Msg PB_TPMSession
     [(''session_handle'', PbInt s), (''nonce_size'', PbInt 0), (''session_attributes'', PbInt 0),
      (''hmac_size'', PbInt 0)]"

lemma session_msgs_ok:
  "pb_laws rt \<Longrightarrow> 0 \<le> s \<Longrightarrow> s < 4294967296 \<Longrightarrow> short_session_msg rt s = Inr (short_session s)"
  "pb_laws rt \<Longrightarrow> 0 \<le> s \<Longrightarrow> s < 4294967296 \<Longrightarrow>
     password_session_msg rt s = Inr (session_msg (AUTH_COMMAND s))"
  by (simp_all add: short_session_msg_def short_session_def password_session_msg_def pb_simps
      session_msg_def AUTH_COMMAND_def)

lemma session_msg_class [simp]:
  "msg_class (short_session s) = PB_TPMSession" "msg_class (session_msg a) = PB_TPMSession"
  by (simp_all add: short_session_def session_msg_def)

lemma emits_short_session:
  assumes "tss_laws mu" "0 \<le> s" "s < 4294967296" "msg_list m f = [short_session s]"
  shows "emits (MarshalCommandField mu m (f, T_rep PB_TPMSession)) (one_session s)"
  by (rule emits_session_area [OF assms]) (simp add: short_session_def uint_field_def bytes_field_def)

lemma RSADecrypt_replays:
  assumes "TPMRSADecrypt h ct s lb sh = Inr c" "pb_laws rt" "tss_laws mu" "rsa_fits mu ct s lb"
  shows "replays mu rt c"
proof -
  let ?s = "rs_to_int sh"
  from assms(1) obtain sb where sb: "RSA_DECRYPT_to_bytes s = Inr sb"
    and r: "0 \<le> h" "h < 4294967296" "0 \<le> ?s" "?s < 4294967296" "length ct < 65536" "length lb < 65536"
    and c: "c = TPMCommand_init (TPM_ST TPM_ST_SESSIONS) (TPM_CC TPM_CC_RSA_DECRYPT)
      (be_bytes 4 h @ one_session ?s @ sized ct @ sb @ sized lb @ []) (IsRSADecrypt h ct s lb ?s)"
    by (auto simp: TPMRSADecrypt_def Let_def result_simps sized_def tpm2b_layout one_session_area_layout)
  have fit: "length ct \<le> buffer_size mu B_RSA_KEY" "length lb \<le> buffer_size mu B_DATA"
    "scheme_replayable s" using assms(4) by (simp_all add: rsa_fits_def)
  have sc: "rsa_scheme_msg rt s = Inr (rsa_scheme s)"
    by (rule rsa_scheme_message [OF assms(2) sb]) (use assms(4) in \<open>simp add: rsa_fits_def\<close>)
  have lsb: "length sb \<le> 4" using sb by (auto simp: RSA_DECRYPT_layout scheme_suffix_def split: option.splits)
  let ?kws = "[(''key_handle'', PbInt h), (''sessions'', PbList [short_session ?s]),
     (''cipher_text'', PbMsg (key_msg ct)), (''in_scheme'', PbMsg (rsa_scheme s)),
     (''label'', PbMsg (data_msg lb))]"
  have hd: "proto_header rt c = Inr (header_msg c)"
    unfolding c by (rule proto_header_ok [OF assms(2)]) (use r lsb in simp)
  have "cmd_self c = IsRSADecrypt h ct s lb ?s" by (simp add: c TPMCommand_init_def)
  then have msg: "to_proto rt c = Inr (Some (''rsadecrypt'', Msg PB_TPMRSADecrypt
      ((''header'', PbMsg (header_msg c)) # ?kws)))"
    using r assms(2)
    by (simp add: to_proto_def TPMRSADecrypt_to_proto_def hd sc pb_simps key_buffer_msg_ok session_msgs_ok)
  have "emits (marshal_fields mu (Msg PB_TPMRSADecrypt
      ((''header'', PbMsg (headed TPM_ST_SESSIONS TPM_CC_RSA_DECRYPT (header_msg c))) # ?kws))
      (tl (pb_schema PB_TPMRSADecrypt))) (be_bytes 4 h @ one_session ?s @ sized ct @ sb @ sized lb @ [])"
    unfolding pb_schema.simps fields_TPMRSADecrypt_def list.sel
    by (intro emits_fields emits_u32_field emits_short_session emits_data_field emits_scheme_field [OF _ sb]
        emits_buffer_field [where k = B_RSA_KEY and n = "int (length ct)"])
      (use assms(3) fit r in \<open>simp_all add: field_reads key_msg_def\<close>)
  then show ?thesis
    by (intro replays_command [OF assms(3) c msg post_sets_header(3)]) (use r lsb in \<open>simp_all add: kMaxBuffer_def\<close>)
qed

subsection \<open>Events and policies of PCRs\<close>

text \<open>The constructors that keep a message built for the command without it.\<close>

lemma header_msg_init:
  "header_msg (TPMCommand_init st cc ps x) = header_msg (TPMCommand_init st cc ps Plain)"
  by (simp add: header_msg_def TPMCommand_init_def command_size_def)

lemma kept_message:
  "to_proto rt (TPMCommand_init st cc ps (IsPCREvent m)) = Inr (Some (''pcrevent'', m))"
  "to_proto rt (TPMCommand_init st cc ps (IsPCRSetAuthPolicy m)) = Inr (Some (''pcrsetauthpolicy'', m))"
  "to_proto rt (TPMCommand_init st cc ps (IsSetPrimaryPolicy m)) = Inr (Some (''setprimarypolicy'', m))"
  by (simp_all add: to_proto_def TPMCommand_init_def)

lemma init_self: "(TPMCommand_init st cc ps x)\<lparr>cmd_self := y\<rparr> = TPMCommand_init st cc ps y"
  by (simp add: TPMCommand_init_def)

lemma emits_password_session:
  assumes "tss_laws mu" "0 \<le> s" "s < 4294967296" "msg_list m f = [session_msg (AUTH_COMMAND s)]"
  shows "emits (MarshalCommandField mu m (f, T_rep PB_TPMSession)) (one_session s)"
  by (rule emits_session_field [OF assms])

lemma PCREvent_replays:
  assumes "TPMPCREvent rt h d s = Inr c" "pb_laws rt" "tss_laws mu" "length d \<le> buffer_size mu B_EVENT"
  shows "replays mu rt c"
proof -
  let ?ps = "be_bytes 4 h @ one_session s @ sized d @ []"
  let ?b = "TPMCommand_init (TPM_ST TPM_ST_SESSIONS) (TPM_CC TPM_CC_PCR_EVENT) ?ps Plain"
  let ?ev = "Msg PB_TPM2BEvent [(''size'', PbInt (int (length d))), (''buffer'', PbBytes d)]"
  let ?kws = "[(''pcr_handle'', PbInt h), (''sessions'', PbList [session_msg (AUTH_COMMAND s)]),
     (''eventData'', PbMsg ?ev)]"
  let ?m = "\<lambda>hm. Msg PB_TPMPCREvent ((''header'', PbMsg hm) # ?kws)"
  have r: "0 \<le> h" "h < 4294967296" "0 \<le> s" "s < 4294967296" "length d < 65536"
    using assms(1) by (auto simp: TPMPCREvent_def Let_def result_simps one_session_area_layout)
  then have hd: "proto_header rt ?b = Inr (header_msg ?b)"
    by (intro proto_header_ok [OF assms(2)]) simp
  have c: "c = TPMCommand_init (TPM_ST TPM_ST_SESSIONS) (TPM_CC TPM_CC_PCR_EVENT) ?ps
      (IsPCREvent (?m (header_msg ?b)))"
    using assms(1,2) r hd
    by (auto simp: TPMPCREvent_def Let_def result_simps one_session_area_layout session_msgs_ok pb_simps
        init_self sized_def)
  then have msg: "to_proto rt c = Inr (Some (''pcrevent'', ?m (header_msg c)))"
    by (simp only: kept_message) (simp only: header_msg_init [of _ _ _ "IsPCREvent z" for z])
  have "emits (marshal_fields mu (?m (headed TPM_ST_SESSIONS TPM_CC_PCR_EVENT (header_msg c)))
      (tl (pb_schema PB_TPMPCREvent))) ?ps"
    unfolding pb_schema.simps fields_TPMPCREvent_def list.sel
    by (intro emits_fields emits_u32_field emits_password_session
        emits_buffer_field [where k = B_EVENT and n = "int (length d)"])
      (use assms(3,4) r in \<open>simp_all add: field_reads\<close>)
  then show ?thesis
    by (intro replays_command [OF assms(3) c msg post_sets_header(4)]) (use r in \<open>simp_all add: kMaxBuffer_def\<close>)
qed

definition digest_of :: "bytes \<Rightarrow> pb_msg" where
  "digest_of p = Msg PB_TPM2BDigest [(''size'', PbInt (int (length p))), (''buffer'', PbBytes p)]"

lemma digest_of_reads [simp]:
  "msg_class (digest_of p) = PB_TPM2BDigest" "bytes_field (digest_of p) ''buffer'' = p"
  by (simp_all add: digest_of_def bytes_field_def)

lemma PCRSetAuthPolicy_replays:
  assumes "TPMPCRSetAuthPolicy rt h p a n s = Inr c" "pb_laws rt" "tss_laws mu"
  shows "replays mu rt c"
proof -
  let ?a = "alg_to_int a"
  let ?ps = "be_bytes 4 h @ one_session s @ sized p @ be_bytes 2 ?a @ be_bytes 4 n @ []"
  let ?b = "TPMCommand_init (TPM_ST TPM_ST_SESSIONS) (TPM_CC TPM_CC_PCR_SET_AUTH_POLICY) ?ps Plain"
  let ?kws = "[(''auth_handle'', PbInt h), (''sessions'', PbList [session_msg (AUTH_COMMAND s)]),
     (''authPolicy'', PbMsg (digest_of p)), (''hashAlg'', PbInt ?a), (''pcrNum'', PbInt n)]"
  let ?m = "\<lambda>hm. Msg PB_TPMPCRSetAuthPolicy ((''header'', PbMsg hm) # ?kws)"
  have r: "0 \<le> h" "h < 4294967296" "0 \<le> s" "s < 4294967296" "length p < 65536"
    "0 \<le> ?a" "?a < 65536" "0 \<le> n" "n < 4294967296"
    using assms(1) by (auto simp: TPMPCRSetAuthPolicy_def Let_def result_simps one_session_area_layout tpm2b_layout)
  then have hd: "proto_header rt ?b = Inr (header_msg ?b)"
    by (intro proto_header_ok [OF assms(2)]) simp
  have c: "c = TPMCommand_init (TPM_ST TPM_ST_SESSIONS) (TPM_CC TPM_CC_PCR_SET_AUTH_POLICY) ?ps
      (IsPCRSetAuthPolicy (?m (header_msg ?b)))"
    using assms(1,2) r hd
    by (auto simp: TPMPCRSetAuthPolicy_def Let_def result_simps one_session_area_layout session_msgs_ok
        pb_simps init_self sized_def tpm2b_layout digest_of_def)
  then have msg: "to_proto rt c = Inr (Some (''pcrsetauthpolicy'', ?m (header_msg c)))"
    by (simp only: kept_message) (simp only: header_msg_init [of _ _ _ "IsPCRSetAuthPolicy z" for z])
  have "emits (marshal_fields mu (?m (headed TPM_ST_SESSIONS TPM_CC_PCR_SET_AUTH_POLICY (header_msg c)))
      (tl (pb_schema PB_TPMPCRSetAuthPolicy))) ?ps"
    unfolding pb_schema.simps fields_TPMPCRSetAuthPolicy_def list.sel
    by (intro emits_fields emits_u32_field emits_password_session emits_digest_field emits_alg_field)
      (use assms(3) r in \<open>simp_all add: field_reads\<close>)
  then show ?thesis
    by (intro replays_command [OF assms(3) c msg post_sets_header(5)]) (use r in \<open>simp_all add: kMaxBuffer_def\<close>)
qed

text \<open>The policies that the normaliser keeps: their size is that of the hash algorithm.\<close>

definition policy_fits :: "int \<Rightarrow> bytes \<Rightarrow> bool" where
  "policy_fits alg p \<longleftrightarrow> (alg, length p) \<in>
     {(TPM_ALG_value ALG_SHA1, 20), (TPM_ALG_value ALG_SHA256, 32), (TPM_ALG_value ALG_SHA384, 48),
      (TPM_ALG_value ALG_NULL, 0)}"

definition policy_msg :: "pb_msg \<Rightarrow> int \<Rightarrow> int \<Rightarrow> bytes \<Rightarrow> int \<Rightarrow> pb_msg" where
  "policy_msg hm h s p a = Msg PB_TPMSetPrimaryPolicy
     [(''header'', PbMsg hm), (''auth_handle'', PbInt h), (''sessions'', PbList [session_msg (AUTH_COMMAND s)]),
      (''auth_policy'', PbMsg (digest_of p)), (''hash_alg'', PbInt a)]"

lemma digest_policy_keeps:
  "length p = n \<Longrightarrow> digest_policy n (policy_msg hm h s p a) = policy_msg hm h s p a"
  by (simp add: digest_policy_def mutate_def policy_msg_def msg_sub_def digest_of_def bytes_field_def Let_def)

lemma post_policy_msg:
  assumes "policy_fits a p" "h \<noteq> 0"
  shows "post_process (policy_msg hm h s p a) =
    policy_msg (headed TPM_ST_SESSIONS TPM_CC_SET_PRIMARY_POLICY hm) h s p a"
proof -
  let ?m = "policy_msg (headed TPM_ST_SESSIONS TPM_CC_SET_PRIMARY_POLICY hm) h s p a"
  have h: "add_password_session (default_enum E_TPMRH ''auth_handle'' (TPM_RH_value RH_OWNER)
      (set_header TPM_ST_SESSIONS TPM_CC_SET_PRIMARY_POLICY (policy_msg hm h s p a))) = ?m"
    using assms(2) by (simp add: policy_msg_def add_password_session_def default_enum_def field_reads)
  have a: "enum_field E_TPMALG ?m ''hash_alg'' = a" by (simp add: policy_msg_def field_reads)
  have z: "mutate PB_TPM2BDigest ''auth_policy'' (\<lambda>p. set_field ''buffer'' (PbBytes [])
      (set_field ''size'' (PbInt 0) p)) ?m = ?m" if "p = []"
    using that by (simp add: mutate_def policy_msg_def msg_sub_def digest_of_def)
  have "post_process (policy_msg hm h s p a) = NormalizeSetPrimaryPolicy (policy_msg hm h s p a)"
    by (simp add: post_process_def policy_msg_def)
  also have "\<dots> = ?m"
    unfolding NormalizeSetPrimaryPolicy_def Let_def h a
    using assms(1) z digest_policy_keeps [of p] by (auto simp: policy_fits_def)
  finally show ?thesis .
qed

lemma SetPrimaryPolicy_made:
  assumes "TPMSetPrimaryPolicy rt h p a s = Inr c" "pb_laws rt" "rh_to_int h < 2 ^ 31"
    and ps: "ps = be_bytes 4 (rh_to_int h) @ one_session (rs_to_int s) @ sized p @ be_bytes 2 (alg_to_int a) @ []"
  obtains x where "c = TPMCommand_init (TPM_ST TPM_ST_SESSIONS) (TPM_CC TPM_CC_SET_PRIMARY_POLICY) ps x"
    "to_proto rt c = Inr (Some (''setprimarypolicy'',
       policy_msg (header_msg c) (rh_to_int h) (rs_to_int s) p (alg_to_int a)))"
    "0 \<le> rh_to_int h" "0 \<le> rs_to_int s" "rs_to_int s < 4294967296" "length p < 65536"
    "0 \<le> alg_to_int a" "alg_to_int a < 65536"
proof -
  let ?a = "alg_to_int a" and ?h = "rh_to_int h" and ?s = "rs_to_int s"
  let ?b = "TPMCommand_init (TPM_ST TPM_ST_SESSIONS) (TPM_CC TPM_CC_SET_PRIMARY_POLICY) ps Plain"
  let ?m = "\<lambda>hm. policy_msg hm ?h ?s p ?a"
  have r: "0 \<le> ?h" "?h < 2147483648" "?h < 4294967296" "0 \<le> ?s" "?s < 4294967296" "length p < 65536"
    "0 \<le> ?a" "?a < 65536"
    using assms(1,3) by (auto simp: TPMSetPrimaryPolicy_def Let_def result_simps one_session_area_layout tpm2b_layout)
  then have hd: "proto_header rt ?b = Inr (header_msg ?b)"
    by (intro proto_header_ok [OF assms(2)]) (simp add: ps)
  have c: "c = TPMCommand_init (TPM_ST TPM_ST_SESSIONS) (TPM_CC TPM_CC_SET_PRIMARY_POLICY) ps
      (IsSetPrimaryPolicy (?m (header_msg ?b)))"
    using assms(1,2) r hd
    by (auto simp: ps TPMSetPrimaryPolicy_def Let_def result_simps one_session_area_layout session_msgs_ok
        pb_simps init_self sized_def tpm2b_layout digest_of_def policy_msg_def)
  then have "to_proto rt c = Inr (Some (''setprimarypolicy'', ?m (header_msg c)))"
    by (simp only: kept_message) (simp only: header_msg_init [of _ _ _ "IsSetPrimaryPolicy z" for z])
  with c r show thesis by (intro that)
qed

lemma emits_policy_fields:
  assumes "tss_laws mu" "0 \<le> h" "h < 4294967296" "0 \<le> s" "s < 4294967296" "length p < 65536"
    "0 \<le> a" "a < 65536"
  shows "emits (marshal_fields mu (policy_msg hm h s p a) (tl (pb_schema PB_TPMSetPrimaryPolicy)))
    (be_bytes 4 h @ one_session s @ sized p @ be_bytes 2 a @ [])"
  unfolding pb_schema.simps fields_TPMSetPrimaryPolicy_def list.sel policy_msg_def
  by (intro emits_fields emits_rh_field emits_password_session emits_digest_field emits_alg_field)
    (use assms in \<open>simp_all add: field_reads\<close>)

lemma SetPrimaryPolicy_replays:
  assumes "TPMSetPrimaryPolicy rt h p a s = Inr c" "pb_laws rt" "tss_laws mu"
    and "rh_to_int h < 2 ^ 31" "rh_to_int h \<noteq> 0" "policy_fits (alg_to_int a) p"
  shows "replays mu rt c"
proof -
  obtain x where c: "c = TPMCommand_init (TPM_ST TPM_ST_SESSIONS) (TPM_CC TPM_CC_SET_PRIMARY_POLICY)
      (be_bytes 4 (rh_to_int h) @ one_session (rs_to_int s) @ sized p @ be_bytes 2 (alg_to_int a) @ []) x"
    and msg: "to_proto rt c = Inr (Some (''setprimarypolicy'',
       policy_msg (header_msg c) (rh_to_int h) (rs_to_int s) p (alg_to_int a)))"
    and r: "0 \<le> rh_to_int h" "0 \<le> rs_to_int s" "rs_to_int s < 4294967296" "length p < 65536"
      "0 \<le> alg_to_int a" "alg_to_int a < 65536"
    by (rule SetPrimaryPolicy_made [OF assms(1,2,4) refl])
  have h: "rh_to_int h < 4294967296" using assms(4) by simp
  note fields = emits_policy_fields [OF assms(3) r(1) h r(2-6), unfolded policy_msg_def]
  show ?thesis
    by (rule replays_command [OF assms(3) c msg [unfolded policy_msg_def]
          post_policy_msg [OF assms(6,5), unfolded policy_msg_def] _ fields])
      (use r in \<open>simp_all add: kMaxBuffer_def\<close>)
qed

text \<open>A policy of another size than SHA-256 asks for is sent as 32 zeros, so the command is changed.\<close>

lemma post_policy_short:
  assumes "length p \<noteq> 32" "h \<noteq> 0"
  shows "post_process (policy_msg hm h s p (alg_to_int (AlgEnum ALG_SHA256))) =
    policy_msg (headed TPM_ST_SESSIONS TPM_CC_SET_PRIMARY_POLICY hm) h s (replicate 32 0) (alg_to_int (AlgEnum ALG_SHA256))"
  using assms
  by (simp add: post_process_def policy_msg_def NormalizeSetPrimaryPolicy_def add_password_session_def
      default_enum_def field_reads digest_policy_def mutate_def digest_of_def Let_def)

lemma SetPrimaryPolicy_changes:
  assumes "TPMSetPrimaryPolicy rt h p (AlgEnum ALG_SHA256) s = Inr c" "pb_laws rt" "tss_laws mu"
    and "rh_to_int h < 2 ^ 31" "rh_to_int h \<noteq> 0" "length p \<noteq> 32"
  shows "\<not> replays mu rt c"
proof -
  let ?h = "rh_to_int h" and ?s = "rs_to_int s" and ?z = "replicate 32 (0 :: byte)" and ?a = "alg_to_int (AlgEnum ALG_SHA256)"
  let ?area = "\<lambda>q. be_bytes 4 ?h @ one_session ?s @ sized q @ be_bytes 2 ?a @ []"
  obtain x where c: "c = TPMCommand_init (TPM_ST TPM_ST_SESSIONS) (TPM_CC TPM_CC_SET_PRIMARY_POLICY) (?area p) x"
    and msg: "to_proto rt c = Inr (Some (''setprimarypolicy'', policy_msg (header_msg c) ?h ?s p ?a))"
    and r: "0 \<le> ?h" "0 \<le> ?s" "?s < 4294967296" "length p < 65536" "0 \<le> ?a" "?a < 65536"
    by (rule SetPrimaryPolicy_made [OF assms(1,2,4) refl])
  have h: "?h < 4294967296" and z: "length ?z < 65536" using assms(4) by simp_all
  note post = post_policy_short [OF assms(6,5), of "header_msg c" ?s]
  note fields = emits_policy_fields [OF assms(3) r(1) h r(2,3) z r(5,6)]
  have "harness_command mu (''setprimarypolicy'', policy_msg (header_msg c) ?h ?s p ?a) =
      Some (be_bytes 2 (TPM_ST TPM_ST_SESSIONS) @ be_bytes 4 (10 + int (length (?area ?z))) @
        be_bytes 4 (TPM_CC TPM_CC_SET_PRIMARY_POLICY) @ ?area ?z)"
    by (rule harness_command_headed [OF assms(3) post [unfolded policy_msg_def], folded policy_msg_def, OF _ fields])
      (use r in \<open>simp_all add: kMaxBuffer_def c TPMCommand_init_def\<close>)
  moreover have "command_bytes c = Inr (be_bytes 2 (TPM_ST TPM_ST_SESSIONS) @ be_bytes 4 (10 + int (length (?area p))) @
        be_bytes 4 (TPM_CC TPM_CC_SET_PRIMARY_POLICY) @ ?area p)"
    unfolding c by (rule command_bytes_init) (use r in \<open>simp add: kMaxBuffer_def\<close>)
  moreover have "length (?area ?z) \<noteq> length (?area p)" using assms(6) by simp
  ultimately show ?thesis using msg by (auto simp: replays_def simp del: replicate.simps dest: arg_cong [where f = length])
qed

lemma Clear_replays:
  assumes "TPMClear h s = Inr c" "pb_laws rt" "tss_laws mu" "rh_to_int h \<noteq> 0"
  shows "replays mu rt c"
proof -
  let ?h = "rh_to_int h" and ?s = "rs_to_int s"
  from assms(1) have r: "0 \<le> ?h" "?h < 4294967296" "0 \<le> ?s" "?s < 4294967296"
    and c: "c = TPMCommand_init (TPM_ST TPM_ST_SESSIONS) (TPM_CC TPM_CC_CLEAR)
      (be_bytes 4 ?h @ one_session ?s @ []) (IsClear ?h ?s)"
    by (auto simp: TPMClear_def Let_def result_simps one_session_area_layout)
  let ?kws = "[(''auth_handle'', PbInt ?h), (''sessions'', PbList [short_session ?s])]"
  have hd: "proto_header rt c = Inr (header_msg c)"
    unfolding c by (rule proto_header_ok [OF assms(2)]) simp
  have "cmd_self c = IsClear ?h ?s" by (simp add: c TPMCommand_init_def)
  then have msg: "to_proto rt c = Inr (Some (''clear'', Msg PB_TPMClear ((''header'', PbMsg (header_msg c)) # ?kws)))"
    using r assms(2) by (simp add: to_proto_def TPMClear_to_proto_def hd pb_simps session_msgs_ok)
  have post: "post_process (Msg PB_TPMClear ((''header'', PbMsg (header_msg c)) # ?kws)) =
      Msg PB_TPMClear ((''header'', PbMsg (headed TPM_ST_SESSIONS TPM_CC_CLEAR (header_msg c))) # ?kws)"
    using assms(4)
    by (simp add: post_process_def NormalizeClear_def add_password_session_def default_uint_def field_reads)
  have "emits (marshal_fields mu (Msg PB_TPMClear
      ((''header'', PbMsg (headed TPM_ST_SESSIONS TPM_CC_CLEAR (header_msg c))) # ?kws))
      (tl (pb_schema PB_TPMClear))) (be_bytes 4 ?h @ one_session ?s @ [])"
    unfolding pb_schema.simps fields_TPMClear_def list.sel
    by (intro emits_fields emits_u32_field emits_short_session) (use assms(3) r in \<open>simp_all add: field_reads\<close>)
  then show ?thesis
    by (intro replays_command [OF assms(3) c msg post]) (use r in \<open>simp_all add: kMaxBuffer_def\<close>)
qed

subsection \<open>The properties\<close>

text \<open>
  C21: credentials and RSA commands are replayed: \<open>TPM2_MakeCredential\<close>, \<open>TPM2_RSA_Encrypt\<close> and
  \<open>TPM2_RSA_Decrypt\<close>, when the arguments fit the buffers of tpm2-tss and an OAEP scheme has a hash
  (without it, the fuzzer writes a hash of zero that the byte seed does not have).
\<close>

theorem credential_and_rsa_commands_replay:
  assumes "pb_laws rt" "tss_laws mu"
    and "TPMMakeCredential h cred nm = Inr mc"
      "length cred \<le> buffer_size mu B_DATA" "length nm \<le> buffer_size mu B_DATA"
    and "TPMRSAEncrypt k ms s lb = Inr enc" "rsa_fits mu ms s lb"
    and "TPMRSADecrypt k' ct s' lb' sh = Inr dec" "rsa_fits mu ct s' lb'"
  shows "replays mu rt mc \<and> replays mu rt enc \<and> replays mu rt dec"
  using MakeCredential_replays [OF assms(3,1,2,4,5)] RSAEncrypt_replays [OF assms(6,1,2,7)]
    RSADecrypt_replays [OF assms(8,1,2,9)] by blast

text \<open>
  C22: PCR events, PCR policies, hierarchy policies and \<open>TPM2_Clear\<close> are replayed. An event must fit
  its buffer, a hierarchy handle must not be zero, and a hierarchy policy must have the size of its
  hash algorithm, since the fuzzer replaces any other (\<open>wrong_policy_size_replaced\<close>).
\<close>

theorem event_policy_and_clear_commands_replay:
  assumes "pb_laws rt" "tss_laws mu"
    and "TPMPCREvent rt h d s = Inr ev" "length d \<le> buffer_size mu B_EVENT"
    and "TPMPCRSetAuthPolicy rt h' p a n s' = Inr pol"
    and "TPMSetPrimaryPolicy rt r p' a' s'' = Inr prim" "rh_to_int r \<in> {1..<2 ^ 31}"
      "policy_fits (alg_to_int a') p'"
    and "TPMClear r' sc = Inr cl" "rh_to_int r' \<noteq> 0"
  shows "replays mu rt ev \<and> replays mu rt pol \<and> replays mu rt prim \<and> replays mu rt cl"
proof -
  have "rh_to_int r < 2 ^ 31" "rh_to_int r \<noteq> 0" using assms(7) by auto
  then show ?thesis
    using PCREvent_replays [OF assms(3,1,2,4)] PCRSetAuthPolicy_replays [OF assms(5,1,2)]
      SetPrimaryPolicy_replays [OF assms(6,1,2) _ _ assms(8)] Clear_replays [OF assms(9,1,2,10)] by blast
qed

lemma credential_and_rsa_commands_replay_witness:
  "\<exists>mc enc dec. TPMMakeCredential 0x80000000 [1] [0, 11] = Inr mc \<and>
    TPMRSAEncrypt 0x80000000 [2] \<lparr>rdec_scheme = AlgEnum ALG_OAEP, rdec_hash_alg = Some (AlgEnum ALG_SHA256)\<rparr> []
      = Inr enc \<and>
    TPMRSADecrypt 0x80000000 [3] \<lparr>rdec_scheme = AlgEnum ALG_RSAES, rdec_hash_alg = None\<rparr> [] (RsEnum RS_PW)
      = Inr dec \<and> replays plain_tss rt0 mc \<and> replays plain_tss rt0 enc \<and> replays plain_tss rt0 dec"
proof -
  let ?s = "\<lparr>rdec_scheme = AlgEnum ALG_OAEP, rdec_hash_alg = Some (AlgEnum ALG_SHA256)\<rparr>"
    and ?t = "\<lparr>rdec_scheme = AlgEnum ALG_RSAES, rdec_hash_alg = None\<rparr>"
  have "is_ok (TPMMakeCredential 0x80000000 [1] [0, 11])" "is_ok (TPMRSAEncrypt 0x80000000 [2] ?s [])"
    "is_ok (TPMRSADecrypt 0x80000000 [3] ?t [] (RsEnum RS_PW))" by code_simp+
  then obtain mc enc dec where c: "TPMMakeCredential 0x80000000 [1] [0, 11] = Inr mc"
    "TPMRSAEncrypt 0x80000000 [2] ?s [] = Inr enc" "TPMRSADecrypt 0x80000000 [3] ?t [] (RsEnum RS_PW) = Inr dec"
    by (auto simp: is_ok_ex)
  have fit: "rsa_fits plain_tss [2] ?s []" "rsa_fits plain_tss [3] ?t []"
    by (simp_all add: rsa_fits_def scheme_replayable_def plain_tss_def)
  from credential_and_rsa_commands_replay [OF plain_runtime_laws plain_tss_laws c(1) _ _ c(2) fit(1) c(3) fit(2)]
  show ?thesis using c by (simp add: plain_tss_def)
qed

lemma event_policy_and_clear_commands_replay_witness:
  "\<exists>ev pol prim cl. TPMPCREvent rt0 1 [7] 0x40000009 = Inr ev \<and>
    TPMPCRSetAuthPolicy rt0 0x4000000C [1] (AlgEnum ALG_SHA256) 0 0x40000009 = Inr pol \<and>
    TPMSetPrimaryPolicy rt0 (RhEnum RH_OWNER) [] (AlgEnum ALG_NULL) (RsEnum RS_PW) = Inr prim \<and>
    TPMClear (RhEnum RH_LOCKOUT) (RsEnum RS_PW) = Inr cl \<and>
    replays plain_tss rt0 ev \<and> replays plain_tss rt0 pol \<and> replays plain_tss rt0 prim \<and> replays plain_tss rt0 cl"
proof -
  have "is_ok (TPMPCREvent rt0 1 [7] 0x40000009)"
    "is_ok (TPMPCRSetAuthPolicy rt0 0x4000000C [1] (AlgEnum ALG_SHA256) 0 0x40000009)"
    "is_ok (TPMSetPrimaryPolicy rt0 (RhEnum RH_OWNER) [] (AlgEnum ALG_NULL) (RsEnum RS_PW))"
    "is_ok (TPMClear (RhEnum RH_LOCKOUT) (RsEnum RS_PW))" by code_simp+
  then obtain ev pol prim cl where c: "TPMPCREvent rt0 1 [7] 0x40000009 = Inr ev"
    "TPMPCRSetAuthPolicy rt0 0x4000000C [1] (AlgEnum ALG_SHA256) 0 0x40000009 = Inr pol"
    "TPMSetPrimaryPolicy rt0 (RhEnum RH_OWNER) [] (AlgEnum ALG_NULL) (RsEnum RS_PW) = Inr prim"
    "TPMClear (RhEnum RH_LOCKOUT) (RsEnum RS_PW) = Inr cl" by (auto simp: is_ok_ex)
  from event_policy_and_clear_commands_replay [OF plain_runtime_laws plain_tss_laws c(1) _ c(2,3) _ _ c(4)] c
  show ?thesis by (simp add: plain_tss_def policy_fits_def)
qed

end
