(* ===== verification/Session_Auth.thy ===== *)
theory Session_Auth
  imports Tpm_Command "HOL-Library.Monad_Syntax"
begin

section \<open>The session authorization layer of the harness\<close>

text \<open>
  \<open>src/harness/session_auth.cc\<close>: every command passes \<open>SessionAuthPatchCommand\<close> before it is sent and
  every response \<open>SessionAuthProcessResponse\<close>. The layer learns a session from a
  \<open>TPM2_StartAuthSession\<close> on the wire, and then fills nonce and HMAC of every command that uses it.

  Buffers are lists of bytes, offsets and sizes natural numbers. Every access to a buffer is
  checked in the model: \<open>None\<close> is an access outside it. This covers the buffers of the caller and the
  arrays of a fixed size: the entries of \<open>NameTable\<close>, the Name of an entry, nonce and key of the
  state, the local Name of \<open>ComputeCpHash\<close>, and the message and key of \<open>ComputeHmac\<close>. SHA-256 and HMAC come from OpenSSL; they are
  the record \<open>crypto\<close>, with the law that both return 32 bytes.
\<close>

record crypto =
  sha256 :: "bytes \<Rightarrow> bytes"
  hmac_sha256 :: "bytes \<Rightarrow> bytes \<Rightarrow> bytes"

definition crypto_laws :: "crypto \<Rightarrow> bool" where
  "crypto_laws cr \<longleftrightarrow> (\<forall>b. length (sha256 cr b) = 32) \<and> (\<forall>k b. length (hmac_sha256 cr k b) = 32)"

subsection \<open>Buffers\<close>

definition rd :: "bytes \<Rightarrow> nat \<Rightarrow> nat \<Rightarrow> bytes option" where
  "rd buf off n = (if off + n \<le> length buf then Some (py_slice buf off (off + n)) else None)"

definition wr :: "nat \<Rightarrow> bytes \<Rightarrow> bytes \<Rightarrow> bytes option" where
  "wr off b buf =
     (if off + length b \<le> length buf then Some (take off buf @ b @ drop (off + length b) buf) else None)"

definition Read8 :: "bytes \<Rightarrow> nat \<Rightarrow> nat option" where
  "Read8 buf off = map_option (nat \<circ> from_bytes) (rd buf off 1)"

definition Read16 :: "bytes \<Rightarrow> nat \<Rightarrow> nat option" where
  "Read16 buf off = map_option (nat \<circ> from_bytes) (rd buf off 2)"

definition Read32 :: "bytes \<Rightarrow> nat \<Rightarrow> nat option" where
  "Read32 buf off = map_option (nat \<circ> from_bytes) (rd buf off 4)"

subsection \<open>State\<close>

definition kNonceCallerFill :: byte where "kNonceCallerFill = 0xAA"
definition kNonceCallerSize :: nat where "kNonceCallerSize = 16"
definition kMaxNames :: nat where "kMaxNames = 16"
definition kMaxNameSize :: nat where "kMaxNameSize = 68"
definition SESSION_AUTH_MAX_DIGEST :: nat where "SESSION_AUTH_MAX_DIGEST = 64"

text \<open>
  An array of a fixed size is the list of its used part. \<open>array_copy\<close> is the \<open>memcpy\<close> of bytes to or
  from the start of an array with room for \<open>cap\<close>; \<open>array_append\<close> uses the next entry of an array of
  \<open>cap\<close> entries. The loop of \<open>NameTable\<close> over the used entries is \<open>name_find\<close>: the index of the first
  entry of the handle.
\<close>

definition array_copy :: "nat \<Rightarrow> bytes \<Rightarrow> bytes option" where
  "array_copy cap b = (if length b \<le> cap then Some b else None)"

definition array_append :: "nat \<Rightarrow> 'a list \<Rightarrow> 'a \<Rightarrow> 'a list option" where
  "array_append cap xs x = (if length xs < cap then Some (xs @ [x]) else None)"

type_synonym name_table = "(nat \<times> bytes) list"

primrec name_find :: "nat \<Rightarrow> name_table \<Rightarrow> nat \<Rightarrow> nat option option" where
  "name_find handle [] i = Some None"
| "name_find handle (e # es) i =
     (if i \<ge> kMaxNames then None
      else if fst e = handle then Some (Some i)
      else name_find handle es (Suc i))"

definition name_add :: "nat \<Rightarrow> bytes \<Rightarrow> name_table \<Rightarrow> name_table option" where
  "name_add handle name names =
     (let name = (if length name > kMaxNameSize then take kMaxNameSize name else name) in do {
        found \<leftarrow> name_find handle names 0;
        case found of
          Some i \<Rightarrow> do { stored \<leftarrow> array_copy kMaxNameSize name; Some (names[i := (handle, stored)]) }
        | None \<Rightarrow>
            if length names < kMaxNames then do {
              stored \<leftarrow> array_copy kMaxNameSize name;
              array_append kMaxNames names (handle, stored)
            } else Some names
      })"

text \<open>
  \<open>Lookup\<close> copies the Name from its entry to the array of the caller and returns the used part; the
  size is 0 for a handle that is not in the table.
\<close>

definition name_lookup :: "nat \<Rightarrow> nat \<Rightarrow> name_table \<Rightarrow> bytes option" where
  "name_lookup handle name_cap names = do {
     found \<leftarrow> name_find handle names 0;
     case found of None \<Rightarrow> Some []
     | Some i \<Rightarrow>
         let name = snd (names ! i)
         in if length name > name_cap then Some []
            else do { name \<leftarrow> array_copy kMaxNameSize name; array_copy name_cap name }
   }"

record session_state =
  s_initialized :: bool
  s_handle :: nat
  s_hash_alg :: nat
  s_digest_size :: nat
  s_nonce_tpm :: bytes
  s_session_key :: bytes
  s_last_command_code :: nat
  s_names :: name_table
  s_pending_start :: bool
  s_start_compatible :: bool
  s_start_auth_hash :: nat

definition SessionAuthReset :: session_state where
  "SessionAuthReset =
     \<lparr>s_initialized = False, s_handle = 0, s_hash_alg = 0, s_digest_size = 0, s_nonce_tpm = [],
      s_session_key = [], s_last_command_code = 0, s_names = [], s_pending_start = False,
      s_start_compatible = False, s_start_auth_hash = 0\<rparr>"

text \<open>Constants of tpm2-tss, from the TPM 2.0 structures specification.\<close>

definition TPM2_RH_NULL :: nat where "TPM2_RH_NULL = 0x40000007"
definition TPM2_SE_HMAC :: nat where "TPM2_SE_HMAC = 0"

definition cc :: "TPMCC \<Rightarrow> nat" where "cc c = nat (TPM_CC c)"

definition st_tag :: "TPMST \<Rightarrow> nat" where "st_tag t = nat (TPM_ST t)"

definition DigestSizeFor :: "nat \<Rightarrow> nat" where
  "DigestSizeFor alg = (if alg = nat (TPM_ALG_value ALG_SHA256) then 32 else 0)"

definition SessionAuthInit :: "nat \<Rightarrow> bytes \<Rightarrow> bytes \<Rightarrow> nat \<Rightarrow> session_state option" where
  "SessionAuthInit session_handle nonce_tpm session_key auth_hash_alg = do {
     let st = SessionAuthReset\<lparr>s_initialized := True, s_handle := session_handle,
       s_hash_alg := auth_hash_alg, s_digest_size := DigestSizeFor auth_hash_alg\<rparr>;
     let nonce_tpm = (if length nonce_tpm > SESSION_AUTH_MAX_DIGEST
       then take SESSION_AUTH_MAX_DIGEST nonce_tpm else nonce_tpm);
     nonce \<leftarrow> array_copy SESSION_AUTH_MAX_DIGEST nonce_tpm;
     let session_key = (if length session_key > SESSION_AUTH_MAX_DIGEST
       then take SESSION_AUTH_MAX_DIGEST session_key else session_key);
     key \<leftarrow> array_copy SESSION_AUTH_MAX_DIGEST session_key;
     Some (st\<lparr>s_nonce_tpm := nonce, s_session_key := key\<rparr>)
   }"

subsection \<open>Handles and their Names\<close>

text \<open>
  The table of \<open>command_attributes.h\<close>: the numbers of handles of a command, of those that need an
  authorization, and of handles in the response.
\<close>

definition command_attrs :: "(nat \<times> nat \<times> nat \<times> nat) list" where
  "command_attrs =
     [(0x126, 1, 1, 0), (0x131, 1, 1, 1), (0x147, 2, 2, 0), (0x153, 1, 1, 0), (0x157, 1, 1, 1),
      (0x158, 1, 1, 0), (0x159, 1, 1, 0), (0x15D, 1, 1, 0), (0x15E, 1, 1, 0), (0x161, 0, 0, 1),
      (0x162, 1, 0, 0), (0x165, 0, 0, 0), (0x168, 1, 0, 0), (0x176, 2, 0, 1), (0x177, 1, 0, 0),
      (0x17A, 0, 0, 0), (0x17B, 0, 0, 0), (0x182, 1, 1, 0), (0x12A, 1, 1, 0)]"

definition LookupCommandAttr :: "nat \<Rightarrow> (nat \<times> nat \<times> nat) option" where
  "LookupCommandAttr command_code = map_of command_attrs command_code"

text \<open>\<open>SkipTPM2B\<close> returns 0 where the field does not fit.\<close>

definition SkipTPM2B :: "bytes \<Rightarrow> nat \<Rightarrow> nat \<Rightarrow> nat option" where
  "SkipTPM2B buf off lim =
     (if off + 2 > lim then Some 0
      else do {
        sz \<leftarrow> Read16 buf off;
        let new_off = off + 2 + sz;
        Some (if new_off \<le> lim then new_off else 0)
      })"

definition HandleName :: "nat \<Rightarrow> nat \<Rightarrow> name_table \<Rightarrow> bytes option" where
  "HandleName handle name_cap names =
     (let handle_type = handle div 2 ^ 24 mod 256
      in if handle_type = 0x80 \<or> handle_type = 0x81 then name_lookup handle name_cap names
         else if handle_type = 0x40 \<or> handle_type = 0x00 \<or> handle_type = 0x02 \<or> handle_type = 0x03
         then if name_cap < 4 then Some [] else array_copy name_cap (be_bytes 4 (int handle))
         else Some [])"

definition ExtractCreatePrimaryName :: "bytes \<Rightarrow> nat \<Rightarrow> nat \<Rightarrow> nat \<Rightarrow> name_table \<Rightarrow> name_table option" where
  "ExtractCreatePrimaryName buf params_start params_end out_handle names =
     do {
       p \<leftarrow> SkipTPM2B buf params_start params_end;
       if p = 0 then Some names else do {
       p \<leftarrow> SkipTPM2B buf p params_end;
       if p = 0 then Some names else do {
       p \<leftarrow> SkipTPM2B buf p params_end;
       if p = 0 then Some names else
       if p + 6 > params_end then Some names else do {
       p \<leftarrow> SkipTPM2B buf (p + 6) params_end;
       if p = 0 then Some names else
       if p + 2 > params_end then Some names else do {
       name_size \<leftarrow> Read16 buf p;
       if p + 2 + name_size > params_end then Some names else do {
       name \<leftarrow> rd buf (p + 2) name_size;
       name_add out_handle name names
     }}}}}}"

definition ExtractLoadName :: "bytes \<Rightarrow> nat \<Rightarrow> nat \<Rightarrow> nat \<Rightarrow> name_table \<Rightarrow> name_table option" where
  "ExtractLoadName buf params_start params_end out_handle names =
     (if params_start + 2 > params_end then Some names else do {
        name_size \<leftarrow> Read16 buf params_start;
        if params_start + 2 + name_size > params_end then Some names else do {
        name \<leftarrow> rd buf (params_start + 2) name_size;
        name_add out_handle name names
      }})"

definition PopulateNameFromResponse ::
  "nat \<Rightarrow> bytes \<Rightarrow> nat \<Rightarrow> nat \<Rightarrow> nat \<Rightarrow> name_table \<Rightarrow> name_table option" where
  "PopulateNameFromResponse command_code buf params_off params_end out_handle names =
     (if command_code = cc TPM_CC_CREATE_PRIMARY then
        ExtractCreatePrimaryName buf params_off params_end out_handle names
      else if command_code = cc TPM_CC_LOAD then
        ExtractLoadName buf params_off params_end out_handle names
      else Some names)"

subsection \<open>\<open>SessionAuthPatchCommand\<close>\<close>

definition CaptureStartAuthSessionCommand ::
  "bytes \<Rightarrow> nat \<Rightarrow> session_state \<Rightarrow> session_state option" where
  "CaptureStartAuthSessionCommand buf sz st =
     (let st = st\<lparr>s_pending_start := True, s_start_compatible := False\<rparr>
      in if sz < 27 then Some st else do {
        tpm_key \<leftarrow> Read32 buf 10;
        bnd \<leftarrow> Read32 buf 14;
        p \<leftarrow> SkipTPM2B buf 18 sz;
        if p = 0 then Some st else do {
        let encrypted_salt_off = p;
        p \<leftarrow> SkipTPM2B buf p sz;
        if p = 0 then Some st else
        if p + 1 > sz then Some st else do {
        session_type \<leftarrow> Read8 buf p;
        auth_hash \<leftarrow> Read16 buf (sz - 2);
        encrypted_salt_size \<leftarrow> Read16 buf encrypted_salt_off;
        Some (st\<lparr>s_start_auth_hash := auth_hash,
          s_start_compatible := (tpm_key = TPM2_RH_NULL \<and> bnd = TPM2_RH_NULL \<and>
            encrypted_salt_size = 0 \<and> session_type = TPM2_SE_HMAC \<and> DigestSizeFor auth_hash \<noteq> 0)\<rparr>)
      }}})"

text \<open>The offsets of the authorization size and of the area, and the size.\<close>

definition FindAuthArea :: "bytes \<Rightarrow> nat \<Rightarrow> nat \<Rightarrow> (nat \<times> nat \<times> nat) option option" where
  "FindAuthArea buf cmd_size handle_count =
     (let auth_size_off = 10 + 4 * handle_count
      in if auth_size_off + 4 > cmd_size then Some None else do {
        auth_size \<leftarrow> Read32 buf auth_size_off;
        let auth_off = auth_size_off + 4;
        Some (if auth_off + auth_size > cmd_size then None
              else Some (auth_size_off, auth_off, auth_size))
      })"

text \<open>
  The Names of the handles from the \<open>i\<close>-th on, each through the local array of 68 bytes; \<open>Some None\<close>
  when one is missing.
\<close>

primrec handle_names :: "bytes \<Rightarrow> name_table \<Rightarrow> nat \<Rightarrow> nat \<Rightarrow> bytes option option" where
  "handle_names buf names i 0 = Some (Some [])"
| "handle_names buf names i (Suc n) = do {
     h \<leftarrow> Read32 buf (10 + 4 * i);
     name \<leftarrow> HandleName h 68 names;
     if name = [] then Some None else do {
     rest \<leftarrow> handle_names buf names (Suc i) n;
     Some (map_option (append name) rest)
   }}"

definition ComputeCpHash ::
  "crypto \<Rightarrow> bytes \<Rightarrow> name_table \<Rightarrow> nat \<Rightarrow> nat \<Rightarrow> nat \<Rightarrow> nat \<Rightarrow> bytes option option" where
  "ComputeCpHash cr buf names command_code handle_count cp_off cp_size = do {
     hs \<leftarrow> handle_names buf names 0 handle_count;
     case hs of None \<Rightarrow> Some None
     | Some hs \<Rightarrow> do {
         cp \<leftarrow> rd buf cp_off cp_size;
         Some (Some (sha256 cr (be_bytes 4 (int command_code) @ hs @ cp)))
       }
   }"

text \<open>The message must fit \<open>hmac_msg\<close> and the key \<open>hmac_key\<close>.\<close>

definition ComputeHmac ::
  "crypto \<Rightarrow> bytes \<Rightarrow> bytes \<Rightarrow> bytes \<Rightarrow> nat \<Rightarrow> bytes \<Rightarrow> bytes option" where
  "ComputeHmac cr cp_hash nonce_caller nonce_tpm session_attrs session_key =
     (let msg = cp_hash @ nonce_caller @ nonce_tpm @ [of_nat session_attrs]
      in if length msg > 32 + kNonceCallerSize + SESSION_AUTH_MAX_DIGEST + 1 \<or>
            length session_key > SESSION_AUTH_MAX_DIGEST then None
         else Some (hmac_sha256 cr session_key msg))"

definition PatchAuthArea ::
  "bytes \<Rightarrow> nat \<Rightarrow> nat \<Rightarrow> nat \<Rightarrow> nat \<Rightarrow> nat \<Rightarrow> nat \<Rightarrow> nat \<Rightarrow> bytes \<Rightarrow> bytes \<Rightarrow> (nat \<times> bytes) option" where
  "PatchAuthArea buf cmd_size nonce_off orig_nonce_size orig_hmac_size session_attrs
     auth_size_off auth_size nonce_caller hmac =
     (let cp_off = auth_size_off + 4 + auth_size;
          cp_size = cmd_size - cp_off;
          delta = int (2 + length nonce_caller + (2 + 32)) - int (2 + orig_nonce_size + (2 + orig_hmac_size));
          new_command_size = nat (int cmd_size + delta);
          new_cp_off = nat (int cp_off + delta);
          area = be_bytes 2 (int (length nonce_caller)) @ nonce_caller @ [of_nat session_attrs] @
            be_bytes 2 32 @ hmac;
          w = nonce_off + length area
      in if new_command_size > length buf then Some (cmd_size, buf)
         else do {
           buf \<leftarrow> (if cp_size > 0 \<and> new_cp_off \<noteq> cp_off
                  then do { cp \<leftarrow> rd buf cp_off cp_size; wr new_cp_off cp buf }
                  else Some buf);
           buf \<leftarrow> wr nonce_off area buf;
           buf \<leftarrow> wr w (replicate (new_cp_off - w) 0) buf;
           buf \<leftarrow> wr auth_size_off (be_bytes 4 (int auth_size + delta)) buf;
           buf \<leftarrow> wr 2 (be_bytes 4 (int new_command_size)) buf;
           Some (new_command_size, buf)
         })"

text \<open>
  The part after the session handle was found: the entry from offset \<open>p\<close> to \<open>lim\<close> is parsed, and
  patched when it is exactly one session. \<open>Some None\<close> leaves the command as it is.
\<close>

definition session_entry ::
  "bytes \<Rightarrow> nat \<Rightarrow> nat \<Rightarrow> (nat \<times> nat \<times> nat) option option" where
  "session_entry buf p lim =
     (if p + 2 > lim then Some None else do {
        orig_nonce_size \<leftarrow> Read16 buf p;
        let p = p + 2 + orig_nonce_size;
        if p + 1 > lim then Some None else do {
        session_attrs \<leftarrow> Read8 buf p;
        let p = p + 1;
        if p + 2 > lim then Some None else do {
        orig_hmac_size \<leftarrow> Read16 buf p;
        let p = p + 2 + orig_hmac_size;
        Some (if p \<noteq> lim then None else Some (orig_nonce_size, session_attrs, orig_hmac_size))
      }}})"

definition authorize ::
  "crypto \<Rightarrow> session_state \<Rightarrow> bytes \<Rightarrow> nat \<Rightarrow> nat \<Rightarrow> nat \<Rightarrow> (nat \<times> bytes) option" where
  "authorize cr st buf cmd_size command_code handle_count = do {
     area \<leftarrow> FindAuthArea buf cmd_size handle_count;
     case area of None \<Rightarrow> Some (cmd_size, buf)
     | Some (auth_size_off, auth_off, auth_size) \<Rightarrow>
         if auth_off + 4 > auth_off + auth_size then Some (cmd_size, buf) else do {
         session_handle \<leftarrow> Read32 buf auth_off;
         if session_handle \<noteq> s_handle st then Some (cmd_size, buf) else do {
         let nonce_off = auth_off + 4;
         entry \<leftarrow> session_entry buf nonce_off (auth_off + auth_size);
         case entry of None \<Rightarrow> Some (cmd_size, buf)
         | Some (orig_nonce_size, session_attrs, orig_hmac_size) \<Rightarrow> do {
             let cp_off = auth_off + auth_size;
             cp_hash \<leftarrow> ComputeCpHash cr buf (s_names st) command_code handle_count cp_off
               (cmd_size - cp_off);
             case cp_hash of None \<Rightarrow> Some (cmd_size, buf)
             | Some cp_hash \<Rightarrow> do {
                 let nonce_caller = replicate kNonceCallerSize kNonceCallerFill;
                 hmac \<leftarrow> ComputeHmac cr cp_hash nonce_caller (s_nonce_tpm st) session_attrs
                   (s_session_key st);
                 PatchAuthArea buf cmd_size nonce_off orig_nonce_size orig_hmac_size session_attrs
                   auth_size_off auth_size nonce_caller hmac
               }
           }
         }}
   }"

text \<open>The new size, the buffer and the state; the capacity is the length of the buffer.\<close>

definition SessionAuthPatchCommand ::
  "crypto \<Rightarrow> bytes \<Rightarrow> nat \<Rightarrow> session_state \<Rightarrow> (nat \<times> bytes \<times> session_state) option" where
  "SessionAuthPatchCommand cr buf cmd_size st =
     (if cmd_size < 10 \<or> cmd_size > length buf then Some (cmd_size, buf, st) else do {
        tag \<leftarrow> Read16 buf 0;
        header_size \<leftarrow> Read32 buf 2;
        if header_size \<noteq> cmd_size then Some (cmd_size, buf, st) else do {
        command_code \<leftarrow> Read32 buf 6;
        let st = st\<lparr>s_last_command_code := command_code\<rparr>;
        if command_code = cc TPM_CC_START_AUTH_SESSION then do {
          st \<leftarrow> CaptureStartAuthSessionCommand buf cmd_size st;
          Some (cmd_size, buf, st)
        } else
        if \<not> s_initialized st \<or> s_digest_size st = 0 then Some (cmd_size, buf, st) else
        if tag \<noteq> st_tag TPM_ST_SESSIONS then Some (cmd_size, buf, st) else
        case LookupCommandAttr command_code of
          None \<Rightarrow> Some (cmd_size, buf, st)
        | Some (handle_count, _, _) \<Rightarrow>
            map_option (\<lambda>(n, buf). (n, buf, st))
              (authorize cr st buf cmd_size command_code handle_count)
      }})"

subsection \<open>\<open>SessionAuthProcessResponse\<close>\<close>

definition start_response :: "bytes \<Rightarrow> nat \<Rightarrow> nat \<Rightarrow> session_state \<Rightarrow> session_state option" where
  "start_response buf tag rc st =
     (let compatible = s_start_compatible st;
          auth_hash = s_start_auth_hash st;
          st = st\<lparr>s_pending_start := False, s_start_compatible := False\<rparr>
      in if tag \<noteq> st_tag TPM_ST_NO_SESSIONS \<or> rc \<noteq> 0 then Some st
         else if \<not> compatible \<or> length buf < 16 then Some st else do {
           handle \<leftarrow> Read32 buf 10;
           nonce_size \<leftarrow> Read16 buf 14;
           if 16 + nonce_size > length buf then Some st else do {
           nonce \<leftarrow> rd buf 16 nonce_size;
           SessionAuthInit handle nonce [] auth_hash
         }})"

definition command_response :: "bytes \<Rightarrow> nat \<Rightarrow> session_state \<Rightarrow> session_state option" where
  "command_response buf out_handle_count st =
     (let params_size_off = 10 + 4 * out_handle_count
      in if params_size_off + 4 > length buf then Some st else do {
        param_size \<leftarrow> Read32 buf params_size_off;
        let params_off = params_size_off + 4;
        if params_off + param_size > length buf then Some st else do {
        let auth_area_off = params_off + param_size;
        if auth_area_off + 2 > length buf then Some st else do {
        nonce_size \<leftarrow> Read16 buf auth_area_off;
        if auth_area_off + 2 + nonce_size > length buf then Some st else do {
        nonce \<leftarrow> rd buf (auth_area_off + 2) nonce_size;
        st \<leftarrow> (if nonce_size > 0 \<and> nonce_size \<le> SESSION_AUTH_MAX_DIGEST
               then do {
                 nonce \<leftarrow> array_copy SESSION_AUTH_MAX_DIGEST nonce;
                 Some (st\<lparr>s_nonce_tpm := nonce\<rparr>)
               } else Some st);
        if out_handle_count = 0 then Some st else do {
        out_handle \<leftarrow> Read32 buf 10;
        names \<leftarrow> PopulateNameFromResponse (s_last_command_code st) buf params_off
          (params_off + param_size) out_handle (s_names st);
        Some (st\<lparr>s_names := names\<rparr>)
      }}}}})"

text \<open>The response is the whole buffer: its size is the length.\<close>

definition SessionAuthProcessResponse :: "bytes \<Rightarrow> session_state \<Rightarrow> session_state option" where
  "SessionAuthProcessResponse buf st =
     (if length buf < 10 then Some st else do {
        tag \<leftarrow> Read16 buf 0;
        hdr_size \<leftarrow> Read32 buf 2;
        rc \<leftarrow> Read32 buf 6;
        if hdr_size \<noteq> length buf then Some st
        else if s_pending_start st then start_response buf tag rc st
        else if \<not> s_initialized st then Some st
        else if tag \<noteq> st_tag TPM_ST_SESSIONS \<or> rc \<noteq> 0 then Some st
        else case LookupCommandAttr (s_last_command_code st) of
          None \<Rightarrow> Some st
        | Some (_, _, out_handle_count) \<Rightarrow> command_response buf out_handle_count st
      })"

end
