(* ===== verification/Harness_Fuzzer.thy ===== *)
theory Harness_Fuzzer
  imports Session_Auth Harness_Marshal Byte_Parser
begin

section \<open>The fuzz targets and the tester\<close>

text \<open>
  The programs that execute seeds: \<open>fuzzer.cc\<close> the byte seeds, \<open>proto-fuzzer.cc\<close> the message seeds,
  \<open>tester.cc\<close> one byte seed with its answers printed. They reach the TPM through
  \<open>harness/tpm_wrapper.c\<close>, which drives the platform layer of the reference implementation. That
  layer is not in the repository: it is the record \<open>platform\<close>, with a type \<open>'t\<close> of TPM states and one
  function per call the wrapper makes. \<open>plat_run_command\<close> returns the response.
\<close>

record 't platform =
  plat_nv_enable :: "'t \<Rightarrow> 't"
  plat_nv_needs_manufacture :: "'t \<Rightarrow> bool"
  plat_manufacture :: "'t \<Rightarrow> int \<times> 't"
  plat_nv_disable :: "'t \<Rightarrow> 't"
  plat_power_on :: "'t \<Rightarrow> 't"
  plat_reset :: "'t \<Rightarrow> 't"
  plat_set_nv_avail :: "'t \<Rightarrow> 't"
  plat_locality_set :: "int \<Rightarrow> 't \<Rightarrow> 't"
  plat_run_command :: "bytes \<Rightarrow> 't \<Rightarrow> bytes \<times> 't"
  plat_hash_end :: "'t \<Rightarrow> 't"
  plat_nv_commit :: "'t \<Rightarrow> 't"
  plat_clear_nv_avail :: "'t \<Rightarrow> 't"
  plat_power_off :: "'t \<Rightarrow> 't"

subsection \<open>\<open>tpm_wrapper.c\<close>\<close>

definition kDefaultLocality :: int where "kDefaultLocality = 0"

definition kTPM2Startup :: bytes where
  "kTPM2Startup = [0x80, 0x01, 0x00, 0x00, 0x00, 0x0C, 0x00, 0x00, 0x01, 0x44, 0x00, 0x00]"

definition kTPM2Shutdown :: bytes where
  "kTPM2Shutdown = [0x80, 0x01, 0x00, 0x00, 0x00, 0x0C, 0x00, 0x00, 0x01, 0x45, 0x00, 0x00]"

definition TPMManufactureIfNeeded :: "'t platform \<Rightarrow> 't \<Rightarrow> 't" where
  "TPMManufactureIfNeeded p t =
     (let t = plat_nv_enable p t
      in if plat_nv_needs_manufacture p t then
           (case plat_manufacture p t of (rc, t) \<Rightarrow> if rc \<noteq> 0 then plat_nv_disable p t else t)
         else t)"

definition TPMStartup :: "'t platform \<Rightarrow> 't \<Rightarrow> 't" where
  "TPMStartup p t = plat_set_nv_avail p (plat_nv_enable p (plat_reset p (plat_power_on p t)))"

definition TPMSendCommand :: "'t platform \<Rightarrow> int \<Rightarrow> bytes \<Rightarrow> 't \<Rightarrow> bytes \<times> 't" where
  "TPMSendCommand p locality request t = plat_run_command p request (plat_locality_set p locality t)"

definition SendTPM2StartupCommand :: "'t platform \<Rightarrow> 't \<Rightarrow> 't" where
  "SendTPM2StartupCommand p t = snd (TPMSendCommand p kDefaultLocality kTPM2Startup t)"

definition SendTPM2ShutdownCommand :: "'t platform \<Rightarrow> 't \<Rightarrow> 't" where
  "SendTPM2ShutdownCommand p t = snd (TPMSendCommand p kDefaultLocality kTPM2Shutdown t)"

definition TPMShutdown :: "'t platform \<Rightarrow> 't \<Rightarrow> 't" where
  "TPMShutdown p t =
     plat_nv_disable p (plat_power_off p (plat_clear_nv_avail p (plat_nv_commit p (plat_hash_end p t))))"

subsection \<open>\<open>fuzzer.cc\<close>\<close>

primrec send_all :: "'t platform \<Rightarrow> bytes list \<Rightarrow> 't \<Rightarrow> 't" where
  "send_all p [] t = t"
| "send_all p (cmd # commands) t =
     send_all p commands (snd (TPMSendCommand p kDefaultLocality cmd t))"

text \<open>The exit code and the TPM state.\<close>

definition LLVMFuzzerTestOneInput :: "'t platform \<Rightarrow> bytes \<Rightarrow> 't \<Rightarrow> int \<times> 't" where
  "LLVMFuzzerTestOneInput p data t =
     (case parseCommands data of (ok, commands) \<Rightarrow>
        if \<not> ok then (1, t)
        else let t = TPMManufactureIfNeeded p t;
                 t = TPMStartup p t;
                 t = SendTPM2StartupCommand p t;
                 t = send_all p commands t;
                 t = SendTPM2ShutdownCommand p t;
                 t = TPMShutdown p t
             in (0, t))"

subsection \<open>\<open>proto-fuzzer.cc\<close>\<close>

text \<open>
  \<open>None\<close> is an access outside a buffer, as in the session layer. libprotobuf-mutator runs the
  registered post-processors on a sequence before it calls the target: \<open>postprocessed\<close>.
\<close>

fun postprocessed :: "pb_msg \<Rightarrow> pb_msg" where
  "postprocessed (Msg c [(key, PbMsg m)]) = Msg c [(key, PbMsg (post_process m))]"
| "postprocessed m = m"

definition ExecuteCommandBuffer ::
  "'t platform \<Rightarrow> bytes \<Rightarrow> nat \<Rightarrow> 't \<times> session_state \<Rightarrow> ('t \<times> session_state) option" where
  "ExecuteCommandBuffer p buf n s =
     (case s of (t, st) \<Rightarrow>
        if n = 0 then Some (t, st) else do {
          request \<leftarrow> rd buf 0 n;
          let (response, t) = TPMSendCommand p kDefaultLocality request t;
          st \<leftarrow> SessionAuthProcessResponse response st;
          Some (t, st)
        })"

primrec run_messages ::
  "crypto \<Rightarrow> tss \<Rightarrow> 't platform \<Rightarrow> pb_msg list \<Rightarrow> 't \<times> session_state \<Rightarrow> ('t \<times> session_state) option" where
  "run_messages cr mu p [] s = Some s"
| "run_messages cr mu p (cmd # cmds) s =
     (case MarshalCommand mu cmd of
        None \<Rightarrow> run_messages cr mu p cmds s
      | Some command_buffer \<Rightarrow> do {
          (cmd_size, buf, st) \<leftarrow> SessionAuthPatchCommand cr (command_buffer @ replicate 64 0)
            (length command_buffer) (snd s);
          s \<leftarrow> ExecuteCommandBuffer p buf cmd_size (fst s, st);
          run_messages cr mu p cmds s
        })"

definition proto_fuzzer :: "crypto \<Rightarrow> tss \<Rightarrow> 't platform \<Rightarrow> pb_msg \<Rightarrow> 't \<Rightarrow> 't option" where
  "proto_fuzzer cr mu p sequence t =
     (let t = TPMManufactureIfNeeded p t;
          t = TPMStartup p t;
          t = SendTPM2StartupCommand p t
      in do {
        (t, st) \<leftarrow> run_messages cr mu p (msg_list sequence ''commands'') (t, SessionAuthReset);
        let t = SendTPM2ShutdownCommand p t;
        Some (TPMShutdown p t)
      })"

subsection \<open>\<open>tester.cc\<close>\<close>

text \<open>
  What is printed is left out, but not the reads of the response that the printing makes. The
  content of the corpus file is an argument; \<open>None\<close> as result is again an access outside a buffer.
\<close>

definition PrintResponse :: "bytes \<Rightarrow> unit option" where
  "PrintResponse response =
     (if response = [] then Some ()
      else if length response \<ge> 6 then do {
        tag \<leftarrow> Read16 response 0;
        size \<leftarrow> Read32 response 2;
        rc \<leftarrow> Read32 response 6;
        Some ()
      } else Some ())"

definition SendCommand :: "'t platform \<Rightarrow> bytes \<Rightarrow> 't \<Rightarrow> bytes \<times> 't" where
  "SendCommand p command t = TPMSendCommand p kDefaultLocality command t"

primrec test_all :: "'t platform \<Rightarrow> bytes list \<Rightarrow> 't \<Rightarrow> 't option" where
  "test_all p [] t = Some t"
| "test_all p (command # commands) t = do {
     let (response, t) = SendCommand p command t;
     _ \<leftarrow> PrintResponse response;
     test_all p commands t
   }"

definition tester_main :: "'t platform \<Rightarrow> bytes \<Rightarrow> 't \<Rightarrow> (int \<times> 't) option" where
  "tester_main p file_content t =
     (if length file_content = 0 then Some (1, t)
      else case parseCommands file_content of (ok, commands) \<Rightarrow>
        if \<not> ok then Some (1, t)
        else do {
          let t = TPMManufactureIfNeeded p t;
          let t = TPMStartup p t;
          let t = SendTPM2StartupCommand p t;
          t \<leftarrow> test_all p commands t;
          let t = SendTPM2ShutdownCommand p t;
          Some (0, TPMShutdown p t)
        })"

end
