(* ===== verification/Session_Auth_Props.thy ===== *)
theory Session_Auth_Props
  imports Session_Auth Harness_Emit
begin

section \<open>The session layer: memory safety and invariant\<close>

text \<open>
  \<open>safe x P\<close>: the computation makes no access outside a buffer and its result satisfies \<open>P\<close>. The
  rules below run through a definition from its first statement to the last.
\<close>

definition safe :: "'a option \<Rightarrow> ('a \<Rightarrow> bool) \<Rightarrow> bool" where
  "safe x P \<longleftrightarrow> (case x of None \<Rightarrow> False | Some v \<Rightarrow> P v)"

named_theorems safe_intros \<open>statement rules of safety\<close>

lemma safe_Some [safe_intros]: "P v \<Longrightarrow> safe (Some v) P"
  by (simp add: safe_def)

lemma safe_bind [safe_intros]: "safe x (\<lambda>v. safe (f v) P) \<Longrightarrow> safe (Option.bind x f) P"
  by (cases x) (simp_all add: safe_def)

lemma safe_if [safe_intros]:
  "(c \<Longrightarrow> safe x P) \<Longrightarrow> (\<not> c \<Longrightarrow> safe y P) \<Longrightarrow> safe (if c then x else y) P"
  by simp

lemma safe_map [safe_intros]: "safe x (\<lambda>v. P (f v)) \<Longrightarrow> safe (map_option f x) P"
  by (cases x) (simp_all add: safe_def)

lemma safe_option [safe_intros]:
  "(x = None \<Longrightarrow> safe y P) \<Longrightarrow> (\<And>v. x = Some v \<Longrightarrow> safe (f v) P)
    \<Longrightarrow> safe (case x of None \<Rightarrow> y | Some v \<Rightarrow> f v) P"
  by (cases x) simp_all

lemma safe_split [safe_intros]:
  "(\<And>a b. p = (a, b) \<Longrightarrow> safe (f a b) P) \<Longrightarrow> safe (case p of (a, b) \<Rightarrow> f a b) P"
  by (cases p) simp

lemma safe_mono: "safe x P \<Longrightarrow> (\<And>v. P v \<Longrightarrow> Q v) \<Longrightarrow> safe x Q"
  by (cases x) (simp_all add: safe_def)

lemma safe_rd [safe_intros]:
  "off + n \<le> length buf \<Longrightarrow> (\<And>b. length b = n \<Longrightarrow> P b) \<Longrightarrow> safe (rd buf off n) P"
  by (simp add: safe_def rd_def length_slice)

lemma safe_wr [safe_intros]:
  "off + length b \<le> length buf \<Longrightarrow> (\<And>buf'. length buf' = length buf \<Longrightarrow> P buf') \<Longrightarrow> safe (wr off b buf) P"
  by (simp add: safe_def wr_def)

lemma from_bytes_nat_bound: "nat (from_bytes b) < 256 ^ length b"
  using from_bytes_bound [of b] from_bytes_nonneg [of b] by (simp add: nat_less_iff)

lemma safe_number:
  "off + n \<le> length buf \<Longrightarrow> (\<And>v. v < 256 ^ n \<Longrightarrow> P v)
    \<Longrightarrow> safe (map_option (nat \<circ> from_bytes) (rd buf off n)) P"
  using from_bytes_nat_bound by (intro safe_intros) auto

lemma safe_Read [safe_intros]:
  "off + 1 \<le> length buf \<Longrightarrow> (\<And>v. v < 256 \<Longrightarrow> P v) \<Longrightarrow> safe (Read8 buf off) P"
  "off + 2 \<le> length buf \<Longrightarrow> (\<And>v. v < 65536 \<Longrightarrow> P v) \<Longrightarrow> safe (Read16 buf off) P"
  "off + 4 \<le> length buf \<Longrightarrow> (\<And>v. v < 4294967296 \<Longrightarrow> P v) \<Longrightarrow> safe (Read32 buf off) P"
  unfolding Read8_def Read16_def Read32_def
  using safe_number [of off 1 buf P] safe_number [of off 2 buf P] safe_number [of off 4 buf P] by simp_all

lemma safe_SkipTPM2B [safe_intros]:
  "lim \<le> length buf \<Longrightarrow> (\<And>p. p \<le> lim \<Longrightarrow> p \<noteq> 0 \<Longrightarrow> off + 2 \<le> p \<Longrightarrow> P p) \<Longrightarrow> P 0
    \<Longrightarrow> safe (SkipTPM2B buf off lim) P"
  unfolding SkipTPM2B_def Let_def by (intro safe_intros) auto

subsection \<open>The invariant of the state\<close>

definition names_ok :: "name_table \<Rightarrow> bool" where
  "names_ok names \<longleftrightarrow> length names \<le> kMaxNames \<and> (\<forall>n\<in>snd ` set names. length n \<le> kMaxNameSize)"

definition session_ok :: "session_state \<Rightarrow> bool" where
  "session_ok st \<longleftrightarrow> s_handle st < 2 ^ 32 \<and>
     length (s_nonce_tpm st) \<le> SESSION_AUTH_MAX_DIGEST \<and>
     length (s_session_key st) \<le> SESSION_AUTH_MAX_DIGEST \<and> names_ok (s_names st)"

lemma session_ok_reset: "session_ok SessionAuthReset"
  by (simp add: session_ok_def names_ok_def SessionAuthReset_def)

text \<open>What \<open>SessionAuthInit\<close> leaves: an armed session without Names.\<close>

definition armed_session :: "nat \<Rightarrow> bytes \<Rightarrow> bytes \<Rightarrow> nat \<Rightarrow> session_state" where
  "armed_session handle nonce key alg =
     \<lparr>s_initialized = True, s_handle = handle, s_hash_alg = alg, s_digest_size = DigestSizeFor alg,
      s_nonce_tpm = take SESSION_AUTH_MAX_DIGEST nonce, s_session_key = take SESSION_AUTH_MAX_DIGEST key,
      s_last_command_code = 0, s_names = [], s_pending_start = False, s_start_compatible = False,
      s_start_auth_hash = 0\<rparr>"

lemma SessionAuthInit_armed: "SessionAuthInit handle nonce key alg = Some (armed_session handle nonce key alg)"
  by (simp add: SessionAuthInit_def armed_session_def SessionAuthReset_def array_copy_def)

lemma session_ok_armed: "h < 2 ^ 32 \<Longrightarrow> session_ok (armed_session h n k a)"
  by (simp add: session_ok_def names_ok_def armed_session_def)

lemma safe_SessionAuthInit [safe_intros]: "P (armed_session h n k a) \<Longrightarrow> safe (SessionAuthInit h n k a) P"
  by (simp add: SessionAuthInit_armed safe_def)

lemma safe_array_copy [safe_intros]: "length b \<le> cap \<Longrightarrow> P b \<Longrightarrow> safe (array_copy cap b) P"
  by (simp add: safe_def array_copy_def)

lemma safe_array_append [safe_intros]:
  "length xs < cap \<Longrightarrow> P (xs @ [x]) \<Longrightarrow> safe (array_append cap xs x) P"
  by (simp add: safe_def array_append_def)

lemma safe_name_find_from:
  "i + length es \<le> kMaxNames \<Longrightarrow> P None \<Longrightarrow> (\<And>k. i \<le> k \<Longrightarrow> k < i + length es \<Longrightarrow> P (Some k))
    \<Longrightarrow> safe (name_find h es i) P"
proof (induction es arbitrary: i)
  case (Cons e es)
  show ?case unfolding name_find.simps
    by (intro safe_intros Cons.IH) (use Cons.prems in auto)
qed (simp add: safe_Some)

lemma safe_name_find [safe_intros]:
  "names_ok names \<Longrightarrow> P None \<Longrightarrow> (\<And>k. k < length names \<Longrightarrow> P (Some k)) \<Longrightarrow> safe (name_find h names 0) P"
  by (rule safe_name_find_from) (simp_all add: names_ok_def)

lemma names_ok_update: "names_ok names \<Longrightarrow> length n \<le> kMaxNameSize \<Longrightarrow> names_ok (names[i := (h, n)])"
  using set_update_subset_insert [of names i "(h, n)"] by (auto simp: names_ok_def)

lemma names_ok_append:
  "names_ok names \<Longrightarrow> length names < kMaxNames \<Longrightarrow> length n \<le> kMaxNameSize \<Longrightarrow> names_ok (names @ [(h, n)])"
  by (simp add: names_ok_def)

lemma safe_name_add [safe_intros]:
  "names_ok names \<Longrightarrow> (\<And>ns. names_ok ns \<Longrightarrow> P ns) \<Longrightarrow> safe (name_add h n names) P"
  unfolding name_add_def Let_def
  by (intro safe_intros) (simp_all add: names_ok_update names_ok_append)

lemma safe_name_lookup [safe_intros]: "names_ok names \<Longrightarrow> (\<And>n. P n) \<Longrightarrow> safe (name_lookup h cap names) P"
  unfolding name_lookup_def Let_def by (intro safe_intros) (auto simp: names_ok_def)

lemma safe_HandleName [safe_intros]: "names_ok names \<Longrightarrow> (\<And>n. P n) \<Longrightarrow> safe (HandleName h cap names) P"
  unfolding HandleName_def Let_def by (intro safe_intros) auto

lemma safe_ExtractCreatePrimaryName [safe_intros]:
  "e \<le> length buf \<Longrightarrow> names_ok names \<Longrightarrow> (\<And>ns. names_ok ns \<Longrightarrow> P ns)
    \<Longrightarrow> safe (ExtractCreatePrimaryName buf s e h names) P"
  unfolding ExtractCreatePrimaryName_def by (intro safe_intros) simp_all

lemma safe_ExtractLoadName [safe_intros]:
  "e \<le> length buf \<Longrightarrow> names_ok names \<Longrightarrow> (\<And>ns. names_ok ns \<Longrightarrow> P ns)
    \<Longrightarrow> safe (ExtractLoadName buf s e h names) P"
  unfolding ExtractLoadName_def by (intro safe_intros) simp_all

lemma safe_PopulateName [safe_intros]:
  "e \<le> length buf \<Longrightarrow> names_ok names \<Longrightarrow> (\<And>ns. names_ok ns \<Longrightarrow> P ns)
    \<Longrightarrow> safe (PopulateNameFromResponse c buf s e h names) P"
  unfolding PopulateNameFromResponse_def by (intro safe_intros) auto

lemma process_response_safe:
  "session_ok st \<Longrightarrow> safe (SessionAuthProcessResponse buf st) session_ok"
  unfolding SessionAuthProcessResponse_def start_response_def command_response_def Let_def
  by (intro safe_intros session_ok_armed) (auto simp: session_ok_def)

subsection \<open>Patching a command\<close>

lemma safe_Capture [safe_intros]:
  "sz \<le> length buf \<Longrightarrow> session_ok st \<Longrightarrow> (\<And>st'. session_ok st' \<Longrightarrow> P st')
    \<Longrightarrow> safe (CaptureStartAuthSessionCommand buf sz st) P"
  unfolding CaptureStartAuthSessionCommand_def Let_def
  by (intro safe_intros) (auto simp: session_ok_def)

lemma safe_FindAuthArea [safe_intros]:
  "n \<le> length buf \<Longrightarrow> P None
    \<Longrightarrow> (\<And>i sz. i = 10 + 4 * hc \<Longrightarrow> i + 4 + sz \<le> n \<Longrightarrow> P (Some (i, i + 4, sz)))
    \<Longrightarrow> safe (FindAuthArea buf n hc) P"
  unfolding FindAuthArea_def Let_def by (intro safe_intros) auto

lemma safe_session_entry [safe_intros]:
  "lim \<le> length buf \<Longrightarrow> P None
    \<Longrightarrow> (\<And>ns at hs. p + 2 + ns + 1 + 2 + hs = lim \<Longrightarrow> ns < 65536 \<Longrightarrow> hs < 65536 \<Longrightarrow> P (Some (ns, at, hs)))
    \<Longrightarrow> safe (session_entry buf p lim) P"
  unfolding session_entry_def Let_def by (intro safe_intros) simp_all

lemma safe_handle_names [safe_intros]:
  "10 + 4 * (i + n) \<le> length buf \<Longrightarrow> names_ok names \<Longrightarrow> (\<And>r. P r) \<Longrightarrow> safe (handle_names buf names i n) P"
proof (induction n arbitrary: i P)
  case (Suc n)
  show ?case
    unfolding handle_names.simps Let_def
    by (intro safe_intros Suc) (use Suc.prems in simp_all)
qed (simp add: safe_Some)

lemma safe_ComputeCpHash [safe_intros]:
  assumes "crypto_laws cr" "10 + 4 * hc \<le> length buf" "off + n \<le> length buf" "names_ok names"
    and "P None" "\<And>h. length h = 32 \<Longrightarrow> P (Some h)"
  shows "safe (ComputeCpHash cr buf names c hc off n) P"
  unfolding ComputeCpHash_def
  by (intro safe_intros) (use assms in \<open>auto simp: crypto_laws_def\<close>)

lemma safe_ComputeHmac [safe_intros]:
  assumes "crypto_laws cr" "length h = 32" "length nc \<le> kNonceCallerSize"
    and "length nt \<le> SESSION_AUTH_MAX_DIGEST" "length k \<le> SESSION_AUTH_MAX_DIGEST"
    and "\<And>m. length m = 32 \<Longrightarrow> P m"
  shows "safe (ComputeHmac cr h nc nt at k) P"
  using assms by (simp add: ComputeHmac_def Let_def crypto_laws_def safe_def)

text \<open>The new entry ends exactly where the moved parameters start.\<close>

lemma patch_offsets:
  fixes nonce_off ns hs cp_off cmd_size :: nat
  assumes "cp_off = nonce_off + 2 + ns + 1 + 2 + hs" "cp_off \<le> cmd_size"
    and "delta = int (2 + 16 + (2 + 32)) - int (2 + ns + (2 + hs))"
  shows "nat (int cp_off + delta) = nonce_off + 53"
    and "nat (int cmd_size + delta) = nonce_off + 53 + (cmd_size - cp_off)"
  using assms by linarith+

lemma safe_PatchAuthArea [safe_intros]:
  assumes "nonce_off = auth_size_off + 8" "10 \<le> auth_size_off"
    and "auth_size_off + 4 + auth_size = nonce_off + 2 + ns + 1 + 2 + hs"
    and "auth_size_off + 4 + auth_size \<le> cmd_size" "cmd_size \<le> length buf"
    and "length nc = 16" "length h = 32"
    and "\<And>n buf'. n \<le> length buf \<Longrightarrow> length buf' = length buf \<Longrightarrow> P (n, buf')"
  shows "safe (PatchAuthArea buf cmd_size nonce_off ns hs at auth_size_off auth_size nc h) P"
  unfolding PatchAuthArea_def Let_def assms(6) patch_offsets [OF assms(3,4) refl]
  by (intro safe_intros) (use assms in auto)

lemma safe_authorize [safe_intros]:
  assumes "crypto_laws cr" "session_ok st" "n \<le> length buf"
    and "\<And>m buf'. m \<le> length buf \<Longrightarrow> length buf' = length buf \<Longrightarrow> P (m, buf')"
  shows "safe (authorize cr st buf n c hc) P"
  unfolding authorize_def Let_def
  by (intro safe_intros) (use assms in \<open>auto simp: session_ok_def kNonceCallerSize_def\<close>)

lemma patch_command_safe:
  assumes "crypto_laws cr" "session_ok st"
  shows "safe (SessionAuthPatchCommand cr buf n st)
    (\<lambda>(m, buf', st'). (m = n \<or> m \<le> length buf) \<and> length buf' = length buf \<and> session_ok st')"
  unfolding SessionAuthPatchCommand_def Let_def
  by (intro safe_intros) (use assms in \<open>auto simp: session_ok_def\<close>)

text \<open>The states that the calls of the layer can lead to, from any buffers.\<close>

inductive reachable_session :: "crypto \<Rightarrow> session_state \<Rightarrow> bool" for cr where
  reset: "reachable_session cr SessionAuthReset"
| init: "h < 2 ^ 32 \<Longrightarrow> SessionAuthInit h nonce key alg = Some st \<Longrightarrow> reachable_session cr st"
| command: "reachable_session cr st \<Longrightarrow> SessionAuthPatchCommand cr buf n st = Some (m, buf', st')
    \<Longrightarrow> reachable_session cr st'"
| response: "reachable_session cr st \<Longrightarrow> SessionAuthProcessResponse buf st = Some st'
    \<Longrightarrow> reachable_session cr st'"

lemma reachable_session_ok:
  assumes "reachable_session cr st" "crypto_laws cr"
  shows "session_ok st"
  using assms(1)
proof induction
  case (command st buf n m buf' st')
  then show ?case
    using patch_command_safe [OF assms(2), of st buf n] by (simp add: safe_def)
next
  case (response st buf st')
  then show ?case using process_response_safe [of st buf] by (simp add: safe_def)
qed (use session_ok_reset session_ok_armed in \<open>auto simp: SessionAuthInit_armed\<close>)

lemma reachable_armed: "h < 2 ^ 32 \<Longrightarrow> reachable_session cr (armed_session h nonce key alg)"
  by (rule reachable_session.init [OF _ SessionAuthInit_armed])

subsection \<open>What a patched command looks like\<close>

definition session_command :: "nat \<Rightarrow> bytes \<Rightarrow> nat \<Rightarrow> bytes \<Rightarrow> byte \<Rightarrow> bytes \<Rightarrow> bytes \<Rightarrow> bytes" where
  "session_command c hs sh nonce at hmac params =
     (let auth = be_bytes 4 (int sh) @ sized nonce @ [at] @ sized hmac;
          body = be_bytes 4 (int c) @ hs @ be_bytes 4 (int (length auth)) @ auth @ params
      in be_bytes 2 (TPM_ST TPM_ST_SESSIONS) @ be_bytes 4 (6 + int (length body)) @ body)"

definition handle_area :: "nat list \<Rightarrow> bytes" where
  "handle_area hs = concat (map (be_bytes 4 \<circ> int) hs)"

lemma length_handle_area [simp]: "length (handle_area hs) = 4 * length hs"
  by (induction hs) (simp_all add: handle_area_def)

lemma rd_cursor: "at_cursor buf i (x @ rest) \<Longrightarrow> n = length x \<Longrightarrow> rd buf i n = Some x"
  using at_cursor_length [of buf i "x @ rest"] by (simp add: rd_def slice_at_cursor_exact)

lemma Read_cursor:
  "at_cursor buf i (be_bytes 2 v @ rest) \<Longrightarrow> 0 \<le> v \<Longrightarrow> v < 65536 \<Longrightarrow> Read16 buf i = Some (nat v)"
  "at_cursor buf i (be_bytes 4 v @ rest) \<Longrightarrow> 0 \<le> v \<Longrightarrow> v < 4294967296 \<Longrightarrow> Read32 buf i = Some (nat v)"
  by (simp_all add: Read16_def Read32_def rd_cursor byte_simps)

lemma Read8_cursor: "at_cursor buf i (w # rest) \<Longrightarrow> Read8 buf i = Some (nat (uint w))"
  using rd_cursor [of buf i "[w]" rest 1] from_bytes_snoc [of "[]" w] by (simp add: Read8_def)

lemma wr_over: "i = length x \<Longrightarrow> length y = length b \<Longrightarrow> wr i b (x @ y @ z) = Some (x @ b @ z)"
  by (simp add: wr_def)

text \<open>The Name of a handle, empty for one that is not known.\<close>

definition known_name :: "nat \<Rightarrow> name_table \<Rightarrow> bytes" where
  "known_name h names = (case HandleName h kMaxNameSize names of None \<Rightarrow> [] | Some n \<Rightarrow> n)"

lemma known_name_Some: "known_name h names \<noteq> [] \<Longrightarrow> HandleName h 68 names = Some (known_name h names)"
  by (auto simp: known_name_def kMaxNameSize_def split: option.splits)

lemma handle_names_cursor:
  assumes "at_cursor buf (10 + 4 * i) (handle_area hs @ rest)"
    and "\<forall>h\<in>set hs. h < 2 ^ 32 \<and> known_name h names \<noteq> []"
  shows "handle_names buf names i (length hs) = Some (Some (concat (map (\<lambda>h. known_name h names) hs)))"
  using assms
proof (induction hs arbitrary: i)
  case (Cons h hs)
  have c: "at_cursor buf (10 + 4 * i) (be_bytes 4 (int h) @ handle_area hs @ rest)"
    using Cons.prems(1) by (simp add: handle_area_def)
  have "at_cursor buf (10 + 4 * i + 4) (handle_area hs @ rest)"
    by (rule at_cursor_skip [OF c]) simp
  then have "handle_names buf names (Suc i) (length hs) =
      Some (Some (concat (map (\<lambda>h. known_name h names) hs)))"
    using Cons.IH [of "Suc i"] Cons.prems(2) by (simp add: add.commute add.left_commute)
  moreover have "Read32 buf (10 + 4 * i) = Some h"
    using Read_cursor(2) [OF c] Cons.prems(2) by simp
  ultimately show ?case using Cons.prems(2) known_name_Some [of h names] by simp
qed simp

text \<open>The move of the parameters: afterwards they stand at their new offset.\<close>

lemma params_moved:
  assumes buf: "buf = pre @ entry @ params @ pad" and n: "length pre + k + length params \<le> length buf"
  obtains buf' q where
    "(if length params > 0 \<and> length pre + k \<noteq> length pre + length entry
      then do { cp \<leftarrow> rd buf (length pre + length entry) (length params); wr (length pre + k) cp buf }
      else Some buf) = Some buf'"
    "take (length pre) buf' = pre" "drop (length pre + k) buf' = params @ q" "length buf' = length buf"
proof (cases "length params > 0 \<and> length pre + k \<noteq> length pre + length entry")
  case True
  have "at_cursor buf (length pre + length entry) (params @ pad)"
    using at_cursor_append [of "pre @ entry" "params @ pad"] buf by simp
  then have "rd buf (length pre + length entry) (length params) = Some params"
    by (rule rd_cursor) simp
  moreover define q where "q = drop (length pre + k + length params) buf"
  define b where "b = take (length pre + k) buf @ params @ q"
  have "take (length pre) buf = pre" using buf by simp
  then have "take (length pre) b = pre" using n by (simp add: b_def min_absorb1)
  moreover have "drop (length pre + k) b = params @ q" "length b = length buf"
    using n by (simp_all add: b_def q_def)
  moreover have "wr (length pre + k) params buf = Some b" using n by (simp add: wr_def b_def q_def)
  ultimately show thesis using True by (intro that [of b q]) simp_all
next
  case False
  with n buf show thesis
    by (intro that [of buf "if params = [] then drop (length pre + k) buf else pad"])
      (auto split: if_splits)
qed

lemma PatchAuthArea_layout:
  assumes buf: "buf = a @ be_bytes 4 sz @ b @ be_bytes 4 (int asz) @ g @
      (sized nonce @ [at] @ sized hmac) @ params @ pad"
    and l: "length a = 2" "length g = 4" "asz = 9 + length nonce + length hmac"
    and cs: "cmd_size = 19 + length b + length nonce + length hmac + length params"
    and n: "nc = replicate 16 w" "length m = 32" "length pad + length nonce + length hmac \<ge> 48"
    and off: "nonce_off = 14 + length b" "auth_size_off = 6 + length b"
  obtains pad' where "PatchAuthArea buf cmd_size nonce_off (length nonce) (length hmac) (nat (uint at))
      auth_size_off asz nc m =
    Some (67 + length b + length params, a @ be_bytes 4 (67 + int (length b) + int (length params)) @ b @
      be_bytes 4 57 @ g @ sized nc @ [at] @ sized m @ params @ pad')"
proof -
  let ?pre = "a @ be_bytes 4 sz @ b @ be_bytes 4 (int asz) @ g" and ?e = "sized nonce @ [at] @ sized hmac"
  let ?area = "be_bytes 2 (int (length nc)) @ nc @ [of_nat (nat (uint at))] @ be_bytes 2 32 @ m"
  have o: "nat (int (auth_size_off + 4 + asz) + (int (2 + length nc + (2 + 32)) -
      int (2 + length nonce + (2 + length hmac)))) = length ?pre + 53"
    "nat (int cmd_size + (int (2 + length nc + (2 + 32)) - int (2 + length nonce + (2 + length hmac)))) =
      67 + length b + length params"
    "auth_size_off + 4 + asz = length ?pre + length ?e" "cmd_size - (length ?pre + length ?e) = length params"
    "nonce_off = length ?pre" "length ?area = 53" "length ?pre = 14 + length b"
    "int asz + (int (2 + length nc + (2 + 32)) - int (2 + length nonce + (2 + length hmac))) = 57"
    using l cs n off by (simp_all add: nat_eq_iff)
  have lb: "length buf = 14 + length b + length ?e + length params + length pad" using buf l by simp
  then have fits: "\<not> 67 + length b + length params > length buf"
    "length ?pre + 53 + length params \<le> length buf"
    using n(3) o(7) by simp_all
  have bp: "buf = ?pre @ ?e @ params @ pad" using buf by simp
  from params_moved [OF bp fits(2)] obtain buf' q where
    mv: "(if length params > 0 \<and> length ?pre + 53 \<noteq> length ?pre + length ?e
      then do { cp \<leftarrow> rd buf (length ?pre + length ?e) (length params); wr (length ?pre + 53) cp buf }
      else Some buf) = Some buf'"
    and pm: "take (length ?pre) buf' = ?pre" "drop (length ?pre + 53) buf' = params @ q"
      "length buf' = length buf" by blast
  have w1: "wr (length ?pre) ?area buf' = Some (?pre @ ?area @ params @ q)"
    using pm fits(2) o(6) by (simp add: wr_def)
  have w2: "wr (length ?pre + 53) (replicate (length ?pre + 53 - (length ?pre + 53)) 0) z = Some z"
    if "length z = length buf" for z
    using that fits(2) by (simp add: wr_def)
  have w3: "wr auth_size_off (be_bytes 4 57) (?pre @ ?area @ params @ q) =
      Some ((a @ be_bytes 4 sz @ b) @ be_bytes 4 57 @ g @ ?area @ params @ q)"
    using wr_over [of auth_size_off "a @ be_bytes 4 sz @ b" "be_bytes 4 (int asz)" "be_bytes 4 57"] off l by simp
  have w4: "wr 2 (be_bytes 4 v) ((a @ be_bytes 4 sz @ b) @ z) = Some (a @ be_bytes 4 v @ b @ z)" for v z
    using wr_over [of 2 a "be_bytes 4 sz" "be_bytes 4 v" "b @ z"] l by simp
  have "length (?pre @ ?area @ params @ q) = length buf"
    using arg_cong [OF pm(2), of length] pm(3) fits(2) o(6) by simp
  note w2 = w2 [OF this]
  have "PatchAuthArea buf cmd_size nonce_off (length nonce) (length hmac) (nat (uint at))
      auth_size_off asz nc m =
    Some (67 + length b + length params, a @ be_bytes 4 (int (67 + length b + length params)) @ b @
      be_bytes 4 57 @ g @ ?area @ params @ q)"
    unfolding PatchAuthArea_def Let_def o(1,2,8)
    unfolding o(3,4) unfolding o(4,5,6)
    by (simp only: fits(1) if_False mv w1 w2 w3 w4 bind.bind_lunit)
  then show thesis
    using n(1,2) by (intro that [of q]) (simp add: sized_def)
qed

lemma LookupCommandAttr_bound:
  assumes "LookupCommandAttr c = Some a"
  shows "c < 2 ^ 32"
proof -
  have "(c, a) \<in> set command_attrs"
    using assms unfolding LookupCommandAttr_def by (rule map_of_SomeD)
  then show ?thesis by (auto simp: command_attrs_def)
qed

text \<open>The entry of a single session, read and then patched.\<close>

lemma session_entry_cursor:
  assumes "at_cursor buf p (sized nonce @ at # sized hmac @ rest)"
    and "length nonce < 65536" "length hmac < 65536" "lim = p + 5 + length nonce + length hmac"
  shows "session_entry buf p lim = Some (Some (length nonce, nat (uint at), length hmac))"
proof -
  have c1: "at_cursor buf p (be_bytes 2 (int (length nonce)) @ nonce @ at # sized hmac @ rest)"
    using assms(1) by (simp add: sized_def)
  have "at_cursor buf (p + 2) (nonce @ at # sized hmac @ rest)"
    by (rule at_cursor_skip [OF c1]) simp
  then have c2: "at_cursor buf (p + 2 + length nonce) (at # sized hmac @ rest)"
    by (rule at_cursor_skip) simp
  have c3: "at_cursor buf (p + 2 + length nonce + 1) (be_bytes 2 (int (length hmac)) @ hmac @ rest)"
    using at_cursor_Cons [OF c2] by (simp add: sized_def)
  show ?thesis
    unfolding session_entry_def Let_def
    using Read_cursor(1) [OF c1] Read8_cursor [OF c2] Read_cursor(1) [OF c3] assms(2-4) by simp
qed

definition session_names :: "nat list \<Rightarrow> name_table \<Rightarrow> bytes" where
  "session_names hs names = concat (map (\<lambda>h. known_name h names) hs)"

text \<open>
  The HMAC that part 1 of the TPM 2.0 specification asks for where no authValue is part of the key: over
  the cpHash, the nonce of the caller, which the layer fixes to 16 bytes \<open>0xAA\<close>, the nonce of the TPM
  and the attributes.
\<close>

definition session_hmac :: "crypto \<Rightarrow> session_state \<Rightarrow> nat \<Rightarrow> nat list \<Rightarrow> byte \<Rightarrow> bytes \<Rightarrow> bytes" where
  "session_hmac cr st c hs at params =
     hmac_sha256 cr (s_session_key st)
       (sha256 cr (be_bytes 4 (int c) @ session_names hs (s_names st) @ params) @
        replicate 16 0xAA @ s_nonce_tpm st @ [at])"

lemma ComputeCpHash_cursor:
  assumes "at_cursor buf 10 (handle_area hs @ rest)"
    and "\<forall>h\<in>set hs. h < 2 ^ 32 \<and> known_name h names \<noteq> []"
    and "at_cursor buf off (params @ pad)" "n = length params"
  shows "ComputeCpHash cr buf names c (length hs) off n =
    Some (Some (sha256 cr (be_bytes 4 (int c) @ session_names hs names @ params)))"
  using handle_names_cursor [of buf 0 hs rest names] assms(1,2) rd_cursor [OF assms(3,4)]
  by (simp add: ComputeCpHash_def session_names_def)

lemma ComputeHmac_fits:
  assumes "crypto_laws cr" "session_ok st"
  shows "ComputeHmac cr (sha256 cr b) (replicate kNonceCallerSize kNonceCallerFill) (s_nonce_tpm st)
      (nat (uint at)) (s_session_key st) =
    Some (hmac_sha256 cr (s_session_key st)
      (sha256 cr b @ replicate 16 0xAA @ s_nonce_tpm st @ [at]))"
  using assms by (simp add: ComputeHmac_def crypto_laws_def session_ok_def kNonceCallerSize_def
      kNonceCallerFill_def)

text \<open>A command with one session, cut at the fields that are read and at those that are written.\<close>

lemma session_command_cut:
  fixes nonce hmac :: bytes
  defines "asz \<equiv> 9 + length nonce + length hmac"
  shows "session_command c hs sh nonce at hmac params =
    be_bytes 2 (TPM_ST TPM_ST_SESSIONS) @ be_bytes 4 (23 + int (length hs + length nonce + length hmac + length params)) @
      (be_bytes 4 (int c) @ hs) @ be_bytes 4 (int asz) @ be_bytes 4 (int sh) @
      (sized nonce @ [at] @ sized hmac) @ params"
  by (simp add: session_command_def Let_def asz_def algebra_simps)

lemma length_session_command:
  "length (session_command c hs sh nonce at hmac params) =
    23 + length hs + length nonce + length hmac + length params"
  by (simp add: session_command_cut)

text \<open>Where the fields of such a command stand.\<close>

lemma session_command_cursors:
  fixes nonce hmac :: bytes
  assumes "buf = session_command c (handle_area hs) sh nonce at hmac params @ pad"
    and "o1 = 10 + 4 * length hs" "o2 = 18 + 4 * length hs"
      "o3 = 23 + 4 * length hs + length nonce + length hmac"
  obtains r0 r1 r2 r3 r4 r5 where
    "at_cursor buf 0 (be_bytes 2 (TPM_ST TPM_ST_SESSIONS) @ r0)"
    "at_cursor buf 2 (be_bytes 4 (23 + int (4 * length hs + length nonce + length hmac + length params)) @ r1)"
    "at_cursor buf 6 (be_bytes 4 (int c) @ r2)"
    "at_cursor buf 10 (handle_area hs @ r3)"
    "at_cursor buf o1 (be_bytes 4 (int (9 + length nonce + length hmac)) @ r4)"
    "at_cursor buf (o1 + 4) (be_bytes 4 (int sh) @ r5)"
    "at_cursor buf o2 (sized nonce @ at # sized hmac @ params @ pad)"
    "at_cursor buf o3 (params @ pad)"
proof -
  let ?t = "be_bytes 2 (TPM_ST TPM_ST_SESSIONS)" and ?h = "handle_area hs"
    and ?n = "be_bytes 4 (23 + int (4 * length hs + length nonce + length hmac + length params))"
    and ?z = "be_bytes 4 (int (9 + length nonce + length hmac))"
  let ?e = "sized nonce @ at # sized hmac"
  have b: "buf = ?t @ ?n @ be_bytes 4 (int c) @ ?h @ ?z @ be_bytes 4 (int sh) @ ?e @ params @ pad"
    unfolding assms(1) session_command_cut by simp
  have c0: "at_cursor buf 0 (?t @ ?n @ be_bytes 4 (int c) @ ?h @ ?z @ be_bytes 4 (int sh) @ ?e @ params @ pad)"
    by (simp add: b)
  have c1: "at_cursor buf 2 (?n @ be_bytes 4 (int c) @ ?h @ ?z @ be_bytes 4 (int sh) @ ?e @ params @ pad)"
    using at_cursor_skip [OF c0, of 2] by (simp add: numeral_2_eq_2)
  have c2: "at_cursor buf 6 (be_bytes 4 (int c) @ ?h @ ?z @ be_bytes 4 (int sh) @ ?e @ params @ pad)"
    using at_cursor_skip [OF c1, of 4] by simp
  have c3: "at_cursor buf 10 (?h @ ?z @ be_bytes 4 (int sh) @ ?e @ params @ pad)"
    using at_cursor_skip [OF c2, of 4] by simp
  have c4: "at_cursor buf o1 (?z @ be_bytes 4 (int sh) @ ?e @ params @ pad)"
    using at_cursor_skip [OF c3, of "4 * length hs"] assms(2) by simp
  have c5: "at_cursor buf (o1 + 4) (be_bytes 4 (int sh) @ ?e @ params @ pad)"
    by (rule at_cursor_skip [OF c4]) simp
  have c6: "at_cursor buf o2 (?e @ params @ pad)"
    using at_cursor_skip [OF c5, of 4] assms(2,3) by simp
  have "at_cursor buf o3 (params @ pad)"
    using at_cursor_skip [OF c6, of "length ?e"] assms(3,4) by (simp add: ac_simps)
  with c0 c1 c2 c3 c4 c5 c6 show thesis by (intro that) simp_all
qed

lemma authorize_session:
  fixes hs :: "nat list" and nonce hmac params :: bytes
  defines "cmd_size \<equiv> 23 + 4 * length hs + length nonce + length hmac + length params"
  assumes "crypto_laws cr" "session_ok st" "cmd_size < 2 ^ 32" "s_handle st < 2 ^ 32"
    and buf: "buf = session_command c (handle_area hs) (s_handle st) nonce at hmac params @ pad"
    and names: "\<forall>h\<in>set hs. h < 2 ^ 32 \<and> known_name h (s_names st) \<noteq> []"
    and len: "length nonce < 65536" "length hmac < 65536" "48 \<le> length pad + length nonce + length hmac"
  obtains pad' where "authorize cr st buf cmd_size c (length hs) =
    Some (71 + 4 * length hs + length params,
      session_command c (handle_area hs) (s_handle st) (replicate 16 0xAA) at
        (session_hmac cr st c hs at params) params @ pad')"
proof -
  let ?asz = "9 + length nonce + length hmac" and ?o = "10 + 4 * length hs"
  obtain r3 r4 r5 where cur: "at_cursor buf 10 (handle_area hs @ r3)"
    "at_cursor buf ?o (be_bytes 4 (int ?asz) @ r4)" "at_cursor buf (?o + 4) (be_bytes 4 (int (s_handle st)) @ r5)"
    "at_cursor buf (18 + 4 * length hs) (sized nonce @ at # sized hmac @ params @ pad)"
    "at_cursor buf (23 + 4 * length hs + length nonce + length hmac) (params @ pad)"
    by (rule session_command_cursors [OF buf refl refl refl])
  have fa: "FindAuthArea buf cmd_size (length hs) = Some (Some (?o, ?o + 4, ?asz))"
    using Read_cursor(2) [OF cur(2)] len by (simp add: FindAuthArea_def cmd_size_def nat_add_distrib)
  have rh: "Read32 buf (?o + 4) = Some (s_handle st)"
    using Read_cursor(2) [OF cur(3)] assms(5) by simp
  have se: "session_entry buf (?o + 4 + 4) (?o + 4 + ?asz) =
      Some (Some (length nonce, nat (uint at), length hmac))"
    by (rule session_entry_cursor) (use cur(4) len in \<open>simp_all add: ac_simps\<close>)
  have hash: "ComputeCpHash cr buf (s_names st) c (length hs) (?o + 4 + ?asz) (cmd_size - (?o + 4 + ?asz)) =
      Some (Some (sha256 cr (be_bytes 4 (int c) @ session_names hs (s_names st) @ params)))"
    by (rule ComputeCpHash_cursor [OF cur(1) names, of _ params pad])
      (use cur(5) in \<open>simp_all add: ac_simps cmd_size_def\<close>)
  let ?m = "session_hmac cr st c hs at params"
  have m: "length ?m = 32" using assms(2) by (simp add: session_hmac_def crypto_laws_def)
  obtain pad' where pa: "PatchAuthArea buf cmd_size (?o + 4 + 4) (length nonce) (length hmac) (nat (uint at))
      ?o ?asz (replicate 16 0xAA) ?m =
    Some (67 + length (be_bytes 4 (int c) @ handle_area hs) + length params,
      be_bytes 2 (TPM_ST TPM_ST_SESSIONS) @
      be_bytes 4 (67 + int (length (be_bytes 4 (int c) @ handle_area hs)) + int (length params)) @
      (be_bytes 4 (int c) @ handle_area hs) @ be_bytes 4 57 @ be_bytes 4 (int (s_handle st)) @
      sized (replicate 16 0xAA) @ [at] @ sized ?m @ params @ pad')"
    by (rule PatchAuthArea_layout [where buf = buf and a = "be_bytes 2 (TPM_ST TPM_ST_SESSIONS)" and
          sz = "23 + int (length (handle_area hs) + length nonce + length hmac + length params)" and
          b = "be_bytes 4 (int c) @ handle_area hs" and asz = ?asz and g = "be_bytes 4 (int (s_handle st))" and
          nonce = nonce and at = at and hmac = hmac and params = params and pad = pad and
          cmd_size = cmd_size and nc = "replicate 16 0xAA" and w = "0xAA" and m = ?m and
          nonce_off = "?o + 4 + 4" and auth_size_off = ?o])
      (use buf len m in \<open>simp_all add: session_command_cut cmd_size_def\<close>)
  have "authorize cr st buf cmd_size c (length hs) =
    Some (71 + 4 * length hs + length params,
      session_command c (handle_area hs) (s_handle st) (replicate 16 0xAA) at ?m params @ pad')"
    unfolding authorize_def fa bind.bind_lunit option.case prod.case rh se hash
      ComputeHmac_fits [OF assms(2,3)] Let_def
    using pa m by (simp add: session_command_cut session_hmac_def kNonceCallerSize_def kNonceCallerFill_def add.assoc)
  then show thesis by (rule that)
qed

text \<open>
  C6: in every state of the session layer that any calls can lead to, no command, no response and no
  \<open>SessionAuthInit\<close> makes it read or write outside an array: the buffer of the caller, the 16 entries
  of the Name table and the 68 bytes of a Name, the nonce and the key of the session, and the local
  arrays of the cpHash and the HMAC. The patched command has a size within the capacity of the buffer
  when it had one before.
\<close>

theorem session_layer_memory_safe:
  assumes "reachable_session cr st" "crypto_laws cr"
  shows "(\<exists>m buf' st'. SessionAuthPatchCommand cr buf n st = Some (m, buf', st') \<and>
      length buf' = length buf \<and> (n \<le> length buf \<longrightarrow> m \<le> length buf)) \<and>
    (\<exists>st'. SessionAuthProcessResponse response st = Some st') \<and>
    (\<exists>st'. SessionAuthInit handle nonce key alg = Some st')"
proof -
  have ok: "session_ok st" by (rule reachable_session_ok [OF assms])
  show ?thesis
    using patch_command_safe [OF assms(2) ok, of buf n] process_response_safe [OF ok, of response]
    by (auto simp: safe_def SessionAuthInit_armed split: option.splits)
qed

text \<open>A crypto library for the witnesses: digests of 32 bytes.\<close>

definition plain_crypto :: crypto where
  "plain_crypto = \<lparr>sha256 = (\<lambda>b. take 32 (b @ replicate 32 0)),
    hmac_sha256 = (\<lambda>k b. take 32 (k @ b @ replicate 32 0))\<rparr>"

lemma plain_crypto_laws: "crypto_laws plain_crypto"
  by (auto simp: crypto_laws_def plain_crypto_def min_def)

text \<open>
  The state of the witness: the \<open>Load\<close> of an object whose Name in the response is longer than the
  array of an entry.
\<close>

definition long_name_response :: bytes where
  "long_name_response = [0x80, 2, 0, 0, 0, 92, 0, 0, 0, 0, 0x80, 0, 0, 1, 0, 0, 0, 72, 0, 70] @ replicate 70 1 @ [0, 0]"

definition loading_session :: session_state where
  "loading_session = (armed_session 0x2000000 (replicate 16 1) [] 11)\<lparr>s_last_command_code := 0x157\<rparr>"

definition named_session :: session_state where
  "named_session = loading_session\<lparr>s_names := [(0x80000001, replicate 68 1)]\<rparr>"

lemma reachable_loading: "reachable_session plain_crypto loading_session"
proof (rule reachable_session.command [OF reachable_armed])
  show "SessionAuthPatchCommand plain_crypto [0x80, 1, 0, 0, 0, 10, 0, 0, 1, 0x57] 10
      (armed_session 0x2000000 (replicate 16 1) [] 11) =
    Some (10, [0x80, 1, 0, 0, 0, 10, 0, 0, 1, 0x57], loading_session)"
    by (simp add: loading_session_def armed_session_def SessionAuthPatchCommand_def Read16_def Read32_def rd_def
        py_slice_def from_bytes_def cc_def TPM_CC.simps st_tag_def TPM_ST.simps Let_def DigestSizeFor_def)
qed simp

lemma long_name_reads:
  "Read16 long_name_response 0 = Some (st_tag TPM_ST_SESSIONS)" "Read32 long_name_response 2 = Some 92"
  "Read32 long_name_response 6 = Some 0" "Read32 long_name_response 10 = Some 0x80000001"
  "Read32 long_name_response 14 = Some 72" "Read16 long_name_response 18 = Some 70"
  "Read16 long_name_response 90 = Some 0" "rd long_name_response 20 70 = Some (replicate 70 1)"
  "rd long_name_response 92 0 = Some []" "length long_name_response = 92"
  by (simp_all add: long_name_response_def Read16_def Read32_def rd_def py_slice_def from_bytes_def
      st_tag_def TPM_ST.simps)

lemma reachable_named: "reachable_session plain_crypto named_session"
proof (rule reachable_session.response [OF reachable_loading])
  show "SessionAuthProcessResponse long_name_response loading_session = Some named_session"
    by (simp add: named_session_def loading_session_def armed_session_def SessionAuthProcessResponse_def
        long_name_reads LookupCommandAttr_def command_attrs_def command_response_def Let_def st_tag_def
        PopulateNameFromResponse_def cc_def TPM_CC.simps TPM_ST.simps ExtractLoadName_def name_add_def
        kMaxNameSize_def kMaxNames_def array_copy_def array_append_def)
qed

lemma session_layer_memory_safe_witness:
  "(\<exists>m buf' st'. SessionAuthPatchCommand plain_crypto [0x80, 2, 0, 0, 0, 10, 0, 0, 1, 0x76] 10
        named_session = Some (m, buf', st') \<and>
      length buf' = length [0x80 :: byte, 2, 0, 0, 0, 10, 0, 0, 1, 0x76] \<and>
      (10 \<le> length [0x80 :: byte, 2, 0, 0, 0, 10, 0, 0, 1, 0x76] \<longrightarrow>
        m \<le> length [0x80 :: byte, 2, 0, 0, 0, 10, 0, 0, 1, 0x76])) \<and>
    (\<exists>st'. SessionAuthProcessResponse long_name_response named_session = Some st') \<and>
    (\<exists>st'. SessionAuthInit 0x2000000 (replicate 100 7) [] 11 = Some st')"
  by (rule session_layer_memory_safe [OF reachable_named plain_crypto_laws])

lemma patch_authorises:
  assumes "reachable_session cr st" "crypto_laws cr" "s_initialized st" "s_digest_size st \<noteq> 0"
    and "LookupCommandAttr c = Some (length hs, aut, out)" "c \<noteq> cc TPM_CC_START_AUTH_SESSION"
    and names: "\<forall>h\<in>set hs. h < 2 ^ 32 \<and> known_name h (s_names st) \<noteq> []"
    and len: "length nonce < 65536" "length hmac < 65536" "48 \<le> length pad + length nonce + length hmac"
    and cmd: "cmd = session_command c (handle_area hs) (s_handle st) nonce at hmac params"
      "length cmd < 2 ^ 32"
  shows "\<exists>n buf. SessionAuthPatchCommand cr (cmd @ pad) (length cmd) st =
      Some (n, buf, st\<lparr>s_last_command_code := c\<rparr>) \<and>
    take n buf = session_command c (handle_area hs) (s_handle st) (replicate 16 0xAA) at
      (session_hmac cr st c hs at params) params \<and> n \<le> length buf"
proof -
  let ?out = "session_command c (handle_area hs) (s_handle st) (replicate 16 0xAA) at
    (session_hmac cr st c hs at params) params"
  have ok: "session_ok st" by (rule reachable_session_ok [OF assms(1,2)])
  have l: "length cmd = 23 + 4 * length hs + length nonce + length hmac + length params"
    by (simp add: cmd(1) length_session_command)
  have b: "cmd @ pad = session_command c (handle_area hs) (s_handle st) nonce at hmac params @ pad"
    by (simp add: cmd)
  have c: "int c < 4294967296" using LookupCommandAttr_bound [OF assms(5)] by simp
  obtain r0 r1 r2 where cur: "at_cursor (cmd @ pad) 0 (be_bytes 2 (TPM_ST TPM_ST_SESSIONS) @ r0)"
    "at_cursor (cmd @ pad) 2
      (be_bytes 4 (23 + int (4 * length hs + length nonce + length hmac + length params)) @ r1)"
    "at_cursor (cmd @ pad) 6 (be_bytes 4 (int c) @ r2)"
    by (rule session_command_cursors [OF b refl refl refl])
  have reads: "Read16 (cmd @ pad) 0 = Some (st_tag TPM_ST_SESSIONS)"
    "Read32 (cmd @ pad) 2 = Some (length cmd)" "Read32 (cmd @ pad) 6 = Some c"
    using Read_cursor(1) [OF cur(1)] Read_cursor(2) [OF cur(2)] Read_cursor(2) [OF cur(3)] l cmd(2) c
    by (simp_all add: st_tag_def nat_add_distrib nat_mult_distrib)
  have "session_ok (st\<lparr>s_last_command_code := c\<rparr>)" using ok by (simp add: session_ok_def)
  then obtain pad' where "authorize cr (st\<lparr>s_last_command_code := c\<rparr>) (cmd @ pad) (length cmd) c (length hs) =
      Some (71 + 4 * length hs + length params, ?out @ pad')"
    using authorize_session [OF assms(2), of "st\<lparr>s_last_command_code := c\<rparr>" hs nonce hmac params "cmd @ pad" c at pad]
      b l cmd(2) names len ok by (auto simp: session_ok_def session_hmac_def)
  moreover have "length ?out = 71 + 4 * length hs + length params"
    using assms(2) by (simp add: length_session_command session_hmac_def crypto_laws_def)
  ultimately show ?thesis
    using reads assms(3-6) l
    by (simp add: SessionAuthPatchCommand_def Let_def)
qed

text \<open>
  C5: a command whose code is in the table of \<open>command_attributes.h\<close> with as many handles as it has,
  with the armed session as its only session and with a known Name for each of its handles, leaves the layer
  authorised as the TPM 2.0 specification asks: the nonce of the layer, which is fixed to 16 bytes \<open>0xAA\<close>,
  the HMAC under the session key over the hash of command code, Names and parameters, the nonces and the attributes,
  both sizes corrected, and header, handles, session attributes and parameters as they were. The
  buffer must have room for the 48 bytes of nonce and HMAC. Commands outside the table are those of C26.
\<close>

theorem patched_command_is_authorised:
  assumes "reachable_session cr st" "crypto_laws cr" "s_initialized st" "s_digest_size st \<noteq> 0"
    and "LookupCommandAttr c = Some (length hs, aut, out)" "c \<noteq> cc TPM_CC_START_AUTH_SESSION"
    and names: "\<forall>h\<in>set hs. h < 2 ^ 32 \<and> known_name h (s_names st) \<noteq> []"
    and len: "length nonce < 65536" "length hmac < 65536" "48 \<le> length pad + length nonce + length hmac"
    and cmd: "cmd = session_command c (handle_area hs) (s_handle st) nonce at hmac params"
      "length cmd < 2 ^ 32"
  shows "\<exists>n buf. SessionAuthPatchCommand cr (cmd @ pad) (length cmd) st =
      Some (n, buf, st\<lparr>s_last_command_code := c\<rparr>) \<and>
    take n buf = session_command c (handle_area hs) (s_handle st) (replicate 16 0xAA) at
      (session_hmac cr st c hs at params) params"
  using patch_authorises [OF assms] by blast

lemma patched_command_is_authorised_witness:
  "\<exists>st. reachable_session plain_crypto st \<and> s_handle st = 0x2000000 \<and>
    (\<exists>n buf. SessionAuthPatchCommand plain_crypto
        (session_command 0x126 (handle_area [0x4000000C]) 0x2000000 [] 1 [] [] @ replicate 64 0) 27 st =
        Some (n, buf, st\<lparr>s_last_command_code := 0x126\<rparr>) \<and>
      take n buf = session_command 0x126 (handle_area [0x4000000C]) 0x2000000 (replicate 16 0xAA) 1
        (session_hmac plain_crypto st 0x126 [0x4000000C] 1 []) [])"
proof -
  let ?st = "armed_session 0x2000000 (replicate 16 1) [] 11"
  have r: "reachable_session plain_crypto ?st" by (rule reachable_armed) simp
  have d: "s_initialized ?st" "s_digest_size ?st \<noteq> 0" "s_handle ?st = 0x2000000"
    "LookupCommandAttr 0x126 = Some (length [0x4000000C :: nat], 1, 0)"
    "0x126 \<noteq> cc TPM_CC_START_AUTH_SESSION"
    "\<forall>h\<in>set [0x4000000C]. h < 2 ^ 32 \<and> known_name h (s_names ?st) \<noteq> []"
    by (simp_all add: armed_session_def DigestSizeFor_def LookupCommandAttr_def command_attrs_def
        cc_def known_name_def HandleName_def array_copy_def kMaxNameSize_def Let_def flip: length_0_conv)
  let ?cmd = "session_command 0x126 (handle_area [0x4000000C]) 0x2000000 [] 1 [] []"
  have l: "length ?cmd = 27" by (simp add: length_session_command)
  have "\<exists>n buf. SessionAuthPatchCommand plain_crypto (?cmd @ replicate 64 0) 27 ?st =
      Some (n, buf, ?st\<lparr>s_last_command_code := 0x126\<rparr>) \<and>
    take n buf = session_command 0x126 (handle_area [0x4000000C]) 0x2000000 (replicate 16 0xAA) 1
      (session_hmac plain_crypto ?st 0x126 [0x4000000C] 1 []) []"
    using patched_command_is_authorised [OF r plain_crypto_laws d(1,2,4,5,6), where cmd = ?cmd and
        nonce = "[]" and hmac = "[]" and pad = "replicate 64 0" and at = 1 and params = "[]"]
    unfolding l d(3) by simp
  with r d(3) show ?thesis by blast
qed

end
