(* ===== verification/Fuzzer_Props.thy ===== *)
theory Fuzzer_Props
  imports Harness_Fuzzer Session_Auth_Props Harness_Props Run_Props
begin

section \<open>What the fuzz targets execute\<close>

subsection \<open>The message target runs to its end\<close>

lemma safe_Execute [safe_intros]:
  assumes "n \<le> length buf" "session_ok (snd s)" "\<And>s'. session_ok (snd s') \<Longrightarrow> P s'"
  shows "safe (ExecuteCommandBuffer p buf n s) P"
  unfolding ExecuteCommandBuffer_def Let_def
  by (intro safe_intros safe_mono [OF process_response_safe]) (use assms in \<open>auto simp: split_beta\<close>)

lemma run_messages_safe:
  "crypto_laws cr \<Longrightarrow> session_ok (snd s) \<Longrightarrow> safe (run_messages cr mu p cmds s) (\<lambda>s'. session_ok (snd s'))"
proof (induction cmds arbitrary: s)
  case (Cons cmd cmds)
  show ?case
    unfolding run_messages.simps
    by (intro safe_intros Cons safe_mono [OF patch_command_safe])
      (use Cons.prems in \<open>auto intro!: safe_intros Cons.IH\<close>)
qed (simp add: safe_Some)

text \<open>
  C15: the message target executes every sequence to its end: for every message, also one no seed
  contains, every TPM behind the wrapper, whatever it answers, and every marshalling library, the
  session layer never leaves the command buffer, which has 64 spare bytes, or the response.
\<close>

theorem proto_fuzzer_runs_to_end:
  assumes "crypto_laws cr"
  shows "\<exists>t'. proto_fuzzer cr mu p sequence t = Some t'"
proof -
  have "safe (proto_fuzzer cr mu p sequence t) (\<lambda>_. True)"
    unfolding proto_fuzzer_def Let_def
    by (intro safe_intros safe_mono [OF run_messages_safe [OF assms]]) (simp_all add: session_ok_reset)
  then show ?thesis by (auto simp: safe_def split: option.splits)
qed

text \<open>A TPM for the witnesses: its state is the log of the requests; it answers success.\<close>

definition logging_platform :: "bytes list platform" where
  "logging_platform =
     \<lparr>plat_nv_enable = id, plat_nv_needs_manufacture = (\<lambda>_. True), plat_manufacture = (\<lambda>t. (0, t)),
      plat_nv_disable = id, plat_power_on = id, plat_reset = id, plat_set_nv_avail = id,
      plat_locality_set = (\<lambda>_. id),
      plat_run_command = (\<lambda>b t. ([0x80, 1, 0, 0, 0, 10, 0, 0, 0, 0], t @ [b])),
      plat_hash_end = id, plat_nv_commit = id, plat_clear_nv_avail = id, plat_power_off = id\<rparr>"

lemma proto_fuzzer_runs_to_end_witness:
  "\<exists>t'. proto_fuzzer plain_crypto plain_tss logging_platform (Msg PB_TPMCommandSequence []) [] = Some t'"
  by (rule proto_fuzzer_runs_to_end) (rule plain_crypto_laws)

subsection \<open>The two targets on the two seeds of a sequence\<close>

definition idle :: "session_state \<Rightarrow> bool" where
  "idle st \<longleftrightarrow> \<not> s_initialized st \<and> \<not> s_pending_start st"

lemma idle_reset: "idle SessionAuthReset"
  by (simp add: idle_def SessionAuthReset_def)

text \<open>The header of a command, read from a buffer that starts with it.\<close>

lemma command_header_reads:
  assumes "command_bytes c = Inr b"
  shows "Read16 (b @ pad) 0 = Some (nat (cmd_tag c))" "Read32 (b @ pad) 2 = Some (length b)"
    "Read32 (b @ pad) 6 = Some (nat (cmd_cc c))" "10 \<le> length b"
proof -
  from assms have r: "0 \<le> cmd_tag c" "cmd_tag c < 65536" "0 \<le> cmd_cc c" "cmd_cc c < 4294967296"
    "length (cmd_params c) < 4294967286" and b: "b = command_layout c"
    by (simp_all add: command_bytes_layout)
  have c0: "at_cursor (b @ pad) 0 (be_bytes 2 (cmd_tag c) @ be_bytes 4 (command_size c) @
      be_bytes 4 (cmd_cc c) @ cmd_params c @ pad)"
    by (simp add: b command_layout_def)
  have c1: "at_cursor (b @ pad) 2 (be_bytes 4 (command_size c) @ be_bytes 4 (cmd_cc c) @ cmd_params c @ pad)"
    using at_cursor_skip [OF c0, of 2] by (simp add: numeral_2_eq_2)
  have c2: "at_cursor (b @ pad) 6 (be_bytes 4 (cmd_cc c) @ cmd_params c @ pad)"
    using at_cursor_skip [OF c1, of 4] by simp
  have l: "length b = 10 + length (cmd_params c)" by (simp add: b command_layout_def)
  show "Read16 (b @ pad) 0 = Some (nat (cmd_tag c))" using Read_cursor(1) [OF c0] r by simp
  show "Read32 (b @ pad) 6 = Some (nat (cmd_cc c))" using Read_cursor(2) [OF c2] r by simp
  have "command_size c = int (length b)" by (simp add: b command_size_length)
  then show "Read32 (b @ pad) 2 = Some (length b)"
    using Read_cursor(2) [OF c1] r(5) l by simp
  show "10 \<le> length b" using l by simp
qed

lemma patch_without_session:
  assumes "command_bytes c = Inr b" "cmd_cc c \<noteq> TPM_CC TPM_CC_START_AUTH_SESSION"
    and "\<not> s_initialized st \<or> LookupCommandAttr (nat (cmd_cc c)) = None"
  shows "SessionAuthPatchCommand cr (b @ pad) (length b) st =
    Some (length b, b @ pad, st\<lparr>s_last_command_code := nat (cmd_cc c)\<rparr>)"
proof -
  have "nat (cmd_cc c) \<noteq> cc TPM_CC_START_AUTH_SESSION"
    using assms(1,2) by (simp add: cc_def command_bytes_layout nat_eq_iff)
  then show ?thesis
    using command_header_reads(1-3) [OF assms(1), of pad] command_header_reads(4) [OF assms(1)] assms(3)
    by (auto simp: SessionAuthPatchCommand_def Let_def)
qed

lemma idle_response:
  "idle st \<Longrightarrow> SessionAuthProcessResponse response st = Some st"
  by (simp add: idle_def SessionAuthProcessResponse_def Read16_def Read32_def rd_def)

text \<open>A \<open>TPM2_StartAuthSession\<close> is noticed, but it is sent as it is.\<close>

lemma patch_start_session:
  assumes "command_bytes c = Inr b" "cmd_cc c = TPM_CC TPM_CC_START_AUTH_SESSION" "session_ok st"
  obtains st' where "SessionAuthPatchCommand cr (b @ pad) (length b) st = Some (length b, b @ pad, st')"
    "CaptureStartAuthSessionCommand (b @ pad) (length b)
      (st\<lparr>s_last_command_code := cc TPM_CC_START_AUTH_SESSION\<rparr>) = Some st'" "session_ok st'"
proof -
  let ?st = "st\<lparr>s_last_command_code := cc TPM_CC_START_AUTH_SESSION\<rparr>"
  have "safe (CaptureStartAuthSessionCommand (b @ pad) (length b) ?st) session_ok"
    by (rule safe_Capture) (use assms(3) in \<open>simp_all add: session_ok_def\<close>)
  then obtain st' where "CaptureStartAuthSessionCommand (b @ pad) (length b) ?st = Some st'" "session_ok st'"
    by (auto simp: safe_def split: option.splits)
  then show thesis
    using command_header_reads(1-3) [OF assms(1), of pad] command_header_reads(4) [OF assms(1)] assms(2)
    by (intro that [of st']) (auto simp: SessionAuthPatchCommand_def Let_def cc_def)
qed

lemma execute_ok:
  assumes "session_ok st" "b \<noteq> []"
  obtains st' where "ExecuteCommandBuffer p (b @ pad) (length b) (t, st) =
    Some (snd (TPMSendCommand p kDefaultLocality b t), st')" "session_ok st'" "idle st \<longrightarrow> idle st'"
proof -
  let ?r = "fst (TPMSendCommand p kDefaultLocality b t)"
  obtain st' where st': "SessionAuthProcessResponse ?r st = Some st'" "session_ok st'"
    using process_response_safe [OF assms(1), of ?r] by (auto simp: safe_def split: option.splits)
  moreover have "idle st \<longrightarrow> idle st'" using idle_response [of st ?r] st'(1) by simp
  ultimately show thesis
    using assms(2) by (intro that [of st'])
      (simp_all add: ExecuteCommandBuffer_def rd_def py_slice_def split_beta Let_def)
qed

text \<open>
  What a replayed sequence makes the loops of the two targets do. After a
  \<open>TPM2_StartAuthSession\<close> only commands may follow that the session layer sends as they are: others
  could use the session.
\<close>

definition unlisted :: "int \<Rightarrow> bool" where
  "unlisted code \<longleftrightarrow> code = TPM_CC TPM_CC_START_AUTH_SESSION \<or> LookupCommandAttr (nat code) = None"

primrec unpatched :: "int list \<Rightarrow> bool" where
  "unpatched [] = True"
| "unpatched (code # codes) =
     (if code = TPM_CC TPM_CC_START_AUTH_SESSION then list_all unlisted codes else unpatched codes)"

definition same_on_both :: "tss \<Rightarrow> pb_runtime \<Rightarrow> TPMCommand list \<Rightarrow> bool" where
  "same_on_both mu rt cs \<longleftrightarrow>
     (\<forall>c\<in>set cs. replays mu rt c \<and> message_ok (to_proto rt c)) \<and> unpatched (map cmd_cc cs)"

text \<open>The layer is quiet before a list of commands: it will send them all as they are.\<close>

definition quiet :: "session_state \<Rightarrow> int list \<Rightarrow> bool" where
  "quiet st codes \<longleftrightarrow> session_ok st \<and> (idle st \<and> unpatched codes \<or> list_all unlisted codes)"

lemma patch_quiet:
  assumes "command_bytes c = Inr b" "quiet st (cmd_cc c # codes)"
  obtains st' where "SessionAuthPatchCommand cr (b @ pad) (length b) st = Some (length b, b @ pad, st')"
    "quiet st' codes"
proof (cases "cmd_cc c = TPM_CC TPM_CC_START_AUTH_SESSION")
  case True
  have "session_ok st" using assms(2) by (simp add: quiet_def)
  then obtain st' where st': "SessionAuthPatchCommand cr (b @ pad) (length b) st = Some (length b, b @ pad, st')"
    "session_ok st'"
    by (rule patch_start_session [OF assms(1) True])
  moreover have "list_all unlisted codes" using assms(2) True by (auto simp: quiet_def)
  ultimately show thesis by (intro that) (simp_all add: quiet_def)
next
  case False
  then have "\<not> s_initialized st \<or> LookupCommandAttr (nat (cmd_cc c)) = None"
    using assms(2) by (auto simp: quiet_def idle_def unlisted_def)
  moreover have "quiet (st\<lparr>s_last_command_code := nat (cmd_cc c)\<rparr>) codes"
    using assms(2) False by (auto simp: quiet_def idle_def session_ok_def)
  ultimately show thesis by (intro that [OF patch_without_session [OF assms(1) False]])
qed

lemma replays_marshal:
  assumes "replays mu rt c" "command_bytes c = Inr b" "to_proto rt c = Inr (Some (key, m))"
  shows "MarshalCommand mu (postprocessed (Msg PB_TPMCommand [(key, PbMsg m)])) = Some b"
  using assms by (simp add: replays_def harness_command_def)

lemma replays_bytes: "replays mu rt c \<Longrightarrow> \<exists>b. command_bytes c = Inr b"
  by (cases "command_bytes c") (auto simp: replays_def split: sum.splits option.splits)

lemma message_of_command:
  assumes "pb_laws rt" "replays mu rt c" "message_ok (to_proto rt c)"
  obtains key m where "to_proto rt c = Inr (Some (key, m))"
    "pb_new rt PB_TPMCommand [(key, PbMsg m)] = Inr (Msg PB_TPMCommand [(key, PbMsg m)])"
proof -
  from assms(2) obtain key m where m: "to_proto rt c = Inr (Some (key, m))"
    by (auto simp: replays_def split: sum.splits option.splits)
  then have "kwargs_ok PB_TPMCommand [(key, PbMsg m)]"
    using assms(3) by (simp add: kwargs_ok_def del: pb_schema.simps)
  then show thesis by (rule that [OF m pb_new_ok [OF assms(1)]])
qed

lemma run_messages_step:
  assumes "MarshalCommand mu m = Some b"
    and "SessionAuthPatchCommand cr (b @ replicate 64 0) (length b) st = Some (length b, buf, st1)"
    and "ExecuteCommandBuffer p buf (length b) (t, st1) = Some s"
  shows "run_messages cr mu p (m # ms) (t, st) = run_messages cr mu p ms s"
  using assms by (simp del: MarshalCommand.simps)

lemma run_messages_replayed:
  assumes "pb_laws rt" "mapE command_bytes cs = Inr frames" "quiet st (map cmd_cc cs)"
    and "\<forall>c\<in>set cs. replays mu rt c \<and> message_ok (to_proto rt c)"
  shows "\<exists>ms st'. proto_commands_loop rt cs = Inr (Some ms) \<and> (\<forall>m\<in>set ms. msg_class m = PB_TPMCommand) \<and>
    run_messages cr mu p (map postprocessed ms) (t, st) = Some (send_all p frames t, st')"
  using assms(2-)
proof (induction cs arbitrary: frames t st)
  case (Cons c cs)
  from Cons.prems(1) obtain b fs where b: "command_bytes c = Inr b" and fs: "mapE command_bytes cs = Inr fs"
    and frames: "frames = b # fs"
    by (auto simp: result_simps)
  have r: "replays mu rt c" "message_ok (to_proto rt c)" using Cons.prems(3) by simp_all
  from message_of_command [OF assms(1) r] obtain key m where
    m: "to_proto rt c = Inr (Some (key, m))"
      "pb_new rt PB_TPMCommand [(key, PbMsg m)] = Inr (Msg PB_TPMCommand [(key, PbMsg m)])" .
  note mar = replays_marshal [OF r(1) b m(1)]
  have ne: "b \<noteq> []" using command_header_reads(4) [OF b] by auto
  let ?t = "snd (TPMSendCommand p kDefaultLocality b t)"
  obtain st1 where st1: "SessionAuthPatchCommand cr (b @ replicate 64 0) (length b) st =
      Some (length b, b @ replicate 64 0, st1)" "quiet st1 (map cmd_cc cs)"
    by (rule patch_quiet [OF b Cons.prems(2) [unfolded list.map]])
  have "session_ok st1" using st1(2) by (simp add: quiet_def)
  then obtain st2 where st2: "ExecuteCommandBuffer p (b @ replicate 64 0) (length b) (t, st1) = Some (?t, st2)"
    "session_ok st2" "idle st1 \<longrightarrow> idle st2"
    by (rule execute_ok [OF _ ne])
  have q: "quiet st2 (map cmd_cc cs)" using st1(2) st2(2,3) by (auto simp: quiet_def)
  note step = run_messages_step [OF mar st1(1) st2(1)]
  have rest: "\<forall>c\<in>set cs. replays mu rt c \<and> message_ok (to_proto rt c)" using Cons.prems(3) by simp
  from Cons.IH [OF fs q rest] obtain ms st' where
    "proto_commands_loop rt cs = Inr (Some ms)" "\<forall>m\<in>set ms. msg_class m = PB_TPMCommand"
    "run_messages cr mu p (map postprocessed ms) (?t, st2) = Some (send_all p fs ?t, st')" by blast
  then show ?case using m frames by (simp add: step del: run_messages.simps postprocessed.simps)
qed auto

lemma seeds_agree:
  assumes "pb_laws rt" "serialize_sequence cs = Inr data" "same_on_both mu rt cs"
  shows "\<exists>ms. proto_commands_loop rt cs = Inr (Some ms) \<and> serialize_proto_sequence rt cs =
      Inr (Some (utf8_encode (pb_text rt (Msg PB_TPMCommandSequence [(''commands'', PbList ms)])))) \<and>
    proto_fuzzer cr mu p (Msg PB_TPMCommandSequence [(''commands'', PbList (map postprocessed ms))]) t =
      Some (snd (LLVMFuzzerTestOneInput p data t)) \<and> fst (LLVMFuzzerTestOneInput p data t) = 0"
proof -
  from assms(2) have j: "joinE command_bytes cs = Inr data" by (simp add: serialize_sequence_def)
  then obtain frames where f: "mapE command_bytes cs = Inr frames"
    by (auto simp: joinE_def result_simps)
  have "frames = map command_layout cs"
    by (rule nth_equalityI)
      (use mapE_length [OF f] mapE_nth [OF f] in \<open>auto simp: command_bytes_layout\<close>)
  then have parse: "parseCommands data = (True, frames)" using parse_serialized [OF j] by simp
  let ?t = "SendTPM2StartupCommand p (TPMStartup p (TPMManufactureIfNeeded p t))"
  have "quiet SessionAuthReset (map cmd_cc cs)" "\<forall>c\<in>set cs. replays mu rt c \<and> message_ok (to_proto rt c)"
    using assms(3) idle_reset session_ok_reset by (simp_all add: quiet_def same_on_both_def)
  from run_messages_replayed [OF assms(1) f this, of cr p ?t]
  obtain ms st where ms: "proto_commands_loop rt cs = Inr (Some ms)" "\<forall>m\<in>set ms. msg_class m = PB_TPMCommand"
    "run_messages cr mu p (map postprocessed ms) (?t, SessionAuthReset) = Some (send_all p frames ?t, st)"
    by blast
  have "kwargs_ok PB_TPMCommandSequence [(''commands'', PbList ms)]"
    using ms(2) by (simp add: kwargs_ok_def)
  then have "serialize_proto_sequence rt cs =
      Inr (Some (utf8_encode (pb_text rt (Msg PB_TPMCommandSequence [(''commands'', PbList ms)]))))"
    using ms(1) assms(1) by (simp add: serialize_proto_sequence_def pb_new_ok)
  moreover have "proto_fuzzer cr mu p (Msg PB_TPMCommandSequence [(''commands'', PbList (map postprocessed ms))]) t =
      Some (snd (LLVMFuzzerTestOneInput p data t))" "fst (LLVMFuzzerTestOneInput p data t) = 0"
    using ms(3) parse
    by (simp_all add: proto_fuzzer_def LLVMFuzzerTestOneInput_def Let_def field_reads msg_list_def)
  ultimately show ?thesis using ms(1) by blast
qed

text \<open>
  C2: the fuzzer does the same on both seeds of a sequence. Whenever every command of it replays
  and only commands that the session layer sends as they are follow a \<open>TPM2_StartAuthSession\<close>
  (\<open>unpatched\<close>), the message seed is written, and the
  message target on it leaves every TPM in exactly the state in which the byte target on the byte
  seed leaves it.
\<close>

theorem both_seeds_have_the_same_effect:
  assumes "pb_laws rt" "serialize_sequence cs = Inr data" "same_on_both mu rt cs"
  shows "\<exists>ms. serialize_proto_sequence rt cs =
      Inr (Some (utf8_encode (pb_text rt (Msg PB_TPMCommandSequence [(''commands'', PbList ms)])))) \<and>
    proto_fuzzer cr mu p (Msg PB_TPMCommandSequence [(''commands'', PbList (map postprocessed ms))]) t =
      Some (snd (LLVMFuzzerTestOneInput p data t)) \<and> fst (LLVMFuzzerTestOneInput p data t) = 0"
  using seeds_agree [OF assms, where cr = cr and p = p and t = t] by blast

lemma both_seeds_have_the_same_effect_witness:
  "\<exists>c data ms. TPMPCRRead rt0 \<lparr>selections = []\<rparr> = Inr c \<and> serialize_sequence [c] = Inr data \<and>
    serialize_proto_sequence rt0 [c] =
      Inr (Some (utf8_encode (pb_text rt0 (Msg PB_TPMCommandSequence [(''commands'', PbList ms)])))) \<and>
    proto_fuzzer plain_crypto plain_tss logging_platform
        (Msg PB_TPMCommandSequence [(''commands'', PbList (map postprocessed ms))]) [] =
      Some (snd (LLVMFuzzerTestOneInput logging_platform data [])) \<and>
    fst (LLVMFuzzerTestOneInput logging_platform data []) = 0"
proof -
  let ?l = "\<lparr>selections = []\<rparr> :: TPML_PCR_SELECTION"
  have b: "TPML_PCR_SELECTION_to_bytes ?l = Inr (be_bytes 4 0)"
    by (simp add: TPML_PCR_SELECTION_layout)
  obtain c m where c: "TPMPCRRead rt0 ?l = Inr c" "to_proto rt0 c = Inr (Some (''pcrread'', m))"
    "msg_class m = PB_TPMPCRRead"
    using TPMPCRRead_message [OF b plain_runtime_laws] by fastforce
  have r: "replays plain_tss rt0 c"
    by (rule PCRRead_replays [OF b _ plain_runtime_laws plain_tss_laws _ c(1)]) (simp_all add: pcrs_fit_def)
  have same: "same_on_both plain_tss rt0 [c]"
    using c(2,3) r by (simp add: same_on_both_def)
  obtain data where d: "serialize_sequence [c] = Inr data"
    using replays_bytes [OF r] by (auto simp: serialize_sequence_def joinE_Cons)
  from both_seeds_have_the_same_effect [OF plain_runtime_laws d same, of plain_crypto logging_platform "[]"] c(1) d
  show ?thesis by blast
qed

subsection \<open>The session layer on the commands of the generator\<close>

lemma SkipTPM2B_cursor:
  assumes "at_cursor buf off (be_bytes 2 (int (length x)) @ x @ rest)" "length x < 65536"
    and "off + 2 + length x \<le> lim"
  shows "SkipTPM2B buf off lim = Some (off + 2 + length x)"
  using Read_cursor(1) [OF assms(1)] assms(2,3) by (simp add: SkipTPM2B_def)

text \<open>The parameters of \<open>TPM2_StartAuthSession\<close>, read from the command.\<close>

lemma Capture_cursor:
  fixes n e sd :: bytes
  assumes cur: "at_cursor buf 10 (session_params k b n e t sd h @ pad)"
    and r: "0 \<le> k" "k < 4294967296" "0 \<le> b" "b < 4294967296" "length n < 65536" "length e < 65536"
    and sz: "sz = 10 + length (session_params k b n e t sd h)" "2 \<le> length sd"
  shows "CaptureStartAuthSessionCommand buf sz st = Some (st\<lparr>s_pending_start := True,
    s_start_auth_hash := nat (TPM_ALG_value h),
    s_start_compatible := (nat k = TPM2_RH_NULL \<and> nat b = TPM2_RH_NULL \<and> e = [] \<and>
      t = TPM_SE_HMAC \<and> h = ALG_SHA256)\<rparr>)"
proof -
  let ?hs = "be_bytes 2 (TPM_ALG_value h) @ pad"
  let ?ty = "word_of_int (TPM_SE t) # sd @ ?hs"
  let ?e = "be_bytes 2 (int (length e)) @ e @ ?ty" and ?n = "be_bytes 2 (int (length n)) @ n"
  have c0: "at_cursor buf 10 (be_bytes 4 k @ be_bytes 4 b @ ?n @ ?e)"
    using cur by (simp add: session_params_def)
  have c1: "at_cursor buf 14 (be_bytes 4 b @ ?n @ ?e)" using at_cursor_skip [OF c0, of 4] by simp
  have c2: "at_cursor buf 18 (be_bytes 2 (int (length n)) @ n @ ?e)"
    using at_cursor_skip [OF c1, of 4] by simp
  have "at_cursor buf (18 + 2 + length n) ?e"
    using at_cursor_skip [OF c2, of 2] at_cursor_skip [of buf 20 n ?e] by simp
  then have c3: "at_cursor buf (20 + length n) ?e" by simp
  have c4: "at_cursor buf (20 + length n + 2) (e @ ?ty)" by (rule at_cursor_skip [OF c3]) simp
  have c5: "at_cursor buf (20 + length n + 2 + length e) ?ty" by (rule at_cursor_skip [OF c4]) simp
  have c6: "at_cursor buf (sz - 2) ?hs"
    using at_cursor_skip [OF at_cursor_Cons [OF c5] refl] sz(1) by (simp add: session_params_def ac_simps)
  have l: "sz = 25 + length n + length e + length sd" using sz(1) by (simp add: session_params_def)
  note s1 = SkipTPM2B_cursor [OF c2 r(5), of sz] and s2 = SkipTPM2B_cursor [OF c3 r(6), of sz]
  have "Read16 buf (20 + length n) = Some (length e)" using Read_cursor(1) [OF c3] r(6) by simp
  moreover have "nat (uint (word_of_int (TPM_SE t) :: byte)) = TPM2_SE_HMAC \<longleftrightarrow> t = TPM_SE_HMAC"
    by (cases t) (simp_all add: TPM2_SE_HMAC_def uint_word_of_int)
  moreover have "DigestSizeFor (nat (TPM_ALG_value h)) \<noteq> 0 \<longleftrightarrow> h = ALG_SHA256"
    using TPM_ALG_value_inj [of h ALG_SHA256] TPM_ALG_value_range [of h] by (simp add: DigestSizeFor_def nat_eq_iff)
  moreover have "Read16 buf (sz - 2) = Some (nat (TPM_ALG_value h))"
    using Read_cursor(1) [OF c6] TPM_ALG_value_range [of h] by simp
  ultimately show ?thesis
    unfolding CaptureStartAuthSessionCommand_def Let_def
    using s1 s2 Read_cursor(2) [OF c0] Read_cursor(2) [OF c1] Read8_cursor [OF c5] r sz(2) l
    by simp
qed

text \<open>The answer of a TPM that started a session: header, handle and nonce.\<close>

definition start_reply :: "nat \<Rightarrow> bytes \<Rightarrow> bytes" where
  "start_reply handle nonce =
     be_bytes 2 (TPM_ST TPM_ST_NO_SESSIONS) @ be_bytes 4 (16 + int (length nonce)) @ be_bytes 4 0 @
     be_bytes 4 (int handle) @ be_bytes 2 (int (length nonce)) @ nonce"

lemma start_reply_response:
  assumes "s_pending_start st" "handle < 2 ^ 32" "length nonce < 65536"
  shows "SessionAuthProcessResponse (start_reply handle nonce) st =
    Some (if s_start_compatible st then armed_session handle nonce [] (s_start_auth_hash st)
      else st\<lparr>s_pending_start := False, s_start_compatible := False\<rparr>)"
proof -
  let ?b = "start_reply handle nonce"
  let ?h = "be_bytes 4 (int handle)" and ?n = "be_bytes 2 (int (length nonce)) @ nonce"
  have c0: "at_cursor ?b 0 (be_bytes 2 (TPM_ST TPM_ST_NO_SESSIONS) @ be_bytes 4 (16 + int (length nonce)) @
      be_bytes 4 0 @ ?h @ ?n)"
    by (simp add: start_reply_def)
  have c1: "at_cursor ?b 2 (be_bytes 4 (16 + int (length nonce)) @ be_bytes 4 0 @ ?h @ ?n)"
    using at_cursor_skip [OF c0, of 2] by (simp add: numeral_2_eq_2)
  have c2: "at_cursor ?b 6 (be_bytes 4 0 @ ?h @ ?n)" using at_cursor_skip [OF c1, of 4] by simp
  have c3: "at_cursor ?b 10 (?h @ ?n)" using at_cursor_skip [OF c2, of 4] by simp
  have c4: "at_cursor ?b 14 ?n" using at_cursor_skip [OF c3, of 4] by simp
  have c5: "at_cursor ?b 16 (nonce @ [])" using at_cursor_skip [OF c4, of 2] by simp
  have l: "length ?b = 16 + length nonce" by (simp add: start_reply_def)
  have r: "Read16 ?b 0 = Some (st_tag TPM_ST_NO_SESSIONS)" "Read32 ?b 2 = Some (length ?b)"
    "Read32 ?b 6 = Some 0"
    using Read_cursor(1) [OF c0] Read_cursor(2) [OF c1] Read_cursor(2) [OF c2] assms(3)
    by (simp_all add: st_tag_def l nat_add_distrib)
  have p: "Read32 ?b 10 = Some handle" "Read16 ?b 14 = Some (length nonce)" "rd ?b 16 (length nonce) = Some nonce"
    using Read_cursor(2) [OF c3] Read_cursor(1) [OF c4] rd_cursor [OF c5 refl] assms(2,3) by simp_all
  have "start_response ?b (st_tag TPM_ST_NO_SESSIONS) 0 st =
    Some (if s_start_compatible st then armed_session handle nonce [] (s_start_auth_hash st)
      else st\<lparr>s_pending_start := False, s_start_compatible := False\<rparr>)"
    by (simp add: start_response_def Let_def p l SessionAuthInit_armed)
  then show ?thesis using assms(1) r l by (simp add: SessionAuthProcessResponse_def)
qed

lemma start_session_arms:
  assumes "TPMStartAuthSession k b n salt t s h = Inr c" "command_bytes c = Inr cmd"
    and salt: "salt = None \<and> e = [] \<or> salt = Some (be_bytes 2 (int (length e)) @ e)" "length e < 2 ^ 16"
    and "reachable_session cr st" "crypto_laws cr" "handle < 2 ^ 32" "length nonce < 2 ^ 16"
  shows "\<exists>st'. SessionAuthPatchCommand cr (cmd @ pad) (length cmd) st = Some (length cmd, cmd @ pad, st') \<and>
    s_initialized st' = s_initialized st \<and>
    SessionAuthProcessResponse (start_reply handle nonce) st' = Some
      (if rh_to_int k = TPM_RH_value RH_NULL \<and> rh_to_int b = TPM_RH_value RH_NULL \<and> e = [] \<and> t = TPM_SE_HMAC \<and>
          h = ALG_SHA256
       then armed_session handle nonce [] (nat (TPM_ALG_value ALG_SHA256))
       else st'\<lparr>s_pending_start := False, s_start_compatible := False\<rparr>)"
proof -
  let ?n = "case n of None \<Rightarrow> default_nonce | Some n \<Rightarrow> n"
  from TPMStartAuthSession_params [OF assms(1) salt(1)] obtain sd where
    sd: "SYM_DEF_to_bytes s = Inr sd" and r: "0 \<le> rh_to_int k" "rh_to_int k < 4294967296"
      "0 \<le> rh_to_int b" "rh_to_int b < 4294967296" "length ?n < 65536"
    and c: "c = TPMCommand_init (TPM_ST TPM_ST_NO_SESSIONS) (TPM_CC TPM_CC_START_AUTH_SESSION)
      (session_params (rh_to_int k) (rh_to_int b) ?n e t sd h) IsStartAuthSession" by metis
  let ?ps = "session_params (rh_to_int k) (rh_to_int b) ?n e t sd h"
  have cc: "cmd_cc c = TPM_CC TPM_CC_START_AUTH_SESSION" "cmd_params c = ?ps"
    by (simp_all add: c TPMCommand_init_def)
  have ok: "session_ok st" by (rule reachable_session_ok [OF assms(5,6)])
  obtain st' where st': "SessionAuthPatchCommand cr (cmd @ pad) (length cmd) st = Some (length cmd, cmd @ pad, st')"
    and cap: "CaptureStartAuthSessionCommand (cmd @ pad) (length cmd)
      (st\<lparr>s_last_command_code := Session_Auth.cc TPM_CC_START_AUTH_SESSION\<rparr>) = Some st'"
    by (rule patch_start_session [OF assms(2) cc(1) ok])
  have l: "cmd = command_layout c" using assms(2) by (simp add: command_bytes_layout)
  have "length sd \<ge> 2" using sd by (auto simp: SYM_DEF_layout split: if_splits)
  moreover have "at_cursor (cmd @ pad) 10 (?ps @ pad)"
    using at_cursor_append [of "be_bytes 2 (cmd_tag c) @ be_bytes 4 (command_size c) @ be_bytes 4 (cmd_cc c)"
        "?ps @ pad"] by (simp add: l command_layout_def cc(2))
  ultimately have "st' = st\<lparr>s_last_command_code := Session_Auth.cc TPM_CC_START_AUTH_SESSION,
    s_pending_start := True, s_start_auth_hash := nat (TPM_ALG_value h),
    s_start_compatible := (nat (rh_to_int k) = TPM2_RH_NULL \<and> nat (rh_to_int b) = TPM2_RH_NULL \<and>
      e = [] \<and> t = TPM_SE_HMAC \<and> h = ALG_SHA256)\<rparr>"
    using Capture_cursor [of "cmd @ pad" "rh_to_int k" "rh_to_int b" ?n e t sd h pad "length cmd"] cap r salt(2)
    by (simp add: l command_layout_def cc(2))
  then show ?thesis
    using st' start_reply_response [of st' handle nonce] assms(7,8) r
    by (auto simp: TPM2_RH_NULL_def nat_eq_iff)
qed

text \<open>
  C8: the session layer follows the \<open>TPMStartAuthSession\<close> commands of the generator. It sends them
  unchanged, and on the TPM's answer it is armed with the handle and the nonce of the answer exactly
  when the command asked for an unsalted, unbound HMAC session under SHA-256; for every other
  session it stays as it was.
\<close>

theorem start_auth_session_arms_the_layer:
  assumes "TPMStartAuthSession k b n salt t s h = Inr c" "command_bytes c = Inr cmd"
    and salt: "salt = None \<and> e = [] \<or> salt = Some (be_bytes 2 (int (length e)) @ e)" "length e < 2 ^ 16"
    and "reachable_session cr st" "crypto_laws cr" "handle < 2 ^ 32" "length nonce < 2 ^ 16"
  shows "\<exists>st'. SessionAuthPatchCommand cr (cmd @ pad) (length cmd) st = Some (length cmd, cmd @ pad, st') \<and>
    s_initialized st' = s_initialized st \<and>
    SessionAuthProcessResponse (start_reply handle nonce) st' = Some
      (if rh_to_int k = TPM_RH_value RH_NULL \<and> rh_to_int b = TPM_RH_value RH_NULL \<and> e = [] \<and> t = TPM_SE_HMAC \<and>
          h = ALG_SHA256
       then armed_session handle nonce [] (nat (TPM_ALG_value ALG_SHA256))
       else st'\<lparr>s_pending_start := False, s_start_compatible := False\<rparr>)"
  by (rule start_session_arms [OF assms])

lemma start_auth_session_arms_the_layer_witness:
  "\<exists>c cmd st'. TPMStartAuthSession (RhEnum RH_NULL) (RhEnum RH_NULL) None None TPM_SE_HMAC null_symmetric
      ALG_SHA256 = Inr c \<and> command_bytes c = Inr cmd \<and>
    SessionAuthPatchCommand plain_crypto (cmd @ []) (length cmd) SessionAuthReset = Some (length cmd, cmd @ [], st') \<and>
    SessionAuthProcessResponse (start_reply 0x2000000 [1, 2]) st' =
      Some (armed_session 0x2000000 [1, 2] [] (nat (TPM_ALG_value ALG_SHA256)))"
proof -
  let ?m = "TPMStartAuthSession (RhEnum RH_NULL) (RhEnum RH_NULL) None None TPM_SE_HMAC null_symmetric ALG_SHA256"
  have "is_ok (bindE ?m command_bytes)" by code_simp
  then obtain c cmd where c: "?m = Inr c" "command_bytes c = Inr cmd"
    by (auto simp: is_ok_ex result_simps)
  show ?thesis
    using start_auth_session_arms_the_layer [OF c _ _ reachable_session.reset plain_crypto_laws,
        where e = "[]" and handle = "0x2000000" and nonce = "[1, 2]" and pad = "[]"] c
    by auto
qed

text \<open>
  C26: the table of \<open>command_attributes.h\<close> misses commands that the generator writes message seeds
  for. Whatever the state, even with the session armed and used by the command, the layer sends
  \<open>PCR_Event\<close>, \<open>PCR_Allocate\<close>, \<open>SetPrimaryPolicy\<close>, \<open>PCR_SetAuthPolicy\<close>, \<open>RSA_Encrypt\<close> and \<open>PCR_Read\<close>
  with the authorization of the seed.
\<close>

theorem unlisted_commands_stay_unauthorised:
  assumes "command_bytes c = Inr cmd" "cmd_cc c = TPM_CC code"
    and "code = TPM_CC_PCR_EVENT \<or> code = TPM_CC_PCR_ALLOCATE \<or> code = TPM_CC_SET_PRIMARY_POLICY \<or>
      code = TPM_CC_PCR_SET_AUTH_POLICY \<or> code = TPM_CC_RSA_ENCRYPT \<or> code = TPM_CC_PCR_READ"
  shows "SessionAuthPatchCommand cr (cmd @ pad) (length cmd) st =
    Some (length cmd, cmd @ pad, st\<lparr>s_last_command_code := nat (TPM_CC code)\<rparr>)"
proof -
  have "LookupCommandAttr (nat (cmd_cc c)) = None" "cmd_cc c \<noteq> TPM_CC TPM_CC_START_AUTH_SESSION"
    using assms(2,3) by (auto simp: LookupCommandAttr_def command_attrs_def TPM_CC.simps)
  from patch_without_session [OF assms(1) this(2)] this(1) show ?thesis by (simp add: assms(2))
qed

lemma unlisted_commands_stay_unauthorised_witness:
  "SessionAuthPatchCommand plain_crypto ([0x80, 2, 0, 0, 0, 10, 0, 0, 1, 0x3C] @ replicate 64 0)
      (length ([0x80, 2, 0, 0, 0, 10, 0, 0, 1, 0x3C] :: bytes)) (armed_session 0x2000000 [] [] 11) =
    Some (length ([0x80, 2, 0, 0, 0, 10, 0, 0, 1, 0x3C] :: bytes),
      [0x80, 2, 0, 0, 0, 10, 0, 0, 1, 0x3C] @ replicate 64 0,
      (armed_session 0x2000000 [] [] 11)\<lparr>s_last_command_code := nat (TPM_CC TPM_CC_PCR_EVENT)\<rparr>)"
proof (rule unlisted_commands_stay_unauthorised)
  show "command_bytes (TPMCommand_init 0x8002 0x13C [] Plain) = Inr [0x80, 2, 0, 0, 0, 10, 0, 0, 1, 0x3C]"
    by code_simp
  show "cmd_cc (TPMCommand_init 0x8002 0x13C [] Plain) = TPM_CC TPM_CC_PCR_EVENT"
    by (simp add: TPMCommand_init_def TPM_CC.simps)
qed simp

subsection \<open>The tester\<close>

primrec responses :: "'t platform \<Rightarrow> bytes list \<Rightarrow> 't \<Rightarrow> bytes list" where
  "responses p [] t = []"
| "responses p (cmd # cmds) t =
     (case TPMSendCommand p kDefaultLocality cmd t of (r, t) \<Rightarrow> r # responses p cmds t)"

definition short_response :: "bytes \<Rightarrow> bool" where
  "short_response r \<longleftrightarrow> 6 \<le> length r \<and> length r < 10"

lemma PrintResponse_reads: "PrintResponse r = (if short_response r then None else Some ())"
  by (auto simp: PrintResponse_def short_response_def Read16_def Read32_def rd_def)

lemma test_all_sends:
  "test_all p cmds t = (if list_ex short_response (responses p cmds t) then None else Some (send_all p cmds t))"
  by (induction cmds arbitrary: t) (auto simp: SendCommand_def PrintResponse_reads split_beta Let_def)

text \<open>
  C27: the tester does to the TPM what the fuzzer does, with the same exit code, except that it
  refuses an empty file, and that printing a response of six to nine bytes reads past its end: the
  guard asks for six bytes, the response code ends at the tenth.
\<close>

theorem tester_runs_as_the_fuzzer:
  "tester_main p data t =
     (if data = [] then Some (1, t)
      else if fst (parseCommands data) \<and> list_ex short_response (responses p (snd (parseCommands data))
          (SendTPM2StartupCommand p (TPMStartup p (TPMManufactureIfNeeded p t))))
        then None
      else Some (LLVMFuzzerTestOneInput p data t))"
  by (cases "parseCommands data") (simp add: tester_main_def LLVMFuzzerTestOneInput_def test_all_sends Let_def)

end
