(* ===== verification/Table_Replay.thy ===== *)
theory Table_Replay
  imports Harness_Replay Fuzzer_Props Run_Props
begin

section \<open>Which seeds of the table have the same effect\<close>

text \<open>
  The variants of \<open>TEST_CASES\<close> whose message seed makes the fuzzer do what the byte seed makes it
  do, entry by entry: \<open>agrees\<close> is the rule of one command, \<open>entry_agrees\<close> that of the listed
  variants of an entry. The sizes the table needs of tpm2-tss are those of its headers.
\<close>

definition tss_room :: "tss \<Rightarrow> bool" where
  "tss_room mu \<longleftrightarrow>
     66 \<le> buffer_size mu B_DATA \<and> 1024 \<le> buffer_size mu B_PRIVATE \<and> 1024 \<le> buffer_size mu B_EVENT \<and>
     512 \<le> buffer_size mu B_RSA_KEY \<and> 48 \<le> buffer_size mu B_DIGEST \<and>
     2 \<le> num_pcr_banks mu \<and> 3 \<le> pcr_select_max mu"

definition agrees :: "tss \<Rightarrow> pb_runtime \<Rightarrow> TPMCommand result \<Rightarrow> bool" where
  "agrees mu rt m \<longleftrightarrow> (\<forall>c. m = Inr c \<longrightarrow> replays mu rt c)"

definition entry_agrees :: "tss \<Rightarrow> pb_runtime \<Rightarrow> nat list \<Rightarrow> TPMCommand list list result \<Rightarrow> bool" where
  "entry_agrees mu rt is m \<longleftrightarrow>
     (\<forall>vs. m = Inr vs \<longrightarrow> (\<forall>i\<in>set is. i < length vs \<and> (\<forall>c\<in>set (vs ! i). replays mu rt c)))"

named_theorems agrees_rules \<open>one rule per command of the table\<close>

lemma agrees_made [agrees_rules]: "replays mu rt c \<Longrightarrow> agrees mu rt (Inr c)"
  by (simp add: agrees_def)

lemma entry_agrees_sequences:
  assumes "list_all (\<lambda>i. i < length vs \<and> list_all (agrees mu rt) (vs ! i)) is"
  shows "entry_agrees mu rt is (sequences vs)"
  unfolding entry_agrees_def sequences_def
proof (intro allI impI ballI conjI)
  fix css i
  assume m: "mapE (mapE (\<lambda>c. c)) vs = Inr css" and "i \<in> set is"
  then have i: "i < length vs" "list_all (agrees mu rt) (vs ! i)"
    using assms by (simp_all add: list_all_iff)
  with mapE_length [OF m] show "i < length css" by simp
  have e: "mapE (\<lambda>c. c) (vs ! i) = Inr (css ! i)" using mapE_nth [OF m i(1)] by simp
  show "replays mu rt c" if "c \<in> set (css ! i)" for c
  proof -
    from that obtain j where j: "j < length (css ! i)" "c = css ! i ! j" by (auto simp: in_set_conv_nth)
    with mapE_length [OF e] have "vs ! i ! j = Inr c" "j < length (vs ! i)" using mapE_nth [OF e] by auto
    with i(2) show ?thesis by (auto simp: list_all_length agrees_def)
  qed
qed

lemma entry_agrees_bind:
  "agrees mu rt m \<Longrightarrow> (\<And>c. replays mu rt c \<Longrightarrow> entry_agrees mu rt is (f c)) \<Longrightarrow>
    entry_agrees mu rt is (bindE m f)"
  by (auto simp: entry_agrees_def agrees_def result_simps)

subsection \<open>The commands of the table\<close>

definition lawful :: "tss \<Rightarrow> pb_runtime \<Rightarrow> bool" where
  "lawful mu rt \<longleftrightarrow> pb_laws rt \<and> tss_laws mu \<and> tss_room mu"

lemma lawfulD: "lawful mu rt \<Longrightarrow> pb_laws rt" "lawful mu rt \<Longrightarrow> tss_laws mu"
  by (simp_all add: lawful_def)

lemma roomD:
  assumes "lawful mu rt"
  shows "n \<le> 66 \<Longrightarrow> n \<le> buffer_size mu B_DATA" "n \<le> 1024 \<Longrightarrow> n \<le> buffer_size mu B_PRIVATE"
    "n \<le> 1024 \<Longrightarrow> n \<le> buffer_size mu B_EVENT" "n \<le> 512 \<Longrightarrow> n \<le> buffer_size mu B_RSA_KEY"
    "n \<le> 48 \<Longrightarrow> n \<le> buffer_size mu B_DIGEST" "n \<le> 2 \<Longrightarrow> n \<le> num_pcr_banks mu"
    "n \<le> 3 \<Longrightarrow> n \<le> pcr_select_max mu"
  using assms by (auto simp: lawful_def tss_room_def)

lemma agrees_GetRandom [agrees_rules]:
  assumes "lawful mu rt" "0 < n"
  shows "agrees mu rt (TPMGetRandom n TPM_ST_NO_SESSIONS None)"
  unfolding agrees_def
proof (intro allI impI)
  fix c
  assume c: "TPMGetRandom n TPM_ST_NO_SESSIONS None = Inr c"
  then have "length (cmd_params c) < 2 ^ 16" by (auto simp: TPMGetRandom_def result_simps TPMCommand_init_def)
  with GetRandom_replay [OF c lawfulD [OF assms(1)]] assms(2) show "replays mu rt c" by simp
qed

lemma foldl_or_ge:
  fixes f :: "'a \<Rightarrow> int"
  assumes "\<And>a. 0 \<le> f a"
  shows "k \<le> foldl (\<lambda>val a. val OR f a) k as"
proof (induction as arbitrary: k)
  case (Cons a as)
  have "k \<le> k OR f a" using assms by (rule or_greater_eq)
  also have "\<dots> \<le> foldl (\<lambda>val a. val OR f a) (k OR f a) as" by (rule Cons)
  finally show ?case by simp
qed simp

lemma attrs_to_int_pos: "as \<noteq> [] \<Longrightarrow> attrs_to_int (AttrsList as) \<noteq> 0"
proof (cases as)
  case (Cons a bs)
  have "0 < TPMA_OBJECT_value b" for b by (cases b) simp_all
  then have "0 \<le> TPMA_OBJECT_value b" "0 < TPMA_OBJECT_value a" for b by (simp_all add: less_imp_le)
  with foldl_or_ge [of TPMA_OBJECT_value "TPMA_OBJECT_value a" bs] Cons show ?thesis by simp
qed simp

lemma primary_replayable: "lawful mu rt \<Longrightarrow> replayable_public mu (public_area (primary_template ALG_SHA256 2048))"
  by (simp add: replayable_public_def primary_template_def PUBLIC_default_def SYM_DEF_default_def
      default_object_attributes_def RSA_PARMS_default_def attrs_to_int_pos del: attrs_to_int.simps)

lemma agrees_default_primary [agrees_rules]: "lawful mu rt \<Longrightarrow> agrees mu rt default_primary"
  unfolding default_primary_def agrees_def
  by (auto intro!: CreatePrimary_replays lawfulD primary_replayable)

lemma agrees_rsa_primary [agrees_rules]:
  assumes "lawful mu rt" "as \<noteq> []"
  shows "agrees mu rt (rsa_primary as (AlgEnum ALG_NULL) None)"
  unfolding rsa_primary_def agrees_def
  using assms by (auto intro!: CreatePrimary_replays lawfulD
      simp: replayable_public_def PUBLIC_default_def SYM_DEF_default_def attrs_to_int_pos simp del: attrs_to_int.simps)

lemma agrees_hmac_session [agrees_rules]: "lawful mu rt \<Longrightarrow> agrees mu rt hmac_session"
  unfolding hmac_session_def agrees_def
  by (auto intro!: StartAuthSession_replays [where e = "[]" and nn = default_nonce] lawfulD roomD
      simp: sym_replayable_def null_symmetric_def default_nonce_def sym_named_def name_of_null)

lemma agrees_NVDefineSpace [agrees_rules]: "lawful mu rt \<Longrightarrow> agrees mu rt (TPMNVDefineSpace ix as s h sz)"
  unfolding agrees_def by (auto intro: NVDefineSpace_replays lawfulD)

lemma agrees_Load [agrees_rules]:
  assumes "lawful mu rt" "PRIVATE_to_bytes pr = Inr prb" "length (private_buffer pr) \<le> 1024"
  shows "agrees mu rt (TPMLoad rt 0x80000000 prb UNSEAL_SEAL_IN_PUBLIC PW)"
proof -
  have "replayable_public mu (public_area seal_area)"
    using roomD(5) [OF assms(1)]
    by (simp add: replayable_public_def seal_area_def PUBLIC_default_def UNSEAL_SEAL_IN_PUBLIC_def
      keyedhash_of_def KEYEDHASH_PARMS_default_def attrs_to_int_pos del: attrs_to_int.simps)
  from Load_replays [OF lawfulD [OF assms(1)] _ _ assms(2) roomD(2) [OF assms(1,3)] seal_area_bytes this, of "0x80000000"]
  show ?thesis by (auto simp: agrees_def)
qed

lemma agrees_others [agrees_rules]:
  assumes "lawful mu rt"
  shows "length cr \<le> 66 \<Longrightarrow> length nm \<le> 66 \<Longrightarrow> agrees mu rt (TPMMakeCredential h cr nm)"
    and "length d \<le> 1024 \<Longrightarrow> agrees mu rt (TPMPCREvent rt h d s)"
    and "agrees mu rt (TPMPCRSetAuthPolicy rt h p a n s)"
    and "policy_fits (TPM_ALG_value al) p \<Longrightarrow> agrees mu rt (TPMSetPrimaryPolicy rt (RhEnum r) p (AlgEnum al) sa)"
    and "agrees mu rt (TPMClear (RhEnum r) sa)"
proof -
  note laws = lawfulD [OF assms]
  show "agrees mu rt (TPMClear (RhEnum r) sa)"
    using Clear_replays [OF _ laws] by (cases r) (auto simp: agrees_def)
  show "agrees mu rt (TPMSetPrimaryPolicy rt (RhEnum r) p (AlgEnum al) sa)" if "policy_fits (TPM_ALG_value al) p"
    using SetPrimaryPolicy_replays [OF _ laws] that by (cases r) (auto simp: agrees_def)
  show "agrees mu rt (TPMPCRSetAuthPolicy rt h p a n s)"
    using PCRSetAuthPolicy_replays [OF _ laws] by (simp add: agrees_def)
  show "agrees mu rt (TPMPCREvent rt h d s)" if "length d \<le> 1024"
    using PCREvent_replays [OF _ laws roomD(3) [OF assms that]] by (simp add: agrees_def)
  show "agrees mu rt (TPMMakeCredential h cr nm)" if "length cr \<le> 66" "length nm \<le> 66"
    using MakeCredential_replays [OF _ laws roomD(1) [OF assms that(1)] roomD(1) [OF assms that(2)]]
    by (simp add: agrees_def)
qed

lemma rsa_fits_room:
  assumes "lawful mu rt" "length d \<le> 512" "a = ALG_OAEP \<longrightarrow> b \<noteq> None"
  shows "rsa_fits mu d (rsa_decrypt_scheme a b) []"
  using assms roomD(4) [OF assms(1,2)]
  by (cases a; cases b; auto simp: rsa_fits_def scheme_replayable_def rsa_decrypt_scheme_def encode_ok)

lemma agrees_rsa [agrees_rules]:
  assumes "lawful mu rt" "length d \<le> 512" "a = ALG_OAEP \<longrightarrow> b \<noteq> None"
  shows "agrees mu rt (TPMRSAEncrypt h d (rsa_decrypt_scheme a b) [])"
    and "agrees mu rt (TPMRSADecrypt h d (rsa_decrypt_scheme a b) [] sa)"
  using RSAEncrypt_replays [OF _ lawfulD [OF assms(1)] rsa_fits_room [OF assms]]
    RSADecrypt_replays [OF _ lawfulD [OF assms(1)] rsa_fits_room [OF assms]]
  by (simp_all add: agrees_def)

lemma agrees_pcrs [agrees_rules]:
  assumes "lawful mu rt" "TPML_PCR_SELECTION_to_bytes l = Inr b" "length b < 65536"
    and "length (selections l) \<le> 2" "list_all (\<lambda>s. length (pcr_select s) \<le> 3) (selections l)"
  shows "agrees mu rt (TPMPCRRead rt l)" "agrees mu rt (TPMPCRAllocate l (RhEnum r) sa)"
proof -
  note laws = lawfulD [OF assms(1)]
  have fit: "pcrs_fit mu l"
    using assms(4,5) roomD(6,7) [OF assms(1)] by (auto simp: pcrs_fit_def list_all_iff)
  show "agrees mu rt (TPMPCRRead rt l)"
    using PCRRead_replays [OF assms(2,3) laws fit] by (simp add: agrees_def)
  show "agrees mu rt (TPMPCRAllocate l (RhEnum r) sa)"
    using PCRAllocate_replays [OF assms(2) _ assms(3) laws fit] by (simp add: agrees_def encode_ok)
qed

lemma agrees_one_selection [agrees_rules]:
  assumes "lawful mu rt" "length sel \<le> 3"
  shows "agrees mu rt (TPMPCRRead rt (one_selection a sel))"
    "agrees mu rt (TPMPCRAllocate (one_selection a sel) (RhEnum r) sa)"
  by (rule agrees_pcrs [OF assms(1) one_selection_bytes]; use assms(2) in \<open>simp add: one_selection_def\<close>)+

subsection \<open>The entries of the table\<close>

lemma entry_agrees_none [simp]: "entry_agrees mu rt [] m"
  by (simp add: entry_agrees_def)

lemma GetRandom_agrees: "lawful mu rt \<Longrightarrow> entry_agrees mu rt [0, 1, 2, 4] tpm_get_rand_seeds"
  unfolding tpm_get_rand_seeds_def by (rule entry_agrees_sequences) (simp add: agrees_rules)

lemma Load_agrees:
  assumes "lawful mu rt"
  shows "entry_agrees mu rt [2, 3] (tpm_load_seeds rt)"
proof -
  have e: "PRIVATE_to_bytes \<lparr>private_buffer = []\<rparr> = Inr [0, 0]" by code_simp
  have f: "PRIVATE_to_bytes \<lparr>private_buffer = drop 2 corrupted_private\<rparr> = Inr corrupted_private" by code_simp
  have "agrees mu rt (TPMLoad rt 0x80000000 [0, 0] UNSEAL_SEAL_IN_PUBLIC PW)"
    by (rule agrees_Load [OF assms e]) simp
  moreover have "agrees mu rt (TPMLoad rt 0x80000000 corrupted_private UNSEAL_SEAL_IN_PUBLIC PW)"
    by (rule agrees_Load [OF assms f]) simp
  ultimately show ?thesis
    unfolding tpm_load_seeds_def e bindE_Inr
    by (intro entry_agrees_bind [OF agrees_default_primary [OF assms]] entry_agrees_sequences)
      (simp add: agrees_made)
qed

lemma CreatePrimary_agrees: "lawful mu rt \<Longrightarrow> entry_agrees mu rt [0, 1, 2] create_primary_seeds"
  unfolding create_primary_seeds_def by (rule entry_agrees_sequences) (simp add: agrees_rules)

lemma StartAuthSession_agrees: "lawful mu rt \<Longrightarrow> entry_agrees mu rt [0] start_auth_session_seeds"
  unfolding start_auth_session_seeds_def by (rule entry_agrees_sequences) (simp add: agrees_rules)

lemma RSADecrypt_agrees: "lawful mu rt \<Longrightarrow> entry_agrees mu rt [0, 1, 2] tpm_rsa_decrypt_seeds"
  unfolding tpm_rsa_decrypt_seeds_def Let_def
  by (rule entry_agrees_bind [OF agrees_rsa_primary entry_agrees_sequences]) (simp_all add: agrees_rules)

lemma RSAEncrypt_agrees: "lawful mu rt \<Longrightarrow> entry_agrees mu rt [0, 1, 2, 3] tpm_rsa_encrypt_seeds"
  unfolding tpm_rsa_encrypt_seeds_def Let_def
  by (rule entry_agrees_bind [OF agrees_rsa_primary entry_agrees_sequences]) (simp_all add: agrees_rules)

lemma MakeCredential_agrees:
  assumes "lawful mu rt"
  shows "entry_agrees mu rt [0, 1, 2] tpm_make_credential_seeds"
proof -
  have n: "catE [to_bytes 2 0x000B, Inr (replicate 32 0)] = Inr (be_bytes 2 11 @ replicate 32 0)"
    by (simp add: encode_ok)
  show ?thesis
    unfolding tpm_make_credential_seeds_def Let_def n bindE_Inr
    by (rule entry_agrees_bind [OF agrees_default_primary entry_agrees_bind
          [OF agrees_rsa_primary entry_agrees_sequences]]) (simp_all add: agrees_rules assms)
qed

lemma pair_selection_bytes:
  "TPML_PCR_SELECTION_to_bytes \<lparr>selections = [\<lparr>pcr_hash = AlgEnum ALG_SHA256, pcr_select = [1, 0, 0]\<rparr>,
     \<lparr>pcr_hash = AlgEnum ALG_SHA256, pcr_select = [1, 0, 2]\<rparr>]\<rparr> =
   Inr [0, 0, 0, 2, 0, 11, 3, 1, 0, 0, 0, 11, 3, 1, 0, 2]"
  by code_simp

lemma PCRAllocate_agrees: "lawful mu rt \<Longrightarrow> entry_agrees mu rt [0, 1, 2] tpm_pcr_allocate_seeds"
  unfolding tpm_pcr_allocate_seeds_def
  by (rule entry_agrees_sequences) (simp add: agrees_one_selection agrees_pcrs(2) [OF _ pair_selection_bytes])

lemma PCRRead_agrees: "lawful mu rt \<Longrightarrow> entry_agrees mu rt [0, 1] (tpm_pcr_read_seeds rt)"
  unfolding tpm_pcr_read_seeds_def by (rule entry_agrees_sequences) (simp add: agrees_rules)

lemma PCRSetAuthPolicy_agrees:
  "lawful mu rt \<Longrightarrow> entry_agrees mu rt [0, 1, 2, 3, 4, 5, 6] (tpm_pcr_setauthpolicy_seeds rt)"
  unfolding tpm_pcr_setauthpolicy_seeds_def Let_def
  by (rule entry_agrees_sequences) (simp add: agrees_rules)

lemma NVDefineSpace_agrees: "lawful mu rt \<Longrightarrow> entry_agrees mu rt [0] tpm_nv_definespace_seeds"
  unfolding tpm_nv_definespace_seeds_def by (rule entry_agrees_sequences) (simp add: agrees_rules)

lemma Clear_agrees: "lawful mu rt \<Longrightarrow> entry_agrees mu rt [0, 1] clear_seeds"
  unfolding clear_seeds_def by (rule entry_agrees_sequences) (simp add: agrees_rules)

lemma SetPrimaryPolicy_agrees:
  "lawful mu rt \<Longrightarrow> entry_agrees mu rt [0, 1, 2, 3, 4] (set_primary_policy_seeds rt)"
  unfolding set_primary_policy_seeds_def
  by (rule entry_agrees_sequences) (simp add: agrees_rules policy_fits_def)

lemma PCREvent_agrees: "lawful mu rt \<Longrightarrow> entry_agrees mu rt [0, 1, 2, 3] (pcr_event_seeds rt)"
  unfolding pcr_event_seeds_def by (rule entry_agrees_sequences) (simp add: agrees_rules del: replicate.simps)

subsection \<open>The table\<close>

text \<open>
  The variants, counted from 0 as in the names of the files, that have the same effect as message
  seed and as byte seed. The entries without any have no message seed, or one that is not replayed:
  \<open>TPMCreate\<close> loses its session, and two variants of \<open>TPMLoad\<close> start with it.
\<close>

definition replayed_variants :: "(string \<times> nat list) list" where
  "replayed_variants =
     [(''TPMGetRandom'', [0, 1, 2, 4]), (''TPMStirRandom'', []), (''TPMHash'', []),
      (''TPMGetTestResult'', []), (''TPMSelfTest'', []), (''TPMReadClock'', []),
      (''TPMVendorTCGTest'', []), (''TPMUnseal'', []), (''TPMLoad'', [2, 3]), (''TPMCreate'', []),
      (''TPMCreatePrimary'', [0, 1, 2]), (''TPMStartAuthSessionHMAC'', [0]),
      (''TPMRSADecrypt'', [0, 1, 2]), (''TPMRSAEncrypt'', [0, 1, 2, 3]),
      (''TPMMakeCredential'', [0, 1, 2]), (''TPMIncrementalSelfTest'', []),
      (''TPMGetCapability'', []), (''TPMECCParameters'', []), (''TPMLoadExternal'', []),
      (''TPMSign'', []), (''TPMPCRAllocate'', [0, 1, 2]), (''TPMPCRRead'', [0, 1]),
      (''TPMPCRExtend'', []), (''TPMPCRReset'', []), (''TPMPCRSetAuthPolicy'', [0, 1, 2, 3, 4, 5, 6]),
      (''TPMTestParms'', []), (''TPMNVDefineSpace'', [0]), (''TPMNVSetBits'', []),
      (''TPMClear'', [0, 1]), (''TPMSetPrimaryPolicy'', [0, 1, 2, 3, 4]), (''TPMNVWriteLock'', []),
      (''TPMNVWrite'', []), (''TPMNVReadLock'', []), (''TPMNVRead'', []), (''TPMNVExtend'', []),
      (''TPMNVUndefineSpace'', []), (''TPMPCREvent'', [0, 1, 2, 3])]"

definition def_agrees :: "tss \<Rightarrow> pb_runtime \<Rightarrow> nat list \<Rightarrow> seed_definition result \<Rightarrow> bool" where
  "def_agrees mu rt is m \<longleftrightarrow> (\<forall>def. m = Inr def \<longrightarrow> entry_agrees mu rt is (normalize_variants def))"

lemma def_agrees_rules [simp]:
  "def_agrees mu rt [] m"
  "entry_agrees mu rt is f \<Longrightarrow> def_agrees mu rt is (calls f)"
  "entry_agrees mu rt is f \<Longrightarrow> def_agrees mu rt is (built f)"
  by (auto simp: def_agrees_def calls_def built_def entry_agrees_def result_simps)

lemmas entries_agree = GetRandom_agrees Load_agrees CreatePrimary_agrees StartAuthSession_agrees
  RSADecrypt_agrees RSAEncrypt_agrees MakeCredential_agrees PCRAllocate_agrees PCRRead_agrees
  PCRSetAuthPolicy_agrees NVDefineSpace_agrees Clear_agrees SetPrimaryPolicy_agrees PCREvent_agrees

lemma test_case_entries_agree:
  assumes "lawful mu rt"
  shows "list_all2 (\<lambda>(name, is) (cmd, m). name = cmd \<and> def_agrees mu rt is m)
    replayed_variants (test_case_entries rt)"
  unfolding replayed_variants_def test_case_entries_def
  by (simp add: entries_agree assms del: One_nat_def)

lemma TEST_CASES_agree:
  assumes "lawful mu rt" "TEST_CASES rt = Inr seeds"
  shows "list_all2 (\<lambda>(name, is) (cmd, def). name = cmd \<and> entry_agrees mu rt is (normalize_variants def))
    replayed_variants seeds"
proof -
  have "list_all2 (\<lambda>(name, is) (cmd, m). name = cmd \<and> def_agrees mu rt is m) vars entries \<Longrightarrow>
    mapE (\<lambda>(cmd, m). bindE m (\<lambda>def. Inr (cmd, def))) entries = Inr sds \<Longrightarrow>
    list_all2 (\<lambda>(name, is) (cmd, def). name = cmd \<and> entry_agrees mu rt is (normalize_variants def))
      vars sds" for vars entries sds
    by (induction arbitrary: sds rule: list_all2_induct) (auto simp: def_agrees_def result_simps)
  from this [OF test_case_entries_agree [OF assms(1)]] assms(2) show ?thesis by (simp add: TEST_CASES_def)
qed

lemma table_unpatched:
  "list_all2 (\<lambda>(name, is) (cmd, ccs). name = cmd \<and>
      list_all (\<lambda>i. i < length ccs \<and> unpatched (map TPM_CC (ccs ! i))) is)
    replayed_variants test_case_codes"
  by code_simp

lemma table_variant_agrees:
  assumes "lawful mu rt" "(cmd, is) \<in> set replayed_variants" "i \<in> set is"
  obtains seeds def vs data where "TEST_CASES rt = Inr seeds" "(cmd, def) \<in> set seeds"
    "normalize_variants def = Inr vs" "i < length vs" "serialize_sequence (vs ! i) = Inr data"
    "same_on_both mu rt (vs ! i)"
proof -
  obtain seeds where seeds: "TEST_CASES rt = Inr seeds" and makes:
    "list_all2 (\<lambda>(name, ccs) (cmd, def). name = cmd \<and> makes_all rt ccs (normalize_variants def))
       test_case_codes seeds"
    by (rule TEST_CASES_make [OF lawfulD(1) [OF assms(1)]])
  from assms(2) obtain k where k: "k < length replayed_variants" "replayed_variants ! k = (cmd, is)"
    by (auto simp: in_set_conv_nth)
  note agree = TEST_CASES_agree [OF assms(1) seeds]
  obtain ccs where ccs: "test_case_codes ! k = (cmd, ccs)" "unpatched (map TPM_CC (ccs ! i))"
      "i < length ccs"
    using list_all2_nthD [OF table_unpatched k(1)] k(2) assms(3)
    by (cases "test_case_codes ! k") (auto simp: list_all_iff)
  obtain def where def: "seeds ! k = (cmd, def)" "entry_agrees mu rt is (normalize_variants def)"
    using list_all2_nthD [OF agree k(1)] k(2) by (cases "seeds ! k") auto
  have lc: "k < length test_case_codes" using k(1) list_all2_lengthD [OF table_unpatched] by simp
  have "makes_all rt ccs (normalize_variants def)"
    using list_all2_nthD [OF makes lc] ccs(1) def(1) by simp
  then obtain vs where vs: "normalize_variants def = Inr vs"
    "map (map cmd_cc) vs = map (map TPM_CC) ccs" "\<forall>v\<in>set vs. \<forall>c\<in>set v. seed_ok rt c"
    by (auto simp: makes_all_def)
  have i: "i < length vs" and r: "\<forall>c\<in>set (vs ! i). replays mu rt c"
    using def(2) vs(1) assms(3) by (auto simp: entry_agrees_def)
  have "map cmd_cc (vs ! i) = map TPM_CC (ccs ! i)" using vs(2) i ccs(3) by (metis nth_map)
  then have "unpatched (map cmd_cc (vs ! i))" using ccs(2) by simp
  moreover have ok: "\<forall>c\<in>set (vs ! i). seed_ok rt c" using vs(3) nth_mem [OF i] by blast
  ultimately have "same_on_both mu rt (vs ! i)" using r by (simp add: same_on_both_def seed_ok_def)
  moreover obtain data where "serialize_sequence (vs ! i) = Inr data"
    using good_sequence_serialises [OF ok] by (auto simp: is_ok_ex)
  moreover have "(cmd, def) \<in> set seeds"
    using def(1) k(1) list_all2_lengthD [OF agree] by (metis nth_mem)
  ultimately show thesis using that seeds vs(1) i by blast
qed

end
