(* ===== verification/Session_Replay.thy ===== *)
theory Session_Replay
  imports Table_Replay
begin

section \<open>Sequences that use the session they start\<close>

text \<open>
  On the seeds where the layer does change what is sent: the message target sends the second command
  authorised, the byte target sends the bytes of the seed.
\<close>

definition started :: "'t platform \<Rightarrow> 't \<Rightarrow> 't" where
  "started p t = SendTPM2StartupCommand p (TPMStartup p (TPMManufactureIfNeeded p t))"

definition finished :: "'t platform \<Rightarrow> 't \<Rightarrow> 't" where
  "finished p t = TPMShutdown p (SendTPM2ShutdownCommand p t)"

text \<open>A command of the generator that uses the session with handle \<open>h\<close> and nothing else.\<close>

definition uses_session :: "TPMCommand \<Rightarrow> nat list \<Rightarrow> nat \<Rightarrow> bytes \<Rightarrow> bool" where
  "uses_session c hs h params \<longleftrightarrow>
     cmd_tag c = TPM_ST TPM_ST_SESSIONS \<and> cmd_params c = handle_area hs @ one_session (int h) @ params"

lemma session_command_bytes:
  assumes "uses_session c hs h params" "command_bytes c = Inr b"
  shows "b = session_command (nat (cmd_cc c)) (handle_area hs) h [] 0 [] params"
  using assms
  by (simp add: uses_session_def command_bytes_layout command_layout_def command_size_def ST_LEN_def CC_LEN_def
      SIZE_LEN_def session_command_def Let_def one_session_def sized_def)

lemma execute_prefix:
  assumes "session_ok st" "n \<le> length buf" "take n buf = b" "b \<noteq> []"
  obtains st' where "ExecuteCommandBuffer p buf n (t, st) = Some (snd (TPMSendCommand p kDefaultLocality b t), st')"
proof -
  have "n = length b" using assms(2,3) by auto
  then have "buf = b @ drop n buf" "n = length b" using assms(3) append_take_drop_id [of n buf] by simp_all
  then show thesis using execute_ok [OF assms(1,4), of p "drop n buf" t] that by metis
qed

text \<open>The second message, in the state that the answer to the first has left.\<close>

lemma run_session_command:
  assumes "crypto_laws cr" "h < 2 ^ 32" "MarshalCommand mu m = Some b" "command_bytes c = Inr b"
    and use: "uses_session c hs h params" "LookupCommandAttr (nat (cmd_cc c)) = Some (length hs, aut, out)"
      "cmd_cc c \<noteq> TPM_CC TPM_CC_START_AUTH_SESSION" "\<forall>x\<in>set hs. x < 2 ^ 32 \<and> known_name x [] \<noteq> []"
    and st: "st = armed_session h nonce [] (nat (TPM_ALG_value ALG_SHA256))"
  shows "\<exists>st'. run_messages cr mu p [m] (t, st) =
    Some (snd (TPMSendCommand p kDefaultLocality
      (session_command (nat (cmd_cc c)) (handle_area hs) h (replicate 16 0xAA) 0
        (session_hmac cr st (nat (cmd_cc c)) hs 0 params) params) t), st')"
proof -
  let ?c = "nat (cmd_cc c)"
  let ?auth = "session_command ?c (handle_area hs) h (replicate 16 0xAA) 0 (session_hmac cr st ?c hs 0 params) params"
  have r: "reachable_session cr st" unfolding st by (rule reachable_armed) (use assms(2) in simp)
  have s: "s_initialized st" "s_digest_size st \<noteq> 0" "s_handle st = h" "s_names st = []"
    by (simp_all add: st armed_session_def DigestSizeFor_def)
  have b: "b = session_command ?c (handle_area hs) (s_handle st) [] 0 [] params"
    using session_command_bytes [OF use(1) assms(4)] by (simp add: s)
  have nz: "?c \<noteq> cc TPM_CC_START_AUTH_SESSION"
    using use(3) assms(4) TPM_CC_range [of TPM_CC_START_AUTH_SESSION] by (auto simp: cc_def command_bytes_layout)
  have lb: "length b < 2 ^ 32" using assms(4) by (auto simp: command_bytes_layout command_layout_def)
  obtain n buf where pa: "SessionAuthPatchCommand cr (b @ replicate 64 0) (length b) st =
      Some (n, buf, st\<lparr>s_last_command_code := ?c\<rparr>)" "take n buf = ?auth" "n \<le> length buf"
    using patch_authorises [OF r assms(1) s(1,2) use(2) nz, where pad = "replicate 64 0" and nonce = "[]" and
        hmac = "[]" and at = 0 and params = params and cmd = b] use(4) b lb s by auto
  have "session_ok (st\<lparr>s_last_command_code := ?c\<rparr>)"
    using reachable_session_ok [OF r assms(1)] by (simp add: session_ok_def)
  moreover have "?auth \<noteq> []" by (simp add: session_command_def Let_def)
  ultimately obtain st' where "ExecuteCommandBuffer p buf n (t, st\<lparr>s_last_command_code := ?c\<rparr>) =
      Some (snd (TPMSendCommand p kDefaultLocality ?auth t), st')"
    by (rule execute_prefix [OF _ pa(3,2)])
  then show ?thesis using assms(3) pa(1) by (simp del: MarshalCommand.simps)
qed

text \<open>The first message, a plain HMAC session that the TPM starts.\<close>

lemma run_start_command:
  assumes "crypto_laws cr" "h < 2 ^ 32" "length nonce < 2 ^ 16" "MarshalCommand mu m = Some b" "command_bytes c = Inr b"
    and "TPMStartAuthSession (RhEnum RH_NULL) (RhEnum RH_NULL) n None TPM_SE_HMAC s ALG_SHA256 = Inr c"
    and tpm: "TPMSendCommand p kDefaultLocality b t = (start_reply h nonce, t1)"
  shows "run_messages cr mu p (m # ms) (t, SessionAuthReset) =
    run_messages cr mu p ms (t1, armed_session h nonce [] (nat (TPM_ALG_value ALG_SHA256)))"
proof -
  from start_session_arms [OF assms(6,5) _ _ reachable_session.reset assms(1-3), where e = "[]" and pad = "replicate 64 0"]
  obtain st' where st': "SessionAuthPatchCommand cr (b @ replicate 64 0) (length b) SessionAuthReset =
      Some (length b, b @ replicate 64 0, st')"
    "SessionAuthProcessResponse (start_reply h nonce) st' =
      Some (armed_session h nonce [] (nat (TPM_ALG_value ALG_SHA256)))" by auto
  have "length b \<noteq> 0" using command_header_reads(4) [OF assms(5)] by auto
  then have "ExecuteCommandBuffer p (b @ replicate 64 0) (length b) (t, st') =
      Some (t1, armed_session h nonce [] (nat (TPM_ALG_value ALG_SHA256)))"
    using st'(2) tpm by (simp add: ExecuteCommandBuffer_def rd_def py_slice_def)
  from run_messages_step [OF assms(4) st'(1) this] show ?thesis .
qed

lemma two_messages:
  assumes "pb_laws rt" "replays mu rt c1" "message_ok (to_proto rt c1)" "command_bytes c1 = Inr b1"
    and "replays mu rt c2" "message_ok (to_proto rt c2)" "command_bytes c2 = Inr b2"
  obtains m1 m2 where "serialize_proto_sequence rt [c1, c2] =
      Inr (Some (utf8_encode (pb_text rt (Msg PB_TPMCommandSequence [(''commands'', PbList [m1, m2])]))))"
    "MarshalCommand mu (postprocessed m1) = Some b1" "MarshalCommand mu (postprocessed m2) = Some b2"
proof -
  from message_of_command [OF assms(1-3)] obtain k1 m1 where m1: "to_proto rt c1 = Inr (Some (k1, m1))"
    "pb_new rt PB_TPMCommand [(k1, PbMsg m1)] = Inr (Msg PB_TPMCommand [(k1, PbMsg m1)])" .
  from message_of_command [OF assms(1,5,6)] obtain k2 m2 where m2: "to_proto rt c2 = Inr (Some (k2, m2))"
    "pb_new rt PB_TPMCommand [(k2, PbMsg m2)] = Inr (Msg PB_TPMCommand [(k2, PbMsg m2)])" .
  let ?m1 = "Msg PB_TPMCommand [(k1, PbMsg m1)]" and ?m2 = "Msg PB_TPMCommand [(k2, PbMsg m2)]"
  have "kwargs_ok PB_TPMCommandSequence [(''commands'', PbList [?m1, ?m2])]" by (simp add: kwargs_ok_def)
  then have "serialize_proto_sequence rt [c1, c2] =
      Inr (Some (utf8_encode (pb_text rt (Msg PB_TPMCommandSequence [(''commands'', PbList [?m1, ?m2])]))))"
    using m1 m2 assms(1) by (simp add: serialize_proto_sequence_def pb_new_ok)
  with replays_marshal [OF assms(2,4) m1(1)] replays_marshal [OF assms(5,7) m2(1)] show thesis
    by (intro that [of ?m1 ?m2])
qed

lemma session_sequence_targets:
  assumes "pb_laws rt" "crypto_laws cr" "h < 2 ^ 32" "length nonce < 2 ^ 16"
    and start: "TPMStartAuthSession (RhEnum RH_NULL) (RhEnum RH_NULL) n None TPM_SE_HMAC s ALG_SHA256 = Inr c1"
      "command_bytes c1 = Inr b1" "replays mu rt c1" "message_ok (to_proto rt c1)"
    and user: "command_bytes c2 = Inr b2" "replays mu rt c2" "message_ok (to_proto rt c2)"
      "cmd_cc c2 \<noteq> TPM_CC TPM_CC_START_AUTH_SESSION" "uses_session c2 hs h params"
      "LookupCommandAttr (nat (cmd_cc c2)) = Some (length hs, aut, out)"
      "\<forall>x\<in>set hs. x < 2 ^ 32 \<and> known_name x [] \<noteq> []"
    and tpm: "TPMSendCommand p kDefaultLocality b1 (started p t) = (start_reply h nonce, t1)"
  shows "\<exists>ms. serialize_sequence [c1, c2] = Inr (b1 @ b2) \<and>
    b2 = session_command (nat (cmd_cc c2)) (handle_area hs) h [] 0 [] params \<and>
    LLVMFuzzerTestOneInput p (b1 @ b2) t = (0, finished p (snd (TPMSendCommand p kDefaultLocality b2 t1))) \<and>
    serialize_proto_sequence rt [c1, c2] =
      Inr (Some (utf8_encode (pb_text rt (Msg PB_TPMCommandSequence [(''commands'', PbList ms)])))) \<and>
    proto_fuzzer cr mu p (Msg PB_TPMCommandSequence [(''commands'', PbList (map postprocessed ms))]) t =
      Some (finished p (snd (TPMSendCommand p kDefaultLocality
        (session_command (nat (cmd_cc c2)) (handle_area hs) h (replicate 16 0xAA) 0
          (session_hmac cr (armed_session h nonce [] (nat (TPM_ALG_value ALG_SHA256))) (nat (cmd_cc c2)) hs 0 params)
          params) t1)))"
proof -
  obtain m1 m2 where proto: "serialize_proto_sequence rt [c1, c2] =
      Inr (Some (utf8_encode (pb_text rt (Msg PB_TPMCommandSequence [(''commands'', PbList [m1, m2])]))))"
    and mar: "MarshalCommand mu (postprocessed m1) = Some b1" "MarshalCommand mu (postprocessed m2) = Some b2"
    by (rule two_messages [OF assms(1) start(3,4,2) user(2,3,1)])
  have ser: "serialize_sequence [c1, c2] = Inr (b1 @ b2)"
    using start(2) user(1) by (simp add: serialize_sequence_def joinE_def)
  have "b1 = command_layout c1" "b2 = command_layout c2"
    using start(2) user(1) by (simp_all add: command_bytes_layout)
  then have "parseCommands (b1 @ b2) = (True, [b1, b2])"
    using parse_serialized [of "[c1, c2]"] ser by (simp add: serialize_sequence_def)
  then have "LLVMFuzzerTestOneInput p (b1 @ b2) t = (0, finished p (snd (TPMSendCommand p kDefaultLocality b2 t1)))"
    using tpm by (simp add: LLVMFuzzerTestOneInput_def Let_def started_def finished_def)
  moreover obtain st' where "run_messages cr mu p [postprocessed m1, postprocessed m2] (started p t, SessionAuthReset) =
      Some (snd (TPMSendCommand p kDefaultLocality
        (session_command (nat (cmd_cc c2)) (handle_area hs) h (replicate 16 0xAA) 0
          (session_hmac cr (armed_session h nonce [] (nat (TPM_ALG_value ALG_SHA256))) (nat (cmd_cc c2)) hs 0 params)
          params) t1), st')"
    using run_session_command [OF assms(2,3) mar(2) user(1,5,6,4,7) refl]
      run_start_command [OF assms(2-4) mar(1) start(2,1) tpm] by metis
  ultimately show ?thesis
    using ser proto session_command_bytes [OF user(5,1)]
    by (intro exI [of _ "[m1, m2]"])
      (simp add: proto_fuzzer_def Let_def msg_list_def field_reads started_def finished_def
        del: run_messages.simps postprocessed.simps)
qed

text \<open>
  C4: a sequence of two commands: the first starts a plain HMAC session under SHA-256, and the second,
  whose code is in the table of \<open>command_attributes.h\<close> with as many handles as it has, uses that session as its only
  authorization, on handles that are not objects, so that their Names are the handles. Both commands
  replay, that is the marshaller turns their messages into their bytes. When the TPM starts the session under the
  handle \<open>h\<close> that the second command carries, the byte target sends that command as it is in the
  seed, with an empty nonce and HMAC, and the message target sends the same command with the nonce of
  the layer and the HMAC that the started session asks for; nothing else differs. A command that the
  table does not list, such as \<open>PCR_SetAuthPolicy\<close>, is sent as it is (C26).
\<close>

theorem session_sequence_is_authorised:
  assumes "pb_laws rt" "crypto_laws cr" "h < 2 ^ 32" "length nonce < 2 ^ 16"
    and start: "TPMStartAuthSession (RhEnum RH_NULL) (RhEnum RH_NULL) n None TPM_SE_HMAC s ALG_SHA256 = Inr c1"
      "command_bytes c1 = Inr b1" "replays mu rt c1" "message_ok (to_proto rt c1)"
    and user: "command_bytes c2 = Inr b2" "replays mu rt c2" "message_ok (to_proto rt c2)"
      "cmd_cc c2 \<noteq> TPM_CC TPM_CC_START_AUTH_SESSION" "uses_session c2 hs h params"
      "LookupCommandAttr (nat (cmd_cc c2)) = Some (length hs, aut, out)"
      "\<forall>x\<in>set hs. x < 2 ^ 32 \<and> known_name x [] \<noteq> []"
    and tpm: "TPMSendCommand p kDefaultLocality b1 (started p t) = (start_reply h nonce, t1)"
  shows "\<exists>ms. serialize_sequence [c1, c2] = Inr (b1 @ b2) \<and>
    b2 = session_command (nat (cmd_cc c2)) (handle_area hs) h [] 0 [] params \<and>
    LLVMFuzzerTestOneInput p (b1 @ b2) t = (0, finished p (snd (TPMSendCommand p kDefaultLocality b2 t1))) \<and>
    serialize_proto_sequence rt [c1, c2] =
      Inr (Some (utf8_encode (pb_text rt (Msg PB_TPMCommandSequence [(''commands'', PbList ms)])))) \<and>
    proto_fuzzer cr mu p (Msg PB_TPMCommandSequence [(''commands'', PbList (map postprocessed ms))]) t =
      Some (finished p (snd (TPMSendCommand p kDefaultLocality
        (session_command (nat (cmd_cc c2)) (handle_area hs) h (replicate 16 0xAA) 0
          (session_hmac cr (armed_session h nonce [] (nat (TPM_ALG_value ALG_SHA256))) (nat (cmd_cc c2)) hs 0 params)
          params) t1)))"
  by (rule session_sequence_targets [OF assms])

text \<open>The second variant of \<open>TPMStartAuthSessionHMAC\<close>: a primary key authorised by the session.\<close>

lemma primary_uses_session:
  assumes "TPMCreatePrimary (RsInt (int h)) alg kb (RhEnum r) tmpl = Inr c"
  obtains params where "uses_session c [nat (TPM_RH_value r)] h params" "cmd_cc c = TPM_CC TPM_CC_CREATE_PRIMARY"
proof -
  from TPMCreatePrimary_pieces [OF assms] obtain i j where c: "c = TPMCommand_init (TPM_ST TPM_ST_SESSIONS)
      (TPM_CC TPM_CC_CREATE_PRIMARY) (object_params (rh_to_int (RhEnum r)) (rs_to_int (RsInt (int h))) i j)
      IsCreatePrimary"
    by metis
  then have "uses_session c [nat (TPM_RH_value r)] h (sized i @ sized j @ sized [] @ be_bytes 4 0 @ [])"
    by (simp add: uses_session_def object_params_sized handle_area_def TPM_RH_value_range) (simp add: TPMCommand_init_def)
  moreover have "cmd_cc c = TPM_CC TPM_CC_CREATE_PRIMARY" by (simp add: c TPMCommand_init_def)
  ultimately show thesis by (rule that)
qed

text \<open>The second variant of \<open>TPMNVDefineSpace\<close>: an index defined with the session.\<close>

lemma nv_uses_session:
  assumes "TPMNVDefineSpace ix attrs (int h) r sz = Inr c"
  obtains params where "uses_session c [nat (TPM_RH_value r)] h params" "cmd_cc c = TPM_CC TPM_CC_NV_DEFINE_SPACE"
proof -
  let ?ps = "sized [] @ sized (be_bytes 4 ix @ be_bytes 2 11 @ be_bytes 4 (nv_attrs_to_int attrs) @ sized [] @
    be_bytes 2 sz) @ []"
  note c = TPMNVDefineSpace_pieces(7) [OF assms]
  have "uses_session c [nat (TPM_RH_value r)] h ?ps"
    by (simp add: c uses_session_def handle_area_def TPM_RH_value_range) (simp add: TPMCommand_init_def)
  moreover have "cmd_cc c = TPM_CC TPM_CC_NV_DEFINE_SPACE" by (simp add: c TPMCommand_init_def)
  ultimately show thesis by (rule that)
qed

definition starting_platform :: "bytes list platform" where
  "starting_platform = logging_platform\<lparr>plat_run_command := (\<lambda>b t. (start_reply 0x2000000 [1, 2], t @ [b]))\<rparr>"

lemma session_sequence_is_authorised_witness:
  "\<exists>c1 c2 b1 b2 params ms. hmac_session = Inr c1 \<and>
    TPMCreatePrimary (RsInt 0x2000000) ALG_SHA256 2048 (RhEnum RH_OWNER) None = Inr c2 \<and>
    serialize_sequence [c1, c2] = Inr (b1 @ b2) \<and>
    LLVMFuzzerTestOneInput starting_platform (b1 @ b2) [] = (0, [kTPM2Startup, b1, b2, kTPM2Shutdown]) \<and>
    proto_fuzzer plain_crypto plain_tss starting_platform
        (Msg PB_TPMCommandSequence [(''commands'', PbList (map postprocessed ms))]) [] =
      Some [kTPM2Startup, b1,
        session_command 0x131 (handle_area [0x40000001]) 0x2000000 (replicate 16 0xAA) 0
          (session_hmac plain_crypto (armed_session 0x2000000 [1, 2] [] (nat (TPM_ALG_value ALG_SHA256))) 0x131
            [0x40000001] 0 params) params, kTPM2Shutdown]"
proof -
  let ?prim = "TPMCreatePrimary (RsInt (int 0x2000000)) ALG_SHA256 2048 (RhEnum RH_OWNER) None"
  have lawful: "lawful plain_tss rt0"
    by (simp add: lawful_def tss_room_def plain_tss_laws plain_runtime_laws) (simp add: plain_tss_def)
  have "makes rt0 TPM_CC_START_AUTH_SESSION hmac_session" "makes rt0 TPM_CC_CREATE_PRIMARY ?prim"
    by (simp_all add: makes_hmac_session makes_CreatePrimary templates_ok plain_runtime_laws)
  then obtain c1 b1 c2 b2 where c1: "hmac_session = Inr c1" "command_bytes c1 = Inr b1" "message_ok (to_proto rt0 c1)"
    and c2: "?prim = Inr c2" "command_bytes c2 = Inr b2" "message_ok (to_proto rt0 c2)"
    by (auto simp: makes_def seed_ok_def is_ok_ex)
  have r: "replays plain_tss rt0 c1" "replays plain_tss rt0 c2"
    using agrees_hmac_session [OF lawful] c1(1)
      CreatePrimary_replays [OF c2(1) plain_runtime_laws plain_tss_laws] primary_replayable [OF lawful]
    by (simp_all add: agrees_def)
  obtain params where u: "uses_session c2 [nat (TPM_RH_value RH_OWNER)] 0x2000000 params"
    "cmd_cc c2 = TPM_CC TPM_CC_CREATE_PRIMARY"
    by (rule primary_uses_session [OF c2(1)])
  have cc: "nat (cmd_cc c2) = 0x131" "cmd_cc c2 \<noteq> TPM_CC TPM_CC_START_AUTH_SESSION"
    "LookupCommandAttr (nat (cmd_cc c2)) = Some (length [nat (TPM_RH_value RH_OWNER)], 1, 1)"
    by (simp_all add: u(2) TPM_CC.simps LookupCommandAttr_def command_attrs_def)
  have n: "\<forall>x\<in>set [nat (TPM_RH_value RH_OWNER)]. x < 2 ^ 32 \<and> known_name x [] \<noteq> []"
    by (simp add: known_name_def HandleName_def array_copy_def kMaxNameSize_def)
  have p: "TPMSendCommand starting_platform kDefaultLocality b t = (start_reply 0x2000000 [1, 2], t @ [b])"
    "started starting_platform t = t @ [kTPM2Startup]" "finished starting_platform t = t @ [kTPM2Shutdown]" for b t
    by (simp_all add: started_def finished_def starting_platform_def logging_platform_def TPMSendCommand_def
        SendTPM2StartupCommand_def SendTPM2ShutdownCommand_def TPMStartup_def TPMManufactureIfNeeded_def
        TPMShutdown_def)
  from session_sequence_is_authorised [OF plain_runtime_laws plain_crypto_laws _ _ c1(1) [unfolded hmac_session_def]
      c1(2) r(1) c1(3) c2(2) r(2) c2(3) cc(2) u(1) cc(3) n p(1), of "[]"]
  show ?thesis using c1(1) c2(1) by (simp add: p cc(1)) blast
qed

end
