(* ===== verification/Seed_Effects.thy ===== *)
theory Seed_Effects
  imports Session_Replay
begin

section \<open>Which seeds of the table have another effect\<close>

text \<open>
  The other direction of \<open>Table_Replay\<close>: a message seed with a command that is not replayed makes the
  fuzzer do something else, which a TPM that logs its commands shows. First, what the message target
  sends for any messages whose bytes the session layer cannot take for a \<open>TPM2_StartAuthSession\<close>.
\<close>

definition harmless :: "bytes \<Rightarrow> bool" where
  "harmless b \<longleftrightarrow> b \<noteq> [] \<and> (\<forall>pad. Read32 (b @ pad) 6 \<noteq> Some (cc TPM_CC_START_AUTH_SESSION))"

lemma patch_idle:
  assumes "harmless b" "idle st" "session_ok st"
  obtains st' where "SessionAuthPatchCommand cr (b @ pad) (length b) st = Some (length b, b @ pad, st')"
    "idle st'" "session_ok st'"
proof (cases "length b < 10")
  case True
  then show thesis using that [of st] assms(2,3) by (simp add: SessionAuthPatchCommand_def)
next
  case False
  have r: "rd (b @ pad) i n = Some (py_slice (b @ pad) i (i + n))" if "i + n \<le> 10" for i n
    using that False by (simp add: rd_def)
  obtain code where code: "Read32 (b @ pad) 6 = Some code" "code \<noteq> cc TPM_CC_START_AUTH_SESSION"
    using assms(1) r [of 6 4] by (auto simp: harmless_def Read32_def)
  obtain tag where tag: "Read16 (b @ pad) 0 = Some tag" using r [of 0 2] by (simp add: Read16_def)
  obtain sz where sz: "Read32 (b @ pad) 2 = Some sz" using r [of 2 4] by (simp add: Read32_def)
  show thesis
    by (rule that [of "if sz \<noteq> length b then st else st\<lparr>s_last_command_code := code\<rparr>"])
      (use code tag sz False assms(2,3) in \<open>auto simp: SessionAuthPatchCommand_def Let_def idle_def session_ok_def\<close>)
qed

text \<open>The messages of a sequence, and what each is marshalled to: nothing when marshalling fails.\<close>

primrec sent :: "bytes option list \<Rightarrow> bytes list" where
  "sent [] = []"
| "sent (ob # obs) = (case ob of None \<Rightarrow> sent obs | Some b \<Rightarrow> b # sent obs)"

lemma run_messages_sent:
  assumes "list_all2 (\<lambda>m ob. MarshalCommand mu m = ob) ms obs" "\<forall>b. Some b \<in> set obs \<longrightarrow> harmless b"
    and "idle st" "session_ok st"
  shows "\<exists>st'. run_messages cr mu p ms (t, st) = Some (send_all p (sent obs) t, st')"
  using assms
proof (induction arbitrary: t st rule: list_all2_induct)
  case (Cons m ms ob obs)
  show ?case
  proof (cases ob)
    case None
    then show ?thesis using Cons by (simp del: MarshalCommand.simps)
  next
    case (Some b)
    then have h: "harmless b" using Cons.prems(1) by simp
    obtain st1 where st1: "SessionAuthPatchCommand cr (b @ replicate 64 0) (length b) st =
        Some (length b, b @ replicate 64 0, st1)" "idle st1" "session_ok st1"
      by (rule patch_idle [OF h Cons.prems(2,3)])
    have "b \<noteq> []" using h by (simp add: harmless_def)
    then obtain st2 where st2: "ExecuteCommandBuffer p (b @ replicate 64 0) (length b) (t, st1) =
        Some (snd (TPMSendCommand p kDefaultLocality b t), st2)" "session_ok st2" "idle st1 \<longrightarrow> idle st2"
      by (rule execute_ok [OF st1(3)])
    have m: "MarshalCommand mu m = Some b" using Cons.hyps(1) Some by simp
    have "\<exists>st'. run_messages cr mu p ms (snd (TPMSendCommand p kDefaultLocality b t), st2) =
        Some (send_all p (sent obs) (snd (TPMSendCommand p kDefaultLocality b t)), st')"
      by (rule Cons.IH) (use Cons.prems(1) st1(2) st2(2,3) in simp_all)
    then show ?thesis
      using run_messages_step [OF m st1(1) st2(1)] Some
      by (simp del: run_messages.simps)
  qed
qed simp

lemma length_sent: "length (sent obs) \<le> length obs"
  by (induction obs) (simp_all split: option.split)

lemma sent_all: "length obs = length frames \<Longrightarrow> sent obs = frames \<longleftrightarrow> obs = map Some frames"
proof (induction obs frames rule: list_induct2)
  case (Cons ob obs b bs)
  then show ?case using length_sent [of obs] by (cases ob) auto
qed simp

text \<open>What the harness makes of a command: bytes, or nothing.\<close>

definition said :: "tss \<Rightarrow> pb_runtime \<Rightarrow> TPMCommand \<Rightarrow> bytes option \<Rightarrow> bool" where
  "said mu rt c ob \<longleftrightarrow>
     (\<exists>key m. to_proto rt c = Inr (Some (key, m)) \<and> message_ok (to_proto rt c) \<and>
        harness_command mu (key, m) = ob) \<and> (\<forall>b. ob = Some b \<longrightarrow> harmless b)"

lemma said_messages:
  assumes "pb_laws rt" "list_all2 (said mu rt) cs obs"
  shows "\<exists>ms. proto_commands_loop rt cs = Inr (Some ms) \<and>
    list_all2 (\<lambda>m ob. MarshalCommand mu m = ob) (map postprocessed ms) obs"
  using assms(2)
proof (induction rule: list_all2_induct)
  case (Cons c cs ob obs)
  from Cons.hyps(1) obtain key m where m: "to_proto rt c = Inr (Some (key, m))" "message_ok (to_proto rt c)"
    "harness_command mu (key, m) = ob"
    by (auto simp: said_def)
  have "kwargs_ok PB_TPMCommand [(key, PbMsg m)]"
    using m(1,2) by (simp add: kwargs_ok_def del: pb_schema.simps)
  then have "pb_new rt PB_TPMCommand [(key, PbMsg m)] = Inr (Msg PB_TPMCommand [(key, PbMsg m)])"
    using assms(1) by (simp add: pb_new_ok)
  moreover have "MarshalCommand mu (postprocessed (Msg PB_TPMCommand [(key, PbMsg m)])) = ob"
    using m(3) by (simp add: harness_command_def)
  ultimately show ?case using Cons.IH m(1) by (auto simp del: MarshalCommand.simps postprocessed.simps)
qed simp

lemma log_platform:
  "send_all starting_platform frames t = t @ frames"
  "started starting_platform t = t @ [kTPM2Startup]" "finished starting_platform t = t @ [kTPM2Shutdown]"
proof -
  have s: "snd (TPMSendCommand starting_platform l b t) = t @ [b]" for l b t
    by (simp add: TPMSendCommand_def starting_platform_def logging_platform_def)
  show "send_all starting_platform frames t = t @ frames"
    by (induction frames arbitrary: t) (simp_all add: s)
  show "started starting_platform t = t @ [kTPM2Startup]" "finished starting_platform t = t @ [kTPM2Shutdown]"
    by (simp_all add: started_def finished_def SendTPM2StartupCommand_def SendTPM2ShutdownCommand_def s)
      (simp_all add: starting_platform_def logging_platform_def TPMStartup_def TPMManufactureIfNeeded_def
        TPMShutdown_def)
qed

lemma targets_on_log:
  assumes "parseCommands data = (True, frames)"
    and "run_messages cr mu starting_platform (map postprocessed ms) ([kTPM2Startup], SessionAuthReset) = Some (t, st)"
  shows "LLVMFuzzerTestOneInput starting_platform data [] = (0, kTPM2Startup # frames @ [kTPM2Shutdown])"
    and "proto_fuzzer cr mu starting_platform (Msg PB_TPMCommandSequence [(''commands'', PbList (map postprocessed ms))]) []
      = Some (t @ [kTPM2Shutdown])"
  using assms log_platform(2,3) [unfolded started_def finished_def] log_platform(1)
  by (simp_all add: LLVMFuzzerTestOneInput_def proto_fuzzer_def Let_def msg_list_def
      del: run_messages.simps postprocessed.simps)

lemma unreplayed_differs:
  assumes "pb_laws rt" "serialize_sequence cs = Inr data" "\<forall>c\<in>set cs. \<exists>ob. said mu rt c ob"
    and "\<exists>c\<in>set cs. \<not> replays mu rt c"
  shows "\<exists>ms. proto_commands_loop rt cs = Inr (Some ms) \<and>
    proto_fuzzer cr mu starting_platform (Msg PB_TPMCommandSequence [(''commands'', PbList (map postprocessed ms))]) [] \<noteq>
      Some (snd (LLVMFuzzerTestOneInput starting_platform data []))"
proof -
  from assms(2) obtain frames where f: "mapE command_bytes cs = Inr frames"
    by (auto simp: serialize_sequence_def joinE_def result_simps)
  have fr: "length frames = length cs" "i < length cs \<Longrightarrow> command_bytes (cs ! i) = Inr (frames ! i)" for i
    using mapE_length [OF f] mapE_nth [OF f] by auto
  have "frames = map command_layout cs"
    by (rule nth_equalityI) (use fr in \<open>auto simp: command_bytes_layout\<close>)
  then have parse: "parseCommands data = (True, frames)"
    using parse_serialized [of cs data] assms(2) by (simp add: serialize_sequence_def)
  from assms(3) obtain ob where ob: "\<forall>c\<in>set cs. said mu rt c (ob c)" by metis
  then have all: "list_all2 (said mu rt) cs (map ob cs)" by (simp add: list_all2_conv_all_nth)
  from said_messages [OF assms(1) this] obtain ms where ms: "proto_commands_loop rt cs = Inr (Some ms)"
    "list_all2 (\<lambda>m b. MarshalCommand mu m = b) (map postprocessed ms) (map ob cs)" by blast
  have "\<forall>b. Some b \<in> set (map ob cs) \<longrightarrow> harmless b" using ob by (auto simp: said_def)
  from run_messages_sent [OF ms(2) this idle_reset session_ok_reset, of cr starting_platform "[kTPM2Startup]"]
  obtain st where run: "run_messages cr mu starting_platform (map postprocessed ms) ([kTPM2Startup], SessionAuthReset) =
      Some (kTPM2Startup # sent (map ob cs), st)" by (auto simp: log_platform(1))
  have "map ob cs \<noteq> map Some frames"
  proof
    assume eq: "map ob cs = map Some frames"
    have "replays mu rt c" if c: "c \<in> set cs" for c
    proof -
      obtain i where i: "i < length cs" "c = cs ! i" using c by (auto simp: in_set_conv_nth)
      with eq have "ob c = Some (frames ! i)" using fr(1) nth_map by metis
      then show ?thesis using ob c fr(2) [OF i(1)] i(2) by (auto simp: said_def replays_def)
    qed
    with assms(4) show False by blast
  qed
  then have "sent (map ob cs) \<noteq> frames" using sent_all [of "map ob cs" frames] fr(1) by simp
  with targets_on_log [OF parse run] ms(1) show ?thesis by auto
qed

subsection \<open>Marshallers only append\<close>

text \<open>Whatever a message holds, each marshaller keeps the bytes before it.\<close>

definition appends :: "(bytes \<Rightarrow> bytes option) \<Rightarrow> bool" where
  "appends f \<longleftrightarrow> (\<forall>out out'. f out = Some out' \<longrightarrow> prefix out out')"

named_theorems appends_intro \<open>marshallers that only append\<close>

lemma appends_put [appends_intro]: "appends (put enc)"
  by (auto simp: appends_def put_def split: option.splits if_splits)

lemma appends_bind [appends_intro]: "appends f \<Longrightarrow> appends g \<Longrightarrow> appends (\<lambda>out. Option.bind (f out) g)"
  unfolding appends_def
proof (intro allI impI)
  fix out out'
  assume f: "\<forall>out out'. f out = Some out' \<longrightarrow> prefix out out'" and g: "\<forall>out out'. g out = Some out' \<longrightarrow> prefix out out'"
    and "Option.bind (f out) g = Some out'"
  then obtain out1 where "f out = Some out1" "g out1 = Some out'" by (auto simp: bind_eq_Some_conv)
  with f g have "prefix out out1" "prefix out1 out'" by simp_all
  then show "prefix out out'" by (rule prefix_order.trans)
qed

lemma appends_simple [appends_intro]:
  "appends Some" "appends (\<lambda>_. None)" "(c \<Longrightarrow> appends f) \<Longrightarrow> (\<not> c \<Longrightarrow> appends g) \<Longrightarrow> appends (if c then f else g)"
  by (simp_all add: appends_def)

lemma appends_if [appends_intro]: "appends f \<Longrightarrow> appends g \<Longrightarrow> appends (\<lambda>out. if c then f out else g out)"
  by (simp add: appends_def)

lemma appends_session: "appends (MarshalTPMSession mu s)"
  unfolding MarshalTPMSession_def [abs_def] marshal_sized_def [abs_def] Let_def by (intro appends_intro)

lemma appends_sessions: "appends (marshal_sessions mu ss)"
proof (induction ss)
  case (Cons s ss)
  then show ?case
    using appends_session [of mu s] by (simp add: appends_def bind_eq_Some_conv) (metis prefix_order.trans)
qed (simp add: appends_def)

lemma appends_repeated [appends_intro]: "appends (MarshalRepeatedField mu parent f k)"
  unfolding appends_def
proof (intro allI impI)
  fix out out'
  assume "MarshalRepeatedField mu parent f k out = Some out'"
  then obtain out1 out2 where p: "put (mu_u32 mu 0) out = Some out1"
    "marshal_sessions mu (msg_list parent f) out1 = Some out2"
    "patch (length out) (mu_u32 mu (u32 (int (length out2 - length out1)))) out2 = Some out'"
    by (auto simp: MarshalRepeatedField_def bind_eq_Some_conv split: if_splits)
  then have "prefix out out1" "prefix out1 out2"
    using appends_put appends_sessions unfolding appends_def by blast+
  then have "take (length out) out2 = out" by (auto simp: prefix_def)
  then show "prefix out out'" using p(3) by (auto simp: patch_def split: option.splits)
qed

lemma appends_header [appends_intro]: "appends (MarshalCommandHeader mu h)"
proof -
  have "prefix out out'" if "MarshalCommandHeader mu h out = Some out'" for out out'
    using that appends_put unfolding appends_def MarshalCommandHeader_def
    by (auto simp: bind_eq_Some_conv split: if_splits) (meson prefix_order.trans)
  then show ?thesis by (simp add: appends_def)
qed

lemma appends_message [appends_intro]: "appends (MarshalMessageField mu child)"
proof -
  have "appends (MarshalTPM2BDigest mu m)" "appends (MarshalTPMTRSADecrypt mu m)" "appends (MarshalTPM2B mu k m)"
    "appends (MarshalTPMTSymDef mu m)" "appends (MarshalTPM2BSensitiveCreate mu m)" "appends (MarshalTPM2BPublic mu m)"
    "appends (MarshalTPMLPCRSelection mu m)" "appends (MarshalTPMNvPublic mu m)" for k m
    unfolding MarshalTPM2BDigest_def [abs_def] MarshalTPMTRSADecrypt_def [abs_def] MarshalTPM2B_def [abs_def] MarshalTPMTSymDef_def [abs_def]
      MarshalTPM2BSensitiveCreate_def [abs_def] MarshalTPM2BPublic_def [abs_def] MarshalTPMLPCRSelection_def [abs_def] MarshalTPMNvPublic_def [abs_def] Let_def
    by (intro appends_intro)+
  then show ?thesis
    unfolding MarshalMessageField_def by (cases "msg_class child") (simp_all add: appends_intro)
qed

lemma appends_field [appends_intro]: "appends (MarshalCommandField mu m f)"
proof (cases "snd f")
  case T_uint32
  then show ?thesis
    unfolding MarshalCommandField_def [abs_def] Let_def by (simp add: appends_intro)
next
  case (T_enum e)
  then show ?thesis
    unfolding MarshalCommandField_def [abs_def] Let_def by (simp add: appends_intro)
qed (simp_all add: MarshalCommandField_def [abs_def] Let_def appends_intro)

lemma appends_fields [appends_intro]: "appends (marshal_fields mu m fs)"
proof (induction fs)
  case (Cons f fs)
  then show ?case by (simp add: appends_def bind_eq_Some_conv) (metis appends_def appends_field prefix_order.trans)
qed (simp add: appends_def)

lemma marshal_fields_append:
  "marshal_fields mu m (fs @ gs) out = Option.bind (marshal_fields mu m fs out) (marshal_fields mu m gs)"
  by (induction fs arbitrary: out) (auto split: Option.bind_splits)

lemma harmless_header:
  assumes "b = be_bytes 2 t @ be_bytes 4 n @ be_bytes 4 (TPM_CC code) @ rest" "code \<noteq> TPM_CC_START_AUTH_SESSION"
  shows "harmless b"
  unfolding harmless_def
proof (intro conjI allI)
  show "b \<noteq> []" using assms(1) by simp
  fix pad
  have "at_cursor (b @ pad) 6 (be_bytes 4 (TPM_CC code) @ rest @ pad)"
    using at_cursor_append [of "be_bytes 2 t @ be_bytes 4 n" "be_bytes 4 (TPM_CC code) @ rest @ pad"]
    by (simp add: assms(1))
  then have "Read32 (b @ pad) 6 = Some (nat (TPM_CC code))"
    using Read_cursor(2) TPM_CC_range [of code] by simp
  moreover have "nat (TPM_CC code) \<noteq> nat (TPM_CC TPM_CC_START_AUTH_SESSION)"
    using assms(2) by (cases code) (simp_all add: TPM_CC.simps)
  ultimately show "Read32 (b @ pad) 6 \<noteq> Some (cc TPM_CC_START_AUTH_SESSION)" by (simp add: cc_def)
qed

text \<open>The header and the first fields of whatever a normalised message is marshalled to.\<close>

lemma headed_bytes:
  assumes "tss_laws mu" "post_process m = m'" "m' = Msg k ((''header'', PbMsg (headed st code (header_msg c))) # kws)"
    and "pb_schema k = (''header'', T_msg PB_TPMHeader) # fs @ gs"
    and "emits (marshal_fields mu m' fs) ps" "length ps + 10 \<le> kMaxBuffer" "length (cmd_params c) < 65536 * 4"
    and "harness_command mu (key, m) = Some b"
  shows "\<exists>n rest. b = be_bytes 2 (TPM_ST st) @ be_bytes 4 n @ be_bytes 4 (TPM_CC code) @ ps @ rest"
proof -
  let ?h = "headed st code (header_msg c)" and ?sz = "command_size c"
  let ?hd = "be_bytes 2 (TPM_ST st) @ be_bytes 4 ?sz @ be_bytes 4 (TPM_CC code)"
  have sub: "msg_sub PB_TPMHeader m' ''header'' = ?h" by (simp add: assms(3) msg_sub_def)
  have r: "0 \<le> ?sz" "?sz < 4294967296" "0 \<le> TPM_ST st" "TPM_ST st < 65536" "0 \<le> TPM_CC code" "TPM_CC code < 4294967296"
    using assms(7) TPM_ST_range [of st] TPM_CC_range [of code]
    by (simp_all add: command_size_def ST_LEN_def CC_LEN_def SIZE_LEN_def)
  have "emits (MarshalCommandHeader mu ?h) ?hd"
    by (rule emits_header [OF assms(1) r(3,4,1,2,5,6)]) (simp_all add: headed_reads header_size)
  then have "emits (MarshalCommandField mu m' (''header'', T_msg PB_TPMHeader)) ?hd"
    by (simp add: command_field_simps MarshalMessageField_def sub headed_reads)
  from emitsD [OF emits_fields(2) [OF this assms(5)], of "[]"] assms(6)
  have "marshal_fields mu m' ((''header'', T_msg PB_TPMHeader) # fs) [] = Some (?hd @ ps)" by simp
  then have all: "MarshalTPMCommand mu m' [] = marshal_fields mu m' gs (?hd @ ps)"
    using marshal_fields_append [of mu m' "(''header'', T_msg PB_TPMHeader) # fs" gs "[]"] assms(3,4)
    by (simp add: MarshalTPMCommand_def del: marshal_fields.simps pb_schema.simps)
  have "map_option (PatchCommandSize mu) (MarshalTPMCommand mu m' []) = Some b"
    using assms(8) by (simp add: harness_command_def assms(2))
  then obtain out where out: "marshal_fields mu m' gs (?hd @ ps) = Some out" "b = PatchCommandSize mu out"
    unfolding all by auto
  have "prefix (?hd @ ps) out" using appends_fields out(1) unfolding appends_def by blast
  then obtain rest where rest: "out = ?hd @ ps @ rest" by (auto simp: prefix_def)
  have "0 \<le> u32 (int (length out))" "u32 (int (length out)) < 4294967296" by (simp_all add: u32_def)
  then have "b = be_bytes 2 (TPM_ST st) @ be_bytes 4 (u32 (int (length out))) @ be_bytes 4 (TPM_CC code) @ ps @ rest"
    using out(2) by (simp add: PatchCommandSize_def tss_lawsD(2) [OF assms(1)] patch_def rest)
  then show ?thesis by blast
qed

lemma headed_said:
  assumes "tss_laws mu" "to_proto rt c = Inr (Some (key, m))" "message_ok (to_proto rt c)"
    and "post_process m = Msg k ((''header'', PbMsg (headed st code (header_msg c))) # kws)"
    and "pb_schema k = (''header'', T_msg PB_TPMHeader) # gs" "length (cmd_params c) < 65536 * 4"
    and "code \<noteq> TPM_CC_START_AUTH_SESSION"
  shows "\<exists>ob. said mu rt c ob"
proof -
  have "harmless b" if b: "harness_command mu (key, m) = Some b" for b
    using headed_bytes [OF assms(1,4) refl, of "[]" gs "[]"] assms(5,6) b harmless_header [OF _ assms(7)]
    by (force simp: emits_def kMaxBuffer_def)
  with assms(2,3) show ?thesis unfolding said_def by blast
qed

lemma replayed_said:
  assumes "replays mu rt c" "message_ok (to_proto rt c)" "cmd_cc c \<noteq> TPM_CC TPM_CC_START_AUTH_SESSION"
  shows "\<exists>ob. said mu rt c ob"
proof -
  from replays_bytes [OF assms(1)] obtain b where b: "command_bytes c = Inr b" by blast
  obtain key m where m: "to_proto rt c = Inr (Some (key, m))" "harness_command mu (key, m) = Some b"
    using assms(1) b by (auto simp: replays_def split: sum.splits option.splits)
  have "nat (cmd_cc c) \<noteq> cc TPM_CC_START_AUTH_SESSION"
    using b assms(3) by (auto simp: cc_def command_bytes_layout nat_eq_iff)
  then have "harmless b"
    using command_header_reads(3) [OF b] command_header_reads(4) [OF b] by (auto simp: harmless_def)
  with m assms(2) show ?thesis by (auto simp: said_def)
qed

end
