(* ===== verification/Table_Effects.thy ===== *)
theory Table_Effects
  imports Seed_Effects
begin

section \<open>Every variant of the table, classified\<close>

text \<open>
  What the seed files of each variant of \<open>TEST_CASES\<close> make the fuzzer do: there is no message file,
  or both files have the same effect on every TPM, or they differ on a TPM that logs its commands.
  One rule per command, then one line per entry of the table.
\<close>

datatype seed_effect = NoMessage | Same | Differs

definition differs :: "crypto \<Rightarrow> tss \<Rightarrow> pb_runtime \<Rightarrow> TPMCommand list \<Rightarrow> bool" where
  "differs cr mu rt cs \<longleftrightarrow>
     (\<forall>data. serialize_sequence cs = Inr data \<longrightarrow>
       (\<exists>ms. serialize_proto_sequence rt cs =
           Inr (Some (utf8_encode (pb_text rt (Msg PB_TPMCommandSequence [(''commands'', PbList ms)])))) \<and>
         proto_fuzzer cr mu starting_platform
             (Msg PB_TPMCommandSequence [(''commands'', PbList (map postprocessed ms))]) [] \<noteq>
           Some (snd (LLVMFuzzerTestOneInput starting_platform data []))))"

lemma text_of_messages:
  assumes "pb_laws rt" "\<forall>c\<in>set cs. seed_ok rt c" "proto_commands_loop rt cs = Inr (Some ms)"
  shows "serialize_proto_sequence rt cs =
    Inr (Some (utf8_encode (pb_text rt (Msg PB_TPMCommandSequence [(''commands'', PbList ms)]))))"
proof -
  have "\<forall>m\<in>set ms. msg_class m = PB_TPMCommand"
    using proto_commands_ok [OF assms(1,2)] assms(3) by (auto simp: loop_result_def)
  then have "kwargs_ok PB_TPMCommandSequence [(''commands'', PbList ms)]" by (simp add: kwargs_ok_def)
  then show ?thesis using assms(1,3) by (simp add: serialize_proto_sequence_def pb_new_ok)
qed

lemma unreplayed_sequence:
  assumes "pb_laws rt" "\<forall>c\<in>set cs. seed_ok rt c" "\<forall>c\<in>set cs. \<exists>ob. said mu rt c ob"
    and "\<exists>c\<in>set cs. \<not> replays mu rt c"
  shows "differs cr mu rt cs"
  unfolding differs_def
  using unreplayed_differs [OF assms(1) _ assms(3,4)] text_of_messages [OF assms(1,2)] by blast

lemma session_sequence:
  assumes "pb_laws rt" "tss_laws mu" "crypto_laws cr"
    and start: "hmac_session = Inr c1" "seed_ok rt c1" "replays mu rt c1"
    and user: "seed_ok rt c2" "replays mu rt c2" "cmd_cc c2 \<noteq> TPM_CC TPM_CC_START_AUTH_SESSION"
      "uses_session c2 hs 0x2000000 params" "LookupCommandAttr (nat (cmd_cc c2)) = Some (length hs, aut, out)"
      "\<forall>x\<in>set hs. x < 2 ^ 32 \<and> known_name x [] \<noteq> []"
  shows "differs cr mu rt [c1, c2]"
proof -
  have p: "TPMSendCommand starting_platform kDefaultLocality b t = (start_reply 0x2000000 [1, 2], t @ [b])"
    "started starting_platform t = t @ [kTPM2Startup]" "finished starting_platform t = t @ [kTPM2Shutdown]" for b t
    by (simp_all add: log_platform) (simp add: starting_platform_def logging_platform_def TPMSendCommand_def)
  have "length (session_command k ha h (replicate 16 0xAA) at hm ps) \<noteq> length (session_command k ha h [] at [] ps)"
    for k ha h at hm ps by (simp add: session_command_def Let_def sized_def)
  then have ne: "session_command k ha h (replicate 16 0xAA) at hm ps \<noteq> session_command k ha h [] at [] ps"
    for k ha h at hm ps by metis
  obtain b1 b2 where b: "command_bytes c1 = Inr b1" "command_bytes c2 = Inr b2"
    "message_ok (to_proto rt c1)" "message_ok (to_proto rt c2)"
    using start(2) user(1) by (auto simp: seed_ok_def is_ok_ex)
  have h: "(0x2000000 :: nat) < 2 ^ 32" "length [1 :: byte, 2] < 2 ^ 16" by simp_all
  from session_sequence_targets [OF assms(1,3) h start(1) [unfolded hmac_session_def] b(1) start(3) b(3,2) user(2)
      b(4) user(3-6) p(1), of "[]"]
  show ?thesis
  proof (elim exE, goal_cases)
    case (1 ms)
    then show ?case unfolding differs_def by (intro allI impI exI [of _ ms]) (auto simp: p ne)
  qed
qed

subsection \<open>What each command contributes\<close>

text \<open>The commands without a message, the ones that the harness says something for, and the ones it changes.\<close>

definition silent :: "TPMCommand result \<Rightarrow> bool" where
  "silent m \<longleftrightarrow> (\<forall>c. m = Inr c \<longrightarrow> cmd_self c = Plain)"

definition says :: "tss \<Rightarrow> pb_runtime \<Rightarrow> TPMCommand result \<Rightarrow> bool" where
  "says mu rt m \<longleftrightarrow> (\<forall>c. m = Inr c \<longrightarrow> (\<exists>ob. said mu rt c ob))"

definition changes :: "tss \<Rightarrow> pb_runtime \<Rightarrow> TPMCommand result \<Rightarrow> bool" where
  "changes mu rt m \<longleftrightarrow> (\<forall>c. m = Inr c \<longrightarrow> \<not> replays mu rt c)"

lemma silent_commands:
  "silent (TPMStirRandom d)" "silent (TPMHash d a h)" "silent TPMGetTestResult" "silent (TPMSelfTest y)"
  "silent TPMReadClock" "silent (TPMVendorTCGTest d)" "silent (TPMUnseal uh s)" "silent (TPMIncrementalSelfTest as)"
  "silent (TPMGetCapability cap pv pc)" "silent (TPMECCParameters cu)" "silent (TPMLoadExternal al kb hi bad)"
  "silent (TPMSign kh dg sc tk s)" "silent (TPMPCRExtend rh dl s)" "silent (TPMPCRReset ph s)"
  "silent (TPMTestParms tp)" "silent (TPMNVSetBits ix bits rh sn)" "silent (TPMNVWriteLock ix rh sn)"
  "silent (TPMNVWrite ht d off ao s)" "silent (TPMNVReadLock ix rh sn)" "silent (TPMNVRead ix sz off rh sn)"
  "silent (TPMNVExtend ix d ao s)" "silent (TPMNVUndefineSpace ix hi sn)"
  by (auto simp: silent_def result_simps TPMStirRandom_def TPMHash_def TPMGetTestResult_def TPMSelfTest_def
      TPMReadClock_def TPMVendorTCGTest_def TPMUnseal_def TPMIncrementalSelfTest_def TPMGetCapability_def
      TPMECCParameters_def TPMLoadExternal_def TPMSign_def TPMPCRExtend_def TPMPCRReset_def TPMTestParms_def
      TPMNVSetBits_def TPMNVWriteLock_def TPMNVWrite_def TPMNVReadLock_def TPMNVRead_def TPMNVExtend_def
      TPMNVUndefineSpace_def Let_def)

lemma says_replayed:
  assumes "makes rt code m" "agrees mu rt m" "code \<noteq> TPM_CC_START_AUTH_SESSION"
  shows "says mu rt m"
  unfolding says_def
proof (intro allI impI)
  fix c
  assume "m = Inr c"
  with assms(1,2) have c: "replays mu rt c" "message_ok (to_proto rt c)" "cmd_cc c = TPM_CC code"
    by (auto simp: makes_def seed_ok_def agrees_def)
  have "TPM_CC code \<noteq> TPM_CC TPM_CC_START_AUTH_SESSION"
    using assms(3) by (cases code) (simp_all add: TPM_CC.simps)
  with c show "\<exists>ob. said mu rt c ob" by (intro replayed_said) simp_all
qed

lemma GetRandom_changed:
  assumes "pb_laws rt" "tss_laws mu" "0 \<le> n" "n < 65536"
  shows "says mu rt (TPMGetRandom n st None)"
    and "st \<noteq> TPM_ST_NO_SESSIONS \<or> n = 0 \<Longrightarrow> changes mu rt (TPMGetRandom n st None)"
proof -
  have l: "length (cmd_params c) < 2 ^ 16" if "TPMGetRandom n st None = Inr c" for c
    using that by (auto simp: TPMGetRandom_def result_simps TPMCommand_init_def)
  show "changes mu rt (TPMGetRandom n st None)" if "st \<noteq> TPM_ST_NO_SESSIONS \<or> n = 0"
    using GetRandom_replay [OF _ assms(1,2) l] that by (auto simp: changes_def)
  show "says mu rt (TPMGetRandom n st None)"
    unfolding says_def
  proof (intro allI impI)
    fix c
    assume c: "TPMGetRandom n st None = Inr c"
    from GetRandom_replay [OF c assms(1,2) l [OF c]] obtain key m where km: "to_proto rt c = Inr (Some (key, m))"
      "harness_command mu (key, m) = Some (be_bytes 2 (TPM_ST TPM_ST_NO_SESSIONS) @ be_bytes 4 12 @
        be_bytes 4 (TPM_CC TPM_CC_GET_RANDOM) @ be_bytes 2 (if n = 0 then 1 else n))" by auto
    have "message_ok (to_proto rt c)"
      using makes_GetRandom [OF assms(1,3,4), of st] c by (simp add: makes_def seed_ok_def)
    moreover have "harmless (be_bytes 2 (TPM_ST TPM_ST_NO_SESSIONS) @ be_bytes 4 12 @
        be_bytes 4 (TPM_CC TPM_CC_GET_RANDOM) @ be_bytes 2 (if n = 0 then 1 else n))"
      by (rule harmless_header [OF refl]) simp
    ultimately show "\<exists>ob. said mu rt c ob" using km by (auto simp: said_def)
  qed
qed

text \<open>\<open>TPMCreate\<close>: whatever the template, the message has no session where the command has one.\<close>

lemma emits_create_start:
  assumes "tss_laws mu" "0 \<le> h" "h < 4294967296"
  shows "emits (marshal_fields mu (create_msg hm h s pubm) [(''parent_handle'', T_uint32), (''sessions'', T_rep PB_TPMSession)])
    (be_bytes 4 h @ be_bytes 4 0 @ [])"
proof (intro emits_fields)
  show "emits (MarshalCommandField mu (create_msg hm h s pubm) (''parent_handle'', T_uint32)) (be_bytes 4 h)"
    by (rule emits_u32_field [OF assms(1)]) (use assms(2,3) in \<open>simp_all add: create_msg_def field_reads\<close>)
  show "emits (MarshalCommandField mu (create_msg hm h s pubm) (''sessions'', T_rep PB_TPMSession)) (be_bytes 4 0)"
    unfolding command_field_simps
    by (rule emits_no_session [OF assms(1)]) (simp add: create_msg_def object_tail_def field_reads)
qed

lemma session_not_empty: "one_session s @ r' \<noteq> be_bytes 4 0 @ r"
proof
  assume "one_session s @ r' = be_bytes 4 0 @ r"
  then have "be_bytes 4 9 = be_bytes 4 0" by (simp add: one_session_def)
  then show False by (simp add: be_bytes_cancel del: be_bytes.simps)
qed

text \<open>A \<open>TPMCreate\<close> command from its tag to its authorization area.\<close>

definition create_start :: "int \<Rightarrow> int \<Rightarrow> bytes \<Rightarrow> bytes" where
  "create_start n h auth =
     be_bytes 2 (TPM_ST TPM_ST_SESSIONS) @ be_bytes 4 n @ be_bytes 4 (TPM_CC TPM_CC_CREATE) @ be_bytes 4 h @ auth"

lemma create_start_session: "create_start n h (one_session s @ r) \<noteq> create_start n' h (be_bytes 4 0 @ r')"
  using session_not_empty [of s r r'] by (simp add: create_start_def del: be_bytes.simps)

lemma Create_starts:
  assumes "TPMCreate h s alg kt kb oa rsa kh d = Inr c" "pb_laws rt" "tss_laws mu" "0 < h" "h < 4294967296"
  obtains km b rest where "to_proto rt c = Inr (Some km)" "command_bytes c = Inr b"
    "b = create_start (int (length b)) h (one_session (rs_to_int s) @ rest)" "\<exists>ob. said mu rt c ob"
    "\<forall>b'. harness_command mu km = Some b' \<longrightarrow> (\<exists>n rest'. b' = create_start n h (be_bytes 4 0 @ rest'))"
proof -
  let ?t = "create_template alg kt kb oa rsa kh" and ?s = "SENSITIVE_CREATE_default\<lparr>sens_data := d\<rparr>"
    and ?fs = "[(''parent_handle'', T_uint32), (''sessions'', T_rep PB_TPMSession)]"
  from TPMCreate_made [OF assms(1)] obtain i j where i: "length i < 65536"
    and j: "PUBLIC_to_bytes (public_area ?t) = Inr j" "length j < 65536"
    and c: "c = TPMCommand_init (TPM_ST TPM_ST_SESSIONS) (TPM_CC TPM_CC_CREATE)
      (object_params h (rs_to_int s) i j) IsCreate" by metis
  have enc: "TPM2B_PUBLIC_to_bytes ?t = Inr (sized j)" using j by (simp add: TPM2B_PUBLIC_layout sized_def)
  obtain pubm where pubm: "proto_public rt (sized j) = Inr pubm" "msg_class pubm = PB_TPM2BPublic"
    by (rule proto_public_serialised [OF assms(2) enc])
  define m where "m = create_msg (header_msg c) h ?s pubm"
  have msg: "to_proto rt c = Inr (Some (''create'', m))"
    using TPMCreate_decodes [OF assms(1,2) enc pubm] by (simp add: m_def create_msg_def object_fields_def object_tail_def)
  have h: "h \<noteq> 0" "0 \<le> h" using assms(4) by simp_all
  note post = post_create_msg [OF h(1), of "header_msg c" ?s pubm, folded m_def]
  have schema: "pb_schema PB_TPMCreate = (''header'', T_msg PB_TPMHeader) # ?fs @ drop 3 (pb_schema PB_TPMCreate)"
    by (simp add: fields_TPMCreate_def)
  have l: "length (cmd_params c) < 65536 * 4" "length (object_params h (rs_to_int s) i j) + 10 \<le> kMaxBuffer"
    using i j(2) by (simp_all add: c TPMCommand_init_def object_params_length kMaxBuffer_def)
  note cb = command_bytes_init [OF l(2), of TPM_ST_SESSIONS TPM_CC_CREATE IsCreate, folded c]
  let ?B = "create_start (10 + int (length (object_params h (rs_to_int s) i j))) h
      (one_session (rs_to_int s) @ sized i @ sized j @ sized [] @ be_bytes 4 0 @ [])"
  have "message_ok (to_proto rt c)" by (simp add: msg m_def create_msg_def)
  then have "\<exists>ob. said mu rt c ob"
    by (rule headed_said [OF assms(3) msg _ post [unfolded create_msg_def] _ l(1)]) (simp_all add: fields_TPMCreate_def)
  moreover have "\<exists>n rest'. b' = create_start n h (be_bytes 4 0 @ rest')"
    if "harness_command mu (''create'', m) = Some b'" for b'
    using headed_bytes [OF assms(3) post [unfolded create_msg_def] refl schema
        emits_create_start [OF assms(3) h(2) assms(5), unfolded create_msg_def] _ l(1) that]
    by (simp add: create_start_def kMaxBuffer_def del: be_bytes.simps)
  moreover have "?B = create_start (int (length ?B)) h (one_session (rs_to_int s) @ sized i @ sized j @ sized [] @ be_bytes 4 0 @ [])"
    by (simp add: create_start_def object_params_sized)
  moreover have "command_bytes c = Inr ?B"
    using cb by (simp add: create_start_def object_params_sized del: be_bytes.simps)
  ultimately show thesis by (intro that [OF msg] allI impI)
qed

lemma Create_changed:
  assumes "TPMCreate h s alg kt kb oa rsa kh d = Inr c" "pb_laws rt" "tss_laws mu" "0 < h" "h < 4294967296"
  shows "\<exists>ob. said mu rt c ob" "\<not> replays mu rt c"
proof -
  obtain km b rest where msg: "to_proto rt c = Inr (Some km)" "command_bytes c = Inr b"
    and b: "b = create_start (int (length b)) h (one_session (rs_to_int s) @ rest)" and said: "\<exists>ob. said mu rt c ob"
    and sent: "\<forall>b'. harness_command mu km = Some b' \<longrightarrow> (\<exists>n rest'. b' = create_start n h (be_bytes 4 0 @ rest'))"
    by (rule Create_starts [OF assms])
  show "\<exists>ob. said mu rt c ob" by (rule said)
  show "\<not> replays mu rt c"
  proof
    assume "replays mu rt c"
    then have "harness_command mu km = Some b" using msg by (simp add: replays_def)
    then show False using sent b create_start_session by metis
  qed
qed

text \<open>
  C24: no \<open>TPMCreate\<close> seed is replayed, whatever its template. Its message has no session, and no
  post-processor adds one: whatever the fuzzer marshals from it has an empty authorization area where the
  byte seed has the session. When the public area is replayable, in the sense of C16, and the data
  of the object fits its buffer, the command is sent with everything else as it is in the byte seed, and so is 9 bytes
  shorter; other public areas, such as that of the HMAC key of the table, change as well.
\<close>

theorem create_replay_lacks_session:
  assumes "TPMCreate h s alg kt kb oa rsa kh d = Inr c" "pb_laws rt" "tss_laws mu"
    and h: "0 < h" "h < 2 ^ 32"
  shows "\<not> replays mu rt c \<and>
    (\<exists>km b rest. to_proto rt c = Inr (Some km) \<and> command_bytes c = Inr b \<and>
      b = create_start (int (length b)) h (one_session (rs_to_int s) @ rest) \<and>
      (\<forall>b'. harness_command mu km = Some b' \<longrightarrow> (\<exists>n rest'. b' = create_start n h (be_bytes 4 0 @ rest'))) \<and>
      (replayable_public mu (public_area (create_template alg kt kb oa rsa kh)) \<and>
          length d \<le> buffer_size mu B_SENSITIVE_DATA \<longrightarrow>
        harness_command mu km = Some (create_start (int (length b) - 9) h (be_bytes 4 0 @ rest))))"
proof -
  have h4: "h < 4294967296" using h(2) by simp
  obtain km b rest where msg: "to_proto rt c = Inr (Some km)" "command_bytes c = Inr b"
    and b: "b = create_start (int (length b)) h (one_session (rs_to_int s) @ rest)" and "\<exists>ob. said mu rt c ob"
    and sent: "\<forall>b'. harness_command mu km = Some b' \<longrightarrow> (\<exists>n rest'. b' = create_start n h (be_bytes 4 0 @ rest'))"
    by (rule Create_starts [OF assms(1-3) h(1) h4])
  have exact: "harness_command mu km = Some (create_start (int (length b) - 9) h (be_bytes 4 0 @ rest))"
    if r: "replayable_public mu (public_area (create_template alg kt kb oa rsa kh))" "length d \<le> buffer_size mu B_SENSITIVE_DATA"
  proof -
    from create_sent [OF assms(1-3) h r(2,1)] obtain km' b' rest' where e: "to_proto rt c = Inr (Some km')"
      "command_bytes c = Inr b'" "b' = create_start (int (length b')) h (one_session (rs_to_int s) @ rest')"
      "harness_command mu km' = Some (create_start (int (length b') - 9) h (be_bytes 4 0 @ rest'))"
      unfolding create_start_def append_assoc by blast
    have eq: "km' = km" "b' = b" using msg e(1,2) by simp_all
    have "create_start (int (length b)) h (one_session (rs_to_int s) @ rest') =
        create_start (int (length b)) h (one_session (rs_to_int s) @ rest)"
      by (rule trans [OF e(3) [unfolded eq, symmetric] b])
    then have "rest' = rest" by (simp add: create_start_def)
    then show ?thesis using e(4) eq by simp
  qed
  show ?thesis
    using Create_changed(2) [OF assms(1-3) h(1) h4] msg sent exact
    by (intro conjI exI [of _ km] exI [of _ b] exI [of _ rest]) (simp_all del: be_bytes.simps, rule b)
qed

lemma create_replay_lacks_session_witness:
  "\<exists>c c'. hmac_create = Inr c \<and> \<not> replays plain_tss rt0 c \<and>
    TPMCreate 0x80000000 PW ALG_SHA256 ALG_RSA 2048 None None None [1] = Inr c' \<and>
    (\<exists>km b rest. to_proto rt0 c' = Inr (Some km) \<and> command_bytes c' = Inr b \<and>
      b = create_start (int (length b)) 0x80000000 (one_session (rs_to_int PW) @ rest) \<and>
      harness_command plain_tss km =
        Some (create_start (int (length b) - 9) 0x80000000 (be_bytes 4 0 @ rest)))"
proof -
  have "is_ok hmac_create" "is_ok (TPMCreate 0x80000000 PW ALG_SHA256 ALG_RSA 2048 None None None [1])"
    by code_simp+
  then obtain c c' where c: "hmac_create = Inr c"
    and c': "TPMCreate 0x80000000 PW ALG_SHA256 ALG_RSA 2048 None None None [1] = Inr c'"
    by (auto simp: is_ok_ex)
  have r: "replayable_public plain_tss (public_area (create_template ALG_SHA256 ALG_RSA 2048 None None None))"
    "length [1 :: byte] \<le> buffer_size plain_tss B_SENSITIVE_DATA" by code_simp+
  have h: "(0 :: int) < 0x80000000" "(0x80000000 :: int) < 2 ^ 32" by simp_all
  have "\<not> replays plain_tss rt0 c"
    using create_replay_lacks_session [OF c [unfolded hmac_create_def] plain_runtime_laws plain_tss_laws h] by blast
  moreover obtain km b rest where "to_proto rt0 c' = Inr (Some km)" "command_bytes c' = Inr b"
    "b = create_start (int (length b)) 0x80000000 (one_session (rs_to_int PW) @ rest)"
    "harness_command plain_tss km = Some (create_start (int (length b) - 9) 0x80000000 (be_bytes 4 0 @ rest))"
    using create_replay_lacks_session [OF c' plain_runtime_laws plain_tss_laws h] r by blast
  ultimately show ?thesis using c c' by blast
qed

lemma Load_said:
  assumes "pb_laws rt" "tss_laws mu" "0 < h" "h < 4294967296" "length prb < 65538"
    and "TPM2B_PUBLIC_to_bytes pub = Inr pubb"
  shows "says mu rt (TPMLoad rt h prb pubb PW)"
proof -
  let ?s = "rs_to_int PW" and ?ps = "be_bytes 4 h @ one_session (rs_to_int PW) @ prb @ pubb"
  have h: "h \<noteq> 0" "0 \<le> h" using assms(3) by simp_all
  have l: "length pubb < 65538" by (rule TPM2B_PUBLIC_length [OF assms(6)])
  obtain pubm where pubm: "proto_public rt pubb = Inr pubm" "msg_class pubm = PB_TPM2BPublic"
    by (rule proto_public_serialised [OF assms(1,6)])
  define hm where "hm = header_msg (TPMCommand_init (TPM_ST TPM_ST_SESSIONS) (TPM_CC TPM_CC_LOAD) ?ps Plain)"
  define c where "c = TPMCommand_init (TPM_ST TPM_ST_SESSIONS) (TPM_CC TPM_CC_LOAD) ?ps
      (IsLoad (load_msg hm h ?s prb pubm))"
  have load: "TPMLoad rt h prb pubb PW = Inr c"
    unfolding c_def load_msg_def hm_def
    by (rule TPMLoad_decodes [OF assms(1) h(2) assms(4) pw_range assms(5) l pubm refl])
  have "header_msg c = hm" by (simp add: hm_def c_def header_msg_def command_size_def) (simp add: TPMCommand_init_def)
  define m where "m = load_msg (header_msg c) h ?s prb pubm"
  have msg: "to_proto rt c = Inr (Some (''load'', m))" using \<open>header_msg c = hm\<close> by (simp add: m_def c_def to_proto_def)
  then have "message_ok (to_proto rt c)" by (simp add: m_def load_msg_def)
  then have "\<exists>ob. said mu rt c ob"
    by (rule headed_said [OF assms(2) msg _ post_load_msg [OF h(1), where hm = "header_msg c" and s = ?s and
            prb = prb and pubm = pubm, folded m_def, unfolded load_msg_def]])
      (use assms(5) l in \<open>simp_all add: fields_TPMLoad_def c_def\<close>)
  with load show ?thesis by (simp add: says_def)
qed

lemma SetPrimaryPolicy_changed:
  assumes "pb_laws rt" "tss_laws mu" "length p < 65536" "length p \<noteq> 32"
  shows "says mu rt (TPMSetPrimaryPolicy rt (RhEnum r) p (AlgEnum ALG_SHA256) PW)"
    "changes mu rt (TPMSetPrimaryPolicy rt (RhEnum r) p (AlgEnum ALG_SHA256) PW)"
proof -
  let ?h = "rh_to_int (RhEnum r)" and ?a = "alg_to_int (AlgEnum ALG_SHA256)"
  have r: "?h < 2 ^ 31" "?h \<noteq> 0" by (cases r; simp)+
  show "changes mu rt (TPMSetPrimaryPolicy rt (RhEnum r) p (AlgEnum ALG_SHA256) PW)"
    unfolding changes_def using SetPrimaryPolicy_changes [OF _ assms(1,2) r assms(4)] by blast
  have "\<exists>ob. said mu rt c ob" if c: "TPMSetPrimaryPolicy rt (RhEnum r) p (AlgEnum ALG_SHA256) PW = Inr c" for c
  proof -
    obtain x where x: "c = TPMCommand_init (TPM_ST TPM_ST_SESSIONS) (TPM_CC TPM_CC_SET_PRIMARY_POLICY)
        (be_bytes 4 ?h @ one_session (rs_to_int PW) @ sized p @ be_bytes 2 ?a @ []) x"
      and msg: "to_proto rt c = Inr (Some (''setprimarypolicy'', policy_msg (header_msg c) ?h (rs_to_int PW) p ?a))"
      by (rule SetPrimaryPolicy_made [OF c assms(1) r(1) refl])
    define m where "m = policy_msg (header_msg c) ?h (rs_to_int PW) p ?a"
    note msg' = msg [folded m_def]
    have "message_ok (to_proto rt c)"
      using makes_SetPrimaryPolicy [OF assms(1,3), of r ALG_SHA256] c by (simp add: makes_def seed_ok_def)
    then show ?thesis
      by (rule headed_said [OF assms(2) msg' _ post_policy_short [OF assms(4) r(2), where hm = "header_msg c" and
              s = "rs_to_int PW", folded m_def, unfolded policy_msg_def]])
        (use assms(3) in \<open>simp_all add: fields_TPMSetPrimaryPolicy_def x\<close>)
  qed
  then show "says mu rt (TPMSetPrimaryPolicy rt (RhEnum r) p (AlgEnum ALG_SHA256) PW)" by (simp add: says_def)
qed

subsection \<open>The entries of the table\<close>

text \<open>What is to be shown of a sequence, by its effect; the sequences with effect \<open>Same\<close> are those of \<open>Table_Replay\<close>.\<close>

definition has_effect :: "crypto \<Rightarrow> tss \<Rightarrow> pb_runtime \<Rightarrow> seed_effect \<Rightarrow> TPMCommand list \<Rightarrow> bool" where
  "has_effect cr mu rt e cs \<longleftrightarrow>
     (case e of NoMessage \<Rightarrow> \<exists>c\<in>set cs. cmd_self c = Plain | Same \<Rightarrow> True
      | Differs \<Rightarrow> (\<forall>c\<in>set cs. seed_ok rt c) \<longrightarrow> differs cr mu rt cs)"

definition seq_effect :: "crypto \<Rightarrow> tss \<Rightarrow> pb_runtime \<Rightarrow> seed_effect \<Rightarrow> TPMCommand result list \<Rightarrow> bool" where
  "seq_effect cr mu rt e v \<longleftrightarrow> (\<forall>cs. mapE (\<lambda>c. c) v = Inr cs \<longrightarrow> has_effect cr mu rt e cs)"

definition entry_effect ::
  "crypto \<Rightarrow> tss \<Rightarrow> pb_runtime \<Rightarrow> seed_effect list \<Rightarrow> TPMCommand list list result \<Rightarrow> bool" where
  "entry_effect cr mu rt es m \<longleftrightarrow> (\<forall>vs. m = Inr vs \<longrightarrow> list_all2 (has_effect cr mu rt) es vs)"

lemma in_sequence:
  assumes "mapE (\<lambda>c. c) v = Inr cs"
  shows "c \<in> set cs \<longleftrightarrow> Inr c \<in> set v"
  using assms by (induction v arbitrary: cs) (auto simp: result_simps)

lemma seq_effect_Same: "seq_effect cr mu rt Same v"
  by (simp add: seq_effect_def has_effect_def)

lemma seq_effect_NoMessage: "list_ex silent v \<Longrightarrow> seq_effect cr mu rt NoMessage v"
  unfolding seq_effect_def has_effect_def
proof (intro allI impI, unfold seed_effect.case)
  fix cs
  assume "list_ex silent v" "mapE (\<lambda>c. c) v = Inr cs"
  then show "\<exists>c\<in>set cs. cmd_self c = Plain"
    by (induction v arbitrary: cs) (auto simp: silent_def result_simps)
qed

lemma seq_effect_Differs:
  assumes "pb_laws rt" "list_all (says mu rt) v" "list_ex (changes mu rt) v"
  shows "seq_effect cr mu rt Differs v"
  unfolding seq_effect_def has_effect_def
proof (intro allI impI, unfold seed_effect.case, rule impI)
  fix cs
  assume m: "mapE (\<lambda>c. c) v = Inr cs" and ok: "\<forall>c\<in>set cs. seed_ok rt c"
  have "\<forall>c\<in>set cs. \<exists>ob. said mu rt c ob"
    using assms(2) in_sequence [OF m] by (auto simp: list_all_iff says_def)
  moreover have "\<exists>c\<in>set cs. \<not> replays mu rt c"
    using assms(3) m by (induction v arbitrary: cs) (auto simp: changes_def result_simps)
  ultimately show "differs cr mu rt cs" by (intro unreplayed_sequence [OF assms(1) ok])
qed

lemma entry_effect_sequences:
  assumes "list_all2 (seq_effect cr mu rt) es vs"
  shows "entry_effect cr mu rt es (sequences vs)"
  unfolding entry_effect_def sequences_def
proof (intro allI impI)
  fix css
  assume "mapE (mapE (\<lambda>c. c)) vs = Inr css"
  with assms show "list_all2 (has_effect cr mu rt) es css"
    by (induction arbitrary: css rule: list_all2_induct) (auto simp: seq_effect_def result_simps)
qed

lemma entry_effect_bind:
  "(\<And>c. m = Inr c \<Longrightarrow> entry_effect cr mu rt es (f c)) \<Longrightarrow> entry_effect cr mu rt es (bindE m f)"
  by (auto simp: entry_effect_def result_simps)

definition def_effect :: "crypto \<Rightarrow> tss \<Rightarrow> pb_runtime \<Rightarrow> seed_effect list \<Rightarrow> seed_definition result \<Rightarrow> bool" where
  "def_effect cr mu rt es m \<longleftrightarrow> (\<forall>def. m = Inr def \<longrightarrow> entry_effect cr mu rt es (normalize_variants def))"

lemma def_effect_rules:
  "entry_effect cr mu rt es f \<Longrightarrow> def_effect cr mu rt es (calls f)"
  "entry_effect cr mu rt es f \<Longrightarrow> def_effect cr mu rt es (built f)"
  "silent m \<Longrightarrow> def_effect cr mu rt [NoMessage] (command_of m)"
  by (auto simp: def_effect_def calls_def built_def command_of_def entry_effect_def result_simps silent_def has_effect_def)

lemmas seq_rules = seq_effect_Same seq_effect_NoMessage seq_effect_Differs silent_commands

text \<open>The entries without a message seed.\<close>

lemma silent_entries:
  "entry_effect cr mu rt [NoMessage, NoMessage, NoMessage] tpm_hash_seeds"
  "entry_effect cr mu rt [NoMessage, NoMessage] (sequences [[TPMSelfTest YES], [TPMSelfTest NO]])"
  "entry_effect cr mu rt [NoMessage, NoMessage, NoMessage] tpm_incremental_self_test_seeds"
  "entry_effect cr mu rt (replicate 15 NoMessage) tpm_get_capability_seeds"
  "entry_effect cr mu rt [NoMessage, NoMessage] load_external_seeds"
  "entry_effect cr mu rt (replicate 6 NoMessage) sign_seeds"
  "entry_effect cr mu rt [NoMessage, NoMessage, NoMessage] tpm_pcr_extend_seeds"
  "entry_effect cr mu rt [NoMessage, NoMessage] tpm_pcr_reset_seeds"
  "entry_effect cr mu rt [NoMessage, NoMessage] tpm_nv_setbits_seeds"
  "entry_effect cr mu rt [NoMessage, NoMessage, NoMessage] nv_write_lock_seeds"
  "entry_effect cr mu rt [NoMessage] nv_write_seeds"
  "entry_effect cr mu rt [NoMessage, NoMessage, NoMessage] nv_read_lock_seeds"
  "entry_effect cr mu rt [NoMessage, NoMessage, NoMessage] nv_read_seeds"
  "entry_effect cr mu rt [NoMessage, NoMessage, NoMessage] nv_undefine_space_seeds"
  unfolding tpm_hash_seeds_def tpm_incremental_self_test_seeds_def tpm_get_capability_seeds_def
    load_external_seeds_def sign_seeds_def sign_with_def tpm_pcr_extend_seeds_def tpm_pcr_reset_seeds_def
    tpm_nv_setbits_seeds_def nv_write_lock_seeds_def nv_write_seeds_def write_as_owner_def nv_read_lock_seeds_def
    nv_read_seeds_def nv_undefine_space_seeds_def Let_def
  by (rule entry_effect_sequences; simp add: numeral_eq_Suc seq_rules)+

lemma silent_bound_entries:
  "entry_effect cr mu rt [NoMessage, NoMessage, NoMessage] (tpm_unseal_seeds rt)"
  "entry_effect cr mu rt (replicate 5 NoMessage) tpm_nv_extend_seeds"
  unfolding tpm_unseal_seeds_def tpm_nv_extend_seeds_def Let_def
  by (intro entry_effect_bind entry_effect_sequences; simp add: numeral_eq_Suc seq_rules)+

text \<open>The entries with a message seed that is not replayed.\<close>

lemma says_default_primary: "lawful mu rt \<Longrightarrow> says mu rt default_primary"
  by (rule says_replayed [OF makes_default_primary agrees_default_primary]) (simp_all add: lawfulD)

lemma GetRandom_effect:
  assumes "lawful mu rt"
  shows "entry_effect cr mu rt ([Same, Same, Same, Differs, Same] @ replicate 5 Differs) tpm_get_rand_seeds"
proof -
  note r = GetRandom_changed [OF lawfulD [OF assms]]
  show ?thesis
    unfolding tpm_get_rand_seeds_def
    by (rule entry_effect_sequences) (simp add: numeral_eq_Suc seq_effect_Same seq_effect_Differs lawfulD [OF assms] r)
qed

lemma Create_changes:
  assumes "lawful mu rt"
  shows "says mu rt (TPMCreate 0x80000000 s alg kt kb oa rsa kh d)"
    "changes mu rt (TPMCreate 0x80000000 s alg kt kb oa rsa kh d)"
  using Create_changed [OF _ lawfulD [OF assms]] by (simp_all add: says_def changes_def)

lemma Create_effect:
  assumes "lawful mu rt"
  shows "entry_effect cr mu rt (replicate 6 Differs) create_seeds"
  unfolding create_seeds_def
  by (rule entry_effect_sequences)
    (simp add: numeral_eq_Suc seq_effect_Differs lawfulD [OF assms] says_default_primary [OF assms] Create_changes [OF assms])

lemma Load_effect:
  assumes "lawful mu rt"
  shows "entry_effect cr mu rt [Differs, Differs, Same, Same] (tpm_load_seeds rt)"
  unfolding tpm_load_seeds_def
proof (intro entry_effect_bind entry_effect_sequences)
  fix primary
  assume "default_primary = Inr primary"
  then have p: "says mu rt (Inr primary)" using says_default_primary [OF assms] by simp
  have l: "says mu rt (TPMLoad rt 0x80000000 UNSEAL_SEAL_IN_PRIVATE UNSEAL_SEAL_IN_PUBLIC PW)"
    "says mu rt (TPMLoad rt 0x80000000 UNSEAL_HMAC_IN_PRIVATE UNSEAL_HMAC_IN_PUBLIC PW)"
    by (rule Load_said [OF lawfulD [OF assms] _ _ _ seal_area_bytes]; simp)
      (rule Load_said [OF lawfulD [OF assms] _ _ _ hmac_area_bytes]; simp)
  show "list_all2 (seq_effect cr mu rt) [Differs, Differs, Same, Same]
     [[Inr primary, sealed_create, TPMLoad rt 0x80000000 UNSEAL_SEAL_IN_PRIVATE UNSEAL_SEAL_IN_PUBLIC PW],
      [Inr primary, hmac_create, TPMLoad rt 0x80000000 UNSEAL_HMAC_IN_PRIVATE UNSEAL_HMAC_IN_PUBLIC PW],
      [Inr primary, bindE (PRIVATE_to_bytes \<lparr>private_buffer = []\<rparr>) (\<lambda>empty.
         TPMLoad rt 0x80000000 empty UNSEAL_SEAL_IN_PUBLIC PW)],
      [Inr primary, TPMLoad rt 0x80000000 corrupted_private UNSEAL_SEAL_IN_PUBLIC PW]]"
    by (simp add: seq_effect_Same seq_effect_Differs lawfulD [OF assms] p l sealed_create_def hmac_create_def
        Create_changes [OF assms])
qed

lemma SetPrimaryPolicy_effect:
  assumes "lawful mu rt"
  shows "entry_effect cr mu rt [Same, Same, Same, Same, Same, Differs] (set_primary_policy_seeds rt)"
  unfolding set_primary_policy_seeds_def
  by (rule entry_effect_sequences)
    (simp add: seq_effect_Same seq_effect_Differs lawfulD [OF assms] SetPrimaryPolicy_changed [OF lawfulD [OF assms]])

text \<open>The two sequences that use the session they start.\<close>

lemma seq_effect_session:
  assumes "lawful mu rt" "crypto_laws cr" "agrees mu rt m" "code \<noteq> TPM_CC_START_AUTH_SESSION"
    and use: "\<And>c. m = Inr c \<Longrightarrow> cmd_cc c = TPM_CC code \<and> (\<exists>params. uses_session c [nat (TPM_RH_value RH_OWNER)] 0x2000000 params)"
    and "LookupCommandAttr (nat (TPM_CC code)) = Some (1, aut, out)"
  shows "seq_effect cr mu rt Differs [hmac_session, m]"
  unfolding seq_effect_def has_effect_def
proof (intro allI impI, unfold seed_effect.case, rule impI)
  fix cs
  assume "mapE (\<lambda>c. c) [hmac_session, m] = Inr cs" and ok: "\<forall>c\<in>set cs. seed_ok rt c"
  then obtain c1 c2 where c: "hmac_session = Inr c1" "m = Inr c2" "cs = [c1, c2]" by (auto simp: result_simps)
  with ok have s: "seed_ok rt c1" "seed_ok rt c2" by simp_all
  have r: "replays mu rt c1" "replays mu rt c2"
    using agrees_hmac_session [OF assms(1)] assms(3) c(1,2) by (simp_all add: agrees_def)
  from use [OF c(2)] obtain params where u: "cmd_cc c2 = TPM_CC code"
    "uses_session c2 [nat (TPM_RH_value RH_OWNER)] 0x2000000 params" by blast
  have cc: "cmd_cc c2 \<noteq> TPM_CC TPM_CC_START_AUTH_SESSION"
    using assms(4) u(1) by (cases code) (simp_all add: TPM_CC.simps)
  have n: "\<forall>x\<in>set [nat (TPM_RH_value RH_OWNER)]. x < 2 ^ 32 \<and> known_name x [] \<noteq> []"
    by (simp add: known_name_def HandleName_def array_copy_def kMaxNameSize_def)
  have "LookupCommandAttr (nat (cmd_cc c2)) = Some (length [nat (TPM_RH_value RH_OWNER)], aut, out)"
    using assms(6) u(1) by simp
  from session_sequence [OF lawfulD [OF assms(1)] assms(2) c(1) s(1) r(1) s(2) r(2) cc u(2) this n]
  show "differs cr mu rt cs" by (simp add: c(3))
qed

lemma StartAuthSession_effect:
  assumes "lawful mu rt" "crypto_laws cr"
  shows "entry_effect cr mu rt [Same, Differs] start_auth_session_seeds"
proof -
  let ?m = "TPMCreatePrimary (RsInt (int 0x2000000)) ALG_SHA256 2048 (RhEnum RH_OWNER) None"
  have agree: "agrees mu rt ?m"
    using CreatePrimary_replays [OF _ lawfulD [OF assms(1)]] primary_replayable [OF assms(1)] by (auto simp: agrees_def)
  have "cmd_cc c = TPM_CC TPM_CC_CREATE_PRIMARY \<and> (\<exists>params. uses_session c [nat (TPM_RH_value RH_OWNER)] 0x2000000 params)"
    if "?m = Inr c" for c by (rule primary_uses_session [OF that]) blast
  then have "seq_effect cr mu rt Differs [hmac_session, ?m]"
    by (rule seq_effect_session [OF assms agree, where code = TPM_CC_CREATE_PRIMARY and aut = 1 and out = 1, rotated])
      (simp_all add: LookupCommandAttr_def command_attrs_def TPM_CC.simps)
  then show ?thesis
    unfolding start_auth_session_seeds_def
    by (intro entry_effect_sequences) (simp add: seq_effect_Same TPM_FIRST_HMAC_SESSION_HANDLE_def)
qed

lemma NVDefineSpace_effect:
  assumes "lawful mu rt" "crypto_laws cr"
  shows "entry_effect cr mu rt [Same, Differs] tpm_nv_definespace_seeds"
proof -
  let ?m = "TPMNVDefineSpace nv_index_default (NvList [NV_OWNERWRITE, NV_OWNERREAD, NV_NO_DA]) (int 0x2000000) RH_OWNER 32"
  have "cmd_cc c = TPM_CC TPM_CC_NV_DEFINE_SPACE \<and> (\<exists>params. uses_session c [nat (TPM_RH_value RH_OWNER)] 0x2000000 params)"
    if "?m = Inr c" for c by (rule nv_uses_session [OF that]) blast
  then have "seq_effect cr mu rt Differs [hmac_session, ?m]"
    by (rule seq_effect_session [OF assms agrees_NVDefineSpace [OF assms(1)],
          where code = TPM_CC_NV_DEFINE_SPACE and aut = 1 and out = 0, rotated])
      (simp_all add: LookupCommandAttr_def command_attrs_def TPM_CC.simps)
  then show ?thesis
    unfolding tpm_nv_definespace_seeds_def
    by (intro entry_effect_sequences) (simp add: seq_effect_Same TPM_FIRST_HMAC_SESSION_HANDLE_def)
qed

subsection \<open>The table\<close>

text \<open>The effect of every variant of every entry, in the order of the table and of the file names.\<close>

definition seed_effects :: "(string \<times> seed_effect list) list" where
  "seed_effects =
     [(''TPMGetRandom'', [Same, Same, Same, Differs, Same] @ replicate 5 Differs),
      (''TPMStirRandom'', [NoMessage]), (''TPMHash'', [NoMessage, NoMessage, NoMessage]),
      (''TPMGetTestResult'', [NoMessage]), (''TPMSelfTest'', [NoMessage, NoMessage]),
      (''TPMReadClock'', [NoMessage]), (''TPMVendorTCGTest'', [NoMessage]),
      (''TPMUnseal'', [NoMessage, NoMessage, NoMessage]),
      (''TPMLoad'', [Differs, Differs, Same, Same]), (''TPMCreate'', replicate 6 Differs),
      (''TPMCreatePrimary'', [Same, Same, Same]), (''TPMStartAuthSessionHMAC'', [Same, Differs]),
      (''TPMRSADecrypt'', [Same, Same, Same]), (''TPMRSAEncrypt'', [Same, Same, Same, Same]),
      (''TPMMakeCredential'', [Same, Same, Same]),
      (''TPMIncrementalSelfTest'', [NoMessage, NoMessage, NoMessage]),
      (''TPMGetCapability'', replicate 15 NoMessage), (''TPMECCParameters'', [NoMessage]),
      (''TPMLoadExternal'', [NoMessage, NoMessage]), (''TPMSign'', replicate 6 NoMessage),
      (''TPMPCRAllocate'', [Same, Same, Same]), (''TPMPCRRead'', [Same, Same]),
      (''TPMPCRExtend'', [NoMessage, NoMessage, NoMessage]), (''TPMPCRReset'', [NoMessage, NoMessage]),
      (''TPMPCRSetAuthPolicy'', replicate 7 Same), (''TPMTestParms'', [NoMessage]),
      (''TPMNVDefineSpace'', [Same, Differs]), (''TPMNVSetBits'', [NoMessage, NoMessage]),
      (''TPMClear'', [Same, Same]), (''TPMSetPrimaryPolicy'', [Same, Same, Same, Same, Same, Differs]),
      (''TPMNVWriteLock'', [NoMessage, NoMessage, NoMessage]), (''TPMNVWrite'', [NoMessage]),
      (''TPMNVReadLock'', [NoMessage, NoMessage, NoMessage]),
      (''TPMNVRead'', [NoMessage, NoMessage, NoMessage]), (''TPMNVExtend'', replicate 5 NoMessage),
      (''TPMNVUndefineSpace'', [NoMessage, NoMessage, NoMessage]), (''TPMPCREvent'', replicate 4 Same)]"

lemma seed_effects_cover:
  "list_all2 (\<lambda>(name, es) (cmd, ccs). name = cmd \<and> length es = length ccs) seed_effects test_case_codes"
  by code_simp

lemma seed_effects_replayed:
  "replayed_variants = map (\<lambda>(cmd, es). (cmd, filter (\<lambda>i. es ! i = Same) [0..<length es])) seed_effects"
  by code_simp

text \<open>The entries of which every variant has the same effect.\<close>

lemma same_entries:
  "entry_effect cr mu rt [Same, Same, Same] create_primary_seeds"
  "entry_effect cr mu rt [Same, Same, Same] tpm_pcr_allocate_seeds"
  "entry_effect cr mu rt [Same, Same] (tpm_pcr_read_seeds rt)"
  "entry_effect cr mu rt (replicate 7 Same) (tpm_pcr_setauthpolicy_seeds rt)"
  "entry_effect cr mu rt [Same, Same] clear_seeds"
  "entry_effect cr mu rt (replicate 4 Same) (pcr_event_seeds rt)"
  unfolding create_primary_seeds_def tpm_pcr_allocate_seeds_def tpm_pcr_read_seeds_def
    tpm_pcr_setauthpolicy_seeds_def clear_seeds_def pcr_event_seeds_def Let_def
  by (rule entry_effect_sequences; simp add: numeral_eq_Suc seq_effect_Same)+

lemma same_bound_entries:
  "entry_effect cr mu rt [Same, Same, Same] tpm_rsa_decrypt_seeds"
  "entry_effect cr mu rt [Same, Same, Same, Same] tpm_rsa_encrypt_seeds"
  "entry_effect cr mu rt [Same, Same, Same] tpm_make_credential_seeds"
  unfolding tpm_rsa_decrypt_seeds_def tpm_rsa_encrypt_seeds_def tpm_make_credential_seeds_def Let_def
  by (intro entry_effect_bind entry_effect_sequences; simp add: seq_effect_Same)+

lemmas entry_effects = silent_entries silent_bound_entries same_entries same_bound_entries GetRandom_effect
  Create_effect Load_effect SetPrimaryPolicy_effect StartAuthSession_effect NVDefineSpace_effect

lemma test_case_entries_effect:
  assumes "lawful mu rt" "crypto_laws cr"
  shows "list_all2 (\<lambda>(name, es) (cmd, m). name = cmd \<and> def_effect cr mu rt es m) seed_effects (test_case_entries rt)"
  unfolding seed_effects_def test_case_entries_def
  by (simp add: def_effect_rules entry_effects silent_commands assms del: replicate.simps append.simps)

lemma TEST_CASES_effect:
  assumes "lawful mu rt" "crypto_laws cr" "TEST_CASES rt = Inr seeds"
  shows "list_all2 (\<lambda>(name, es) (cmd, def). name = cmd \<and> entry_effect cr mu rt es (normalize_variants def))
    seed_effects seeds"
proof -
  have "list_all2 (\<lambda>(name, es) (cmd, m). name = cmd \<and> def_effect cr mu rt es m) vars entries \<Longrightarrow>
    mapE (\<lambda>(cmd, m). bindE m (\<lambda>def. Inr (cmd, def))) entries = Inr sds \<Longrightarrow>
    list_all2 (\<lambda>(name, es) (cmd, def). name = cmd \<and> entry_effect cr mu rt es (normalize_variants def))
      vars sds" for vars entries sds
    by (induction arbitrary: sds rule: list_all2_induct) (auto simp: def_effect_def result_simps)
  from this [OF test_case_entries_effect [OF assms(1,2)]] assms(3) show ?thesis by (simp add: TEST_CASES_def)
qed

text \<open>An entry of the table, built: its variants are good commands and each has its effect.\<close>

lemma classified_entry:
  assumes "lawful mu rt" "crypto_laws cr" "(cmd, es) \<in> set seed_effects"
  obtains seeds def vs where "TEST_CASES rt = Inr seeds" "map fst seeds = map fst seed_effects"
    "(cmd, def) \<in> set seeds" "normalize_variants def = Inr vs" "list_all2 (has_effect cr mu rt) es vs"
    "\<forall>v\<in>set vs. \<forall>c\<in>set v. seed_ok rt c"
proof -
  obtain seeds where seeds: "TEST_CASES rt = Inr seeds" and makes:
    "list_all2 (\<lambda>(name, ccs) (cmd, def). name = cmd \<and> makes_all rt ccs (normalize_variants def))
       test_case_codes seeds"
    by (rule TEST_CASES_make [OF lawfulD(1) [OF assms(1)]])
  note effect = TEST_CASES_effect [OF assms(1,2) seeds]
  from assms(3) obtain k where k: "k < length seed_effects" "seed_effects ! k = (cmd, es)"
    by (auto simp: in_set_conv_nth)
  obtain def where def: "seeds ! k = (cmd, def)" "entry_effect cr mu rt es (normalize_variants def)"
    using list_all2_nthD [OF effect k(1)] k(2) by (cases "seeds ! k") auto
  have ks: "k < length seeds" "k < length test_case_codes"
    using k(1) list_all2_lengthD [OF effect] list_all2_lengthD [OF makes] by simp_all
  from list_all2_nthD [OF makes ks(2)] def(1) obtain ccs where "makes_all rt ccs (normalize_variants def)"
    by (cases "test_case_codes ! k") auto
  then obtain vs where vs: "normalize_variants def = Inr vs" "\<forall>v\<in>set vs. \<forall>c\<in>set v. seed_ok rt c"
    by (auto simp: makes_all_def)
  have "map fst seeds = map fst seed_effects"
    by (rule nth_equalityI) (use effect in \<open>auto simp: list_all2_conv_all_nth split_beta\<close>)
  moreover have "(cmd, def) \<in> set seeds" using def(1) ks(1) by (metis nth_mem)
  ultimately show thesis using that seeds vs def(2) by (auto simp: entry_effect_def)
qed

lemma no_message_text:
  assumes "pb_laws rt" "\<forall>c\<in>set cs. seed_ok rt c" "has_effect cr mu rt NoMessage cs"
  shows "serialize_proto_sequence rt cs = Inr None"
proof -
  from assms(3) obtain c where "c \<in> set cs" "to_proto rt c = Inr None"
    by (auto simp: has_effect_def to_proto_def)
  with good_sequence_text [OF assms(1,2)] show ?thesis by auto
qed

lemma same_variant:
  assumes "lawful mu rt" "(cmd, es) \<in> set seed_effects" "i < length es" "es ! i = Same"
    and "TEST_CASES rt = Inr seeds" "map fst seeds = map fst seed_effects" "(cmd, def) \<in> set seeds"
    and "normalize_variants def = Inr vs"
  shows "same_on_both mu rt (vs ! i)"
proof -
  have "(cmd, filter (\<lambda>i. es ! i = Same) [0..<length es]) \<in> set replayed_variants"
    unfolding seed_effects_replayed using assms(2) by force
  moreover have "i \<in> set (filter (\<lambda>i. es ! i = Same) [0..<length es])" using assms(3,4) by simp
  ultimately obtain seeds' def' vs' data where "TEST_CASES rt = Inr seeds'" "(cmd, def') \<in> set seeds'"
    "normalize_variants def' = Inr vs'" and same: "same_on_both mu rt (vs' ! i)"
    by (rule table_variant_agrees [OF assms(1)])
  then have d: "(cmd, def') \<in> set seeds" "normalize_variants def' = Inr vs'" using assms(5) by simp_all
  have "distinct (map fst seed_effects)" by code_simp
  then have "def' = def" using assms(6,7) d(1) by (metis eq_key_imp_eq_value)
  with d(2) assms(8) same show ?thesis by simp
qed

lemma same_effect:
  assumes "pb_laws rt" "serialize_sequence cs = Inr data" "same_on_both mu rt cs"
  shows "\<exists>ms. serialize_proto_sequence rt cs =
      Inr (Some (utf8_encode (pb_text rt (Msg PB_TPMCommandSequence [(''commands'', PbList ms)])))) \<and>
    (\<forall>p t. proto_fuzzer cr mu p (Msg PB_TPMCommandSequence [(''commands'', PbList (map postprocessed ms))]) t =
       Some (snd (LLVMFuzzerTestOneInput p data t)) \<and> fst (LLVMFuzzerTestOneInput p data t) = 0)"
proof -
  note agree = seeds_agree [OF assms, where cr = cr]
  from agree [of logging_platform "[]"] obtain ms where ms: "proto_commands_loop rt cs = Inr (Some ms)"
    "serialize_proto_sequence rt cs =
      Inr (Some (utf8_encode (pb_text rt (Msg PB_TPMCommandSequence [(''commands'', PbList ms)]))))" by blast
  have "proto_fuzzer cr mu p (Msg PB_TPMCommandSequence [(''commands'', PbList (map postprocessed ms))]) t =
      Some (snd (LLVMFuzzerTestOneInput p data t)) \<and> fst (LLVMFuzzerTestOneInput p data t) = 0" for p t
    using agree [of p t] ms(1) by auto
  with ms(2) show ?thesis by blast
qed

text \<open>
  C3: what every seed of the table does. The table builds, the effects listed in \<open>seed_effects\<close> name
  each of its entries and variants, and each variant serialises to a byte seed. For the
  variants marked \<open>NoMessage\<close> no message seed is written. For those marked \<open>Same\<close> one is, and the two
  files leave every TPM in the same state. For those marked \<open>Differs\<close> one is written too, but a TPM
  that starts sessions and logs its commands sees other commands from it than from the byte seed:
  \<open>TPMCreate\<close> loses its session, \<open>TPMGetRandom\<close> its tag or its size of zero, a policy is replaced
  by zeros, and a command that uses the started session is authorised. All of it holds for every
  marshalling library with the sizes of tpm2-tss.
\<close>

theorem table_seeds_classified:
  assumes "pb_laws rt" "tss_laws mu" "tss_room mu" "crypto_laws cr" "(cmd, es) \<in> set seed_effects" "i < length es"
  shows "\<exists>seeds def vs data. TEST_CASES rt = Inr seeds \<and> map fst seeds = map fst seed_effects \<and>
    (cmd, def) \<in> set seeds \<and> normalize_variants def = Inr vs \<and> length vs = length es \<and>
    serialize_sequence (vs ! i) = Inr data \<and>
    (case es ! i of
       NoMessage \<Rightarrow> serialize_proto_sequence rt (vs ! i) = Inr None
     | Same \<Rightarrow> \<exists>ms. serialize_proto_sequence rt (vs ! i) =
           Inr (Some (utf8_encode (pb_text rt (Msg PB_TPMCommandSequence [(''commands'', PbList ms)])))) \<and>
         (\<forall>p t. proto_fuzzer cr mu p (Msg PB_TPMCommandSequence [(''commands'', PbList (map postprocessed ms))]) t =
            Some (snd (LLVMFuzzerTestOneInput p data t)) \<and> fst (LLVMFuzzerTestOneInput p data t) = 0)
     | Differs \<Rightarrow> \<exists>ms. serialize_proto_sequence rt (vs ! i) =
           Inr (Some (utf8_encode (pb_text rt (Msg PB_TPMCommandSequence [(''commands'', PbList ms)])))) \<and>
         proto_fuzzer cr mu starting_platform
             (Msg PB_TPMCommandSequence [(''commands'', PbList (map postprocessed ms))]) [] \<noteq>
           Some (snd (LLVMFuzzerTestOneInput starting_platform data [])))"
proof -
  have lawful: "lawful mu rt" using assms(1-3) by (simp add: lawful_def)
  obtain seeds def vs where s: "TEST_CASES rt = Inr seeds" "map fst seeds = map fst seed_effects"
    "(cmd, def) \<in> set seeds" "normalize_variants def = Inr vs" and e: "list_all2 (has_effect cr mu rt) es vs"
    and good: "\<forall>v\<in>set vs. \<forall>c\<in>set v. seed_ok rt c"
    by (rule classified_entry [OF lawful assms(4,5)])
  have l: "length vs = length es" using list_all2_lengthD [OF e] by simp
  have ok: "\<forall>c\<in>set (vs ! i). seed_ok rt c" using good nth_mem [of i vs] assms(6) l by metis
  obtain data where data: "serialize_sequence (vs ! i) = Inr data"
    using good_sequence_serialises [OF ok] by (auto simp: is_ok_ex)
  have eff: "has_effect cr mu rt (es ! i) (vs ! i)" by (rule list_all2_nthD [OF e assms(6)])
  show ?thesis
  proof (intro exI conjI, rule s(1), rule s(2), rule s(3), rule s(4), rule l, rule data, cases "es ! i", goal_cases)
    case 1
    then show ?case using no_message_text [OF assms(1) ok] eff by simp
  next
    case 2
    then show ?case using same_effect [OF assms(1) data same_variant [OF lawful assms(5,6) _ s]] by simp
  next
    case 3
    then show ?case using eff ok data by (simp add: has_effect_def differs_def)
  qed
qed

lemma table_seeds_classified_witness:
  "\<exists>seeds def vs data ms. TEST_CASES rt0 = Inr seeds \<and> (''TPMLoad'', def) \<in> set seeds \<and>
    normalize_variants def = Inr vs \<and> length vs = 4 \<and> serialize_sequence (vs ! 0) = Inr data \<and>
    serialize_proto_sequence rt0 (vs ! 0) =
      Inr (Some (utf8_encode (pb_text rt0 (Msg PB_TPMCommandSequence [(''commands'', PbList ms)])))) \<and>
    proto_fuzzer plain_crypto plain_tss starting_platform
        (Msg PB_TPMCommandSequence [(''commands'', PbList (map postprocessed ms))]) [] \<noteq>
      Some (snd (LLVMFuzzerTestOneInput starting_platform data []))"
proof -
  have room: "tss_room plain_tss" by (simp add: tss_room_def plain_tss_def)
  have "(''TPMLoad'', [Differs, Differs, Same, Same]) \<in> set seed_effects" unfolding seed_effects_def by simp
  from table_seeds_classified [where rt = rt0 and cr = plain_crypto, OF plain_runtime_laws plain_tss_laws room plain_crypto_laws this, of 0]
  show ?thesis
    by (simp add: eval_nat_numeral del: postprocessed.simps) (elim exE conjE, (intro exI conjI; assumption))
qed

end
