(* ===== verification/Spec2Isabelle.thy ===== *)
theory Spec2Isabelle
  imports Command_Line Table_Effects
begin

text \<open>
  Verification library of the seed generator of the TPM 2.0 fuzzer (\<open>tools/seed-generation\<close>).

  The program. \<open>main.py\<close> holds a table of seeds, \<open>TEST_CASES\<close>. An entry is a command, a list of
  sequences of commands, or a function that returns such a list. \<open>_generate_seeds\<close> walks the
  table and writes, for every sequence, a byte seed (the concatenated \<open>bytes(command)\<close>) to the
  directory \<open>bytearray\<close> and, when all its commands have a protobuf description, a message seed (the
  text form of a \<open>TPMCommandSequence\<close>) to the directory \<open>proto\<close>. The commands are the classes of
  \<open>tpm2_commands.py\<close>: the constructor serialises the parameters with the structures of
  \<open>tpm2_types.py\<close>, and \<open>to_proto\<close> describes the command, in some classes by parsing the serialised
  parameters again. The fuzzer reads both kinds: it cuts a byte seed into commands with
  \<open>parseCommands\<close> (\<open>src/parser/byte_parser.cc\<close>), and it normalises each message of a message seed
  (\<open>src/harness/proto_postprocessors.cc\<close>, \<open>proto_normalization.cc\<close>) and marshals it into command
  bytes (\<open>src/harness/proto_conversion.cc\<close>). Before a marshalled command is sent, the session layer
  (\<open>src/harness/session_auth.cc\<close>) fills in the nonce and the HMAC of its session, from what it has
  read off earlier commands and responses.

  Common parts.
  \<^item> \<open>Prelude\<close>: Python's exceptions as an error sum with its sequencing (\<open>bindE\<close>, \<open>catE\<close>, \<open>mapE\<close>),
    \<open>int.to_bytes\<close> and \<open>int.from_bytes\<close>, slices and indexing, and \<open>at_cursor\<close>, which says that given
    bytes stand at a given offset.
  \<^item> \<open>Codec\<close>: the contracts of encoder and decoder as locales. \<open>field_codec\<close>: a decoder returns what
    the encoder wrote at the cursor and moves past it. \<open>counted_codec\<close> and \<open>drained_codec\<close> extend it
    to lists that are read by their count, or until the buffer is used up. They are interpreted
    for PCR selections, sessions and sized buffers in \<open>Decoding\<close> and for whole commands in
    \<open>Byte_Parser\<close>.
  \<^item> \<open>Protobuf\<close>: the classes, fields and enum values of the generated modules \<open>*_pb2.py\<close>, and the
    protobuf runtime as a parameter, the record \<open>pb_runtime\<close> with the laws \<open>pb_laws\<close>: a constructor
    keeps arguments of the declared types, \<open>Name\<close> finds the declared name of a value. A property
    that needs them assumes \<open>pb_laws rt\<close>; \<open>plain_runtime\<close> satisfies them.

  The model, by source file.
  \<^item> \<open>tpm2_types.py\<close>: \<open>Tpm_Constants\<close> (enums, attribute masks) and \<open>Tpm_Types\<close> (one record and one
    \<open>..._to_bytes\<close> per dataclass, with the lemma that says when it succeeds and with which bytes).
  \<^item> \<open>tpm2_commands.py\<close>: \<open>Tpm_Command\<close> (the base class: \<open>command_bytes\<close> is \<open>__bytes__\<close>, and the
    decoders \<open>proto_...\<close> are the methods \<open>_proto_...\<close>), \<open>Cmd_Admin\<close>, \<open>Cmd_Object\<close>, \<open>Cmd_Pcr\<close> and
    \<open>Cmd_Nv\<close> (the subclasses: a definition with the class's name is its constructor, with suffix
    \<open>_to_proto\<close> its method), \<open>To_Proto\<close> (the dispatch on the class).
  \<^item> \<open>main.py\<close>: \<open>Seed_Files\<close> (directories as maps from file names to bytes, \<open>create_variant\<close>,
    \<open>run_commands\<close>, \<open>generate_seeds\<close>) and \<open>Seed_Table\<close> (every seed function, \<open>TEST_CASES\<close>, \<open>main\<close>).
    The order of \<open>os.listdir\<close> and the test script are the record \<open>os_env\<close>; \<open>os_laws\<close> says that a
    listing of a finite directory has exactly its files. \<open>Command_Line\<close> has the options as \<open>argparse\<close>
    reads them, the paths of the directories, and \<open>run_program\<close>, the program from its command line
    on a file system (directories by path, each a map from file names to bytes).
  \<^item> \<open>byte_parser.cc\<close>: \<open>Byte_Parser\<close>.
  \<^item> The harness's message side: \<open>Harness_Message\<close> (the accessors protoc generates, on the messages
    of \<open>Protobuf\<close>), \<open>Harness_Normalise\<close> (\<open>post_process\<close>: the registered post-processors and the
    functions \<open>Normalize...\<close>), \<open>Harness_Marshal\<close> (the functions \<open>Marshal...\<close>, and \<open>harness_command\<close>,
    which composes the two). The marshalling functions and the buffer sizes of tpm2-tss are the
    record \<open>tss\<close>; \<open>tss_laws\<close> says that they write the encodings of the TPM 2.0 structures, and
    \<open>plain_tss\<close> satisfies it.
  \<^item> \<open>session_auth.cc\<close> and \<open>command_attributes.h\<close>: \<open>Session_Auth\<close>. The global state is the record
    \<open>session_state\<close>, buffers are byte lists whose length is the capacity, and every access to one is
    checked: \<open>None\<close> is an access outside it. Arrays of a fixed size, those of the Name table and the
    session state included, are the lists of their used parts; \<open>array_copy\<close> and \<open>array_append\<close> check
    each copy and each new entry against the size, \<open>name_find\<close> each index. SHA-256 and HMAC are the record \<open>crypto\<close> with the laws
    \<open>crypto_laws\<close>.
  \<^item> \<open>tpm_wrapper.c\<close>, \<open>fuzzer.cc\<close>, \<open>proto-fuzzer.cc\<close> and \<open>tester.cc\<close>: \<open>Harness_Fuzzer\<close>. The platform
    layer of the TPM is the record \<open>platform\<close> over a type of TPM states; nothing is assumed of it.

  The theorems.
  \<^item> \<open>Decoding\<close>, \<open>Object_Props\<close>, \<open>Session_Props\<close>, \<open>Nv_Pcr_Props\<close>: every decoder on every area that
    an encoder can produce, and from them the message of each command that re-reads its own
    parameters.
  \<^item> \<open>Message_Props\<close>: the properties of structures and commands: round trips, the message says what
    the bytes say, and the three places where it does not (a hash after the RSA scheme, a hash
    after the HMAC scheme, the session of \<open>TPMCreate\<close>); the byte format and its reader.
  \<^item> \<open>Corpus_Props\<close>: the properties of runs over any table. The locale \<open>corpus_relation\<close> lifts a
    relation that each write of a file keeps to the whole run; its interpretations \<open>keeps\<close> and
    \<open>sound\<close> give that a plain run loses no file and that every file written is a variant's.
  \<^item> \<open>Seed_Props\<close>, \<open>Seed_Checks\<close>: every command of the table is constructed without an error,
    serialises and has a well-typed message (\<open>makes\<close>), class by class and entry by entry.
    \<open>Run_Props\<close> concludes that the program itself succeeds.
  \<^item> \<open>Corpus_Spec\<close>: the corpus as an abstract store of seed contents per variant, with the two
    operations a run should perform, \<open>fill_store\<close> (add what is missing) and \<open>update_store\<close> (make
    everything current). The locale \<open>variant_writer\<close> lifts the refinement of one write to a run;
    \<open>Store_Props\<close> interprets it for plain runs and for \<open>-recreate\<close>, and proves the two refinements.
    \<open>reachable\<close> is the state machine of a corpus: any sequence of runs with either flag, any time
    stamps, listings and script results. A plain run completes every reachable corpus, and every
    reachable byte seed is a sequence of the table.
  \<^item> \<open>Command_Line\<close>: every spelling of the options is parsed to what it means, and the program on
    a command line is \<open>main\<close> on the two directories it names, with every other directory left alone.
  \<^item> \<open>Harness_Emit\<close>: what each marshaller appends (\<open>emits\<close>), on the messages the generator builds.
    \<open>Harness_Props\<close>: \<open>replays\<close> says that both seeds of a command make the fuzzer send the same bytes.
    It holds for the object, session, NV and PCR commands under stated conditions
    (\<open>replayable_public\<close>, \<open>sym_replayable\<close>, \<open>pcrs_fit\<close>), and is refuted for \<open>TPMCreate\<close> and for
    \<open>TPMGetRandom\<close> outside one case. \<open>Harness_Replay\<close> adds the credential, RSA, event, policy and
    clear commands (\<open>rsa_fits\<close>, \<open>policy_fits\<close>).
  \<^item> \<open>Session_Auth_Props\<close>: \<open>safe\<close> is a calculus of weakest preconditions, one rule per statement and
    per function, for absence of accesses outside a buffer or an array; \<open>reachable_session\<close> is the state machine
    of the layer, \<open>session_ok\<close> its invariant. The layer is memory safe in every reachable state, and a
    command of the table \<open>command_attrs\<close> with the armed session leaves it authorised
    (\<open>session_command\<close>, \<open>session_hmac\<close>).
  \<^item> \<open>Fuzzer_Props\<close>: the targets as wholes. The message target runs to its end on every input; on the
    two seeds of a sequence that replays, both targets leave every TPM in the same state, when only
    commands that the layer sends as they are follow a session (\<open>quiet\<close>); the layer
    is armed exactly by the sessions it supports; the tester does what the fuzzer does.
  \<^item> \<open>Table_Replay\<close>: the seed table as a whole. \<open>replayed_variants\<close> lists the 44 variants of
    \<open>TEST_CASES\<close> whose two seeds have the same effect on every TPM; \<open>entry_agrees\<close> shows it entry by
    entry. \<open>tss_room\<close> states the buffer sizes of tpm2-tss that the table needs.
  \<^item> \<open>Session_Replay\<close>: the sequences that use the session they start, in a command of \<open>command_attrs\<close>.
    The message target sends the second command authorised (\<open>session_hmac\<close>), the byte target as it is in the seed.
  \<^item> \<open>Seed_Effects\<close>, \<open>Table_Effects\<close>: the other direction. On \<open>starting_platform\<close>, a TPM that starts
    sessions and logs its commands, a message seed with a command that is not replayed shows other
    commands than its byte seed; \<open>appends\<close> gives the first bytes of whatever a message is marshalled
    to; for \<open>TPMCreate\<close> this is an empty authorization area, whatever the template. \<open>seed_effects\<close> classifies every variant of the table: 44 as \<open>Same\<close>, 17 as \<open>Differs\<close>, the
    others as \<open>NoMessage\<close>.

  Bounds. There is no fuel. \<open>sessions_loop\<close> and \<open>parse_from\<close> recur on the rest of the buffer, with
  termination proofs, all other loops on a list. Bytes are 8-bit words, Python integers are \<open>int\<close>,
  and every conversion to a fixed width has its overflow branch. Offsets and sizes of the C++ code
  are natural numbers: they stay far below the range of \<open>size_t\<close>. The output buffer of the harness
  has \<open>kMaxBuffer\<close> bytes; every command above stays below it.

  Not modelled: arguments of a type other than the annotated one; printed output and the diff
  text; links in and errors of the file system; the text form of messages (a parameter) and the
  mutations of libprotobuf-mutator; the TPM reference implementation, a submodule that is not in
  the tree (a parameter).
\<close>

end
